(* ===== verification/Prelude.thy ===== *)
theory Prelude
  imports Main "HOL-Library.Multiset" "HOL-Library.List_Lexorder" "HOL-Library.Char_ord"
begin

text \<open>
  Shared vocabulary of the development: the outcome of a Go call that may mutate the object
  it is called on and the outside world, Go maps keyed by strings, and the collections of
  facts that the component proofs simplify with.
\<close>

named_theorems go_defs "definitions of the small getters and setters of the code"
named_theorems go_simps "rewrite rules for sequencing and for Go maps"

section \<open>Outcomes of Go calls\<close>

text \<open>
  A method of the code reads and writes the object behind its receiver (type \<open>'o\<close>) and
  talks to the outside (the broker, the API server, the clock: a world of type \<open>'w\<close>).
  It returns a value, or it panics (nil dereference); in both cases the mutations made so far
  stay visible.
\<close>

datatype ('a, 'o, 'w) res = Ret 'a 'o 'w | Panic 'o 'w

fun bind_go :: "('a, 'o, 'w) res \<Rightarrow> ('a \<Rightarrow> 'o \<Rightarrow> 'w \<Rightarrow> ('b, 'o, 'w) res) \<Rightarrow> ('b, 'o, 'w) res" where
  "bind_go (Ret a ob w) f = f a ob w"
| "bind_go (Panic ob w) f = Panic ob w"

declare bind_go.simps [go_simps]

fun res_obj :: "('a, 'o, 'w) res \<Rightarrow> 'o" where
  "res_obj (Ret a ob w) = ob"
| "res_obj (Panic ob w) = ob"

fun res_world :: "('a, 'o, 'w) res \<Rightarrow> 'w" where
  "res_world (Ret a ob w) = w"
| "res_world (Panic ob w) = w"

fun res_val :: "('a, 'o, 'w) res \<Rightarrow> 'a option" where
  "res_val (Ret a ob w) = Some a"
| "res_val (Panic ob w) = None"

definition panics :: "('a, 'o, 'w) res \<Rightarrow> bool" where
  "panics r \<longleftrightarrow> res_val r = None"

lemma panics_simps [simp]: "\<not> panics (Ret a ob w)" "panics (Panic ob w)"
  by (simp_all add: panics_def)

lemma bind_go_split:
  "P (bind_go r f) \<longleftrightarrow>
     (\<forall>a ob w. r = Ret a ob w \<longrightarrow> P (f a ob w)) \<and> (\<forall>ob w. r = Panic ob w \<longrightarrow> P (Panic ob w))"
  by (cases r) auto

lemma bind_go_split_asm:
  "P (bind_go r f) \<longleftrightarrow>
     \<not> ((\<exists>a ob w. r = Ret a ob w \<and> \<not> P (f a ob w)) \<or> (\<exists>ob w. r = Panic ob w \<and> \<not> P (Panic ob w)))"
  by (cases r) auto

lemmas bind_go_splits = bind_go_split bind_go_split_asm

text \<open>The same outcome, on an object that contains the receiver.\<close>

fun in_obj :: "('o \<Rightarrow> 'p) \<Rightarrow> ('a, 'o, 'w) res \<Rightarrow> ('a, 'p, 'w) res" where
  "in_obj f (Ret a ob w) = Ret a (f ob) w"
| "in_obj f (Panic ob w) = Panic (f ob) w"

declare in_obj.simps [go_simps]

lemma in_obj_sel [simp]:
  "res_val (in_obj f r) = res_val r" "res_obj (in_obj f r) = f (res_obj r)"
  "res_world (in_obj f r) = res_world r" "panics (in_obj f r) = panics r"
  by (cases r; simp)+

text \<open>A fact about the object that every step of a sequence keeps is kept by the sequence.\<close>

lemma bind_go_obj:
  assumes "P (res_obj r)" and "\<And>a ob w. r = Ret a ob w \<Longrightarrow> P ob \<Longrightarrow> P (res_obj (f a ob w))"
  shows "P (res_obj (bind_go r f))"
  using assms by (cases r) auto

section \<open>Go maps with string keys\<close>

text \<open>
  A Go \<^verbatim>\<open>map[string]T\<close> is an association list sorted strictly by key, so that equal maps
  are equal lists; Go compares strings bytewise, which is the lexicographic order on
  \<^typ>\<open>string\<close>. A nil map is kept apart from an empty one by the callers (option).
\<close>

type_synonym 'v gomap = "(string \<times> 'v) list"

fun map_put :: "string \<Rightarrow> 'v \<Rightarrow> 'v gomap \<Rightarrow> 'v gomap" where
  "map_put k v [] = [(k, v)]"
| "map_put k v ((k', v') # m) =
     (if k = k' then (k, v) # m
      else if k < k' then (k, v) # (k', v') # m
      else (k', v') # map_put k v m)"

definition map_get :: "'v gomap \<Rightarrow> string \<Rightarrow> 'v option" where
  "map_get m k = map_of m k"

definition map_ok :: "'v gomap \<Rightarrow> bool" where
  "map_ok m \<longleftrightarrow> sorted_wrt (<) (map fst m)"

text \<open>Storing a sequence of entries, a later entry replacing an earlier one with its key.\<close>

definition map_build :: "(string \<times> 'v) list \<Rightarrow> 'v gomap" where
  "map_build kvs = fold (\<lambda>(k, v) m. map_put k v m) kvs []"

lemma set_keys_map_put: "fst ` set (map_put k v m) = insert k (fst ` set m)"
  by (induction k v m rule: map_put.induct) auto

lemma map_ok_Nil [simp]: "map_ok []"
  by (simp add: map_ok_def)

lemma map_ok_put: "map_ok m \<Longrightarrow> map_ok (map_put k v m)"
proof (induction k v m rule: map_put.induct)
  case (1 k v)
  then show ?case by (simp add: map_ok_def)
next
  case (2 k v k' v' m)
  then show ?case
    using set_keys_map_put [of k v m]
    by (auto simp: map_ok_def image_iff ball_Un Ball_def dest: order_less_trans)
qed

lemma map_get_put: "map_get (map_put k v m) k' = (if k' = k then Some v else map_get m k')"
  unfolding map_get_def by (induction k v m rule: map_put.induct) auto

lemma map_get_notin: "k \<notin> fst ` set m \<Longrightarrow> map_get m k = None"
  by (auto simp: map_get_def map_of_eq_None_iff)

text \<open>Sorted lists with the same lookups are equal: the representation is canonical.\<close>

lemma map_ok_ext:
  assumes "map_ok m" and "map_ok m'" and "\<And>k. map_get m k = map_get m' k"
  shows "m = m'"
proof -
  have d: "distinct (map fst m)" "distinct (map fst m')"
    and s: "sorted (map fst m)" "sorted (map fst m')"
    using assms(1,2) by (simp_all add: map_ok_def strict_sorted_iff)
  have "map_of m = map_of m'"
    using assms(3) by (auto simp: map_get_def)
  then have "set m = set m'"
    using d by (simp add: map_of_inject_set)
  moreover from this have "inj_on fst (set m \<union> set m')"
    using d(1) by (simp add: distinct_map)
  ultimately show ?thesis
    using d s by (blast intro: map_sorted_distinct_set_unique)
qed

lemma map_build_Nil [simp]: "map_build [] = []"
  by (simp add: map_build_def)

lemma map_build_snoc: "map_build (kvs @ [(k, v)]) = map_put k v (map_build kvs)"
  by (simp add: map_build_def)

lemma map_ok_build [simp]: "map_ok (map_build kvs)"
  by (induction kvs rule: rev_induct) (auto simp: map_build_snoc map_ok_put)

text \<open>The last entry of a key wins.\<close>

lemma map_get_build: "map_get (map_build kvs) k = map_of (rev kvs) k"
proof (induction kvs rule: rev_induct)
  case Nil
  show ?case by (simp add: map_get_def)
next
  case (snoc x kvs)
  then show ?case by (cases x) (simp add: map_build_snoc map_get_put)
qed

lemma map_of_rev_distinct: "distinct (map fst kvs) \<Longrightarrow> map_of (rev kvs) = map_of kvs"
  by (subst map_of_inject_set) (auto simp: rev_map [symmetric])

lemma map_build_perm:
  assumes "distinct (map fst kvs)" and "mset kvs = mset kvs'"
  shows "map_build kvs = map_build kvs'"
proof (rule map_ok_ext)
  fix k
  have s: "set kvs = set kvs'"
    using assms(2) by (metis set_mset_mset)
  have d: "distinct (map fst kvs')"
    using assms by (metis mset_eq_imp_distinct_iff mset_map)
  have "map_of kvs = map_of kvs'"
    using assms(1) d s by (simp add: map_of_inject_set)
  then show "map_get (map_build kvs) k = map_get (map_build kvs') k"
    using assms(1) d by (simp add: map_get_build map_of_rev_distinct)
qed simp_all

lemma map_build_id:
  assumes "map_ok m" shows "map_build m = m"
proof (rule map_ok_ext [OF map_ok_build assms])
  fix k
  have "distinct (map fst m)"
    using assms by (simp add: map_ok_def strict_sorted_iff)
  then show "map_get (map_build m) k = map_get m k"
    by (simp add: map_get_build map_of_rev_distinct) (simp add: map_get_def)
qed

lemma keys_map_build: "fst ` set (map_build kvs) = fst ` set kvs"
proof (induction kvs rule: rev_induct)
  case (snoc x kvs)
  then show ?case by (cases x) (simp add: map_build_snoc set_keys_map_put)
qed simp

lemma map_build_eq_Nil [simp]: "map_build kvs = [] \<longleftrightarrow> kvs = []"
  using keys_map_build [of kvs] by auto

end
