(* ===== verification/Go_Errors.thy ===== *)
theory Go_Errors
  imports Prelude
begin

text \<open>
  Error values. Each package declares its sentinel errors with \<^verbatim>\<open>errors.New\<close>; they are the
  constructors of one datatype per package, prefixed by the package (\<open>u_\<close> util, \<open>sb_\<close>
  binding API, \<open>si_\<close> instance API, \<open>sbc_\<close> and \<open>sic_\<close> the two controllers, \<open>osb_\<close> their set-up), with the
  message each carries. An error made with \<^verbatim>\<open>fmt.Errorf("%w: %s", s, fmt.Sprint(err))\<close>
  wraps the sentinel \<open>s\<close> only: the inner error survives as text, never as a wrapped value.
\<close>

section \<open>Sentinels of the packages\<close>

datatype util_err =
    u_errCannotDecodeBasicAuth
  | u_errCannotGetResource
  | u_errUnsupportedProviderType
  | u_errMarshalCredential
  | u_errMarshalMapValue
  | u_errParseISO8601Time
  | u_errNoProviderConfigReference
  | u_errCannotGetProviderConfig
  | u_errCannotGetClusterProviderConfig
  | u_errUnknownProviderConfigKind
  | u_errBase64StringCannotBeEmpty

fun util_err_text :: "util_err \<Rightarrow> string" where
  "util_err_text u_errCannotDecodeBasicAuth = ''cannot decode string into basic auth struct''"
| "util_err_text u_errCannotGetResource = ''cannot get latest version of resource''"
| "util_err_text u_errUnsupportedProviderType = ''unsupported provider config type''"
| "util_err_text u_errMarshalCredential = ''failed to marshal credential from response''"
| "util_err_text u_errMarshalMapValue = ''cannot marshal map value''"
| "util_err_text u_errParseISO8601Time = ''cannot parse ISO8601 time''"
| "util_err_text u_errNoProviderConfigReference = ''object has no provider config reference''"
| "util_err_text u_errCannotGetProviderConfig = ''cannot get provider config''"
| "util_err_text u_errCannotGetClusterProviderConfig = ''cannot get cluster provider config''"
| "util_err_text u_errUnknownProviderConfigKind = ''unknown provider config kind''"
| "util_err_text u_errBase64StringCannotBeEmpty = ''base64 string cannot be empty''"

datatype sb_err =
    sb_errMarshalParameters
  | sb_errMarshalEndpoints
  | sb_errMarshalVolumeMounts
  | sb_errFailedToParseFromBindingStatus
  | sb_errFailedToParseStatusParameters
  | sb_errFailedToParseSpecParamaters
  | sb_errFailedToMarshalCredential
  | sb_errFailedRequestOSBRotateBinding
  | sb_errFailedMarshallingContextFromServiceBinding
  | sb_errFailedUnMarshallingRequestContext
  | sb_errFailedUnMarshallingRequestParams
  | sb_errStatusParametersIsEmpty
  | sb_errInstanceIdIsEmpty
  | sb_errPlanIdEmpty
  | sb_errOidPlatformIsEmpty
  | sb_errOidValueIsEmpty
  | sb_errServiceIdEmpty
  | sb_errBindingIdEmpty
  | sb_errNewBindingUUIDEmpty
  | sb_errFailedToBuildRotateBindingRequest
  | sb_errFailedToBuildBindRequest
  | sb_errConvertBindingSpecFailed
  | sb_errOSBBindRequestFailed
  | sb_errOSBBindongIdIsNil
  | sb_errOSBUnbindRequestFailed
  | sb_errOSBUnbindNilResponse
  | sb_errAddAsyncDeletionFinalizer
  | sb_errFailedToBuildUnbindRequest
  | sb_errFailedToHandleBindRequest
  | sb_errTechnicalEncountered
  | sb_errFailedToBuildBindingLastOperationRequest
  | sb_errOSBPollBindingLastOperationRequestFailed
  | sb_errFailedToBuildGetBindingRequest
  | sb_errNilBindingResponse
  | sb_errFailedToGetLastestKubeObject
  | sb_errUpdateBindingStatus
  | sb_errMarshalCredentials
  | sb_errFailedToHandleRenewalBindings
  | sb_errStatusSpecCompareFailed
  | sb_errStatusSpecMismatch
  | sb_errCannotHandleUnknowAction

fun sb_err_text :: "sb_err \<Rightarrow> string" where
  "sb_err_text sb_errMarshalParameters = ''failed to marshal or parse binding parameters from osb response''"
| "sb_err_text sb_errMarshalEndpoints = ''failed to marshal or parse binding endpoints from osb response''"
| "sb_err_text sb_errMarshalVolumeMounts = ''failed to marshal or parse binding volume mounts binding from osb response''"
| "sb_err_text sb_errFailedToParseFromBindingStatus = ''failed to parse parameters from binding status''"
| "sb_err_text sb_errFailedToParseStatusParameters = ''failed to parse Status.AtProvider.Parameters JSON''"
| "sb_err_text sb_errFailedToParseSpecParamaters = ''failed to parse Spec.ForProvider.Parameters JSON''"
| "sb_err_text sb_errFailedToMarshalCredential = ''failed to marshal credential''"
| "sb_err_text sb_errFailedRequestOSBRotateBinding = ''failed to marshal credential''"
| "sb_err_text sb_errFailedMarshallingContextFromServiceBinding = ''failed to marshalling sb.Spec.ForProvider.Context''"
| "sb_err_text sb_errFailedUnMarshallingRequestContext = ''failed to unmarshalling request context from ServiceBinding''"
| "sb_err_text sb_errFailedUnMarshallingRequestParams = ''failed to unmarshalling request parameters from ServiceBinding''"
| "sb_err_text sb_errStatusParametersIsEmpty = ''failed to unmarshalling status parameters is empty''"
| "sb_err_text sb_errInstanceIdIsEmpty = ''instanceID is empty''"
| "sb_err_text sb_errPlanIdEmpty = ''planID is empty''"
| "sb_err_text sb_errOidPlatformIsEmpty = ''oid platform is empty''"
| "sb_err_text sb_errOidValueIsEmpty = ''oid value is empty''"
| "sb_err_text sb_errServiceIdEmpty = ''serviceID is empty''"
| "sb_err_text sb_errBindingIdEmpty = ''bindingID is empty''"
| "sb_err_text sb_errNewBindingUUIDEmpty = ''new binding uuid is empty''"
| "sb_err_text sb_errFailedToBuildRotateBindingRequest = ''failed to build rotate binding request''"
| "sb_err_text sb_errFailedToBuildBindRequest = ''failed to build bind request''"
| "sb_err_text sb_errConvertBindingSpecFailed = ''failed to convert binding spec data''"
| "sb_err_text sb_errOSBBindRequestFailed = ''OSB Bind request failed''"
| "sb_err_text sb_errOSBBindongIdIsNil = ''OSB Bind request returned nil response for bindingID''"
| "sb_err_text sb_errOSBUnbindRequestFailed = ''OSB Unbind request failed''"
| "sb_err_text sb_errOSBUnbindNilResponse = ''OSB Unbind returned nil response for request''"
| "sb_err_text sb_errAddAsyncDeletionFinalizer = ''failed to add async deletion finalizer''"
| "sb_err_text sb_errFailedToBuildUnbindRequest = ''failed to build unbind request''"
| "sb_err_text sb_errFailedToHandleBindRequest = ''failed to handle bind request''"
| "sb_err_text sb_errTechnicalEncountered = ''technical error encountered''"
| "sb_err_text sb_errFailedToBuildBindingLastOperationRequest = ''failed to build binding last operation request''"
| "sb_err_text sb_errOSBPollBindingLastOperationRequestFailed = ''OSB PollBindingLastOperation request failed''"
| "sb_err_text sb_errFailedToBuildGetBindingRequest = ''failed to build get binding request''"
| "sb_err_text sb_errNilBindingResponse = ''GetBindingResponse is nil for binding''"
| "sb_err_text sb_errFailedToGetLastestKubeObject = ''failed to get lastest kube object''"
| "sb_err_text sb_errUpdateBindingStatus = ''failed to update binding status''"
| "sb_err_text sb_errMarshalCredentials = ''failed to marshal credentials from response''"
| "sb_err_text sb_errFailedToHandleRenewalBindings = ''failed to handle renewal bindings''"
| "sb_err_text sb_errStatusSpecCompareFailed = ''failed to compare status and spec provider''"
| "sb_err_text sb_errStatusSpecMismatch = ''status and spec provider parameters differ''"
| "sb_err_text sb_errCannotHandleUnknowAction = ''cannot handle unknown action''"

datatype si_err =
    si_errFailedToParseServiceInstanceParameters
  | si_errFailedToMarshallServiceInstanceParameters
  | si_errFailedToMarshallServiceInstanceContext
  | si_errInstanceIdIsEmpty
  | si_errPlanIdEmpty
  | si_errServiceIdEmpty
  | si_errOrganizationGuidEmpty
  | si_errSpaceGuidEmpty
  | si_errCtxMapEmpty
  | si_errOidPlatformIsEmpty
  | si_errOidValueIsEmpty
  | si_errFailedToBuildPollLastOperationRequest
  | si_errFailedToBuildDeprovisionRequest
  | si_errOSBDeprovisionInstanceFailed
  | si_errCannotUpdateServiceInstanceStatus
  | si_errFailedToGetLastestKubeObject
  | si_errOSBPollLastOperationFailed
  | si_errParseParametersFailed
  | si_errCannotDeleteWithActiveBindings
  | si_errParseContextFailed
  | si_errFailedToBuildProvisionRequest
  | si_errOSBProvisionInstanceFailed
  | si_errCannotBuildUpdateRequest
  | si_errOSBUpdateInstanceFailed
  | si_errFailedToHandleLastOperationInProgress
  | si_errFailedToHandleDeletionWithActiveBindings
  | si_errOSBGetInstance
  | si_errFailedToCompareSpecWithOSB
  | si_errFailedToBuildGetInstanceRequest

fun si_err_text :: "si_err \<Rightarrow> string" where
  "si_err_text si_errFailedToParseServiceInstanceParameters = ''error while marshalling or parsing parameters to bytes from ServiceInstance''"
| "si_err_text si_errFailedToMarshallServiceInstanceParameters = ''failed to marshal ServiceInstance parameters''"
| "si_err_text si_errFailedToMarshallServiceInstanceContext = ''failed to marshal ServiceInstance context''"
| "si_err_text si_errInstanceIdIsEmpty = ''instanceID is empty''"
| "si_err_text si_errPlanIdEmpty = ''planID is empty''"
| "si_err_text si_errServiceIdEmpty = ''serviceID is empty''"
| "si_err_text si_errOrganizationGuidEmpty = ''organizationGuid is empty''"
| "si_err_text si_errSpaceGuidEmpty = ''spaceGuid is empty''"
| "si_err_text si_errCtxMapEmpty = ''ctxMap is empty''"
| "si_err_text si_errOidPlatformIsEmpty = ''oid platform is empty''"
| "si_err_text si_errOidValueIsEmpty = ''oid value is empty''"
| "si_err_text si_errFailedToBuildPollLastOperationRequest = ''failed to build poll last operation request''"
| "si_err_text si_errFailedToBuildDeprovisionRequest = ''failed to build deprovision request''"
| "si_err_text si_errOSBDeprovisionInstanceFailed = ''OSB DeprovisionInstance request failed''"
| "si_err_text si_errCannotUpdateServiceInstanceStatus = ''cannot update ServiceInstance status''"
| "si_err_text si_errFailedToGetLastestKubeObject = ''failed to get latest kubernetes object''"
| "si_err_text si_errOSBPollLastOperationFailed = ''OSB PollLastOperation request failed''"
| "si_err_text si_errParseParametersFailed = ''failed to parse ServiceInstance parameters''"
| "si_err_text si_errCannotDeleteWithActiveBindings = ''cannot delete ServiceInstance, it has active bindings''"
| "si_err_text si_errParseContextFailed = ''failed to parse ServiceInstance context''"
| "si_err_text si_errFailedToBuildProvisionRequest = ''failed to build provision request''"
| "si_err_text si_errOSBProvisionInstanceFailed = ''OSB ProvisionInstance request failed''"
| "si_err_text si_errCannotBuildUpdateRequest = ''cannot build update request''"
| "si_err_text si_errOSBUpdateInstanceFailed = ''OSB UpdateInstance request failed''"
| "si_err_text si_errFailedToHandleLastOperationInProgress = ''failed to handle last operation in progress''"
| "si_err_text si_errFailedToHandleDeletionWithActiveBindings = ''failed to handle deletion with active bindings''"
| "si_err_text si_errOSBGetInstance = ''OSB GetInstance request failed''"
| "si_err_text si_errFailedToCompareSpecWithOSB = ''failed to compare spec with osb''"
| "si_err_text si_errFailedToBuildGetInstanceRequest = ''failed to build get instance request''"

datatype sbc_err =
    sbc_errNotServiceBindingCR
  | sbc_errCannotRegisterMRStateRecorder
  | sbc_errCannotTrackProviderConfig
  | sbc_errCannotGetCredentials
  | sbc_errCannotCreateNewOsbClient
  | sbc_errCannotMakeOriginatingIdentity
  | sbc_errOSBRotatingRequestFailed
  | sbc_errExtractCredsFailed
  | sbc_errCreateRespDataFailed
  | sbc_errUpdateStatusFailed
  | sbc_errFailedToBindServiceBinding
  | sbc_errFailedToUnBindServiceBinding
  | sbc_errFailedToObserveState

fun sbc_err_text :: "sbc_err \<Rightarrow> string" where
  "sbc_err_text sbc_errNotServiceBindingCR = ''managed resource is not a ServiceBinding custom resource''"
| "sbc_err_text sbc_errCannotRegisterMRStateRecorder = ''cannot register MR state metrics recorder for kind''"
| "sbc_err_text sbc_errCannotTrackProviderConfig = ''cannot track ProviderConfig usage''"
| "sbc_err_text sbc_errCannotGetCredentials = ''cannot get credentials''"
| "sbc_err_text sbc_errCannotCreateNewOsbClient = ''cannot create new OSB client''"
| "sbc_err_text sbc_errCannotMakeOriginatingIdentity = ''cannot make originating identity from value''"
| "sbc_err_text sbc_errOSBRotatingRequestFailed = ''OSB RotateBinding request failed''"
| "sbc_err_text sbc_errExtractCredsFailed = ''failed to extract credentials from OSB response''"
| "sbc_err_text sbc_errCreateRespDataFailed = ''failed to create response data with binding parameters''"
| "sbc_err_text sbc_errUpdateStatusFailed = ''failed to update binding status''"
| "sbc_err_text sbc_errFailedToBindServiceBinding = ''failed to bind service binding''"
| "sbc_err_text sbc_errFailedToUnBindServiceBinding = ''failed to unbind service binding''"
| "sbc_err_text sbc_errFailedToObserveState = ''failed to observe state of service binding''"

datatype sic_err =
    sic_errNotServiceInstanceCR
  | sic_errCannotTrackProviderConfig
  | sic_errCannotCreateNewOsbClient
  | sic_errCannotMakeOriginatingIdentity
  | sic_errInstanceIDNotSet
  | sic_errCannotTrackProviderConfigUsage
  | sic_errFailedToDeprovision
  | sic_errFailedToProvision
  | sic_errFailedToUpdate
  | sic_errFailedToObserveState

fun sic_err_text :: "sic_err \<Rightarrow> string" where
  "sic_err_text sic_errNotServiceInstanceCR = ''managed resource is not a ServiceInstance custom resource''"
| "sic_err_text sic_errCannotTrackProviderConfig = ''cannot track ProviderConfig usage''"
| "sic_err_text sic_errCannotCreateNewOsbClient = ''cannot create new OSB client''"
| "sic_err_text sic_errCannotMakeOriginatingIdentity = ''cannot make originating identity from value''"
| "sic_err_text sic_errInstanceIDNotSet = ''InstanceId must be set in the ServiceInstance spec''"
| "sic_err_text sic_errCannotTrackProviderConfigUsage = ''cannot track ProviderConfig usage''"
| "sic_err_text sic_errFailedToDeprovision = ''failed to deprovision service instance''"
| "sic_err_text sic_errFailedToProvision = ''failed to provison service instance''"
| "sic_err_text sic_errFailedToUpdate = ''failed to update service instance''"
| "sic_err_text sic_errFailedToObserveState = ''failed to observe state of service instance''"

datatype osb_err = osb_errFailedToSetupNamespacedController

fun osb_err_text :: "osb_err \<Rightarrow> string" where
  "osb_err_text osb_errFailedToSetupNamespacedController = ''failed to set up cluster controller ''"

section \<open>Error values\<close>

datatype sentinel =
    UtilErr util_err
  | SbErr sb_err
  | SiErr si_err
  | SbcErr sbc_err
  | SicErr sic_err
  | OsbErr osb_err

text \<open>Errors of the standard library; what they say is not used by the code.\<close>

datatype std_err =
    JsonMarshalError
  | JsonUnmarshalError
  | TimeParseError string
  | Base64Error

text \<open>
  \<open>Errorf s parts\<close> is \<^verbatim>\<open>fmt.Errorf\<close> with a \<^verbatim>\<open>%w\<close> verb for \<open>s\<close>; the parts are the
  other verbs, in order: plain text, or \<^verbatim>\<open>fmt.Sprint\<close> of an error that may be nil.
  \<open>ErrExt\<close> is an error value made by third-party code, identified by its text.
\<close>

datatype go_error =
    Sentinel sentinel
  | Errorf sentinel "err_part list"
  | ErrStd std_err
  | ErrExt string
and err_part =
    Txt string
  | Sprint "go_error option"

text \<open>\<^verbatim>\<open>fmt.Errorf("%w: %s", s, fmt.Sprint(err))\<close> for a non-nil error.\<close>

abbreviation wrap :: "sentinel \<Rightarrow> go_error \<Rightarrow> go_error" where
  "wrap s e \<equiv> Errorf s [Sprint (Some e)]"

text \<open>\<^verbatim>\<open>errors.Unwrap\<close> and \<^verbatim>\<open>errors.Is\<close> on the values above.\<close>

fun errors_Unwrap :: "go_error \<Rightarrow> go_error option" where
  "errors_Unwrap (Errorf s ps) = Some (Sentinel s)"
| "errors_Unwrap e = None"

definition errors_Is :: "go_error \<Rightarrow> go_error \<Rightarrow> bool" where
  "errors_Is e target \<longleftrightarrow> e = target \<or> errors_Unwrap e = Some target"

lemma errors_Is_wrap [simp]: "errors_Is (Errorf s ps) (Sentinel s') \<longleftrightarrow> s = s'"
  by (simp add: errors_Is_def)

end
