(* ===== verification/Go_Json_Facts.thy ===== *)
theory Go_Json_Facts
  imports Go_Json
begin

text \<open>
  Facts about the JSON layer: decoding inverts encoding, encoded text decodes whatever
  follows it, the fuel of the decoder is enough for every text, and decoded objects are
  well formed Go maps.
\<close>

section \<open>UTF-8 sequences\<close>

lemma utf8_len_le: "utf8_len a cs \<le> Suc (length cs)"
  by (auto simp: utf8_len_def Let_def split: list.splits)

lemma cons3_cases:
  obtains "cs = []" | b where "cs = [b]" | b c where "cs = [b, c]"
    | b c d r where "cs = b # c # d # r"
  by (metis list.exhaust)

lemma utf8_len_prefix:
  assumes "utf8_len a cs = n" "0 < n"
  shows "utf8_len a (take (n - 1) cs @ t) = n"
  using assms
  by (cases cs rule: cons3_cases)
    (simp_all add: utf8_len_def Let_def split: if_split_asm)

lemma utf8_len_1: "utf8_len a cs = 1 \<longleftrightarrow> code a < 0x80"
  by (auto simp: utf8_len_def Let_def split: list.splits)

lemma utf8_len_ascii [simp]: "code a < 0x80 \<Longrightarrow> utf8_len a cs = Suc 0"
  using utf8_len_1 [of a cs] by simp

section \<open>Characters of a string literal\<close>

lemma hexval_hexdigit: "n < 16 \<Longrightarrow> hexval (hexdigit n) = Some n"
proof -
  have "\<forall>n \<in> set [0..<16]. hexval (hexdigit n) = Some n" by code_simp
  then show "n < 16 \<Longrightarrow> hexval (hexdigit n) = Some n" by simp
qed

lemma esc_byte_decodes:
  assumes "code a < 0x80"
  shows "dec_chars (esc_byte a @ r) = cons_fst [a] (dec_chars r)"
proof -
  consider (bq) "a = backslash \<or> a = dquote"
    | (ctl) "a \<in> {CHR 0x08, CHR 0x0C, CHR 0x0A, CHR 0x0D, CHR 0x09}"
    | (hex) "a \<noteq> backslash" "a \<noteq> dquote" "a \<notin> {CHR 0x08, CHR 0x0C, CHR 0x0A, CHR 0x0D, CHR 0x09}"
        "code a < 0x20 \<or> a = CHR ''<'' \<or> a = CHR ''>'' \<or> a = CHR ''&''"
    | (plain) "\<not> (a = backslash \<or> a = dquote)"
        "a \<notin> {CHR 0x08, CHR 0x0C, CHR 0x0A, CHR 0x0D, CHR 0x09}"
        "\<not> (code a < 0x20 \<or> a = CHR ''<'' \<or> a = CHR ''>'' \<or> a = CHR ''&'')"
    by blast
  then show ?thesis
  proof cases
    case bq
    then show ?thesis
      by (auto simp: esc_byte_def simple_escape_def backslash_def dquote_def)
  next
    case ctl
    then show ?thesis
      by (auto simp: esc_byte_def simple_escape_def backslash_def dquote_def)
  next
    case hex
    have "code a div (16::nat) < 16" "code a mod (16::nat) < 16"
      using assms by auto
    then have "hex4 (CHR ''0'') (CHR ''0'') (hexdigit (code a div 16)) (hexdigit (code a mod 16))
        = Some (code a div 16 * 16 + code a mod (16::nat))"
      by (simp add: hex4_def hexval_hexdigit) (simp add: hexval_def less_eq_char_def)
    then have u: "getu4 (esc_byte a @ r) = Some (code a)"
      using hex by (auto simp: esc_byte_def)
    have "unescape_u (code a) r = ([a], 0)"
      using assms by (simp add: unescape_u_def surrogate_def encode_rune_def)
    then show ?thesis
      using hex u by (auto simp: esc_byte_def backslash_def dquote_def)
  next
    case plain
    then have "esc_byte a = [a]" by (simp add: esc_byte_def)
    then show ?thesis using assms plain by simp
  qed
qed

lemma dec_chars_multi:
  assumes n: "utf8_len a cs = n" and big: "1 < n"
  shows "dec_chars (take n (a # cs) @ r) = cons_fst (take n (a # cs)) (dec_chars r)"
proof -
  have "\<not> code a < 0x80"
    using n big utf8_len_1 [of a cs] by auto
  then have na: "a \<noteq> dquote" "a \<noteq> backslash" "\<not> code a < 0x20"
    by (auto simp: dquote_def backslash_def)
  have t: "take n (a # cs) = a # take (n - 1) cs"
    using big by (cases n) auto
  have l: "length (take (n - 1) cs) = n - 1"
    using n utf8_len_le [of a cs] by simp
  have "utf8_len a (take (n - 1) cs @ r) = n"
    using utf8_len_prefix [OF n] big by simp
  moreover have "take n (a # take (n - 1) cs @ r) = take n (a # cs)"
    using t l big by (simp add: take_Cons')
  moreover have "drop (n - 1) (take (n - 1) cs @ r) = r"
    using l by simp
  ultimately show ?thesis
    using na big by (simp add: t)
qed

lemma dec_chars_ufffd:
  "dec_chars (backslash # ''ufffd'' @ r) = cons_fst rune_error (dec_chars r)"
  by (simp add: hex4_def hexval_def less_eq_char_def unescape_u_def surrogate_def encode_rune_def
      rune_error_def backslash_def dquote_def)

lemma dec_chars_u2028:
  "dec_chars (backslash # ''u2028'' @ r) = cons_fst line_sep (dec_chars r)"
  by (simp add: hex4_def hexval_def less_eq_char_def unescape_u_def surrogate_def encode_rune_def
      line_sep_def backslash_def dquote_def)

lemma dec_chars_u2029:
  "dec_chars (backslash # ''u2029'' @ r) = cons_fst para_sep (dec_chars r)"
  by (simp add: hex4_def hexval_def less_eq_char_def unescape_u_def surrogate_def encode_rune_def
      para_sep_def backslash_def dquote_def)

text \<open>Decoding a literal gives the string that was encoded, with invalid UTF-8 replaced.\<close>

lemma dec_enc_chars: "dec_chars (enc_chars s @ dquote # r) = Some (utf8_fix s, r)"
proof (induction s rule: enc_chars.induct)
  case 1
  show ?case by simp
next
  case (2 a cs)
  define n where "n = utf8_len a cs"
  define t where "t = take n (a # cs)"
  have IH: "dec_chars (enc_chars (drop (n - 1) cs) @ dquote # r)
      = Some (utf8_fix (drop (n - 1) cs), r)" if "1 < n"
    using 2(3-5) [OF n_def t_def] that by (cases "t = line_sep"; cases "t = para_sep") auto
  consider "n = 0" | "n = 1" | "1 < n" by linarith
  then show ?case
  proof cases
    case 1
    then show ?thesis
      using 2(1) [OF n_def t_def] dec_chars_ufffd by (simp add: n_def [symmetric])
  next
    case 2
    then have "code a < 0x80" using utf8_len_1 [of a cs] by (simp add: n_def)
    with 2 show ?thesis
      using "2.IH"(2) [OF n_def t_def] by (simp add: esc_byte_decodes)
  next
    case 3
    then have "utf8_fix (a # cs) = t @ utf8_fix (drop (n - 1) cs)"
      by (simp add: n_def t_def)
    moreover have "dec_chars (enc_chars (a # cs) @ dquote # r)
        = cons_fst t (dec_chars (enc_chars (drop (n - 1) cs) @ dquote # r))"
      using 3 dec_chars_u2028 dec_chars_u2029 dec_chars_multi [OF n_def [symmetric] 3]
      by (simp add: Let_def n_def [symmetric] t_def [symmetric] del: dec_chars.simps)
    ultimately show ?thesis using IH [OF 3] by simp
  qed
qed

lemma dec_chars_enc_string:
  "enc_string s @ r = dquote # enc_chars s @ dquote # r"
  by (simp add: enc_string_def)

section \<open>Number literals\<close>

lemma is_digit_numchar: "is_digit c \<Longrightarrow> is_numchar c"
  by (simp add: is_numchar_def)

lemma exp_ok_numchars: "exp_ok s \<Longrightarrow> list_all is_numchar s"
  by (auto simp: exp_ok_def is_numchar_def Let_def list_all_iff split: list.splits if_splits)

lemma digits_then:
  "list_all is_numchar (dropWhile is_digit s) \<Longrightarrow> list_all is_numchar s"
  by (induction s) (auto simp: is_digit_numchar split: if_splits)

lemma frac_ok_numchars:
  assumes "frac_ok s" shows "list_all is_numchar s"
proof (cases s)
  case (Cons c r)
  show ?thesis
  proof (cases "c = CHR ''.''")
    case True
    with assms Cons have "exp_ok (dropWhile is_digit r)" by (simp add: frac_ok_def)
    then have "list_all is_numchar r" by (rule digits_then [OF exp_ok_numchars])
    with Cons True show ?thesis by (simp add: is_numchar_def)
  next
    case False
    with assms Cons have "exp_ok s" by (simp add: frac_ok_def)
    then show ?thesis by (rule exp_ok_numchars)
  qed
qed simp

lemma unsigned_numchars:
  assumes "if c = CHR ''0'' then frac_ok r else is_digit c \<and> frac_ok (dropWhile is_digit r)"
  shows "list_all is_numchar (c # r)"
proof -
  have "is_numchar c" using assms by (auto simp: is_numchar_def is_digit_def split: if_splits)
  moreover have "list_all is_numchar r"
    using assms frac_ok_numchars [of r] digits_then [OF frac_ok_numchars, of r]
    by (simp split: if_splits)
  ultimately show ?thesis by simp
qed

lemma number_ok_numchars:
  assumes "number_ok s" shows "list_all is_numchar s"
proof -
  obtain c r where s: "s = c # r" using assms by (cases s) (simp_all add: number_ok_def)
  show ?thesis
  proof (cases "c = CHR ''-''")
    case True
    with assms s obtain c' r' where "r = c' # r'"
      and "if c' = CHR ''0'' then frac_ok r' else is_digit c' \<and> frac_ok (dropWhile is_digit r')"
      by (cases r) (simp_all add: number_ok_def)
    with unsigned_numchars s True show ?thesis by (simp add: is_numchar_def)
  next
    case False
    with assms s unsigned_numchars show ?thesis by (simp add: number_ok_def)
  qed
qed

lemma number_ok_head:
  "number_ok s \<Longrightarrow> \<exists>c cs. s = c # cs \<and> (is_digit c \<or> c = CHR ''-'')"
  by (auto simp: number_ok_def is_digit_def Let_def less_eq_char_def split: list.splits if_splits)

lemma takeWhile_numchars:
  "list_all is_numchar t \<Longrightarrow> r = [] \<or> \<not> is_numchar (hd r) \<Longrightarrow>
     takeWhile is_numchar (t @ r) = t \<and> dropWhile is_numchar (t @ r) = r"
  by (induction t) (cases r, auto)+

section \<open>Round trip of values\<close>

text \<open>The document of an encoded value: the value with its strings repaired.\<close>

fun repair :: "gany \<Rightarrow> gany" where
  "repair (AStr s) = AStr (utf8_fix s)"
| "repair (AArr vs) = AArr (map repair vs)"
| "repair (AObj ms) = AObj (map (\<lambda>(k, v). (utf8_fix k, repair v)) ms)"
| "repair v = v"

text \<open>What an encoded value decodes to: strings repaired, objects as Go maps.\<close>

definition canon :: "gany \<Rightarrow> gany" where
  "canon v = go_value (repair v)"

lemma canon_simps [simp]:
  "canon ANull = ANull" "canon (ABool b) = ABool b" "canon (ANum t) = ANum t" "canon AOther = AOther"
  "canon (AStr s) = AStr (utf8_fix s)"
  "canon (AArr vs) = AArr (map canon vs)"
  "canon (AObj ms) = AObj (map_build (map (\<lambda>(k, v). (utf8_fix k, canon v)) ms))"
  by (simp_all add: canon_def comp_def case_prod_unfold)

text \<open>Every number is the text of a \<^verbatim>\<open>float64\<close>: a literal that converts to itself.\<close>

fun nums_ok :: "(string \<Rightarrow> string option) \<Rightarrow> gany \<Rightarrow> bool" where
  "nums_ok f64 (ANum t) \<longleftrightarrow> number_ok t \<and> f64 t = Some t"
| "nums_ok f64 (AArr vs) \<longleftrightarrow> (\<forall>v \<in> set vs. nums_ok f64 v)"
| "nums_ok f64 (AObj ms) \<longleftrightarrow> (\<forall>kv \<in> set ms. nums_ok f64 (snd kv))"
| "nums_ok f64 v \<longleftrightarrow> True"

fun nesting :: "gany \<Rightarrow> nat" where
  "nesting (AArr vs) = Suc (fold max (map nesting vs) 0)"
| "nesting (AObj ms) = Suc (fold max (map (\<lambda>kv. nesting (snd kv)) ms) 0)"
| "nesting v = 0"

lemma fold_max_le: "fold max xs (a::nat) \<le> d \<longleftrightarrow> a \<le> d \<and> (\<forall>x \<in> set xs. x \<le> d)"
  by (induction xs arbitrary: a) auto

lemma is_ws_simps [simp]:
  "\<not> is_ws (CHR ''{'')" "\<not> is_ws (CHR ''['')" "\<not> is_ws (CHR ''}'')" "\<not> is_ws (CHR '']'')"
  "\<not> is_ws (CHR '','')" "\<not> is_ws (CHR '':'')" "\<not> is_ws dquote"
  "\<not> is_ws (CHR ''t'')" "\<not> is_ws (CHR ''f'')" "\<not> is_ws (CHR ''n'')"
  by (simp_all add: is_ws_def dquote_def)

lemma skip_ws_Cons [simp]: "\<not> is_ws c \<Longrightarrow> skip_ws (c # cs) = c # cs"
  by (simp add: skip_ws_def)

lemma enc_head:
  assumes "enc v = Some t" and "nums_ok f64 v"
  shows "\<exists>c cs. t = c # cs \<and> \<not> is_ws c \<and> c \<noteq> CHR '']'' \<and> c \<noteq> CHR ''}''"
proof (cases v)
  case (ANum u)
  with assms number_ok_head obtain c cs where "t = c # cs" "is_digit c \<or> c = CHR ''-''" by force
  then show ?thesis by (auto simp: is_ws_def is_digit_def less_eq_char_def)
qed (use assms in \<open>auto simp: enc_string_def dquote_def is_ws_def split: list.splits\<close>)

lemma dquote_neq [simp]: "dquote \<noteq> CHR ''{''" "dquote \<noteq> CHR ''[''" "CHR ''{'' \<noteq> dquote" "CHR ''['' \<noteq> dquote"
  "dquote \<noteq> CHR ''}''" "dquote \<noteq> CHR '']''"
  by (simp_all add: dquote_def)

text \<open>What may follow a value: not a character that would extend a number literal.\<close>

abbreviation delim :: "string \<Rightarrow> bool" where
  "delim r \<equiv> r = [] \<or> \<not> is_numchar (hd r)"

lemma not_numchar [simp]:
  "\<not> is_numchar (CHR '','')" "\<not> is_numchar (CHR '']'')" "\<not> is_numchar (CHR ''}'')"
  by (simp_all add: is_numchar_def is_digit_def less_eq_char_def)

lemma dec_number:
  assumes "number_ok t" and "f64 t = Some t" and "delim r"
  shows "dec f64 (Suc n) d (t @ r) = Some (ANum t, r)"
proof -
  obtain c cs where t: "t = c # cs" and c: "is_digit c \<or> c = CHR ''-''"
    using number_ok_head [OF assms(1)] by blast
  have ne: "\<not> is_ws c" "c \<noteq> CHR ''{''" "c \<noteq> CHR ''[''" "c \<noteq> dquote" "c \<noteq> CHR ''t''"
    "c \<noteq> CHR ''f''" "c \<noteq> CHR ''n''"
    using c by (auto simp: is_ws_def is_digit_def less_eq_char_def dquote_def)
  note w = takeWhile_numchars [OF number_ok_numchars [OF assms(1)] assms(3)]
  show ?thesis
    using ne w assms(1,2) unfolding t by (simp add: Let_def del: takeWhile.simps dropWhile.simps)
qed

lemma enc_elems_head:
  assumes "enc_elems (v # vs) = Some u"
  shows "\<exists>t x. enc v = Some t \<and> u = t @ x"
proof (cases "enc v")
  case None
  with assms show ?thesis by simp
next
  case (Some t)
  then show ?thesis using assms by (cases vs) auto
qed

lemma enc_members_head:
  assumes "enc_members ((k, v) # ms) = Some u"
  shows "\<exists>x. u = dquote # x"
proof (cases "enc v")
  case None
  with assms show ?thesis by simp
next
  case (Some t)
  then show ?thesis using assms by (cases ms) (auto simp: enc_string_def)
qed

lemma dec_enc_aux:
  "enc v = Some t \<Longrightarrow> nums_ok f64 v \<Longrightarrow> nesting v \<le> d \<Longrightarrow> length t \<le> n \<Longrightarrow> delim r \<Longrightarrow>
     dec f64 n d (t @ r) = Some (repair v, r)"
  "enc_elems vs = Some t \<Longrightarrow> vs \<noteq> [] \<Longrightarrow> (\<forall>v \<in> set vs. nums_ok f64 v \<and> nesting v \<le> d) \<Longrightarrow>
     length t < n \<Longrightarrow> dec_elems f64 n d (t @ CHR '']'' # r) = Some (map repair vs, r)"
  "enc_members ms = Some t \<Longrightarrow> ms \<noteq> [] \<Longrightarrow> (\<forall>kv \<in> set ms. nums_ok f64 (snd kv) \<and> nesting (snd kv) \<le> d)
     \<Longrightarrow> length t < n \<Longrightarrow>
     dec_members f64 n d (t @ CHR ''}'' # r) = Some (map (\<lambda>(k, v). (utf8_fix k, repair v)) ms, r)"
proof (induction v and vs and ms arbitrary: t n d r and t n d r and t n d r
    rule: enc_enc_elems_enc_members.induct)
  case 1
  then show ?case by (cases n) (auto simp: dquote_def)
next
  case (2 b)
  then show ?case by (cases n; cases b) (auto simp: dquote_def)
next
  case (3 u)
  then have "u \<noteq> []" using number_ok_head by force
  with 3 obtain m where "n = Suc m" "t = u" by (cases n) auto
  with 3 show ?case by (simp add: dec_number del: dec.simps)
next
  case (4 u)
  then show ?case
    by (cases n) (auto simp: enc_string_def dec_enc_chars)
next
  case (5 vs)
  show ?case
  proof (cases vs)
    case Nil
    with 5 show ?thesis by (cases n; cases d) (auto simp: dquote_def)
  next
    case (Cons v vs')
    obtain u where u: "enc_elems vs = Some u" "t = CHR ''['' # u @ '']''"
      using "5.prems"(1) Cons by auto
    obtain m where m: "n = Suc m" "length u < m" using "5.prems"(4) u by (cases n) auto
    obtain e where e: "d = Suc e" "\<forall>v \<in> set vs. nums_ok f64 v \<and> nesting v \<le> e"
      using "5.prems"(2,3) by (cases d) (auto simp: fold_max_le)
    have IH: "dec_elems f64 m e (u @ CHR '']'' # r) = Some (map repair vs, r)"
      using "5.IH" [OF _ u(1)] Cons e m by blast
    obtain v1 where "enc v = Some v1" "\<exists>x. u = v1 @ x"
      using u(1) enc_elems_head Cons by blast
    moreover from this(1) e Cons obtain c cs where "v1 = c # cs" "\<not> is_ws c" "c \<noteq> CHR '']''"
      using enc_head [of v v1 f64] by auto
    ultimately obtain c cs where "u = c # cs" "\<not> is_ws c" "c \<noteq> CHR '']''" by auto
    with IH u m e show ?thesis by simp
  qed
next
  case (6 ms)
  show ?case
  proof (cases ms)
    case Nil
    with 6 show ?thesis by (cases n; cases d) (auto simp: dquote_def)
  next
    case (Cons kv ms')
    obtain u where u: "enc_members ms = Some u" "t = CHR ''{'' # u @ ''}''"
      using "6.prems"(1) Cons by auto
    obtain m where m: "n = Suc m" "length u < m" using "6.prems"(4) u by (cases n) auto
    obtain e where e: "d = Suc e" "\<forall>kv \<in> set ms. nums_ok f64 (snd kv) \<and> nesting (snd kv) \<le> e"
      using "6.prems"(2,3) by (cases d) (auto simp: fold_max_le)
    have IH: "dec_members f64 m e (u @ CHR ''}'' # r)
        = Some (map (\<lambda>(k, v). (utf8_fix k, repair v)) ms, r)"
      using "6.IH" [OF _ u(1)] Cons e m by blast
    obtain k v where kv: "kv = (k, v)" by (cases kv)
    obtain x where "u = dquote # x"
      using u(1) enc_members_head Cons kv by blast
    with IH u m e show ?thesis by simp
  qed
next
  case 7
  then show ?case by simp
next
  case 8
  then show ?case by simp
next
  case (9 v vs)
  obtain x where x: "enc v = Some x" using "9.prems"(1) by (auto split: option.splits)
  obtain m where m: "n = Suc m" "length t \<le> m" using "9.prems"(4) by (cases n) auto
  show ?case
  proof (cases vs)
    case Nil
    with x "9.prems" m have "dec f64 m d (x @ CHR '']'' # r) = Some (repair v, CHR '']'' # r)"
      by (intro "9.IH"(1)) auto
    with Nil x m "9.prems"(1) show ?thesis by simp
  next
    case (Cons v' vs')
    then obtain y where y: "enc_elems vs = Some y" "t = x @ CHR '','' # y"
      using "9.prems"(1) x by auto
    have "dec f64 m d (x @ CHR '','' # y @ CHR '']'' # r) = Some (repair v, CHR '','' # y @ CHR '']'' # r)"
      using x y "9.prems" m by (intro "9.IH"(1)) auto
    moreover have "dec_elems f64 m d (y @ CHR '']'' # r) = Some (map repair vs, r)"
      using x y "9.prems" m Cons by (intro "9.IH"(2)) auto
    ultimately show ?thesis using m y by simp
  qed
next
  case 10
  then show ?case by simp
next
  case (11 k v ms)
  obtain x where x: "enc v = Some x" using "11.prems"(1) by (auto split: option.splits)
  obtain m where m: "n = Suc m" "length t \<le> m" using "11.prems"(4) by (cases n) auto
  have key: "dec_chars (enc_chars k @ dquote # CHR '':'' # z) = Some (utf8_fix k, CHR '':'' # z)" for z
    by (rule dec_enc_chars)
  show ?case
  proof (cases ms)
    case Nil
    with "11.prems"(1) x have t: "t = enc_string k @ CHR '':'' # x" by simp
    have "dec f64 m d (x @ CHR ''}'' # r) = Some (repair v, CHR ''}'' # r)"
      using x t "11.prems" m by (intro "11.IH"(1)) auto
    with Nil t m key show ?thesis by (simp add: enc_string_def)
  next
    case (Cons kv ms')
    then obtain y where y: "enc_members ms = Some y" "t = enc_string k @ CHR '':'' # x @ CHR '','' # y"
      using "11.prems"(1) x by auto
    have "dec f64 m d (x @ CHR '','' # y @ CHR ''}'' # r) = Some (repair v, CHR '','' # y @ CHR ''}'' # r)"
      using x y "11.prems" m by (intro "11.IH"(1)) auto
    moreover have "dec_members f64 m d (y @ CHR ''}'' # r)
        = Some (map (\<lambda>(k, v). (utf8_fix k, repair v)) ms, r)"
      using x y "11.prems" m Cons by (intro "11.IH"(2)) auto
    ultimately show ?thesis using m y key by (simp add: enc_string_def)
  qed
qed

theorem unmarshal_enc:
  assumes "enc v = Some t" and "nums_ok f64 v" and "nesting v \<le> max_nesting"
  shows "unmarshal_any f64 t = Some (canon v)"
  using dec_enc_aux(1) [OF assms, of "Suc (length t)" "[]"]
  by (simp add: unmarshal_any_def parse_doc_def canon_def skip_ws_def)

section \<open>The decoder's fuel\<close>

lemma strip_prefix_length: "strip_prefix p s = Some r \<Longrightarrow> length r \<le> length s"
  by (induction p s rule: strip_prefix.induct) (auto split: if_splits)

lemma skip_ws_length: "length (skip_ws s) \<le> length s"
  by (simp add: skip_ws_def length_dropWhile_le)

lemma skip_ws_ConsD: "skip_ws s = c # cs \<Longrightarrow> length cs < length s"
  using skip_ws_length [of s] by simp

lemma dec_chars_step:
  assumes "dec_chars (a # cs) = Some (t, r)"
  shows "r = cs \<or> (\<exists>n t'. dec_chars (drop n cs) = Some (t', r))"
proof (rule ccontr)
  assume "\<not> ?thesis"
  then have n: "\<And>n t'. dec_chars (drop n cs) \<noteq> Some (t', r)" and "r \<noteq> cs" by auto
  have n0: "\<And>t'. dec_chars cs \<noteq> Some (t', r)" using n [of 0] by simp
  have n1: "\<And>e cs' t'. cs = e # cs' \<Longrightarrow> dec_chars cs' \<noteq> Some (t', r)" using n [of 1] by simp
  show False
    using assms n n0 n1 \<open>r \<noteq> cs\<close>
    by (simp split: if_split_asm option.split_asm list.split_asm prod.split_asm)
qed

lemma dec_chars_length: "dec_chars s = Some (t, r) \<Longrightarrow> length r < length s"
proof (induction s arbitrary: t rule: length_induct)
  case (1 s)
  then obtain a cs where s: "s = a # cs" by (cases s) auto
  from dec_chars_step [OF "1.prems" [unfolded s]]
  consider "r = cs" | n t' where "dec_chars (drop n cs) = Some (t', r)" by blast
  then show ?case
  proof cases
    case (2 n t')
    then have "length r < length (drop n cs)"
      using "1.IH" [rule_format, of "drop n cs" t'] s by auto
    with s show ?thesis by simp
  qed (simp add: s)
qed

lemma dec_length:
  "dec f64 n d s = Some (v, r) \<Longrightarrow> length r < length s"
  "dec_elems f64 n d s = Some (vs, r) \<Longrightarrow> length r < length s"
  "dec_members f64 n d s = Some (ms, r) \<Longrightarrow> length r < length s"
proof (induction f64 n d s and f64 n d s and f64 n d s arbitrary: v r and vs r and ms r
    rule: dec_dec_elems_dec_members.induct)
  case (2 f64 n d s)
  obtain c cs where s: "skip_ws s = c # cs"
    using "2.prems" by (auto split: list.splits)
  have cs: "length cs < length s" using skip_ws_ConsD [OF s] .
  have nxt: "skip_ws cs = c' # cs' \<Longrightarrow> length cs' < length cs" for c' cs'
    by (rule skip_ws_ConsD)
  show ?case
  proof (cases "c = CHR ''{'' \<or> c = CHR ''[''")
    case True
    then show ?thesis
      using "2.prems" s cs nxt "2.IH"
      by (auto split: if_splits list.splits option.splits) (metis length_Cons less_trans less_trans_Suc not_less_eq)+
  next
    case False
    have num: "number_ok (takeWhile is_numchar (c # cs)) \<Longrightarrow>
        length (dropWhile is_numchar (c # cs)) \<le> length cs"
      by (auto simp: number_ok_def length_dropWhile_le split: if_splits)
    show ?thesis
      using "2.prems" s cs False num
      by (auto simp: Let_def split: if_splits dest!: strip_prefix_length dec_chars_length)
  qed
next
  case (4 f64 n d s)
  then show ?case
    by (auto split: option.splits list.splits if_splits dest!: skip_ws_ConsD) fastforce+
next
  case (6 f64 n d s)
  then show ?case
    by (auto split: option.splits list.splits if_splits dest!: skip_ws_ConsD dec_chars_length) fastforce+
qed simp_all

text \<open>A successful decoding needs at most one unit of fuel per character it consumes.\<close>

lemma dec_fuel:
  "dec f64 n d s = Some (v, r) \<Longrightarrow> length s \<le> length r + m \<Longrightarrow> dec f64 m d s = Some (v, r)"
  "dec_elems f64 n d s = Some (vs, r) \<Longrightarrow> length s \<le> length r + m \<Longrightarrow>
     dec_elems f64 m d s = Some (vs, r)"
  "dec_members f64 n d s = Some (ms, r) \<Longrightarrow> length s \<le> length r + m \<Longrightarrow>
     dec_members f64 m d s = Some (ms, r)"
proof (induction f64 n d s and f64 n d s and f64 n d s arbitrary: v r m and vs r m and ms r m
    rule: dec_dec_elems_dec_members.induct)
  case (2 f64 n d s)
  obtain m' where m: "m = Suc m'"
    using dec_length(1) [OF "2.prems"(1)] "2.prems"(2) by (cases m) auto
  obtain c cs where s: "skip_ws s = c # cs"
    using "2.prems" by (auto split: list.splits)
  have cs: "length cs < length s" using skip_ws_ConsD [OF s] .
  show ?case
  proof (cases "c = CHR ''{'' \<or> c = CHR ''[''")
    case True
    then obtain c' cs' where s': "skip_ws cs = c' # cs'"
      using "2.prems"(1) s by (auto split: list.splits if_splits)
    have "length (c' # cs') \<le> length cs" using skip_ws_length [of cs] s' by simp
    then have "length (c' # cs') \<le> length r + m'" using cs m "2.prems"(2) by simp
    note len = this
    have em: "c = CHR ''['' \<Longrightarrow> d \<noteq> 0 \<Longrightarrow> c' \<noteq> CHR '']''
        \<Longrightarrow> dec_elems f64 n (d - 1) (c' # cs') = Some (vs, r)
        \<Longrightarrow> dec_elems f64 m' (d - 1) (c' # cs') = Some (vs, r)" for vs
      using "2.IH"(2) [OF s _ _ _ s'] len by simp
    have mm: "c = CHR ''{'' \<Longrightarrow> d \<noteq> 0 \<Longrightarrow> c' \<noteq> CHR ''}''
        \<Longrightarrow> dec_members f64 n (d - 1) (c' # cs') = Some (ms, r)
        \<Longrightarrow> dec_members f64 m' (d - 1) (c' # cs') = Some (ms, r)" for ms
      using "2.IH"(1) [OF s _ _ s'] len by simp
    show ?thesis
      using True "2.prems"(1) s s' m em mm by (fastforce split: if_split_asm)
  next
    case False
    then show ?thesis using "2.prems"(1) s m by (simp cong: if_cong)
  qed
next
  case (4 f64 n d s)
  obtain m' where m: "m = Suc m'"
    using dec_length(2) [OF "4.prems"(1)] "4.prems"(2) by (cases m) auto
  obtain v r1 where v: "dec f64 n d s = Some (v, r1)"
    using "4.prems"(1) by (auto split: option.splits)
  obtain c cs where c: "skip_ws r1 = c # cs"
    using "4.prems"(1) v by (auto split: list.splits)
  have l: "length cs < length r1" "length r1 < length s"
    using skip_ws_ConsD [OF c] dec_length(1) [OF v] by auto
  have r: "length r \<le> length cs"
    using "4.prems"(1) v c dec_length(2) by (fastforce split: if_splits)
  have "dec f64 m' d s = Some (v, r1)"
    using "4.IH"(1) [OF v] l r "4.prems"(2) m by simp
  moreover have "c = CHR '','' \<Longrightarrow> dec_elems f64 n d cs = Some (vs', r) \<Longrightarrow> dec_elems f64 m' d cs = Some (vs', r)" for vs'
    using l "4.prems"(2) m by - (rule "4.IH"(2) [OF v refl c]; simp)
  ultimately show ?case
    using "4.prems"(1) v c m by (auto split: if_splits)
next
  case (6 f64 n d s)
  obtain m' where m: "m = Suc m'"
    using dec_length(3) [OF "6.prems"(1)] "6.prems"(2) by (cases m) auto
  obtain t where t: "skip_ws s = dquote # t"
    using "6.prems"(1) by (auto split: list.splits if_splits)
  obtain k r0 where k: "dec_chars t = Some (k, r0)"
    using "6.prems"(1) t by (auto split: option.splits)
  obtain r1 where r1: "skip_ws r0 = CHR '':'' # r1"
    using "6.prems"(1) t k by (auto split: list.splits if_splits)
  obtain v r2 where v: "dec f64 n d r1 = Some (v, r2)"
    using "6.prems"(1) t k r1 by (auto split: option.splits)
  obtain c cs where c: "skip_ws r2 = c # cs"
    using "6.prems"(1) t k r1 v by (auto split: list.splits)
  have l: "length cs < length r2" "length r2 < length r1" "length r1 < length s"
    using skip_ws_ConsD [OF c] dec_length(1) [OF v] skip_ws_ConsD [OF r1] dec_chars_length [OF k]
      skip_ws_ConsD [OF t] by auto
  have r: "length r \<le> length cs"
    using "6.prems"(1) t k r1 v c dec_length(3) by (fastforce split: if_splits)
  have "dec f64 m' d r1 = Some (v, r2)"
    using "6.IH"(1) [OF t _ k _ r1 _ v] l r "6.prems"(2) m by simp
  moreover have "c = CHR '','' \<Longrightarrow> dec_members f64 n d cs = Some (ms', r) \<Longrightarrow> dec_members f64 m' d cs = Some (ms', r)" for ms'
    using l "6.prems"(2) m by - (rule "6.IH"(2) [OF t _ k refl r1 _ v refl c]; simp)
  ultimately show ?case
    using "6.prems"(1) t k r1 v c m by (auto split: if_splits)
qed simp_all

text \<open>Enough fuel: whatever fuel decodes a text, one unit per character decodes it alike.\<close>

theorem dec_fuel_enough:
  "dec f64 n d s = Some (v, r) \<Longrightarrow> length s \<le> m \<Longrightarrow> dec f64 m d s = Some (v, r)"
  by (erule dec_fuel(1)) simp

corollary parse_doc_fuel:
  assumes "dec f64 n max_nesting s = Some (v, r)" and "skip_ws r = []"
  shows "parse_doc f64 s = Some v"
  using dec_fuel_enough [OF assms(1), of "Suc (length s)"] assms(2)
  by (simp add: parse_doc_def)

section \<open>Well-formed values\<close>

text \<open>Every object is a Go map, and every string and key is valid UTF-8.\<close>

fun any_ok :: "gany \<Rightarrow> bool" where
  "any_ok (AArr vs) \<longleftrightarrow> (\<forall>v \<in> set vs. any_ok v)"
| "any_ok (AObj ms) \<longleftrightarrow> map_ok ms \<and> (\<forall>kv \<in> set ms. any_ok (snd kv))"
| "any_ok v \<longleftrightarrow> True"

fun utf8_ok :: "gany \<Rightarrow> bool" where
  "utf8_ok (AStr s) \<longleftrightarrow> utf8_fix s = s"
| "utf8_ok (AArr vs) \<longleftrightarrow> (\<forall>v \<in> set vs. utf8_ok v)"
| "utf8_ok (AObj ms) \<longleftrightarrow> (\<forall>kv \<in> set ms. utf8_fix (fst kv) = fst kv \<and> utf8_ok (snd kv))"
| "utf8_ok v \<longleftrightarrow> True"

lemma canon_id: "any_ok v \<Longrightarrow> utf8_ok v \<Longrightarrow> canon v = v"
proof (induction v rule: repair.induct)
  case (2 vs)
  then have "map canon vs = map id vs" by (intro map_cong) auto
  then show ?case by simp
next
  case (3 ms)
  have "(case kv of (k, v) \<Rightarrow> (utf8_fix k, canon v)) = kv" if "kv \<in> set ms" for kv
    using 3 that by (cases kv) force
  then have "map (\<lambda>(k, v). (utf8_fix k, canon v)) ms = map id ms"
    by (intro map_cong) auto
  with "3.prems"(1) show ?case by (simp add: map_build_id)
qed auto

lemma map_build_ball: "(\<forall>kv \<in> set ms. P (snd kv)) \<Longrightarrow> \<forall>kv \<in> set (map_build ms). P (snd kv)"
proof (induction ms rule: rev_induct)
  case (snoc x ms)
  have "\<forall>kv \<in> set (map_put k v m). P (snd kv)" if "P v" "\<forall>kv \<in> set m. P (snd kv)" for k v m
    using that by (induction k v m rule: map_put.induct) auto
  note put = this
  obtain k v where x: "x = (k, v)" by (cases x)
  show ?case using snoc unfolding x map_build_snoc by (intro put) auto
qed simp

lemma go_value_ok: "any_ok (go_value v)"
proof (induction v rule: go_value.induct)
  case (2 ms)
  have "\<forall>kv \<in> set (map (\<lambda>(k, v). (k, go_value v)) ms). any_ok (snd kv)"
    using 2 by auto
  then show ?case by (simp add: map_build_ball del: set_map)
qed auto

lemma unmarshal_any_ok: "unmarshal_any f64 s = Some v \<Longrightarrow> any_ok v"
  by (auto simp: unmarshal_any_def go_value_ok)

lemma unmarshal_map_ok: "unmarshal_map f64 s = Some (Some m) \<Longrightarrow> any_ok (AObj m)"
  by (cases "unmarshal_any f64 s")
    (auto simp: unmarshal_map_def simp del: any_ok.simps split: gany.split_asm dest: unmarshal_any_ok)

text \<open>A marshalled map decodes to itself.\<close>

lemma unmarshal_marshal_map:
  assumes "marshal_map m = Some t"
    and "\<And>kvs. m = Some kvs \<Longrightarrow>
           any_ok (AObj kvs) \<and> utf8_ok (AObj kvs) \<and> nums_ok f64 (AObj kvs)
           \<and> nesting (AObj kvs) \<le> max_nesting"
  shows "unmarshal_map f64 t = Some m"
proof (cases m)
  case None
  with assms(1) unmarshal_enc [of ANull t f64] show ?thesis
    by (simp add: marshal_map_def unmarshal_map_def)
next
  case (Some kvs)
  with assms unmarshal_enc [of "AObj kvs" t f64] canon_id [of "AObj kvs"] show ?thesis
    by (simp add: marshal_map_def unmarshal_map_def del: canon_simps enc.simps nesting.simps)
qed

lemma unmarshal_empty: "unmarshal_any f64 [] = None" "unmarshal_map f64 [] = None"
  by (simp_all add: unmarshal_any_def unmarshal_map_def parse_doc_def skip_ws_def)

section \<open>Values that can be marshalled\<close>

fun has_other :: "gany \<Rightarrow> bool" where
  "has_other AOther \<longleftrightarrow> True"
| "has_other (AArr vs) \<longleftrightarrow> (\<exists>v \<in> set vs. has_other v)"
| "has_other (AObj ms) \<longleftrightarrow> (\<exists>kv \<in> set ms. has_other (snd kv))"
| "has_other v \<longleftrightarrow> False"

text \<open>Marshalling fails exactly on values that contain an unsupported one.\<close>

lemma enc_None_iff:
  "enc v = None \<longleftrightarrow> has_other v"
  "enc_elems vs = None \<longleftrightarrow> (\<exists>v \<in> set vs. has_other v)"
  "enc_members ms = None \<longleftrightarrow> (\<exists>kv \<in> set ms. has_other (snd kv))"
  by (induction v and vs and ms rule: enc_enc_elems_enc_members.induct)
    (auto split: list.splits option.splits)

end
