(* ===== verification/Go_Time.thy ===== *)
theory Go_Time
  imports Prelude Go_Json "HOL-Library.Monad_Syntax"
begin

text \<open>
  The part of Go's package \<^verbatim>\<open>time\<close> the provider uses: instants with a zone offset,
  \<^verbatim>\<open>Time.Before\<close>, and \<^verbatim>\<open>time.Parse\<close> and \<^verbatim>\<open>Time.Format\<close> for the one layout of the
  code, \<^verbatim>\<open>2006-01-02T15:04:05.9Z\<close>. In that layout the final Z is a literal character,
  not a zone: it is printed whatever the zone of the time is, and parsed times are UTC.
\<close>

record gotime =
  t_ns :: int    \<comment> \<open>nanoseconds since 1970-01-01T00:00:00 UTC\<close>
  t_zone :: int  \<comment> \<open>offset of its location, seconds east of UTC\<close>

definition time_Before :: "gotime \<Rightarrow> gotime \<Rightarrow> bool" where
  "time_Before a b \<longleftrightarrow> t_ns a < t_ns b"

section \<open>Calendar\<close>

definition leap_year :: "int \<Rightarrow> bool" where
  "leap_year y \<longleftrightarrow> y mod 4 = 0 \<and> (y mod 100 \<noteq> 0 \<or> y mod 400 = 0)"

definition days_in :: "int \<Rightarrow> int \<Rightarrow> int" where
  "days_in m y =
     (if m = 2 then (if leap_year y then 29 else 28)
      else if m \<in> {4, 6, 9, 11} then 30 else 31)"

text \<open>Days from 1970-01-01 to a date of the proleptic Gregorian calendar, years from March.\<close>

definition days_from_civil :: "int \<Rightarrow> int \<Rightarrow> int \<Rightarrow> int" where
  "days_from_civil y m d =
     (let y' = (if m \<le> 2 then y - 1 else y);
          era = y' div 400;
          yoe = y' - era * 400;
          mp = (if m > 2 then m - 3 else m + 9);
          doy = (153 * mp + 2) div 5 + d - 1;
          doe = yoe * 365 + yoe div 4 - yoe div 100 + doy
      in era * 146097 + doe - 719468)"

definition civil_from_days :: "int \<Rightarrow> int \<times> int \<times> int" where
  "civil_from_days z0 =
     (let z = z0 + 719468;
          era = z div 146097;
          doe = z mod 146097;
          yoe = (doe - doe div 1460 + doe div 36524 - doe div 146096) div 365;
          doy = doe - (365 * yoe + yoe div 4 - yoe div 100);
          mp = (5 * doy + 2) div 153;
          d = doy - (153 * mp + 2) div 5 + 1;
          m = (if mp < 10 then mp + 3 else mp - 9)
      in (yoe + era * 400 + (if m \<le> 2 then 1 else 0), m, d))"

definition ns_per_sec :: int where "ns_per_sec = 1000000000"

text \<open>\<^verbatim>\<open>time.Date(y, m, d, h, mi, s, ns, time.UTC)\<close>.\<close>

definition time_Date :: "int \<Rightarrow> int \<Rightarrow> int \<Rightarrow> int \<Rightarrow> int \<Rightarrow> int \<Rightarrow> int \<Rightarrow> gotime" where
  "time_Date y m d h mi s ns =
     \<lparr> t_ns = (days_from_civil y m d * 86400 + h * 3600 + mi * 60 + s) * ns_per_sec + ns,
       t_zone = 0 \<rparr>"

section \<open>Parsing\<close>

definition digit_val :: "char \<Rightarrow> int" where
  "digit_val c = int (code c) - int (code (CHR ''0''))"

definition digits_val :: "string \<Rightarrow> int" where
  "digits_val ds = fold (\<lambda>c a. a * 10 + digit_val c) ds 0"

text \<open>\<^verbatim>\<open>getnum(s, true)\<close>: exactly two digits; \<^verbatim>\<open>getnum(s, false)\<close>: one or two.\<close>

fun getnum2 :: "string \<Rightarrow> (int \<times> string) option" where
  "getnum2 (a # b # r) = (if is_digit a \<and> is_digit b then Some (digits_val [a, b], r) else None)"
| "getnum2 _ = None"

fun getnum12 :: "string \<Rightarrow> (int \<times> string) option" where
  "getnum12 [] = None"
| "getnum12 (a # r) =
     (if \<not> is_digit a then None
      else case r of
             b # r' \<Rightarrow> if is_digit b then Some (digits_val [a, b], r') else Some (digit_val a, r)
           | [] \<Rightarrow> Some (digit_val a, r))"

fun get_year :: "string \<Rightarrow> (int \<times> string) option" where
  "get_year (a # b # c # d # r) =
     (if list_all is_digit [a, b, c, d] then Some (digits_val [a, b, c, d], r) else None)"
| "get_year _ = None"

fun skip_lit :: "char \<Rightarrow> string \<Rightarrow> string option" where
  "skip_lit c [] = None"
| "skip_lit c (x # xs) = (if x = c then Some xs else None)"

text \<open>The optional fractional second: nanoseconds and the rest; digits after the ninth are cut.\<close>

definition get_frac :: "string \<Rightarrow> int \<times> string" where
  "get_frac s =
     (case s of
        p # q # r \<Rightarrow>
          if (p = CHR ''.'' \<or> p = CHR '','') \<and> is_digit q then
            (let ds = takeWhile is_digit (q # r); ds9 = take 9 ds in
             (digits_val ds9 * 10 ^ (9 - length ds9), dropWhile is_digit (q # r)))
          else (0, s)
      | _ \<Rightarrow> (0, s))"

text \<open>
  \<^verbatim>\<open>time.Parse("2006-01-02T15:04:05.9Z", s)\<close>; None is a ParseError (bad syntax, a field out
  of range, a day the month does not have, or text left over).
\<close>

definition time_Parse :: "string \<Rightarrow> gotime option" where
  "time_Parse s0 = do {
     (y, s1) \<leftarrow> get_year s0;
     s2 \<leftarrow> skip_lit (CHR ''-'') s1;
     (m, s3) \<leftarrow> getnum2 s2;
     if m \<le> 0 \<or> 12 < m then None else do {
       s4 \<leftarrow> skip_lit (CHR ''-'') s3;
       (d, s5) \<leftarrow> getnum2 s4;
       s6 \<leftarrow> skip_lit (CHR ''T'') s5;
       (h, s7) \<leftarrow> getnum12 s6;
       if 24 \<le> h then None else do {
         s8 \<leftarrow> skip_lit (CHR '':'') s7;
         (mi, s9) \<leftarrow> getnum2 s8;
         if 60 \<le> mi then None else do {
           s10 \<leftarrow> skip_lit (CHR '':'') s9;
           (sec, s11) \<leftarrow> getnum2 s10;
           if 60 \<le> sec then None else do {
             let (ns, s12) = get_frac s11;
             s13 \<leftarrow> skip_lit (CHR ''Z'') s12;
             if s13 \<noteq> [] then None
             else if d < 1 \<or> days_in m y < d then None
             else Some (time_Date y m d h mi sec ns) } } } } }"

section \<open>Formatting\<close>

definition digit_char :: "int \<Rightarrow> char" where
  "digit_char n = char_of (nat (48 + n mod 10))"

definition pad2 :: "int \<Rightarrow> string" where
  "pad2 n = [digit_char (n div 10), digit_char n]"

definition pad4 :: "int \<Rightarrow> string" where
  "pad4 n = [digit_char (n div 1000), digit_char (n div 100), digit_char (n div 10), digit_char n]"

text \<open>
  \<^verbatim>\<open>Format\<close> with the layout, for years 0 to 9999: the civil date and time in the zone of the
  time, one fractional digit unless it is 0, and a literal Z.
\<close>

definition time_Format :: "gotime \<Rightarrow> string" where
  "time_Format t =
     (let secs = t_ns t div ns_per_sec + t_zone t;
          ns = t_ns t mod ns_per_sec;
          sod = secs mod 86400;
          tenth = ns div 100000000
      in case civil_from_days (secs div 86400) of
           (y, m, d) \<Rightarrow>
             pad4 y @ ''-'' @ pad2 m @ ''-'' @ pad2 d @ ''T''
             @ pad2 (sod div 3600) @ '':'' @ pad2 (sod div 60 mod 60) @ '':'' @ pad2 (sod mod 60)
             @ (if tenth = 0 then [] else [CHR ''.'', digit_char tenth]) @ ''Z'')"

end
