(* ===== verification/Platform.thy ===== *)
theory Platform
  imports Go_Errors Go_Json_Facts Go_Time
begin

text \<open>
  The interfaces of the code that is not part of the repository, as parameters of the model:
  the OSB client (\<^verbatim>\<open>go-open-service-broker-client\<close>), the Kubernetes client
  (\<^verbatim>\<open>controller-runtime\<close>), the metadata and condition helpers of \<^verbatim>\<open>crossplane-runtime\<close>,
  and the sources of non-determinism (clock, UUIDs, map iteration order). Each is a record of
  functions that the definitions take as an argument, as the methods of the code take the
  clients. Structures of those packages are records of the fields the code reads or writes.
  The predicates at the end state the documented laws some properties need.
\<close>

section \<open>Structures of the OSB client\<close>

type_synonym OperationKey = string

text \<open>\<^verbatim>\<open>LastOperationState\<close> is a string type; the constants are the cases of a switch.\<close>

datatype LastOperationState =
    StateInProgress | StateSucceeded | StateFailed | StateDeleting | StateOther string

record OriginatingIdentity =
  oid_Platform :: string
  oid_Value :: string

record BindingMetadata =
  md_ExpiresAt :: string
  md_RenewBefore :: string

record LastOperationResponse =
  lo_State :: LastOperationState
  lo_Description :: "string option"

record GetBindingRequest =
  gbr_InstanceID :: string
  gbr_BindingID :: string

record RotateBindingRequest =
  rbr_InstanceID :: string
  rbr_BindingID :: string
  rbr_AcceptsIncomplete :: bool
  rbr_PredecessorBindingID :: string
  rbr_OriginatingIdentity :: "OriginatingIdentity option"

record OsbBindResource =
  obr_AppGUID :: "string option"
  obr_Route :: "string option"

record BindRequest =
  br_BindingID :: string
  br_InstanceID :: string
  br_AcceptsIncomplete :: bool
  br_ServiceID :: string
  br_PlanID :: string
  br_AppGUID :: "string option"
  br_BindResource :: "OsbBindResource option"
  br_Parameters :: "gany gomap option"
  br_Context :: "gany gomap option"
  br_OriginatingIdentity :: "OriginatingIdentity option"

record UnbindRequest =
  ubr_InstanceID :: string
  ubr_BindingID :: string
  ubr_AcceptsIncomplete :: bool
  ubr_ServiceID :: string
  ubr_PlanID :: string
  ubr_OriginatingIdentity :: "OriginatingIdentity option"

record BindingLastOperationRequest =
  blo_InstanceID :: string
  blo_BindingID :: string
  blo_ServiceID :: "string option"
  blo_PlanID :: "string option"
  blo_OriginatingIdentity :: "OriginatingIdentity option"
  blo_OperationKey :: "OperationKey option"

record LastOperationRequest =
  lor_InstanceID :: string
  lor_ServiceID :: "string option"
  lor_PlanID :: "string option"
  lor_OriginatingIdentity :: "OriginatingIdentity option"
  lor_OperationKey :: "OperationKey option"

record ProvisionRequest =
  pr_InstanceID :: string
  pr_AcceptsIncomplete :: bool
  pr_ServiceID :: string
  pr_PlanID :: string
  pr_OrganizationGUID :: string
  pr_SpaceGUID :: string
  pr_Parameters :: "gany gomap option"
  pr_Context :: "gany gomap option"

record UpdateInstanceRequest =
  uir_InstanceID :: string
  uir_AcceptsIncomplete :: bool
  uir_ServiceID :: string
  uir_PlanID :: "string option"
  uir_Parameters :: "gany gomap option"
  uir_Context :: "gany gomap option"
  uir_OriginatingIdentity :: "OriginatingIdentity option"

record DeprovisionRequest =
  dr_InstanceID :: string
  dr_AcceptsIncomplete :: bool
  dr_ServiceID :: string
  dr_PlanID :: string
  dr_OriginatingIdentity :: "OriginatingIdentity option"

record GetInstanceRequest =
  gir_InstanceID :: string
  gir_ServiceID :: string
  gir_PlanID :: string

text \<open>
  Endpoints and volume mounts are opaque structures (types \<open>'ep\<close>, \<open>'vm\<close>). None is a nil
  pointer or a pointer to a nil slice: the code only marshals them, and both give null.
\<close>

record ('ep, 'vm) GetBindingResponse =
  gb_Credentials :: "gany gomap option"
  gb_Parameters :: "gany gomap option"
  gb_Endpoints :: "'ep list option"
  gb_VolumeMounts :: "'vm list option"
  gb_RouteServiceURL :: "string option"
  gb_SyslogDrainURL :: "string option"
  gb_Metadata :: "BindingMetadata option"

record ('ep, 'vm) BindResponse =
  b_Async :: bool
  b_OperationKey :: "OperationKey option"
  b_Credentials :: "gany gomap option"
  b_Endpoints :: "'ep list option"
  b_VolumeMounts :: "'vm list option"
  b_RouteServiceURL :: "string option"
  b_SyslogDrainURL :: "string option"
  b_Metadata :: "BindingMetadata option"

record UnbindResponse =
  ub_Async :: bool
  ub_OperationKey :: "OperationKey option"

record DeprovisionResponse =
  dp_Async :: bool
  dp_OperationKey :: "OperationKey option"

record ProvisionResponse =
  p_Async :: bool
  p_OperationKey :: "OperationKey option"
  p_DashboardURL :: "string option"

text \<open>
  A value of the interface \<^verbatim>\<open>OSBAsyncResponse\<close>: what its methods return. None stands for
  a value whose methods panic (a nil interface).
\<close>

record OSBAsyncResponse =
  ar_IsAsync :: bool
  ar_GetOperationKey :: "OperationKey option"
  ar_GetDashboardURL :: "string option"

record GetInstanceResponse =
  gi_PlanID :: string
  gi_Parameters :: "gany gomap option"
  gi_DashboardURL :: string

section \<open>Clients\<close>

text \<open>
  A call of a client takes its request and the world and returns a pointer to a response
  (None: nil), an error (None: nil) and the world after the call.
\<close>

type_synonym ('a, 'w) call = "'w \<Rightarrow> 'a option \<times> go_error option \<times> 'w"

record ('ep, 'vm, 'w) osb_client =
  osb_Bind :: "BindRequest \<Rightarrow> (('ep, 'vm) BindResponse, 'w) call"
  osb_Unbind :: "UnbindRequest \<Rightarrow> (UnbindResponse, 'w) call"
  osb_GetBinding :: "GetBindingRequest \<Rightarrow> (('ep, 'vm) GetBindingResponse, 'w) call"
  osb_RotateBinding :: "RotateBindingRequest \<Rightarrow> (('ep, 'vm) BindResponse, 'w) call"
  osb_PollBindingLastOperation :: "BindingLastOperationRequest \<Rightarrow> (LastOperationResponse, 'w) call"
  osb_ProvisionInstance :: "ProvisionRequest \<Rightarrow> (ProvisionResponse, 'w) call"
  osb_UpdateInstance :: "UpdateInstanceRequest \<Rightarrow> (OSBAsyncResponse, 'w) call"
  osb_DeprovisionInstance :: "DeprovisionRequest \<Rightarrow> (DeprovisionResponse, 'w) call"
  osb_GetInstance :: "GetInstanceRequest \<Rightarrow> (GetInstanceResponse, 'w) call"
  osb_PollLastOperation :: "LastOperationRequest \<Rightarrow> (LastOperationResponse, 'w) call"

text \<open>
  Functions of the OSB client package: \<^verbatim>\<open>IsHTTPError\<close> (the status code, if the error is an
  HTTP error), the methods of \<^verbatim>\<open>*ProvisionResponse\<close> (nil: None) as an \<^verbatim>\<open>OSBAsyncResponse\<close>, and the
  JSON documents its structures have (which depend on their struct tags).
\<close>

record ('ep, 'vm) osb_pkg =
  IsHTTPError :: "go_error \<Rightarrow> nat option"
  ProvisionResponse_iface :: "ProvisionResponse option \<Rightarrow> OSBAsyncResponse option"
  Endpoint_json :: "'ep \<Rightarrow> gany"
  Endpoint_of_json :: "gany \<Rightarrow> 'ep option"
  VolumeMount_json :: "'vm \<Rightarrow> gany"
  VolumeMount_of_json :: "gany \<Rightarrow> 'vm option"

text \<open>
  The Kubernetes client, for one type of objects: the call may overwrite the object it is
  given (with what the API server answers).
\<close>

record ('o, 'w) kube_client =
  kube_Get :: "string \<Rightarrow> string \<Rightarrow> 'o \<Rightarrow> 'w \<Rightarrow> go_error option \<times> 'o \<times> 'w"
  kube_Update :: "'o \<Rightarrow> 'w \<Rightarrow> go_error option \<times> 'o \<times> 'w"
  kube_StatusUpdate :: "'o \<Rightarrow> 'w \<Rightarrow> go_error option \<times> 'o \<times> 'w"

section \<open>Metadata, conditions, clock\<close>

datatype ConditionType = TypeReady | TypeSynced | TypeHealthy | TypeOther string
datatype ConditionStatus = ConditionTrue | ConditionFalse | ConditionUnknown

record condition =
  c_Type :: ConditionType
  c_Status :: ConditionStatus
  c_Reason :: string
  c_Message :: string

text \<open>
  \<open>'m\<close> is the type of Kubernetes object metadata, \<open>'s\<close> that of the \<^verbatim>\<open>ResourceStatus\<close> a
  managed resource embeds in its status. \<open>apiext_JSON_doc\<close> is the document of a struct whose
  type is defined from \<^verbatim>\<open>apiextensions.JSON\<close>, given its Raw bytes (it depends on the
  struct tags of that package).
\<close>

record ('m, 's) crossplane =
  meta_GetExternalName :: "'m \<Rightarrow> string"
  meta_SetExternalName :: "'m \<Rightarrow> string \<Rightarrow> 'm"
  meta_WasDeleted :: "'m \<Rightarrow> bool"
  meta_FinalizerExists :: "'m \<Rightarrow> string \<Rightarrow> bool"
  meta_AddFinalizer :: "'m \<Rightarrow> string \<Rightarrow> 'm"
  meta_RemoveFinalizer :: "'m \<Rightarrow> string \<Rightarrow> 'm"
  meta_DeletionTimestamp_IsZero :: "'m \<Rightarrow> bool"
  meta_GetName :: "'m \<Rightarrow> string"
  meta_GetNamespace :: "'m \<Rightarrow> string"
  xp_SetConditions :: "'s \<Rightarrow> condition list \<Rightarrow> 's"
  xp_GetCondition :: "'s \<Rightarrow> ConditionType \<Rightarrow> condition"
  xp_Available :: condition
  xp_Unavailable :: condition
  xp_Creating :: condition
  xp_Deleting :: condition
  apiext_JSON_doc :: "string \<Rightarrow> gany"

text \<open>
  \<open>range_order\<close> is the order in which a range loop visits the entries of a map, which the
  language leaves open; \<open>f64_lit\<close> is the number conversion described in \<^theory_text>\<open>Go_Json\<close>.
\<close>

record 'w runtime =
  time_Now :: "'w \<Rightarrow> gotime \<times> 'w"
  uuid_NewUUID :: "'w \<Rightarrow> string \<times> 'w"
  range_order :: "'w \<Rightarrow> (string \<times> gany) list \<Rightarrow> (string \<times> gany) list"
  f64_lit :: "string \<Rightarrow> string option"

section \<open>Documented laws\<close>

text \<open>The external name is an annotation: reading gives what was last stored.\<close>

definition external_name_laws :: "('m, 's) crossplane \<Rightarrow> bool" where
  "external_name_laws X \<longleftrightarrow>
     (\<forall>m n. meta_GetExternalName X (meta_SetExternalName X m n) = n)
     \<and> (\<forall>m n. meta_WasDeleted X (meta_SetExternalName X m n) = meta_WasDeleted X m)
     \<and> (\<forall>m n f. meta_FinalizerExists X (meta_SetExternalName X m n) f = meta_FinalizerExists X m f)"

text \<open>Finalizers behave as a set, and changing them leaves the external name alone.\<close>

definition finalizer_laws :: "('m, 's) crossplane \<Rightarrow> bool" where
  "finalizer_laws X \<longleftrightarrow>
     (\<forall>m f g. meta_FinalizerExists X (meta_AddFinalizer X m f) g \<longleftrightarrow> g = f \<or> meta_FinalizerExists X m g)
     \<and> (\<forall>m f g. meta_FinalizerExists X (meta_RemoveFinalizer X m f) g
                 \<longleftrightarrow> g \<noteq> f \<and> meta_FinalizerExists X m g)
     \<and> (\<forall>m f. meta_GetExternalName X (meta_AddFinalizer X m f) = meta_GetExternalName X m)
     \<and> (\<forall>m f. meta_GetExternalName X (meta_RemoveFinalizer X m f) = meta_GetExternalName X m)"

text \<open>
  \<^verbatim>\<open>SetConditions\<close> replaces the condition of the same type and keeps the others; what
  \<^verbatim>\<open>GetCondition\<close> returns agrees with the stored condition on status and message.
\<close>

definition condition_laws :: "('m, 's) crossplane \<Rightarrow> bool" where
  "condition_laws X \<longleftrightarrow>
     (\<forall>s c. c_Status (xp_GetCondition X (xp_SetConditions X s [c]) (c_Type c)) = c_Status c
          \<and> c_Message (xp_GetCondition X (xp_SetConditions X s [c]) (c_Type c)) = c_Message c)
     \<and> (\<forall>s c t. t \<noteq> c_Type c \<longrightarrow>
          xp_GetCondition X (xp_SetConditions X s [c]) t = xp_GetCondition X s t)
     \<and> c_Type (xp_Available X) = TypeReady \<and> c_Status (xp_Available X) = ConditionTrue
     \<and> c_Type (xp_Unavailable X) = TypeReady \<and> c_Status (xp_Unavailable X) = ConditionFalse
     \<and> c_Type (xp_Creating X) = TypeReady \<and> c_Status (xp_Creating X) = ConditionFalse
     \<and> c_Type (xp_Deleting X) = TypeReady \<and> c_Status (xp_Deleting X) = ConditionFalse"

text \<open>A range loop visits every entry of the map once.\<close>

definition range_laws :: "'w runtime \<Rightarrow> bool" where
  "range_laws R \<longleftrightarrow> (\<forall>w kvs. mset (range_order R w kvs) = mset kvs)"

text \<open>An error that \<^verbatim>\<open>fmt.Errorf\<close> built is not itself an HTTP error.\<close>

definition http_laws :: "('ep, 'vm) osb_pkg \<Rightarrow> bool" where
  "http_laws P \<longleftrightarrow> (\<forall>s ps. IsHTTPError P (Errorf s ps) = None)"

text \<open>The interface methods of a provision response read its fields.\<close>

definition async_iface_laws :: "('ep, 'vm) osb_pkg \<Rightarrow> bool" where
  "async_iface_laws P \<longleftrightarrow>
     (\<forall>r. ProvisionResponse_iface P (Some r)
        = Some \<lparr> ar_IsAsync = p_Async r, ar_GetOperationKey = p_OperationKey r,
                 ar_GetDashboardURL = p_DashboardURL r \<rparr>)"

text \<open>
  \<^verbatim>\<open>apiextensions.JSON\<close> is a struct with the one field \<^verbatim>\<open>Raw\<close>, tagged \<^verbatim>\<open>json:"-"\<close>, and has a method
  \<^verbatim>\<open>MarshalJSON\<close>. A type defined from it has the fields and tags but not the method, so that its
  document is the empty object.
\<close>

definition apiext_laws :: "('m, 's) crossplane \<Rightarrow> bool" where
  "apiext_laws X \<longleftrightarrow> (\<forall>raw. apiext_JSON_doc X raw = AObj [])"

text \<open>
  The API server, for objects with metadata \<open>getm\<close>, specification \<open>getspec\<close> and status \<open>getst\<close>,
  when nobody else writes them. An object that is what the server holds is read again as it is.
  An update that is accepted stores the metadata; nothing is said about the status in its answer,
  since the resources have a status subresource. A status update stores the status, and its
  answer has the specification and deletion mark the object was read with.
\<close>

definition kube_current :: "('m, 's) crossplane \<Rightarrow> ('o \<Rightarrow> 'm) \<Rightarrow> ('o, 'w) kube_client \<Rightarrow> 'o \<Rightarrow> bool" where
  "kube_current X getm kube ob \<longleftrightarrow>
     (\<forall>w. \<exists>w'. kube_Get kube (meta_GetNamespace X (getm ob)) (meta_GetName X (getm ob)) ob w = (None, ob, w'))"

definition kube_updates_metadata :: "('m, 's) crossplane \<Rightarrow> ('o \<Rightarrow> 'm) \<Rightarrow> ('o, 'w) kube_client \<Rightarrow> bool" where
  "kube_updates_metadata X getm kube \<longleftrightarrow>
     (\<forall>ob w. \<exists>ob' w'. kube_Update kube ob w = (None, ob', w')
        \<and> (\<forall>f. meta_FinalizerExists X (getm ob') f = meta_FinalizerExists X (getm ob) f)
        \<and> meta_GetExternalName X (getm ob') = meta_GetExternalName X (getm ob))"

definition kube_stores_status ::
  "('m, 's) crossplane \<Rightarrow> ('o \<Rightarrow> 'm) \<Rightarrow> ('o \<Rightarrow> 'spec) \<Rightarrow> ('o \<Rightarrow> 'st) \<Rightarrow> ('o, 'w) kube_client \<Rightarrow> bool" where
  "kube_stores_status X getm getspec getst kube \<longleftrightarrow>
     (\<forall>ob w. \<exists>ob' w'. kube_StatusUpdate kube ob w = (None, ob', w')
        \<and> getst ob' = getst ob \<and> getspec ob' = getspec ob
        \<and> meta_WasDeleted X (getm ob') = meta_WasDeleted X (getm ob))"

lemma kube_updates_metadataD:
  assumes "kube_updates_metadata X getm kube"
  obtains ob' w' where "kube_Update kube ob w = (None, ob', w')"
    and "\<And>f. meta_FinalizerExists X (getm ob') f = meta_FinalizerExists X (getm ob) f"
    and "meta_GetExternalName X (getm ob') = meta_GetExternalName X (getm ob)"
  using assms unfolding kube_updates_metadata_def by metis

lemma kube_stores_statusD:
  assumes "kube_stores_status X getm getspec getst kube"
  obtains ob' w' where "kube_StatusUpdate kube ob w = (None, ob', w')"
    and "getst ob' = getst ob" and "getspec ob' = getspec ob"
    and "meta_WasDeleted X (getm ob') = meta_WasDeleted X (getm ob)"
  using assms unfolding kube_stores_status_def by metis

text \<open>A broker that answers a call the same way in every world.\<close>

definition always :: "('a, 'w) call \<Rightarrow> 'a option \<times> go_error option \<Rightarrow> bool" where
  "always c ans \<longleftrightarrow> (\<forall>w. \<exists>w'. c w = (fst ans, snd ans, w'))"

lemma alwaysD: "always c (a, e) \<Longrightarrow> \<exists>w'. c w = (a, e, w')"
  by (simp add: always_def)

text \<open>A broker whose answers are never nil without an error.\<close>

definition answers :: "('a, 'w) call \<Rightarrow> bool" where
  "answers c \<longleftrightarrow> (\<forall>w w'. c w \<noteq> (None, None, w'))"

definition broker_answers :: "('ep, 'vm, 'w) osb_client \<Rightarrow> bool" where
  "broker_answers osb \<longleftrightarrow>
     (\<forall>q. answers (osb_Bind osb q)) \<and> (\<forall>q. answers (osb_Unbind osb q)) \<and> (\<forall>q. answers (osb_GetBinding osb q))
     \<and> (\<forall>q. answers (osb_RotateBinding osb q)) \<and> (\<forall>q. answers (osb_PollBindingLastOperation osb q))
     \<and> (\<forall>q. answers (osb_ProvisionInstance osb q)) \<and> (\<forall>q. answers (osb_UpdateInstance osb q))
     \<and> (\<forall>q. answers (osb_DeprovisionInstance osb q)) \<and> (\<forall>q. answers (osb_GetInstance osb q))
     \<and> (\<forall>q. answers (osb_PollLastOperation osb q))"

end
