(* ===== verification/Common_Types.thy ===== *)
theory Common_Types
  imports Platform
begin

text \<open>
  Package \<^verbatim>\<open>apis/common\<close>: the desired state of a service instance, the Kubernetes context
  object, serialized parameters, the originating identity and the actions a state observation
  can ask for. The lemmas characterise the conversions: what a context or an identity looks
  like after its trip through JSON, and that serialized maps come back.
\<close>

section \<open>Data\<close>

record NamespacedName =
  nn_Name :: string
  nn_Namespace :: string

definition NamespacedName_String :: "NamespacedName \<Rightarrow> string" where
  "NamespacedName_String n = nn_Namespace n @ ''/'' @ nn_Name n"

text \<open>An object key is its namespace and name.\<close>

definition ToObjectKey :: "NamespacedName \<Rightarrow> string \<times> string" where
  "ToObjectKey n = (nn_Namespace n, nn_Name n)"

type_synonym SerializableParameters = string

record KubernetesOSBContext =
  kc_Platform :: string
  kc_Namespace :: string
  kc_NamespaceAnnotations :: "string gomap option"
  kc_InstanceAnnotations :: "string gomap option"
  kc_ClusterId :: string
  kc_InstanceName :: string

record InstanceData =
  id_AppGuid :: string
  id_InstanceId :: string
  id_PlanId :: string
  id_ServiceId :: string
  id_Context :: KubernetesOSBContext
  id_Parameters :: SerializableParameters
  id_OrganizationGuid :: string
  id_SpaceGuid :: string

definition InstanceData_Set :: "InstanceData \<Rightarrow> InstanceData \<Rightarrow> InstanceData" where
  "InstanceData_Set instanceData newInstanceData = newInstanceData"

text \<open>\<^verbatim>\<open>Action\<close> is an int type with three named values; any other int prints as Unknown.\<close>

datatype Action = NothingToDo | NeedToCreate | NeedToUpdate | OtherAction int

fun Action_String :: "Action \<Rightarrow> string" where
  "Action_String NothingToDo = ''NothingToDo''"
| "Action_String NeedToCreate = ''NeedToCreate''"
| "Action_String NeedToUpdate = ''NeedToUpdate''"
| "Action_String (OtherAction n) = ''Unknown''"

text \<open>The identity is one the broker accepts: no request is built without both strings.\<close>

definition identity_ok :: "OriginatingIdentity \<Rightarrow> bool" where
  "identity_ok oid \<longleftrightarrow> oid_Platform oid \<noteq> [] \<and> oid_Value oid \<noteq> []"

text \<open>The action an observation asks for, if it returns.\<close>

definition observed_action :: "(Action \<times> 'b, 'o, 'w) res \<Rightarrow> Action option" where
  "observed_action r = map_option fst (res_val r)"

lemma observed_action_simps [simp]:
  "observed_action (Ret (a, x) ob w) = Some a" "observed_action (Panic ob w) = None"
  by (simp_all add: observed_action_def)

section \<open>Serialized parameters\<close>

text \<open>
  \<open>None\<close> is a nil receiver. Unmarshalling starts from an empty map, which the document null
  replaces by the nil map.
\<close>

definition ToParameters ::
  "'w runtime \<Rightarrow> SerializableParameters option \<Rightarrow> go_error + gany gomap option" where
  "ToParameters R v =
     (case v of
        None \<Rightarrow> Inr (Some [])
      | Some t \<Rightarrow>
          if length t = 0 then Inr (Some [])
          else case unmarshal_map (f64_lit R) t of
                 None \<Rightarrow> Inl (ErrStd JsonUnmarshalError)
               | Some res \<Rightarrow> Inr res)"

lemma ToParameters_nil: "ToParameters R None = Inr (Some [])"
  and ToParameters_empty: "ToParameters R (Some []) = Inr (Some [])"
  by (simp_all add: ToParameters_def)

lemma marshal_map_nonempty: "marshal_map m = Some t \<Longrightarrow> t \<noteq> []"
  by (auto simp: marshal_map_def split: option.splits list.splits)

text \<open>Parameters written by \<^verbatim>\<open>json.Marshal\<close> are read back.\<close>

text \<open>
  A map that \<^verbatim>\<open>json.Marshal\<close> writes and \<^verbatim>\<open>json.Unmarshal\<close> reads back as it was: every
  object in the form of a Go map, valid UTF-8, float literals in the form the decoder gives
  them, and no deeper than the decoder goes. Any decoded document is one.
\<close>

definition map_readable :: "'w runtime \<Rightarrow> gany gomap option \<Rightarrow> bool" where
  "map_readable R m \<longleftrightarrow>
     (\<forall>kvs. m = Some kvs \<longrightarrow> any_ok (AObj kvs) \<and> utf8_ok (AObj kvs) \<and> nums_ok (f64_lit R) (AObj kvs)
        \<and> nesting (AObj kvs) \<le> max_nesting)"

lemma unmarshal_readable:
  "marshal_map m = Some t \<Longrightarrow> map_readable R m \<Longrightarrow> unmarshal_map (f64_lit R) t = Some m"
  by (rule unmarshal_marshal_map) (auto simp: map_readable_def)

lemma ToParameters_marshal:
  assumes "marshal_map m = Some t" and "map_readable R m"
  shows "ToParameters R (Some t) = Inr m"
  using unmarshal_readable [OF assms] marshal_map_nonempty [OF assms(1)]
  by (simp add: ToParameters_def)

section \<open>\<^verbatim>\<open>reflect.DeepEqual\<close> on decoded values\<close>

text \<open>
  Maps are equal when both are nil, or neither is and they have equal entries; numbers compare
  by \<^verbatim>\<open>==\<close>, which identifies the two zeros.
\<close>

fun deep_norm :: "gany \<Rightarrow> gany" where
  "deep_norm (ANum t) = ANum (if t = ''-0'' then ''0'' else t)"
| "deep_norm (AArr vs) = AArr (map deep_norm vs)"
| "deep_norm (AObj ms) = AObj (map (\<lambda>(k, v). (k, deep_norm v)) ms)"
| "deep_norm v = v"

definition deep_equal_map :: "gany gomap option \<Rightarrow> gany gomap option \<Rightarrow> bool" where
  "deep_equal_map a b \<longleftrightarrow>
     map_option (\<lambda>m. deep_norm (AObj m)) a = map_option (\<lambda>m. deep_norm (AObj m)) b"

lemma deep_equal_map_refl [simp]: "deep_equal_map a a"
  by (simp add: deep_equal_map_def)

lemma deep_equal_map_sym: "deep_equal_map a b \<Longrightarrow> deep_equal_map b a"
  by (simp add: deep_equal_map_def)

lemma deep_equal_map_trans: "deep_equal_map a b \<Longrightarrow> deep_equal_map b c \<Longrightarrow> deep_equal_map a c"
  by (simp add: deep_equal_map_def)

lemma deep_equal_map_nil: "deep_equal_map None b \<longleftrightarrow> b = None"
  by (cases b) (simp_all add: deep_equal_map_def)

lemma deep_equal_map_keys:
  "deep_equal_map (Some a) (Some b) \<Longrightarrow> map fst a = map fst b"
  by (auto simp: deep_equal_map_def dest!: arg_cong [where f = "map fst"]
      simp: comp_def case_prod_beta)

section \<open>The context object\<close>

text \<open>An \<^verbatim>\<open>omitempty\<close> map field: left out when the map has no entries, nil or not.\<close>

definition omitempty_map :: "string \<Rightarrow> string gomap option \<Rightarrow> (string \<times> gany) list" where
  "omitempty_map k m =
     (case m of
        None \<Rightarrow> []
      | Some kvs \<Rightarrow> if kvs = [] then [] else [(k, AObj (map (\<lambda>(k, v). (k, AStr v)) kvs))])"

text \<open>The document of a context: its fields in the order of the struct.\<close>

definition context_members :: "KubernetesOSBContext \<Rightarrow> (string \<times> gany) list" where
  "context_members c =
     [(''platform'', AStr (kc_Platform c)), (''namespace'', AStr (kc_Namespace c))]
     @ omitempty_map ''namespaceAnnotations'' (kc_NamespaceAnnotations c)
     @ omitempty_map ''instanceAnnotations'' (kc_InstanceAnnotations c)
     @ [(''clusterId'', AStr (kc_ClusterId c)), (''instanceName'', AStr (kc_InstanceName c))]"

definition KubernetesOSBContext_ToMap ::
  "'w runtime \<Rightarrow> KubernetesOSBContext \<Rightarrow> go_error + gany gomap option" where
  "KubernetesOSBContext_ToMap R c =
     (case enc (AObj (context_members c)) of
        None \<Rightarrow> Inl (ErrStd JsonMarshalError)
      | Some b \<Rightarrow>
          (case unmarshal_map (f64_lit R) b of
             None \<Rightarrow> Inl (ErrStd JsonUnmarshalError)
           | Some res \<Rightarrow> Inr res))"

lemma context_members_simple:
  "\<not> (\<exists>kv \<in> set (context_members c). has_other (snd kv))"
  "nums_ok f64 (AObj (context_members c))"
  "nesting (AObj (context_members c)) \<le> max_nesting"
  by (auto simp: context_members_def omitempty_map_def max_nesting_def fold_max_le
      split: option.splits)

text \<open>The conversion of a context never fails; it gives the fields, strings repaired.\<close>

lemma ToMap_value:
  "KubernetesOSBContext_ToMap R c =
     Inr (Some (map_build (map (\<lambda>(k, v). (utf8_fix k, canon v)) (context_members c))))"
proof -
  obtain b where b: "enc (AObj (context_members c)) = Some b"
    using enc_None_iff(1) [of "AObj (context_members c)"] context_members_simple(1) by auto
  have "unmarshal_any (f64_lit R) b = Some (canon (AObj (context_members c)))"
    using b context_members_simple(2,3) by (rule unmarshal_enc)
  with b show ?thesis
    by (simp add: KubernetesOSBContext_ToMap_def unmarshal_map_def del: enc.simps)
qed

lemma utf8_fix_ascii: "list_all (\<lambda>c. code c < 0x80) s \<Longrightarrow> utf8_fix s = s"
  by (induction s) (auto simp: list_all_iff)

lemma ToMap_nonempty:
  "KubernetesOSBContext_ToMap R c = Inr (Some m) \<Longrightarrow> m \<noteq> []"
  by (auto simp: ToMap_value context_members_def)

section \<open>The originating identity\<close>

text \<open>The underlying document of the extra attribute is a \<^verbatim>\<open>map[string][]string\<close>.\<close>

record KubernetesOSBOriginatingIdentityExtra =
  e_Raw :: string

type_synonym string_lists = "string list option gomap option"

definition slice_doc :: "string list option \<Rightarrow> gany" where
  "slice_doc xs = (case xs of None \<Rightarrow> ANull | Some ys \<Rightarrow> AArr (map AStr ys))"

definition lists_doc :: "string_lists \<Rightarrow> gany" where
  "lists_doc m = (case m of None \<Rightarrow> ANull | Some kvs \<Rightarrow> AObj (map (\<lambda>(k, v). (k, slice_doc v)) kvs))"

definition FromMap ::
  "string_lists \<Rightarrow> KubernetesOSBOriginatingIdentityExtra
     \<Rightarrow> go_error option \<times> KubernetesOSBOriginatingIdentityExtra" where
  "FromMap m e =
     (case enc (lists_doc m) of
        Some raw \<Rightarrow> (None, e\<lparr>e_Raw := raw\<rparr>)
      | None \<Rightarrow> (Some (ErrStd JsonMarshalError), e))"

text \<open>
  Decoding into \<^verbatim>\<open>string\<close> and \<^verbatim>\<open>[]string\<close>: null leaves the zero value, any other kind is
  an UnmarshalTypeError (None). Each member is checked, also one that a later key replaces.
\<close>

fun string_of_doc :: "gany \<Rightarrow> string option" where
  "string_of_doc (AStr s) = Some s"
| "string_of_doc ANull = Some []"
| "string_of_doc v = None"

fun all_some :: "'a option list \<Rightarrow> 'a list option" where
  "all_some [] = Some []"
| "all_some (None # xs) = None"
| "all_some (Some x # xs) = map_option (\<lambda>ys. x # ys) (all_some xs)"

fun slice_of_doc :: "gany \<Rightarrow> string list option option" where
  "slice_of_doc ANull = Some None"
| "slice_of_doc (AArr vs) = map_option Some (all_some (map string_of_doc vs))"
| "slice_of_doc v = None"

definition Extra_ToMap ::
  "'w runtime \<Rightarrow> KubernetesOSBOriginatingIdentityExtra \<Rightarrow> go_error + string_lists" where
  "Extra_ToMap R e =
     (case parse_doc (f64_lit R) (e_Raw e) of
        Some ANull \<Rightarrow> Inr None
      | Some (AObj ms) \<Rightarrow>
          (case all_some (map (\<lambda>(k, v). map_option (Pair k) (slice_of_doc v)) ms) of
             None \<Rightarrow> Inl (ErrStd JsonUnmarshalError)
           | Some kvs \<Rightarrow> Inr (Some (map_build kvs)))
      | _ \<Rightarrow> Inl (ErrStd JsonUnmarshalError))"

record KubernetesOSBOriginatingIdentityValue =
  oiv_Username :: string
  oiv_UID :: string
  oiv_Groups :: "string list option"
  oiv_Extra :: "KubernetesOSBOriginatingIdentityExtra option"

text \<open>The document of an identity value; the extra attribute is left out when nil.\<close>

definition identity_doc :: "('m, 's) crossplane \<Rightarrow> KubernetesOSBOriginatingIdentityValue \<Rightarrow> gany" where
  "identity_doc X v =
     AObj ([(''username'', AStr (oiv_Username v)), (''uid'', AStr (oiv_UID v)),
            (''groups'', slice_doc (oiv_Groups v))]
           @ (case oiv_Extra v of None \<Rightarrow> []
              | Some e \<Rightarrow> [(''extra'', apiext_JSON_doc X (e_Raw e))]))"

lemma all_some_map: "(\<And>x. x \<in> set xs \<Longrightarrow> f x = Some (g x)) \<Longrightarrow> all_some (map f xs) = Some (map g xs)"
  by (induction xs) auto

lemma lists_doc_simple:
  "\<not> has_other (lists_doc m)" "nums_ok f64 (lists_doc m)" "nesting (lists_doc m) \<le> max_nesting"
  by (auto simp: lists_doc_def slice_doc_def max_nesting_def fold_max_le split: option.splits)

definition lists_ok :: "string_lists \<Rightarrow> bool" where
  "lists_ok m \<longleftrightarrow>
     (case m of None \<Rightarrow> True
      | Some kvs \<Rightarrow> map_ok kvs \<and> (\<forall>(k, v) \<in> set kvs. utf8_fix k = k
           \<and> (\<forall>s \<in> set (case v of None \<Rightarrow> [] | Some ys \<Rightarrow> ys). utf8_fix s = s)))"

lemma slice_of_repair:
  assumes "\<forall>s \<in> set (case v of None \<Rightarrow> [] | Some ys \<Rightarrow> ys). utf8_fix s = s"
  shows "slice_of_doc (repair (slice_doc v)) = Some v"
proof (cases v)
  case (Some ys)
  have "all_some (map string_of_doc (map (repair \<circ> AStr) ys)) = Some (map id ys)"
    unfolding map_map using assms Some by (intro all_some_map) simp
  with Some show ?thesis by (simp add: slice_doc_def)
qed (simp add: slice_doc_def)

lemma FromMap_ToMap:
  assumes "lists_ok m"
  shows "fst (FromMap m e) = None \<and> Extra_ToMap R (snd (FromMap m e)) = Inr m"
proof -
  obtain raw where raw: "enc (lists_doc m) = Some raw"
    using enc_None_iff(1) [of "lists_doc m"] lists_doc_simple(1) [of m] by auto
  have p: "parse_doc (f64_lit R) raw = Some (repair (lists_doc m))"
    using dec_enc_aux(1) [OF raw lists_doc_simple(2,3), of "Suc (length raw)" "[]"]
    by (simp add: parse_doc_def skip_ws_def)
  show ?thesis
  proof (cases m)
    case None
    with raw p show ?thesis by (simp add: FromMap_def Extra_ToMap_def lists_doc_def)
  next
    case (Some kvs)
    have "all_some (map (\<lambda>(k, v). map_option (Pair k) (slice_of_doc v))
        (map (\<lambda>(k, v). (utf8_fix k, repair v)) (map (\<lambda>(k, v). (k, slice_doc v)) kvs)))
        = Some (map id kvs)"
      unfolding map_map using assms Some
      by (intro all_some_map) (force simp: lists_ok_def slice_of_repair)
    then show ?thesis
      using raw p Some assms
      by (simp add: FromMap_def Extra_ToMap_def lists_doc_def lists_ok_def map_build_id)
  qed
qed

end
