(* ===== verification/Provider_Config.thy ===== *)
theory Provider_Config
  imports Platform
begin

text \<open>
  Package \<^verbatim>\<open>apis/v1alpha1\<close>: the namespaced and the cluster-wide provider configuration and
  the getters through which the OSB client is configured. The locale is the Go interface
  \<^verbatim>\<open>OsbConfig\<close>: its three getters read one specification, whichever kind holds it.
\<close>

text \<open>\<open>'sel\<close> is the type of the credential selectors of \<^verbatim>\<open>crossplane-runtime\<close>.\<close>

record 'sel ProviderCredentials =
  pcr_Source :: string
  pcr_Selectors :: 'sel

record 'sel ProviderConfigSpec =
  pcs_Credentials :: "'sel ProviderCredentials"
  pcs_BrokerURL :: string
  pcs_OSBVersion :: string
  pcs_Timeout :: int
  pcs_DisableAsync :: bool

record 'sel ProviderConfig =
  pc_Spec :: "'sel ProviderConfigSpec"

record 'sel ClusterProviderConfig =
  cpc_Spec :: "'sel ProviderConfigSpec"

definition ProviderConfigKind :: string where
  "ProviderConfigKind = ''ProviderConfig''"

definition ClusterProviderConfigKind :: string where
  "ClusterProviderConfigKind = ''ClusterProviderConfig''"

definition pc_GetBrokerURL :: "'sel ProviderConfig \<Rightarrow> string" where
  [go_defs]: "pc_GetBrokerURL pc = pcs_BrokerURL (pc_Spec pc)"

definition pc_GetOSBVersion :: "'sel ProviderConfig \<Rightarrow> string" where
  [go_defs]: "pc_GetOSBVersion pc = pcs_OSBVersion (pc_Spec pc)"

definition pc_GetTimeout :: "'sel ProviderConfig \<Rightarrow> int" where
  [go_defs]: "pc_GetTimeout pc = pcs_Timeout (pc_Spec pc)"

definition cpc_GetBrokerURL :: "'sel ClusterProviderConfig \<Rightarrow> string" where
  [go_defs]: "cpc_GetBrokerURL cpc = pcs_BrokerURL (cpc_Spec cpc)"

definition cpc_GetOSBVersion :: "'sel ClusterProviderConfig \<Rightarrow> string" where
  [go_defs]: "cpc_GetOSBVersion cpc = pcs_OSBVersion (cpc_Spec cpc)"

definition cpc_GetTimeout :: "'sel ClusterProviderConfig \<Rightarrow> int" where
  [go_defs]: "cpc_GetTimeout cpc = pcs_Timeout (cpc_Spec cpc)"

text \<open>A value of the interface \<^verbatim>\<open>resource.ProviderConfig\<close>, by its dynamic type.\<close>

datatype 'sel provider_config =
    PC "'sel ProviderConfig"
  | CPC "'sel ClusterProviderConfig"
  | OtherPC

text \<open>A value of the interface \<^verbatim>\<open>OsbConfig\<close>: what its methods return.\<close>

record OsbConfig =
  GetBrokerURL :: string
  GetOSBVersion :: string
  GetTimeout :: int

definition pc_as_OsbConfig :: "'sel ProviderConfig \<Rightarrow> OsbConfig" where
  "pc_as_OsbConfig pc =
     \<lparr> GetBrokerURL = pc_GetBrokerURL pc, GetOSBVersion = pc_GetOSBVersion pc,
       GetTimeout = pc_GetTimeout pc \<rparr>"

definition cpc_as_OsbConfig :: "'sel ClusterProviderConfig \<Rightarrow> OsbConfig" where
  "cpc_as_OsbConfig cpc =
     \<lparr> GetBrokerURL = cpc_GetBrokerURL cpc, GetOSBVersion = cpc_GetOSBVersion cpc,
       GetTimeout = cpc_GetTimeout cpc \<rparr>"

locale osb_config =
  fixes as_config :: "'c \<Rightarrow> OsbConfig"
    and spec :: "'c \<Rightarrow> 'sel ProviderConfigSpec"
  assumes broker_url: "GetBrokerURL (as_config c) = pcs_BrokerURL (spec c)"
    and osb_version: "GetOSBVersion (as_config c) = pcs_OSBVersion (spec c)"
    and timeout: "GetTimeout (as_config c) = pcs_Timeout (spec c)"
begin

text \<open>The configuration depends on the specification only.\<close>

lemma config_of_spec: "spec c = spec c' \<Longrightarrow> as_config c = as_config c'"
  by (intro OsbConfig.equality) (simp_all add: broker_url osb_version timeout)

lemma config_eq:
  "as_config c = \<lparr> GetBrokerURL = pcs_BrokerURL (spec c), GetOSBVersion = pcs_OSBVersion (spec c),
     GetTimeout = pcs_Timeout (spec c) \<rparr>"
  by (intro OsbConfig.equality) (simp_all add: broker_url osb_version timeout)

end

interpretation pc: osb_config pc_as_OsbConfig pc_Spec
  by unfold_locales (simp_all add: pc_as_OsbConfig_def go_defs)

interpretation cpc: osb_config cpc_as_OsbConfig cpc_Spec
  by unfold_locales (simp_all add: cpc_as_OsbConfig_def go_defs)

end
