(* ===== verification/Go_Base64.thy ===== *)
theory Go_Base64
  imports Go_Json_Facts
begin

text \<open>
  \<^verbatim>\<open>base64.StdEncoding\<close>: decoding (line breaks are skipped anywhere, padding is required)
  and encoding of byte strings, with the round trip.
\<close>

definition b64_alphabet :: string where
  "b64_alphabet = ''ABCDEFGHIJKLMNOPQRSTUVWXYZabcdefghijklmnopqrstuvwxyz0123456789+/''"

definition b64_char :: "nat \<Rightarrow> char" where
  "b64_char n = b64_alphabet ! (n mod 64)"

definition b64_val :: "char \<Rightarrow> nat option" where
  "b64_val c =
     (if CHR ''A'' \<le> c \<and> c \<le> CHR ''Z'' then Some (code c - code CHR ''A'')
      else if CHR ''a'' \<le> c \<and> c \<le> CHR ''z'' then Some (code c - code CHR ''a'' + 26)
      else if CHR ''0'' \<le> c \<and> c \<le> CHR ''9'' then Some (code c - code CHR ''0'' + 52)
      else if c = CHR ''+'' then Some 62
      else if c = CHR ''/'' then Some 63
      else None)"

fun b64_dec :: "string \<Rightarrow> string option" where
  "b64_dec [] = Some []"
| "b64_dec (a # b # c # d # r) =
     (case (b64_val a, b64_val b) of
        (Some v1, Some v2) \<Rightarrow>
          (case b64_val c of
             Some v3 \<Rightarrow>
               (case b64_val d of
                  Some v4 \<Rightarrow>
                    map_option (\<lambda>t. char_of (v1 * 4 + v2 div 16) # char_of (v2 mod 16 * 16 + v3 div 4)
                        # char_of (v3 mod 4 * 64 + v4) # t) (b64_dec r)
                | None \<Rightarrow>
                    if d = CHR ''='' \<and> r = []
                    then Some [char_of (v1 * 4 + v2 div 16), char_of (v2 mod 16 * 16 + v3 div 4)]
                    else None)
           | None \<Rightarrow>
               if c = CHR ''='' \<and> d = CHR ''='' \<and> r = []
               then Some [char_of (v1 * 4 + v2 div 16)] else None)
      | _ \<Rightarrow> None)"
| "b64_dec _ = None"

definition DecodeString :: "string \<Rightarrow> string option" where
  "DecodeString s = b64_dec (filter (\<lambda>c. c \<noteq> CHR 0x0A \<and> c \<noteq> CHR 0x0D) s)"

fun b64_enc :: "string \<Rightarrow> string" where
  "b64_enc [] = []"
| "b64_enc [x] = [b64_char (code x div 4), b64_char (code x mod 4 * 16), CHR ''='', CHR ''='']"
| "b64_enc [x, y] =
     [b64_char (code x div 4), b64_char (code x mod 4 * 16 + code y div 16),
      b64_char (code y mod 16 * 4), CHR ''='']"
| "b64_enc (x # y # z # r) =
     b64_char (code x div 4) # b64_char (code x mod 4 * 16 + code y div 16)
     # b64_char (code y mod 16 * 4 + code z div 64) # b64_char (code z mod 64) # b64_enc r"

lemma b64_chars:
  "n < 64 \<Longrightarrow> b64_val (b64_char n) = Some n \<and> b64_char n \<noteq> CHR 0x0A \<and> b64_char n \<noteq> CHR 0x0D"
proof -
  have "\<forall>n \<in> set [0..<64]. b64_val (b64_char n) = Some n
      \<and> b64_char n \<noteq> CHR 0x0A \<and> b64_char n \<noteq> CHR 0x0D"
    by code_simp
  then show "n < 64 \<Longrightarrow> ?thesis" by simp
qed

lemma b64_val_pad [simp]: "b64_val (CHR ''='') = None"
  by (simp add: b64_val_def less_eq_char_def)

lemma code_less_256 [simp]: "code c < 256"
  by (cases c) (simp add: of_char_def horner_sum_simps)

lemma b64_parts:
  "code x div 4 < 64" "code x mod 4 * 16 < 64" "code y mod 16 * 4 < 64"
  "code x mod 4 * 16 + code y div 16 < 64" "code y mod 16 * 4 + code z div 64 < 64"
proof -
  have "code x mod 4 < 4" "code y mod 16 < 16" "code y div 16 < 16" "code z div 64 < 4"
    by (simp_all add: less_mult_imp_div_less)
  moreover have "a < 4 \<Longrightarrow> b < 16 \<Longrightarrow> a * 16 + b < 64" "b < 16 \<Longrightarrow> a < 4 \<Longrightarrow> b * 4 + a < 64"
    for a b :: nat by simp_all
  ultimately show "code x mod 4 * 16 + code y div 16 < 64" "code y mod 16 * 4 + code z div 64 < 64"
    by blast+
  show "code x div 4 < 64" "code x mod 4 * 16 < 64" "code y mod 16 * 4 < 64"
    by (simp_all add: less_mult_imp_div_less)
qed

lemma b64_recombine:
  "code y div 16 div 16 = 0" "code y div 16 mod 16 = code y div 16"
  "code y div 64 div 4 = 0" "code y div 64 mod 4 = code y div 64"
  by (simp_all add: less_mult_imp_div_less)

lemma b64_dec_enc: "b64_dec (b64_enc s) = Some s"
  by (induction s rule: b64_enc.induct) (simp_all add: b64_chars b64_parts b64_recombine)

lemma b64_enc_chars: "list_all (\<lambda>c. c \<noteq> CHR 0x0A \<and> c \<noteq> CHR 0x0D) (b64_enc s)"
  by (induction s rule: b64_enc.induct) (simp_all add: b64_chars b64_parts)

theorem DecodeString_enc: "DecodeString (b64_enc s) = Some s"
proof -
  have "filter (\<lambda>c. c \<noteq> CHR 0x0A \<and> c \<noteq> CHR 0x0D) (b64_enc s) = b64_enc s"
    using b64_enc_chars [of s] by (intro filter_True) (simp add: list_all_iff)
  then show ?thesis by (simp add: DecodeString_def b64_dec_enc)
qed

end
