(* ===== verification/Util.thy ===== *)
theory Util
  imports Common_Types Provider_Config Go_Base64
begin

text \<open>
  Package \<^verbatim>\<open>internal/controller/util\<close>: configuring the OSB client, finalizers, the status
  updates shared by both resources, marshalling of credentials, time stamps. Functions of the
  code that are generic over an interface take the interface's methods as arguments; the
  locales state what an implementation of the interface must satisfy.
\<close>

section \<open>Constants\<close>

definition MetadataPrefix :: string where "MetadataPrefix = ''osb.provider.crossplane.io''"
definition AsyncAnnotation :: string where "AsyncAnnotation = MetadataPrefix @ ''/async''"
definition OriginatingIdentityPlatformName :: string where
  "OriginatingIdentityPlatformName = ''kubernetes''"

section \<open>Time stamps\<close>

definition TimeNow :: "'w runtime \<Rightarrow> 'w \<Rightarrow> string \<times> 'w" where
  "TimeNow R w = (case time_Now R w of (t, w') \<Rightarrow> (time_Format t, w'))"

definition ParseISO8601Time :: "string \<Rightarrow> string \<Rightarrow> go_error + gotime" where
  "ParseISO8601Time v field =
     (case time_Parse v of
        None \<Rightarrow> Inl (Errorf (UtilErr u_errParseISO8601Time)
                  [Txt field, Sprint (Some (ErrStd (TimeParseError v)))])
      | Some t \<Rightarrow> Inr t)"

section \<open>Basic authentication\<close>

text \<open>
  \<^verbatim>\<open>json.Unmarshal\<close> into \<^verbatim>\<open>struct{User, Password string}\<close>: a member sets the field whose
  name equals its key up to case folding (which also identifies the long s and the Kelvin
  sign with their ASCII letters); null and unknown members change nothing, another kind of
  value for a field is an UnmarshalTypeError. Numbers are never converted here.
\<close>

fun fold_name :: "string \<Rightarrow> string" where
  "fold_name [] = []"
| "fold_name (c # cs) =
     (if code c = 0xC5 \<and> cs \<noteq> [] \<and> code (hd cs) = 0xBF then CHR ''S'' # fold_name (tl cs)
      else if code c = 0xE2 \<and> 2 \<le> length cs \<and> code (hd cs) = 0x84 \<and> code (cs ! 1) = 0xAA
        then CHR ''K'' # fold_name (drop 2 cs)
      else if CHR ''a'' \<le> c \<and> c \<le> CHR ''z'' then char_of (code c - 32) # fold_name cs
      else c # fold_name cs)"

record BasicAuthConfig =
  ba_Username :: string
  ba_Password :: string

definition set_string :: "gany \<Rightarrow> string \<Rightarrow> string option" where
  "set_string v old = (case v of AStr s \<Rightarrow> Some s | ANull \<Rightarrow> Some old | _ \<Rightarrow> None)"

fun auth_members :: "(string \<times> gany) list \<Rightarrow> BasicAuthConfig \<Rightarrow> BasicAuthConfig option" where
  "auth_members [] a = Some a"
| "auth_members ((k, v) # ms) a =
     (if fold_name k = ''USER'' then
        (case set_string v (ba_Username a) of
           None \<Rightarrow> None | Some s \<Rightarrow> auth_members ms (a\<lparr>ba_Username := s\<rparr>))
      else if fold_name k = ''PASSWORD'' then
        (case set_string v (ba_Password a) of
           None \<Rightarrow> None | Some s \<Rightarrow> auth_members ms (a\<lparr>ba_Password := s\<rparr>))
      else auth_members ms a)"

definition unmarshal_auth :: "string \<Rightarrow> BasicAuthConfig option" where
  "unmarshal_auth s =
     (case parse_doc Some s of
        Some (AObj ms) \<Rightarrow> auth_members ms \<lparr> ba_Username = [], ba_Password = [] \<rparr>
      | Some ANull \<Rightarrow> Some \<lparr> ba_Username = [], ba_Password = [] \<rparr>
      | _ \<Rightarrow> None)"

definition decodeB64StringToBasicAuthConfig :: "string \<Rightarrow> go_error + BasicAuthConfig" where
  "decodeB64StringToBasicAuthConfig s =
     (if s = [] then Inl (Sentinel (UtilErr u_errBase64StringCannotBeEmpty))
      else case DecodeString s of
             None \<Rightarrow> Inl (ErrStd Base64Error)
           | Some data \<Rightarrow>
               (case unmarshal_auth data of
                  None \<Rightarrow> Inl (ErrStd JsonUnmarshalError)
                | Some auth \<Rightarrow> Inr auth))"

section \<open>The OSB client\<close>

text \<open>
  \<open>'av\<close> is the type of API versions, \<open>'r\<close> that of the settings the code leaves at their
  defaults, \<open>'cl\<close> that of clients; a missing key of the version map gives the zero version.
\<close>

record ('av, 'r) ClientConfiguration =
  cc_URL :: string
  cc_APIVersion :: 'av
  cc_TimeoutSeconds :: int
  cc_AuthConfig :: "BasicAuthConfig option"
  cc_rest :: 'r

record ('av, 'r, 'cl) osb_factory =
  DefaultClientConfiguration :: "('av, 'r) ClientConfiguration"
  APIVersions :: "'av gomap"
  APIVersion_zero :: 'av
  NewClient :: "('av, 'r) ClientConfiguration \<Rightarrow> go_error + 'cl"

definition client_config ::
  "('av, 'r, 'cl) osb_factory \<Rightarrow> OsbConfig \<Rightarrow> ('av, 'r) ClientConfiguration" where
  "client_config F conf =
     (DefaultClientConfiguration F)
       \<lparr> cc_URL := GetBrokerURL conf,
         cc_APIVersion := (case map_get (APIVersions F) (GetOSBVersion conf) of
                             Some v \<Rightarrow> v | None \<Rightarrow> APIVersion_zero F),
         cc_TimeoutSeconds := GetTimeout conf \<rparr>"

definition new_client ::
  "('av, 'r, 'cl) osb_factory \<Rightarrow> OsbConfig \<Rightarrow> string \<Rightarrow> go_error + 'cl" where
  "new_client F conf creds =
     (let config = client_config F conf in
      if length creds > 0 then
        (case decodeB64StringToBasicAuthConfig creds of
           Inl err \<Rightarrow> Inl (wrap (UtilErr u_errCannotDecodeBasicAuth) err)
         | Inr basicAuth \<Rightarrow> NewClient F (config\<lparr>cc_AuthConfig := Some basicAuth\<rparr>))
      else NewClient F config)"

definition NewOsbClient ::
  "('av, 'r, 'cl) osb_factory \<Rightarrow> 'sel provider_config \<Rightarrow> string \<Rightarrow> go_error + 'cl" where
  "NewOsbClient F pc creds =
     (case pc of
        PC c \<Rightarrow> new_client F (pc_as_OsbConfig c) creds
      | CPC c \<Rightarrow> new_client F (cpc_as_OsbConfig c) creds
      | OtherPC \<Rightarrow> Inl (Errorf (UtilErr u_errUnsupportedProviderType) []))  \<comment> \<open>the printed configuration is left out\<close>"

definition MakeOriginatingIdentityFromValue ::
  "('m, 's) crossplane \<Rightarrow> KubernetesOSBOriginatingIdentityValue \<Rightarrow> go_error + OriginatingIdentity" where
  "MakeOriginatingIdentityFromValue X val =
     (case enc (identity_doc X val) of
        None \<Rightarrow> Inl (ErrStd JsonMarshalError)
      | Some v \<Rightarrow> Inr \<lparr> oid_Platform = OriginatingIdentityPlatformName, oid_Value = v \<rparr>)"

definition IsResourceGone :: "('ep, 'vm) osb_pkg \<Rightarrow> go_error \<Rightarrow> bool" where
  "IsResourceGone P err =
     (case IsHTTPError P err of
        Some status \<Rightarrow> status = 410 \<or> status = 404
      | None \<Rightarrow> False)"

section \<open>Finalizers\<close>

text \<open>
  \<^verbatim>\<open>metav1.Object\<close>: an object through the accessors \<open>getm\<close> and \<open>setm\<close> of its metadata.
\<close>

definition AddFinalizerIfNotExists ::
  "('m, 's) crossplane \<Rightarrow> ('o \<Rightarrow> 'm) \<Rightarrow> ('m \<Rightarrow> 'o \<Rightarrow> 'o) \<Rightarrow> 'o \<Rightarrow> string \<Rightarrow> bool \<times> 'o" where
  "AddFinalizerIfNotExists X getm setm obj f =
     (if \<not> meta_FinalizerExists X (getm obj) f
      then (True, setm (meta_AddFinalizer X (getm obj) f) obj)
      else (False, obj))"

definition RemoveFinalizerIfExists ::
  "('m, 's) crossplane \<Rightarrow> ('o \<Rightarrow> 'm) \<Rightarrow> ('m \<Rightarrow> 'o \<Rightarrow> 'o) \<Rightarrow> 'o \<Rightarrow> string \<Rightarrow> bool \<times> 'o" where
  "RemoveFinalizerIfExists X getm setm obj f =
     (if meta_FinalizerExists X (getm obj) f
      then (True, setm (meta_RemoveFinalizer X (getm obj) f) obj)
      else (False, obj))"

definition HandleFinalizer ::
  "('o, 'w) kube_client \<Rightarrow> 'o \<Rightarrow> string \<Rightarrow> ('o \<Rightarrow> string \<Rightarrow> bool \<times> 'o) \<Rightarrow> 'w
     \<Rightarrow> go_error option \<times> 'o \<times> 'w" where
  "HandleFinalizer kube obj f finalizerMod w =
     (case finalizerMod obj f of
        (changed, obj') \<Rightarrow> if changed then kube_Update kube obj' w else (None, obj', w))"

definition GetLatestKubeObject ::
  "('m, 's) crossplane \<Rightarrow> ('o \<Rightarrow> 'm) \<Rightarrow> ('o, 'w) kube_client \<Rightarrow> 'o \<Rightarrow> 'w
     \<Rightarrow> go_error option \<times> 'o \<times> 'w" where
  "GetLatestKubeObject X getm kube obj w =
     (case kube_Get kube (meta_GetNamespace X (getm obj)) (meta_GetName X (getm obj)) obj w of
        (Some err, obj', w') \<Rightarrow> (Some (wrap (UtilErr u_errCannotGetResource) err), obj', w')
      | (None, obj', w') \<Rightarrow> (None, obj', w'))"

lemma current_latest: "kube_current X getm kube ob \<Longrightarrow> \<exists>w'. GetLatestKubeObject X getm kube ob w = (None, ob, w')"
  unfolding kube_current_def GetLatestKubeObject_def by (metis (mono_tags, lifting) case_prod_conv option.case(1))

lemma HandleFinalizer_updated:
  assumes "kube_updates_metadata X getm kube"
  shows "\<exists>ob' w'. HandleFinalizer kube ob f m w = (None, ob', w')
     \<and> (\<forall>g. meta_FinalizerExists X (getm ob') g = meta_FinalizerExists X (getm (snd (m ob f))) g)
     \<and> meta_GetExternalName X (getm ob') = meta_GetExternalName X (getm (snd (m ob f)))"
  using assms unfolding kube_updates_metadata_def HandleFinalizer_def by (cases "m ob f") auto

locale object_meta =
  fixes getm :: "'o \<Rightarrow> 'm" and setm :: "'m \<Rightarrow> 'o \<Rightarrow> 'o"
  assumes getm_setm [simp]: "getm (setm m ob) = m"
    and setm_getm [simp]: "setm (getm ob) ob = ob"
begin

lemma add_finalizer_present:
  assumes "finalizer_laws X"
  shows "meta_FinalizerExists X (getm (snd (AddFinalizerIfNotExists X getm setm ob f))) f"
  using assms by (auto simp: AddFinalizerIfNotExists_def finalizer_laws_def)

lemma remove_finalizer_absent:
  assumes "finalizer_laws X"
  shows "\<not> meta_FinalizerExists X (getm (snd (RemoveFinalizerIfExists X getm setm ob f))) f"
  using assms by (auto simp: RemoveFinalizerIfExists_def finalizer_laws_def)

text \<open>The result says whether the object changed, and other finalizers are kept.\<close>

lemma add_finalizer_iff:
  "fst (AddFinalizerIfNotExists X getm setm ob f) \<longleftrightarrow> \<not> meta_FinalizerExists X (getm ob) f"
  "\<not> fst (AddFinalizerIfNotExists X getm setm ob f) \<Longrightarrow>
     snd (AddFinalizerIfNotExists X getm setm ob f) = ob"
  by (auto simp: AddFinalizerIfNotExists_def)

lemma remove_finalizer_iff:
  "fst (RemoveFinalizerIfExists X getm setm ob f) \<longleftrightarrow> meta_FinalizerExists X (getm ob) f"
  "\<not> fst (RemoveFinalizerIfExists X getm setm ob f) \<Longrightarrow>
     snd (RemoveFinalizerIfExists X getm setm ob f) = ob"
  by (auto simp: RemoveFinalizerIfExists_def)

text \<open>Doing it twice is doing it once: the second call asks for no update.\<close>

lemma add_finalizer_twice:
  assumes "finalizer_laws X"
  shows "AddFinalizerIfNotExists X getm setm (snd (AddFinalizerIfNotExists X getm setm ob f)) f
       = (False, snd (AddFinalizerIfNotExists X getm setm ob f))"
  using add_finalizer_present [OF assms, of ob f] by (simp add: AddFinalizerIfNotExists_def)

lemma remove_finalizer_twice:
  assumes "finalizer_laws X"
  shows "RemoveFinalizerIfExists X getm setm (snd (RemoveFinalizerIfExists X getm setm ob f)) f
       = (False, snd (RemoveFinalizerIfExists X getm setm ob f))"
  using remove_finalizer_absent [OF assms, of ob f] by (simp add: RemoveFinalizerIfExists_def)

lemma remove_after_add:
  assumes "finalizer_laws X"
  shows "meta_FinalizerExists X
      (getm (snd (RemoveFinalizerIfExists X getm setm
         (snd (AddFinalizerIfNotExists X getm setm ob f)) f))) g
    \<longleftrightarrow> g \<noteq> f \<and> meta_FinalizerExists X (getm ob) g"
  using assms by (auto simp: AddFinalizerIfNotExists_def RemoveFinalizerIfExists_def finalizer_laws_def)

end

section \<open>Status of the last operation\<close>

text \<open>
  \<^verbatim>\<open>UpdateStatusFromLastOp\<close> and \<^verbatim>\<open>HandleAsyncStatus\<close> are generic over interfaces with
  setters; the setters are arguments.
\<close>

definition UpdateStatusFromLastOp ::
  "('m, 's) crossplane \<Rightarrow> (LastOperationState \<Rightarrow> 'o \<Rightarrow> 'o) \<Rightarrow> (string \<Rightarrow> 'o \<Rightarrow> 'o)
     \<Rightarrow> (condition list \<Rightarrow> 'o \<Rightarrow> 'o) \<Rightarrow> 'o \<Rightarrow> LastOperationResponse \<Rightarrow> 'o" where
  "UpdateStatusFromLastOp X setState setDesc setConds obj resp =
     (let o1 = setState (lo_State resp) obj;
          o2 = (case lo_Description resp of Some d \<Rightarrow> setDesc d o1 | None \<Rightarrow> o1)
      in case lo_State resp of
           StateSucceeded \<Rightarrow> setConds [xp_Available X] o2
         | StateInProgress \<Rightarrow> setConds [xp_Unavailable X] o2
         | StateDeleting \<Rightarrow> setConds [xp_Unavailable X] o2
         | StateFailed \<Rightarrow> setConds [xp_Unavailable X] o2
         | StateOther _ \<Rightarrow> o2)"

definition HandleAsyncStatus ::
  "(LastOperationState \<Rightarrow> 'o \<Rightarrow> 'o) \<Rightarrow> (OperationKey \<Rightarrow> 'o \<Rightarrow> 'o) \<Rightarrow> 'o \<Rightarrow> OperationKey option \<Rightarrow> 'o" where
  "HandleAsyncStatus setState setKey obj operationKey =
     (let o1 = (case operationKey of Some k \<Rightarrow> setKey k obj | None \<Rightarrow> obj)
      in setState StateInProgress o1)"

locale state_setter =
  fixes setState :: "LastOperationState \<Rightarrow> 'o \<Rightarrow> 'o" and getState :: "'o \<Rightarrow> LastOperationState"
  assumes state_set [simp]: "getState (setState st ob) = st"

text \<open>The interface \<^verbatim>\<open>LastOperationStatusSetter\<close>.\<close>

locale last_op_setter = state_setter setState getState
  for setState :: "LastOperationState \<Rightarrow> 'o \<Rightarrow> 'o" and getState :: "'o \<Rightarrow> LastOperationState" +
  fixes setDesc :: "string \<Rightarrow> 'o \<Rightarrow> 'o" and getDesc :: "'o \<Rightarrow> string"
    and setConds :: "('m, 's) crossplane \<Rightarrow> condition list \<Rightarrow> 'o \<Rightarrow> 'o" and getStatus :: "'o \<Rightarrow> 's"
  assumes desc_set [simp]: "getDesc (setDesc d ob) = d"
    and conds_set [simp]: "getStatus (setConds X cs ob) = xp_SetConditions X (getStatus ob) cs"
    and state_frame [simp]: "getState (setDesc d ob) = getState ob" "getState (setConds X cs ob) = getState ob"
    and desc_frame [simp]: "getDesc (setState st ob) = getDesc ob" "getDesc (setConds X cs ob) = getDesc ob"
    and status_frame [simp]: "getStatus (setState st ob) = getStatus ob" "getStatus (setDesc d ob) = getStatus ob"
begin

abbreviation "upd X \<equiv> UpdateStatusFromLastOp X setState setDesc (setConds X)"

text \<open>The broker's state and description are recorded; no description keeps the old one.\<close>

lemma upd_state: "getState (upd X ob resp) = lo_State resp"
  by (simp add: UpdateStatusFromLastOp_def Let_def split: LastOperationState.split option.split)

lemma upd_desc:
  "getDesc (upd X ob resp) = (case lo_Description resp of Some d \<Rightarrow> d | None \<Rightarrow> getDesc ob)"
  by (simp add: UpdateStatusFromLastOp_def Let_def split: LastOperationState.split option.split)

text \<open>The resource is ready after the update exactly when the operation has succeeded.\<close>

lemma upd_ready:
  assumes "condition_laws X" and "\<nexists>t. lo_State resp = StateOther t"
  shows "c_Status (xp_GetCondition X (getStatus (upd X ob resp)) TypeReady)
       = (if lo_State resp = StateSucceeded then ConditionTrue else ConditionFalse)"
proof -
  have set: "c_Status (xp_GetCondition X (xp_SetConditions X s [c]) TypeReady) = c_Status c"
    if "c_Type c = TypeReady" for s c
    using assms(1) that by (metis condition_laws_def)
  show ?thesis
    using assms
    by (cases "lo_State resp"; cases "lo_Description resp")
      (auto simp: UpdateStatusFromLastOp_def Let_def set condition_laws_def)
qed

end

text \<open>The interface \<^verbatim>\<open>HandleAsyncStatusSetter\<close>.\<close>

locale async_setter = state_setter setState getState
  for setState :: "LastOperationState \<Rightarrow> 'o \<Rightarrow> 'o" and getState :: "'o \<Rightarrow> LastOperationState" +
  fixes setKey :: "OperationKey \<Rightarrow> 'o \<Rightarrow> 'o" and getKey :: "'o \<Rightarrow> OperationKey"
  assumes key_set [simp]: "getKey (setKey k ob) = k"
    and key_frame [simp]: "getKey (setState st ob) = getKey ob"
begin

lemma async_state: "getState (HandleAsyncStatus setState setKey ob k) = StateInProgress"
  by (simp add: HandleAsyncStatus_def)

lemma async_key:
  "getKey (HandleAsyncStatus setState setKey ob k) = (case k of Some x \<Rightarrow> x | None \<Rightarrow> getKey ob)"
  by (simp add: HandleAsyncStatus_def split: option.split)

end

section \<open>Marshalling credentials\<close>

text \<open>
  The range loops store one marshalled value per entry into a new map and stop at the first
  value that cannot be marshalled. Their entries come in the order the loop visits them.
\<close>

fun MarshalMapValues_loop :: "(string \<times> gany) list \<Rightarrow> string gomap \<Rightarrow> go_error + string gomap" where
  "MarshalMapValues_loop [] output = Inr output"
| "MarshalMapValues_loop ((k, v) # kvs) output =
     (case enc v of
        None \<Rightarrow> Inl (Errorf (UtilErr u_errMarshalMapValue)
                  [Txt k, Sprint (Some (ErrStd JsonMarshalError))])
      | Some b \<Rightarrow> MarshalMapValues_loop kvs (map_put k b output))"

definition MarshalMapValues ::
  "'w runtime \<Rightarrow> gany gomap option \<Rightarrow> 'w \<Rightarrow> go_error + string gomap" where
  "MarshalMapValues R input w =
     MarshalMapValues_loop (range_order R w (case input of None \<Rightarrow> [] | Some m \<Rightarrow> m)) []"

fun GetCredsFromResponse_loop :: "(string \<times> gany) list \<Rightarrow> string gomap \<Rightarrow> go_error + string gomap" where
  "GetCredsFromResponse_loop [] creds = Inr creds"
| "GetCredsFromResponse_loop ((key, v) # kvs) creds =
     (case enc v of
        None \<Rightarrow> Inl (Errorf (UtilErr u_errMarshalCredential)
                  [Txt key, Sprint (Some (ErrStd JsonMarshalError))])
      | Some data \<Rightarrow> GetCredsFromResponse_loop kvs (map_put key data creds))"

definition GetCredsFromResponse ::
  "'w runtime \<Rightarrow> ('ep, 'vm) BindResponse \<Rightarrow> 'w \<Rightarrow> go_error + string gomap" where
  "GetCredsFromResponse R resp w =
     GetCredsFromResponse_loop (range_order R w (case b_Credentials resp of None \<Rightarrow> [] | Some m \<Rightarrow> m)) []"

text \<open>A nil map of credentials gives nil connection details.\<close>

definition MarshalBindingCredentials ::
  "'w runtime \<Rightarrow> ('ep, 'vm) GetBindingResponse \<Rightarrow> 'w \<Rightarrow> go_error + string gomap option" where
  "MarshalBindingCredentials R resp w =
     (case gb_Credentials resp of
        None \<Rightarrow> Inr None
      | Some creds \<Rightarrow>
          (case MarshalMapValues R (Some creds) w of
             Inl err \<Rightarrow> Inl err
           | Inr credentialsJson \<Rightarrow> Inr (Some credentialsJson)))"

text \<open>What the loops compute: every value marshalled under its key.\<close>

definition marshalled :: "gany gomap \<Rightarrow> string gomap" where
  "marshalled m = map (\<lambda>(k, v). (k, the (enc v))) m"

lemma map_ok_marshalled: "map_ok m \<Longrightarrow> map_ok (marshalled m)"
  by (simp add: map_ok_def marshalled_def comp_def case_prod_beta)

text \<open>Both loops are one fold of \<open>map_put\<close>, and fail exactly on an unsupported value.\<close>

lemma MarshalMapValues_loop_ok:
  "\<forall>kv \<in> set kvs. enc (snd kv) \<noteq> None \<Longrightarrow>
     MarshalMapValues_loop kvs out
       = Inr (fold (\<lambda>(k, v) m. map_put k v m) (map (\<lambda>(k, v). (k, the (enc v))) kvs) out)"
  by (induction kvs out rule: MarshalMapValues_loop.induct) auto

lemma MarshalMapValues_loop_err:
  "\<exists>kv \<in> set kvs. enc (snd kv) = None \<Longrightarrow>
     \<exists>k v. (k, v) \<in> set kvs \<and> enc v = None
       \<and> MarshalMapValues_loop kvs out
           = Inl (Errorf (UtilErr u_errMarshalMapValue) [Txt k, Sprint (Some (ErrStd JsonMarshalError))])"
proof (induction kvs out rule: MarshalMapValues_loop.induct)
  case (2 key v kvs out)
  then show ?case by (cases "enc v") (simp_all, blast+)
qed simp

lemma GetCredsFromResponse_loop_ok:
  "\<forall>kv \<in> set kvs. enc (snd kv) \<noteq> None \<Longrightarrow>
     GetCredsFromResponse_loop kvs out
       = Inr (fold (\<lambda>(k, v) m. map_put k v m) (map (\<lambda>(k, v). (k, the (enc v))) kvs) out)"
  by (induction kvs out rule: GetCredsFromResponse_loop.induct) auto

lemma GetCredsFromResponse_loop_err:
  "\<exists>kv \<in> set kvs. enc (snd kv) = None \<Longrightarrow>
     \<exists>k v. (k, v) \<in> set kvs \<and> enc v = None
       \<and> GetCredsFromResponse_loop kvs out
           = Inl (Errorf (UtilErr u_errMarshalCredential) [Txt k, Sprint (Some (ErrStd JsonMarshalError))])"
proof (induction kvs out rule: GetCredsFromResponse_loop.induct)
  case (2 key v kvs out)
  then show ?case by (cases "enc v") (simp_all, blast+)
qed simp

text \<open>Whatever the order of a permutation of the entries, the map built is the same.\<close>

lemma fold_marshalled:
  assumes "map_ok m" and "mset kvs = mset m"
  shows "fold (\<lambda>(k, v) m. map_put k v m) (map (\<lambda>(k, v). (k, the (enc v))) kvs) [] = marshalled m"
proof -
  have d: "distinct (map fst (map (\<lambda>(k, v). (k, the (enc v))) m))"
    using assms(1) by (simp add: map_ok_def strict_sorted_iff comp_def case_prod_beta)
  have "mset (map (\<lambda>(k, v). (k, the (enc v))) kvs) = mset (map (\<lambda>(k, v). (k, the (enc v))) m)"
    using assms(2) by simp
  then have "map_build (map (\<lambda>(k, v). (k, the (enc v))) kvs) = map_build (marshalled m)"
    using d unfolding marshalled_def by (intro map_build_perm [symmetric]) simp_all
  then show ?thesis
    using map_ok_marshalled [OF assms(1)] by (simp add: map_build_def [symmetric] map_build_id)
qed

lemma MarshalMapValues_Inr:
  assumes "range_laws R" and "map_ok m" and "\<forall>kv \<in> set m. \<not> has_other (snd kv)"
  shows "MarshalMapValues R (Some m) w = Inr (marshalled m)"
proof -
  have "\<forall>kv \<in> set (range_order R w m). enc (snd kv) \<noteq> None"
    using assms(1,3) by (simp add: range_laws_def enc_None_iff flip: set_mset_mset)
  then show ?thesis
    using assms(1,2)
    by (simp add: MarshalMapValues_def MarshalMapValues_loop_ok fold_marshalled range_laws_def)
qed

lemma GetCredsFromResponse_Inr:
  assumes "range_laws R" and "b_Credentials resp = Some m" and "map_ok m"
    and "\<forall>kv \<in> set m. \<not> has_other (snd kv)"
  shows "GetCredsFromResponse R resp w = Inr (marshalled m)"
proof -
  have "\<forall>kv \<in> set (range_order R w m). enc (snd kv) \<noteq> None"
    using assms(1,4) by (simp add: range_laws_def enc_None_iff flip: set_mset_mset)
  then show ?thesis
    using assms(1,2,3)
    by (simp add: GetCredsFromResponse_def GetCredsFromResponse_loop_ok fold_marshalled range_laws_def)
qed

section \<open>Resolving the provider configuration\<close>

record ProviderConfigReference =
  ref_Name :: string
  ref_Kind :: string

text \<open>\<^verbatim>\<open>kube.Get\<close> of the two kinds of configuration, into a fresh object.\<close>

record ('sel, 'w) config_reader =
  get_ProviderConfig :: "string \<Rightarrow> string \<Rightarrow> 'w \<Rightarrow> go_error option \<times> 'sel ProviderConfig \<times> 'w"
  get_ClusterProviderConfig :: "string \<Rightarrow> 'w \<Rightarrow> go_error option \<times> 'sel ClusterProviderConfig \<times> 'w"

definition ResolveProviderConfig ::
  "('sel, 'w) config_reader \<Rightarrow> string \<Rightarrow> string \<Rightarrow> ProviderConfigReference option \<Rightarrow> 'w
     \<Rightarrow> (go_error + 'sel provider_config \<times> 'sel ProviderConfigSpec) \<times> 'w" where
  "ResolveProviderConfig K ns name ref w =
     (case ref of
        None \<Rightarrow> (Inl (Errorf (UtilErr u_errNoProviderConfigReference) [Txt ns, Txt name]), w)
      | Some r \<Rightarrow>
          if ref_Kind r = ProviderConfigKind then
            (case get_ProviderConfig K ns (ref_Name r) w of
               (Some err, _, w') \<Rightarrow>
                 (Inl (Errorf (UtilErr u_errCannotGetProviderConfig)
                    [Txt (ref_Name r), Txt ns, Sprint (Some err)]), w')
             | (None, npc, w') \<Rightarrow> (Inr (PC npc, pc_Spec npc), w'))
          else if ref_Kind r = ClusterProviderConfigKind then
            (case get_ClusterProviderConfig K (ref_Name r) w of
               (Some err, _, w') \<Rightarrow> (Inl (wrap (UtilErr u_errCannotGetClusterProviderConfig) err), w')
             | (None, cpc, w') \<Rightarrow> (Inr (CPC cpc, cpc_Spec cpc), w'))
          else (Inl (Errorf (UtilErr u_errUnknownProviderConfigKind) [Txt (ref_Kind r)]), w))"

end
