(* ===== verification/Service_Binding.thy ===== *)
theory Service_Binding
  imports Util
begin

text \<open>
  The resource \<^verbatim>\<open>ServiceBinding\<close> (\<^verbatim>\<open>apis/binding/v1alpha1\<close>): its data, the accessors of
  its status, the requests it builds for the broker, the conversions between broker
  responses, the observed state and the specification. The operations that call the broker
  are in \<^theory_text>\<open>Binding_Operations\<close>.

  \<open>'m\<close> is the type of object metadata, \<open>'s\<close> of the resource status with the conditions, \<open>'q\<close>
  of the rest of the managed resource specification. Methods that only read the receiver
  return a value; those that write it return the new receiver.
\<close>

section \<open>Data\<close>

record BindResource =
  bres_AppGuid :: string
  bres_Route :: string

record ServiceBindingParameters =
  sbp_AppGuid :: string
  sbp_InstanceId :: string
  sbp_PlanId :: string
  sbp_ServiceId :: string
  sbp_Context :: KubernetesOSBContext
  sbp_Parameters :: SerializableParameters
  sbp_BindResource :: BindResource

type_synonym SerializableEndpoints = string
type_synonym SerializableVolumeMounts = string

record ServiceBindingObservation =
  sbo_Parameters :: SerializableParameters
  sbo_RouteServiceURL :: "string option"
  sbo_Endpoints :: SerializableEndpoints
  sbo_VolumeMounts :: SerializableVolumeMounts
  sbo_SyslogDrainURL :: "string option"
  sbo_Metadata :: "BindingMetadata option"
  sbo_LastOperationState :: LastOperationState
  sbo_LastOperationKey :: OperationKey
  sbo_LastOperationDescription :: string
  sbo_LastOperationPolledTime :: string

record 'q ManagedResourceSpec =
  mrs_ProviderConfigReference :: "ProviderConfigReference option"
  mrs_rest :: 'q

record 'q ServiceBindingSpec =
  sbs_Managed :: "'q ManagedResourceSpec"
  sbs_ForProvider :: ServiceBindingParameters

record 's ServiceBindingStatus =
  sbst_ResourceStatus :: 's
  sbst_AtProvider :: ServiceBindingObservation

record ('m, 's, 'q) ServiceBinding =
  sb_ObjectMeta :: 'm
  sb_Spec :: "'q ServiceBindingSpec"
  sb_Status :: "'s ServiceBindingStatus"

record ('ep, 'vm) responseData =
  rd_Parameters :: "gany gomap option"
  rd_Endpoints :: "'ep list option"
  rd_VolumeMounts :: "'vm list option"
  rd_RouteServiceURL :: "string option"
  rd_SyslogDrainURL :: "string option"
  rd_Metadata :: "BindingMetadata option"

abbreviation sb_ForProvider :: "('m, 's, 'q) ServiceBinding \<Rightarrow> ServiceBindingParameters" where
  "sb_ForProvider sb \<equiv> sbs_ForProvider (sb_Spec sb)"

abbreviation sb_AtProvider :: "('m, 's, 'q) ServiceBinding \<Rightarrow> ServiceBindingObservation" where
  "sb_AtProvider sb \<equiv> sbst_AtProvider (sb_Status sb)"

text \<open>The empty state of a fresh observation: the zero value of the string type.\<close>

abbreviation "LastOperationState_zero \<equiv> StateOther []"

definition bindingMetadataPrefix :: string where
  "bindingMetadataPrefix = ''binding.'' @ MetadataPrefix"

definition sb_referenceFinalizerName :: string where
  "sb_referenceFinalizerName = bindingMetadataPrefix @ ''/service-binding''"

definition sb_asyncDeletionFinalizer :: string where
  "sb_asyncDeletionFinalizer = bindingMetadataPrefix @ ''/async-deletion''"

section \<open>Serialized lists\<close>

text \<open>
  Decoding starts from an empty slice, which the document null replaces by the nil slice
  (inner None). Numbers reach the structures as they are written.
\<close>

definition decode_slice :: "(gany \<Rightarrow> 'a option) \<Rightarrow> string option \<Rightarrow> go_error + 'a list option" where
  "decode_slice item v =
     (case v of
        None \<Rightarrow> Inr (Some [])
      | Some t \<Rightarrow>
          if length t = 0 then Inr (Some [])
          else (case parse_doc Some t of
                  Some ANull \<Rightarrow> Inr None
                | Some (AArr vs) \<Rightarrow>
                    (case all_some (map item vs) of
                       Some xs \<Rightarrow> Inr (Some xs)
                     | None \<Rightarrow> Inl (ErrStd JsonUnmarshalError))
                | _ \<Rightarrow> Inl (ErrStd JsonUnmarshalError)))"

definition ToVolumeMounts ::
  "('ep, 'vm) osb_pkg \<Rightarrow> SerializableVolumeMounts option \<Rightarrow> go_error + 'vm list option" where
  "ToVolumeMounts P v = decode_slice (VolumeMount_of_json P) v"

definition ToEndpoints ::
  "('ep, 'vm) osb_pkg \<Rightarrow> SerializableEndpoints option \<Rightarrow> go_error + 'ep list option" where
  "ToEndpoints P v = decode_slice (Endpoint_of_json P) v"

definition SerializableEndpoints_String :: "SerializableEndpoints option \<Rightarrow> string" where
  "SerializableEndpoints_String v = (case v of None \<Rightarrow> [] | Some t \<Rightarrow> t)"

section \<open>Accessors\<close>

definition sb_set_ObjectMeta :: "'m \<Rightarrow> ('m, 's, 'q) ServiceBinding \<Rightarrow> ('m, 's, 'q) ServiceBinding" where
  [go_defs]: "sb_set_ObjectMeta m sb = sb\<lparr>sb_ObjectMeta := m\<rparr>"

definition setAtProvider ::
  "('m, 's, 'q) ServiceBinding \<Rightarrow> ServiceBindingObservation
     \<Rightarrow> go_error option \<times> ('m, 's, 'q) ServiceBinding" where
  [go_defs]: "setAtProvider sb observation =
     (None, sb\<lparr>sb_Status := (sb_Status sb)\<lparr>sbst_AtProvider := observation\<rparr>\<rparr>)"

definition sb_SetConditions ::
  "('m, 's) crossplane \<Rightarrow> condition list \<Rightarrow> ('m, 's, 'q) ServiceBinding \<Rightarrow> ('m, 's, 'q) ServiceBinding" where
  [go_defs]: "sb_SetConditions X c sb =
     sb\<lparr>sb_Status := (sb_Status sb)
        \<lparr>sbst_ResourceStatus := xp_SetConditions X (sbst_ResourceStatus (sb_Status sb)) c\<rparr>\<rparr>"

definition sb_SetLastOperationState ::
  "LastOperationState \<Rightarrow> ('m, 's, 'q) ServiceBinding \<Rightarrow> ('m, 's, 'q) ServiceBinding" where
  [go_defs]: "sb_SetLastOperationState st sb =
     sb\<lparr>sb_Status := (sb_Status sb)
        \<lparr>sbst_AtProvider := (sb_AtProvider sb)\<lparr>sbo_LastOperationState := st\<rparr>\<rparr>\<rparr>"

definition sb_SetLastOperationDescription ::
  "string \<Rightarrow> ('m, 's, 'q) ServiceBinding \<Rightarrow> ('m, 's, 'q) ServiceBinding" where
  [go_defs]: "sb_SetLastOperationDescription desc sb =
     sb\<lparr>sb_Status := (sb_Status sb)
        \<lparr>sbst_AtProvider := (sb_AtProvider sb)\<lparr>sbo_LastOperationDescription := desc\<rparr>\<rparr>\<rparr>"

text \<open>The method dereferences a pointer to the key; its only caller passes one that is not nil.\<close>

definition sb_SetLastOperationKey ::
  "OperationKey \<Rightarrow> ('m, 's, 'q) ServiceBinding \<Rightarrow> ('m, 's, 'q) ServiceBinding" where
  [go_defs]: "sb_SetLastOperationKey operationKey sb =
     sb\<lparr>sb_Status := (sb_Status sb)
        \<lparr>sbst_AtProvider := (sb_AtProvider sb)\<lparr>sbo_LastOperationKey := operationKey\<rparr>\<rparr>\<rparr>"

definition sb_set_PolledTime ::
  "string \<Rightarrow> ('m, 's, 'q) ServiceBinding \<Rightarrow> ('m, 's, 'q) ServiceBinding" where
  [go_defs]: "sb_set_PolledTime t sb =
     sb\<lparr>sb_Status := (sb_Status sb)
        \<lparr>sbst_AtProvider := (sb_AtProvider sb)\<lparr>sbo_LastOperationPolledTime := t\<rparr>\<rparr>\<rparr>"

definition sb_IsStateInProgress :: "('m, 's, 'q) ServiceBinding \<Rightarrow> bool" where
  "sb_IsStateInProgress sb \<longleftrightarrow> sbo_LastOperationState (sb_AtProvider sb) = StateInProgress"

definition sb_IsExternalNameEmpty :: "('m, 's) crossplane \<Rightarrow> ('m, 's, 'q) ServiceBinding \<Rightarrow> bool" where
  "sb_IsExternalNameEmpty X sb \<longleftrightarrow> meta_GetExternalName X (sb_ObjectMeta sb) = []"

definition sb_GetExternalName :: "('m, 's) crossplane \<Rightarrow> ('m, 's, 'q) ServiceBinding \<Rightarrow> string" where
  [go_defs]: "sb_GetExternalName X sb = meta_GetExternalName X (sb_ObjectMeta sb)"

definition sb_SetExternalName ::
  "('m, 's) crossplane \<Rightarrow> ('m, 's, 'q) ServiceBinding \<Rightarrow> string \<Rightarrow> ('m, 's, 'q) ServiceBinding" where
  [go_defs]: "sb_SetExternalName X sb uuid =
     sb\<lparr>sb_ObjectMeta := meta_SetExternalName X (sb_ObjectMeta sb) uuid\<rparr>"

definition sb_IsNotBeingDeleted :: "('m, 's) crossplane \<Rightarrow> ('m, 's, 'q) ServiceBinding \<Rightarrow> bool" where
  "sb_IsNotBeingDeleted X sb \<longleftrightarrow> meta_DeletionTimestamp_IsZero X (sb_ObjectMeta sb)"

definition isStatusParametersEmpty :: "('m, 's, 'q) ServiceBinding \<Rightarrow> bool" where
  "isStatusParametersEmpty sb \<longleftrightarrow> sbo_Parameters (sb_AtProvider sb) = []"

definition EnsureBindingUUID ::
  "('m, 's) crossplane \<Rightarrow> 'w runtime \<Rightarrow> ('m, 's, 'q) ServiceBinding \<Rightarrow> 'w
     \<Rightarrow> string \<times> ('m, 's, 'q) ServiceBinding \<times> 'w" where
  "EnsureBindingUUID X R sb w =
     (let ident = meta_GetExternalName X (sb_ObjectMeta sb) in
      if ident \<noteq> [] then (ident, sb, w)
      else case uuid_NewUUID R w of
             (newID, w') \<Rightarrow> (newID, sb_SetExternalName X sb newID, w'))"

text \<open>The resource is an object with metadata, and both kinds of status setter.\<close>

interpretation sb_meta: object_meta sb_ObjectMeta sb_set_ObjectMeta
  by unfold_locales (simp_all add: go_defs)

interpretation sb_last: last_op_setter sb_SetLastOperationState
  "\<lambda>sb. sbo_LastOperationState (sb_AtProvider sb)" sb_SetLastOperationDescription
  "\<lambda>sb. sbo_LastOperationDescription (sb_AtProvider sb)" sb_SetConditions
  "\<lambda>sb. sbst_ResourceStatus (sb_Status sb)"
  by unfold_locales (simp_all add: go_defs)

interpretation sb_async: async_setter sb_SetLastOperationState
  "\<lambda>sb. sbo_LastOperationState (sb_AtProvider sb)" sb_SetLastOperationKey
  "\<lambda>sb. sbo_LastOperationKey (sb_AtProvider sb)"
  by unfold_locales (simp_all add: go_defs)

section \<open>Response data\<close>

definition CreateResponseData ::
  "('ep, 'vm) GetBindingResponse \<Rightarrow> ('ep, 'vm) responseData" where
  "CreateResponseData resp =
     \<lparr> rd_Parameters = gb_Parameters resp,
       rd_Endpoints = gb_Endpoints resp,
       rd_VolumeMounts = gb_VolumeMounts resp,
       rd_RouteServiceURL = gb_RouteServiceURL resp,
       rd_SyslogDrainURL = gb_SyslogDrainURL resp,
       rd_Metadata = gb_Metadata resp \<rparr>"

definition CreateResponseDataWithBindingParameters ::
  "'w runtime \<Rightarrow> ('m, 's, 'q) ServiceBinding \<Rightarrow> ('ep, 'vm) BindResponse
     \<Rightarrow> go_error + ('ep, 'vm) responseData" where
  "CreateResponseDataWithBindingParameters R sb resp =
     (case ToParameters R (Some (sbo_Parameters (sb_AtProvider sb))) of
        Inl err \<Rightarrow> Inl (wrap (SbErr sb_errFailedToParseFromBindingStatus) err)
      | Inr params \<Rightarrow> Inr
          \<lparr> rd_Parameters = params,
            rd_Endpoints = b_Endpoints resp,
            rd_VolumeMounts = b_VolumeMounts resp,
            rd_RouteServiceURL = b_RouteServiceURL resp,
            rd_SyslogDrainURL = b_SyslogDrainURL resp,
            rd_Metadata = b_Metadata resp \<rparr>)"

text \<open>The document of a pointer to a slice of structures.\<close>

definition items_doc :: "('a \<Rightarrow> gany) \<Rightarrow> 'a list option \<Rightarrow> gany" where
  "items_doc item xs = (case xs of None \<Rightarrow> ANull | Some ys \<Rightarrow> AArr (map item ys))"

definition SetResponseDataInStatus ::
  "('ep, 'vm) osb_pkg \<Rightarrow> ('m, 's, 'q) ServiceBinding \<Rightarrow> ('ep, 'vm) responseData
     \<Rightarrow> go_error option \<times> ('m, 's, 'q) ServiceBinding" where
  "SetResponseDataInStatus P sb response =
     (case marshal_map (rd_Parameters response) of
        None \<Rightarrow> (Some (wrap (SbErr sb_errMarshalParameters) (ErrStd JsonMarshalError)), sb)
      | Some params \<Rightarrow>
     (case enc (items_doc (Endpoint_json P) (rd_Endpoints response)) of
        None \<Rightarrow> (Some (wrap (SbErr sb_errMarshalEndpoints) (ErrStd JsonMarshalError)), sb)
      | Some endpoints \<Rightarrow>
     (case enc (items_doc (VolumeMount_json P) (rd_VolumeMounts response)) of
        None \<Rightarrow> (Some (wrap (SbErr sb_errMarshalVolumeMounts) (ErrStd JsonMarshalError)), sb)
      | Some volumeMounts \<Rightarrow>
          setAtProvider sb
            \<lparr> sbo_Parameters = params,
              sbo_RouteServiceURL = rd_RouteServiceURL response,
              sbo_Endpoints = endpoints,
              sbo_VolumeMounts = volumeMounts,
              sbo_SyslogDrainURL = rd_SyslogDrainURL response,
              sbo_Metadata = rd_Metadata response,
              sbo_LastOperationState = sbo_LastOperationState (sb_AtProvider sb),
              sbo_LastOperationKey = sbo_LastOperationKey (sb_AtProvider sb),
              sbo_LastOperationDescription = sbo_LastOperationDescription (sb_AtProvider sb),
              sbo_LastOperationPolledTime = sbo_LastOperationPolledTime (sb_AtProvider sb) \<rparr>)))"

text \<open>A nil response is dereferenced: a panic.\<close>

definition UpdateBindingStatusFromResponse ::
  "('ep, 'vm) osb_pkg \<Rightarrow> ('m, 's, 'q) ServiceBinding \<Rightarrow> ('ep, 'vm) GetBindingResponse option \<Rightarrow> 'w
     \<Rightarrow> (go_error option, ('m, 's, 'q) ServiceBinding, 'w) res" where
  "UpdateBindingStatusFromResponse P sb resp w =
     (case resp of
        None \<Rightarrow> Panic sb w
      | Some r \<Rightarrow>
          (case SetResponseDataInStatus P sb (CreateResponseData r) of
             (Some err, sb') \<Rightarrow> Ret (Some err) sb' w
           | (None, sb') \<Rightarrow> Ret None sb' w))"

section \<open>Comparing the observed parameters with the specification\<close>

definition IsStatusParametersNotLikeSpecParameters ::
  "'w runtime \<Rightarrow> ('m, 's, 'q) ServiceBinding \<Rightarrow> bool \<times> go_error option" where
  "IsStatusParametersNotLikeSpecParameters R sb =
     (if isStatusParametersEmpty sb
      then (True, Some (Sentinel (SbErr sb_errStatusParametersIsEmpty)))
      else
     (case unmarshal_map (f64_lit R) (sbo_Parameters (sb_AtProvider sb)) of
        None \<Rightarrow> (True, Some (wrap (SbErr sb_errFailedToParseStatusParameters) (ErrStd JsonUnmarshalError)))
      | Some statusMap \<Rightarrow>
     (case unmarshal_map (f64_lit R) (sbp_Parameters (sb_ForProvider sb)) of
        None \<Rightarrow> (True, Some (wrap (SbErr sb_errFailedToParseSpecParamaters) (ErrStd JsonUnmarshalError)))
      | Some specMap \<Rightarrow> (\<not> deep_equal_map statusMap specMap, None))))"

section \<open>Requests\<close>

definition buildGetBindingRequest ::
  "('m, 's) crossplane \<Rightarrow> ('m, 's, 'q) ServiceBinding \<Rightarrow> go_error + GetBindingRequest" where
  "buildGetBindingRequest X sb =
     (if sbp_InstanceId (sb_ForProvider sb) = [] then Inl (Sentinel (SbErr sb_errInstanceIdIsEmpty))
      else
        let bindingId = sb_GetExternalName X sb in
        if bindingId = [] then Inl (Sentinel (SbErr sb_errBindingIdEmpty))
        else Inr \<lparr> gbr_InstanceID = sbp_InstanceId (sb_ForProvider sb), gbr_BindingID = bindingId \<rparr>)"

definition buildRotateBindingRequest ::
  "('m, 's) crossplane \<Rightarrow> ('m, 's, 'q) ServiceBinding \<Rightarrow> OriginatingIdentity \<Rightarrow> string
     \<Rightarrow> go_error + RotateBindingRequest" where
  "buildRotateBindingRequest X sb oid newUUID =
     (if oid_Platform oid = [] then Inl (Sentinel (SbErr sb_errOidPlatformIsEmpty))
      else if oid_Value oid = [] then Inl (Sentinel (SbErr sb_errOidValueIsEmpty))
      else if sbp_InstanceId (sb_ForProvider sb) = [] then Inl (Sentinel (SbErr sb_errInstanceIdIsEmpty))
      else
        let predecessorBindingID = sb_GetExternalName X sb in
        if predecessorBindingID = [] then Inl (Sentinel (SbErr sb_errBindingIdEmpty))
        else if newUUID = [] then Inl (Sentinel (SbErr sb_errNewBindingUUIDEmpty))
        else Inr
          \<lparr> rbr_InstanceID = sbp_InstanceId (sb_ForProvider sb),
            rbr_BindingID = newUUID,
            rbr_AcceptsIncomplete = True,
            rbr_PredecessorBindingID = predecessorBindingID,
            rbr_OriginatingIdentity = Some oid \<rparr>)"

definition validateInputs ::
  "ServiceBindingParameters \<Rightarrow> OriginatingIdentity \<Rightarrow> go_error option" where
  "validateInputs bindingParams oid =
     (if oid_Platform oid = [] then Some (Sentinel (SbErr sb_errOidPlatformIsEmpty))
      else if oid_Value oid = [] then Some (Sentinel (SbErr sb_errOidValueIsEmpty))
      else if sbp_InstanceId bindingParams = [] then Some (Sentinel (SbErr sb_errInstanceIdIsEmpty))
      else if sbp_PlanId bindingParams = [] then Some (Sentinel (SbErr sb_errPlanIdEmpty))
      else if sbp_ServiceId bindingParams = [] then Some (Sentinel (SbErr sb_errServiceIdEmpty))
      else None)"

definition addBindResource :: "('m, 's, 'q) ServiceBinding \<Rightarrow> BindRequest \<Rightarrow> BindRequest" where
  "addBindResource sb bindRequest =
     (let appGuid = sbp_AppGuid (sb_ForProvider sb);
          bindResource = \<lparr> obr_AppGUID = None, obr_Route = None \<rparr>;
          (bindResource, bindRequest) =
            (if appGuid \<noteq> []
             then (bindResource\<lparr>obr_AppGUID := Some appGuid\<rparr>, bindRequest\<lparr>br_AppGUID := Some appGuid\<rparr>)
             else (bindResource, bindRequest));
          bindResource = bindResource\<lparr>obr_Route := Some (bres_Route (sbp_BindResource (sb_ForProvider sb)))\<rparr>
      in bindRequest\<lparr>br_BindResource := Some bindResource\<rparr>)"

definition addContextAndParams ::
  "BindRequest \<Rightarrow> gany gomap option \<Rightarrow> gany gomap option \<Rightarrow> BindRequest" where
  "addContextAndParams bindRequest ctxMap params =
     (let r1 = (if ctxMap \<noteq> None then bindRequest\<lparr>br_Context := ctxMap\<rparr> else bindRequest)
      in if params \<noteq> None then r1\<lparr>br_Parameters := params\<rparr> else r1)"

definition buildBindRequest ::
  "('m, 's) crossplane \<Rightarrow> 'w runtime \<Rightarrow> ('m, 's, 'q) ServiceBinding \<Rightarrow> OriginatingIdentity
     \<Rightarrow> gany gomap option \<Rightarrow> gany gomap option \<Rightarrow> bool \<Rightarrow> 'w
     \<Rightarrow> (go_error + BindRequest, ('m, 's, 'q) ServiceBinding, 'w) res" where
  "buildBindRequest X R sb oid ctxMap params disableAsync w =
     (case validateInputs (sb_ForProvider sb) oid of
        Some err \<Rightarrow> Ret (Inl err) sb w
      | None \<Rightarrow>
          (case EnsureBindingUUID X R sb w of
             (bindingID, sb', w') \<Rightarrow>
               let bindRequest =
                     \<lparr> br_BindingID = bindingID,
                       br_InstanceID = sbp_InstanceId (sb_ForProvider sb'),
                       br_AcceptsIncomplete = (\<not> disableAsync),
                       br_ServiceID = sbp_ServiceId (sb_ForProvider sb'),
                       br_PlanID = sbp_PlanId (sb_ForProvider sb'),
                       br_AppGUID = None, br_BindResource = None,
                       br_Parameters = None, br_Context = None,
                       br_OriginatingIdentity = Some oid \<rparr>
               in Ret (Inr (addContextAndParams (addBindResource sb' bindRequest) ctxMap params)) sb' w'))"

definition BuildUnbindRequest ::
  "('m, 's) crossplane \<Rightarrow> ('m, 's, 'q) ServiceBinding \<Rightarrow> OriginatingIdentity
     \<Rightarrow> go_error + UnbindRequest" where
  "BuildUnbindRequest X sb oid =
     (if oid_Platform oid = [] then Inl (Sentinel (SbErr sb_errOidPlatformIsEmpty))
      else if oid_Value oid = [] then Inl (Sentinel (SbErr sb_errOidValueIsEmpty))
      else if sbp_InstanceId (sb_ForProvider sb) = [] then Inl (Sentinel (SbErr sb_errInstanceIdIsEmpty))
      else if sbp_PlanId (sb_ForProvider sb) = [] then Inl (Sentinel (SbErr sb_errPlanIdEmpty))
      else if sbp_ServiceId (sb_ForProvider sb) = [] then Inl (Sentinel (SbErr sb_errServiceIdEmpty))
      else
        let bindingId = meta_GetExternalName X (sb_ObjectMeta sb) in
        if bindingId = [] then Inl (Sentinel (SbErr sb_errBindingIdEmpty))
        else Inr
          \<lparr> ubr_InstanceID = sbp_InstanceId (sb_ForProvider sb),
            ubr_BindingID = bindingId,
            ubr_AcceptsIncomplete = True,
            ubr_ServiceID = sbp_ServiceId (sb_ForProvider sb),
            ubr_PlanID = sbp_PlanId (sb_ForProvider sb),
            ubr_OriginatingIdentity = Some oid \<rparr>)"

definition buildBindingLastOperationRequest ::
  "('m, 's) crossplane \<Rightarrow> ('m, 's, 'q) ServiceBinding \<Rightarrow> OriginatingIdentity
     \<Rightarrow> go_error + BindingLastOperationRequest" where
  "buildBindingLastOperationRequest X sb oid =
     (if oid_Platform oid = [] then Inl (Sentinel (SbErr sb_errOidPlatformIsEmpty))
      else if oid_Value oid = [] then Inl (Sentinel (SbErr sb_errOidValueIsEmpty))
      else if sbp_InstanceId (sb_ForProvider sb) = [] then Inl (Sentinel (SbErr sb_errInstanceIdIsEmpty))
      else if sbp_PlanId (sb_ForProvider sb) = [] then Inl (Sentinel (SbErr sb_errPlanIdEmpty))
      else if sbp_ServiceId (sb_ForProvider sb) = [] then Inl (Sentinel (SbErr sb_errServiceIdEmpty))
      else
        let bindingId = meta_GetExternalName X (sb_ObjectMeta sb) in
        if bindingId = [] then Inl (Sentinel (SbErr sb_errBindingIdEmpty))
        else Inr
          \<lparr> blo_InstanceID = sbp_InstanceId (sb_ForProvider sb),
            blo_BindingID = bindingId,
            blo_ServiceID = Some (sbp_ServiceId (sb_ForProvider sb)),
            blo_PlanID = Some (sbp_PlanId (sb_ForProvider sb)),
            blo_OriginatingIdentity = Some oid,
            blo_OperationKey = Some (sbo_LastOperationKey (sb_AtProvider sb)) \<rparr>)"

text \<open>
  The request takes its context from \<^verbatim>\<open>json.Marshal\<close> then \<^verbatim>\<open>json.Unmarshal\<close> of the
  specification's context; the failure texts leave out the printed context.
\<close>

definition ConvertSpecsData ::
  "'w runtime \<Rightarrow> ('m, 's, 'q) ServiceBinding
     \<Rightarrow> go_error + gany gomap option \<times> gany gomap option" where
  "ConvertSpecsData R sb =
     (case enc (AObj (context_members (sbp_Context (sb_ForProvider sb)))) of
        None \<Rightarrow> Inl (wrap (SbErr sb_errFailedMarshallingContextFromServiceBinding) (ErrStd JsonMarshalError))
      | Some requestContextBytes \<Rightarrow>
     (case unmarshal_map (f64_lit R) requestContextBytes of
        None \<Rightarrow> Inl (wrap (SbErr sb_errFailedUnMarshallingRequestContext) (ErrStd JsonUnmarshalError))
      | Some requestContext \<Rightarrow>
     (case unmarshal_map (f64_lit R) (sbp_Parameters (sb_ForProvider sb)) of
        None \<Rightarrow> Inl (wrap (SbErr sb_errFailedUnMarshallingRequestParams) (ErrStd JsonUnmarshalError))
      | Some requestParams \<Rightarrow> Inr (requestContext, requestParams))))"

end
