(* ===== verification/Binding_Operations.thy ===== *)
theory Binding_Operations
  imports Service_Binding
begin

text \<open>
  The operations of a \<^verbatim>\<open>ServiceBinding\<close> that talk to the broker and the API server: bind,
  unbind, rotation, polling and the observation of the state. Each takes the clients it is
  given and returns its results with the new receiver and world; Go's multiple results are
  tuples. A nil response that the code dereferences is a panic.
\<close>

section \<open>Expiry and renewal\<close>

definition MarkBindingIfExpired ::
  "('m, 's) crossplane \<Rightarrow> 'w runtime \<Rightarrow> ('m, 's, 'q) ServiceBinding \<Rightarrow> gotime \<Rightarrow> 'w
     \<Rightarrow> bool \<times> ('m, 's, 'q) ServiceBinding \<times> 'w" where
  "MarkBindingIfExpired X R sb expireAt w =
     (case time_Now R w of (now, w') \<Rightarrow>
        if time_Before expireAt now then
          (True,
           sb_SetConditions X
             [\<lparr> c_Type = TypeHealthy, c_Status = ConditionFalse, c_Reason = [],
                c_Message = ''warning: the binding has expired '' @ time_Format expireAt \<rparr>] sb, w')
        else (False, sb, w'))"

definition MarkBindingAsExpiringSoon ::
  "('m, 's) crossplane \<Rightarrow> ('m, 's, 'q) ServiceBinding \<Rightarrow> gotime \<Rightarrow> ('m, 's, 'q) ServiceBinding" where
  "MarkBindingAsExpiringSoon X sb expireAt =
     sb_SetConditions X
       [\<lparr> c_Type = TypeHealthy, c_Status = ConditionFalse, c_Reason = [],
          c_Message = ''warning: the binding will expire soon '' @ time_Format expireAt \<rparr>] sb"

text \<open>An int type with three named values, in the order of the code.\<close>

datatype BindingAction = RenewalData | RotateBinding | BindingNothingToDo | OtherBindingAction int

definition HandleRenewalBindings ::
  "('m, 's) crossplane \<Rightarrow> 'w runtime \<Rightarrow> ('m, 's, 'q) ServiceBinding
     \<Rightarrow> ('ep, 'vm) GetBindingResponse option \<Rightarrow> bool \<Rightarrow> 'w
     \<Rightarrow> (BindingAction \<times> go_error option, ('m, 's, 'q) ServiceBinding, 'w) res" where
  "HandleRenewalBindings X R sb resp rotateBinding w =
     (case resp of
        None \<Rightarrow> Ret (BindingNothingToDo,
                  Some (Errorf (SbErr sb_errNilBindingResponse)
                    [Txt (meta_GetNamespace X (sb_ObjectMeta sb)), Txt (meta_GetName X (sb_ObjectMeta sb))])) sb w
      | Some r \<Rightarrow>
     (case gb_Metadata r of
        None \<Rightarrow> Ret (BindingNothingToDo, None) sb w
      | Some md \<Rightarrow>
          if md_RenewBefore md = [] then Ret (RenewalData, None) sb w
          else
     (case ParseISO8601Time (md_RenewBefore md) ''renewBefore'' of
        Inl err \<Rightarrow> Ret (BindingNothingToDo, Some err) sb w
      | Inr renewBeforeTime \<Rightarrow>
     (case time_Now R w of (now, w1) \<Rightarrow>
        if time_Before renewBeforeTime now then
          (case ParseISO8601Time (md_ExpiresAt md) ''expiresAt'' of
             Inl err \<Rightarrow> Ret (BindingNothingToDo, Some err) sb w1
           | Inr expireAtTime \<Rightarrow>
               (case MarkBindingIfExpired X R sb expireAtTime w1 of
                  (expired, sb1, w2) \<Rightarrow>
                    if rotateBinding then Ret (RotateBinding, None) sb1 w2
                    else if \<not> expired
                      then Ret (BindingNothingToDo, None) (MarkBindingAsExpiringSoon X sb1 expireAtTime) w2
                    else Ret (BindingNothingToDo, None) sb1 w2))
        else Ret (BindingNothingToDo, None) sb w1))))"

section \<open>Polling the last operation\<close>

definition sb_handlePollError ::
  "('m, 's) crossplane \<Rightarrow> ('ep, 'vm) osb_pkg \<Rightarrow> (('m, 's, 'q) ServiceBinding, 'w) kube_client
     \<Rightarrow> ('m, 's, 'q) ServiceBinding \<Rightarrow> go_error \<Rightarrow> 'w
     \<Rightarrow> (bool \<times> Action \<times> go_error option, ('m, 's, 'q) ServiceBinding, 'w) res" where
  "sb_handlePollError X P kube sb err w =
     (if IsResourceGone P err \<and> meta_WasDeleted X (sb_ObjectMeta sb) then
        (case HandleFinalizer kube sb sb_asyncDeletionFinalizer
                (RemoveFinalizerIfExists X sb_ObjectMeta sb_set_ObjectMeta) w of
           (Some err', sb', w') \<Rightarrow>
             Ret (True, NothingToDo, Some (wrap (SbErr sb_errTechnicalEncountered) err')) sb' w'
         | (None, sb', w') \<Rightarrow> Ret (True, NeedToCreate, None) sb' w')
      else Ret (False, NeedToCreate, None) sb w)"

definition sb_handleLastOperationInProgress ::
  "('m, 's) crossplane \<Rightarrow> ('ep, 'vm) osb_pkg \<Rightarrow> (('m, 's, 'q) ServiceBinding, 'w) kube_client
     \<Rightarrow> ('ep, 'vm, 'w) osb_client \<Rightarrow> ('m, 's, 'q) ServiceBinding \<Rightarrow> OriginatingIdentity \<Rightarrow> 'w
     \<Rightarrow> (Action \<times> go_error option, ('m, 's, 'q) ServiceBinding, 'w) res" where
  "sb_handleLastOperationInProgress X P kube osb sb oid w =
     (case buildBindingLastOperationRequest X sb oid of
        Inl err \<Rightarrow>
          Ret (NothingToDo, Some (wrap (SbErr sb_errFailedToBuildBindingLastOperationRequest) err)) sb w
      | Inr req \<Rightarrow>
     (case osb_PollBindingLastOperation osb req w of
        (_, Some err, w1) \<Rightarrow>
          bind_go (sb_handlePollError X P kube sb err w1) (\<lambda>(isHandled, action, handleErr) sb2 w2.
            if isHandled then Ret (action, handleErr) sb2 w2
            else Ret (NothingToDo,
                   Some (wrap (SbErr sb_errOSBPollBindingLastOperationRequestFailed) err)) sb2 w2)
      | (resp, None, w1) \<Rightarrow>
     (case GetLatestKubeObject X sb_ObjectMeta kube sb w1 of
        (Some err, sb2, w2) \<Rightarrow>
          Ret (NothingToDo, Some (wrap (SbErr sb_errFailedToGetLastestKubeObject) err)) sb2 w2
      | (None, latest, w2) \<Rightarrow>
     (case resp of
        None \<Rightarrow> Panic latest w2
      | Some r \<Rightarrow>
          Ret (NothingToDo, None)
            (UpdateStatusFromLastOp X sb_SetLastOperationState sb_SetLastOperationDescription
               (sb_SetConditions X) latest r) w2))))"

section \<open>Observing the state\<close>

text \<open>The switch over the renewal action and the comparison that follows it.\<close>

definition sb_ObserveState ::
  "('m, 's) crossplane \<Rightarrow> 'w runtime \<Rightarrow> ('ep, 'vm) osb_pkg
     \<Rightarrow> (('m, 's, 'q) ServiceBinding, 'w) kube_client \<Rightarrow> ('ep, 'vm, 'w) osb_client
     \<Rightarrow> ('m, 's, 'q) ServiceBinding \<Rightarrow> bool \<Rightarrow> OriginatingIdentity \<Rightarrow> 'w
     \<Rightarrow> (Action \<times> string gomap option \<times> go_error option, ('m, 's, 'q) ServiceBinding, 'w) res" where
  "sb_ObserveState X R P kube osb sb rotation oid w =
     (if sb_IsStateInProgress sb then
        bind_go (sb_handleLastOperationInProgress X P kube osb sb oid w) (\<lambda>(action, err) sb1 w1.
          case err of
            Some e \<Rightarrow> Ret (NothingToDo, None, Some e) sb1 w1
          | None \<Rightarrow> Ret (action, None, None) sb1 w1)
      else if sb_IsExternalNameEmpty X sb then Ret (NeedToCreate, None, None) sb w
      else
     (case buildGetBindingRequest X sb of
        Inl err \<Rightarrow>
          Ret (NothingToDo, None, Some (wrap (SbErr sb_errFailedToBuildGetBindingRequest) err)) sb w
      | Inr req \<Rightarrow>
     (case osb_GetBinding osb req w of
        (_, Some err, w1) \<Rightarrow>
          if IsResourceGone P err then Ret (NeedToCreate, None, None) sb w1
          else Ret (NothingToDo, None, Some (wrap (SbErr sb_errOSBBindRequestFailed) err)) sb w1
      | (resp, None, w1) \<Rightarrow>
     bind_go (UpdateBindingStatusFromResponse P sb resp w1) (\<lambda>err sb2 w2.
     case err of
       Some e \<Rightarrow> Ret (NothingToDo, None, Some (wrap (SbErr sb_errUpdateBindingStatus) e)) sb2 w2
     | None \<Rightarrow>
     (case resp of
        None \<Rightarrow> Panic sb2 w2
      | Some r \<Rightarrow>
     (case MarshalBindingCredentials R r w2 of
        Inl e \<Rightarrow> Ret (NothingToDo, None, Some (wrap (SbErr sb_errMarshalCredentials) e)) sb2 w2
      | Inr credentialsJson \<Rightarrow>
     bind_go (HandleRenewalBindings X R sb2 resp rotation w2) (\<lambda>(action, err) sb3 w3.
     case err of
       Some e \<Rightarrow> Ret (NothingToDo, None, Some (wrap (SbErr sb_errFailedToHandleRenewalBindings) e)) sb3 w3
     | None \<Rightarrow>
     (case action of
        RenewalData \<Rightarrow> Ret (NothingToDo, credentialsJson, None) sb3 w3
      | RotateBinding \<Rightarrow> Ret (NeedToUpdate, credentialsJson, None) sb3 w3
      | OtherBindingAction _ \<Rightarrow>
          Ret (NothingToDo, None, Some (Sentinel (SbErr sb_errCannotHandleUnknowAction))) sb3 w3
      | BindingNothingToDo \<Rightarrow>
     (case IsStatusParametersNotLikeSpecParameters R sb3 of
        (_, Some e) \<Rightarrow>
          Ret (NothingToDo, None, Some (wrap (SbErr sb_errStatusSpecCompareFailed) e)) sb3 w3
      | (differ, None) \<Rightarrow>
          if differ then Ret (NothingToDo, None, Some (Sentinel (SbErr sb_errStatusSpecMismatch))) sb3 w3
          else Ret (NothingToDo, credentialsJson, None) sb3 w3)))))))))"

section \<open>Bind\<close>

definition handleBindRequest ::
  "('ep, 'vm, 'w) osb_client \<Rightarrow> ('m, 's, 'q) ServiceBinding \<Rightarrow> BindRequest \<Rightarrow> 'w
     \<Rightarrow> (('ep, 'vm) BindResponse option \<times> bool \<times> go_error option,
          ('m, 's, 'q) ServiceBinding, 'w) res" where
  "handleBindRequest osb sb bindRequest w =
     (case osb_Bind osb bindRequest w of
        (_, Some err, w') \<Rightarrow> Ret (None, False, Some (wrap (SbErr sb_errOSBBindRequestFailed) err)) sb w'
      | (None, None, w') \<Rightarrow>
          Ret (None, False, Some (Errorf (SbErr sb_errOSBBindongIdIsNil) [Sprint None])) sb w'
      | (Some resp, None, w') \<Rightarrow>
          if b_Async resp then
            Ret (None, True, None)
              (HandleAsyncStatus sb_SetLastOperationState sb_SetLastOperationKey sb (b_OperationKey resp)) w'
          else Ret (Some resp, False, None) sb w')"

definition sb_Bind ::
  "('m, 's) crossplane \<Rightarrow> 'w runtime \<Rightarrow> ('ep, 'vm, 'w) osb_client \<Rightarrow> ('m, 's, 'q) ServiceBinding
     \<Rightarrow> OriginatingIdentity \<Rightarrow> bool \<Rightarrow> 'w
     \<Rightarrow> (('ep, 'vm) BindResponse option \<times> bool \<times> go_error option,
          ('m, 's, 'q) ServiceBinding, 'w) res" where
  "sb_Bind X R osb sb oid disableAsync w =
     (case ConvertSpecsData R sb of
        Inl err \<Rightarrow> Ret (None, False, Some (wrap (SbErr sb_errConvertBindingSpecFailed) err)) sb w
      | Inr (requestContext, requestParams) \<Rightarrow>
          bind_go (buildBindRequest X R sb oid requestContext requestParams disableAsync w) (\<lambda>req sb1 w1.
          case req of
            Inl err \<Rightarrow> Ret (None, False, Some (wrap (SbErr sb_errFailedToBuildBindRequest) err)) sb1 w1
          | Inr r \<Rightarrow>
              bind_go (handleBindRequest osb sb1 r w1) (\<lambda>(resp, async, err) sb2 w2.
                case err of
                  Some e \<Rightarrow> Ret (None, False, Some e) sb2 w2
                | None \<Rightarrow> Ret (resp, async, None) sb2 w2)))"

section \<open>Unbind\<close>

definition handleUnBindRequest ::
  "('m, 's) crossplane \<Rightarrow> (('m, 's, 'q) ServiceBinding, 'w) kube_client \<Rightarrow> ('ep, 'vm, 'w) osb_client
     \<Rightarrow> ('m, 's, 'q) ServiceBinding \<Rightarrow> UnbindRequest \<Rightarrow> 'w
     \<Rightarrow> (bool \<times> go_error option, ('m, 's, 'q) ServiceBinding, 'w) res" where
  "handleUnBindRequest X kube osb sb unbindRequest w =
     (case osb_Unbind osb unbindRequest w of
        (_, Some err, w1) \<Rightarrow> Ret (False, Some (wrap (SbErr sb_errOSBUnbindRequestFailed) err)) sb w1
      | (None, None, w1) \<Rightarrow>
          Ret (False, Some (Errorf (SbErr sb_errOSBUnbindNilResponse) [Sprint None])) sb w1
      | (Some resp, None, w1) \<Rightarrow>
          if ub_Async resp then
            let sb1 = HandleAsyncStatus sb_SetLastOperationState sb_SetLastOperationKey sb (ub_OperationKey resp)
            in case HandleFinalizer kube sb1 sb_asyncDeletionFinalizer
                      (AddFinalizerIfNotExists X sb_ObjectMeta sb_set_ObjectMeta) w1 of
                 (Some err, sb2, w2) \<Rightarrow>
                   Ret (False, Some (wrap (SbErr sb_errAddAsyncDeletionFinalizer) err)) sb2 w2
               | (None, sb2, w2) \<Rightarrow> Ret (True, None) sb2 w2
          else Ret (False, None) sb w1)"

definition sb_UnBind ::
  "('m, 's) crossplane \<Rightarrow> (('m, 's, 'q) ServiceBinding, 'w) kube_client \<Rightarrow> ('ep, 'vm, 'w) osb_client
     \<Rightarrow> ('m, 's, 'q) ServiceBinding \<Rightarrow> OriginatingIdentity \<Rightarrow> 'w
     \<Rightarrow> (bool \<times> go_error option, ('m, 's, 'q) ServiceBinding, 'w) res" where
  "sb_UnBind X kube osb sb oid w =
     (case BuildUnbindRequest X sb oid of
        Inl err \<Rightarrow> Ret (False, Some (wrap (SbErr sb_errFailedToBuildUnbindRequest) err)) sb w
      | Inr req \<Rightarrow>
          bind_go (handleUnBindRequest X kube osb sb req w) (\<lambda>(isAsync, err) sb1 w1.
            case err of
              Some e \<Rightarrow> Ret (False, Some (wrap (SbErr sb_errFailedToHandleBindRequest) e)) sb1 w1
            | None \<Rightarrow> Ret (isAsync, None) sb1 w1))"

section \<open>Rotation\<close>

fun extractCredentials_loop :: "(string \<times> gany) list \<Rightarrow> string gomap \<Rightarrow> go_error + string gomap" where
  "extractCredentials_loop [] creds = Inr creds"
| "extractCredentials_loop ((key, v) # kvs) creds =
     (case enc v of
        None \<Rightarrow> Inl (Errorf (SbErr sb_errFailedToMarshalCredential)
                  [Txt key, Sprint (Some (ErrStd JsonMarshalError))])
      | Some data \<Rightarrow> extractCredentials_loop kvs (map_put key data creds))"

definition extractCredentials ::
  "'w runtime \<Rightarrow> ('ep, 'vm) BindResponse \<Rightarrow> 'w \<Rightarrow> go_error + string gomap" where
  "extractCredentials R resp w =
     extractCredentials_loop
       (range_order R w (case b_Credentials resp of None \<Rightarrow> [] | Some m \<Rightarrow> m)) []"

definition TriggerRotation ::
  "('m, 's) crossplane \<Rightarrow> 'w runtime \<Rightarrow> ('ep, 'vm, 'w) osb_client \<Rightarrow> ('m, 's, 'q) ServiceBinding
     \<Rightarrow> OriginatingIdentity \<Rightarrow> 'w
     \<Rightarrow> (string gomap option \<times> go_error option, ('m, 's, 'q) ServiceBinding, 'w) res" where
  "TriggerRotation X R osb sb oid w =
     (case uuid_NewUUID R w of (newUUID, w1) \<Rightarrow>
     (case buildRotateBindingRequest X sb oid newUUID of
        Inl err \<Rightarrow> Ret (None, Some (wrap (SbErr sb_errFailedToBuildRotateBindingRequest) err)) sb w1
      | Inr req \<Rightarrow>
     (case osb_RotateBinding osb req w1 of
        (_, Some err, w2) \<Rightarrow>
          Ret (None, Some (wrap (SbErr sb_errFailedRequestOSBRotateBinding) err)) sb w2
      | (resp, None, w2) \<Rightarrow>
          let sb1 = sb_SetExternalName X sb newUUID in
          (case resp of
             None \<Rightarrow> Panic sb1 w2
           | Some r \<Rightarrow>
               if \<not> b_Async r then
                 (case extractCredentials R r w2 of
                    Inl err \<Rightarrow> Ret (None, Some err) sb1 w2
                  | Inr creds \<Rightarrow> Ret (Some creds, None) sb1 w2)
               else
                 let sb2 = HandleAsyncStatus sb_SetLastOperationState sb_SetLastOperationKey sb1 (b_OperationKey r)
                 in case TimeNow R w2 of
                      (now, w3) \<Rightarrow>
                        Ret (None, None)
                          (sb_SetLastOperationDescription [] (sb_set_PolledTime now sb2)) w3))))"

end
