(* ===== verification/Binding_Facts.thy ===== *)
theory Binding_Facts
  imports Binding_Operations
begin

text \<open>
  Facts about the service binding operations that the properties rest on: when a request is
  built and what it holds, what a conversion or a status update leaves unchanged, the
  outcomes of the renewal and polling steps, and the observation of a binding that is not in
  progress as one case distinction on the broker's answer.
\<close>

section \<open>Requests\<close>

definition binding_ids_ok :: "ServiceBindingParameters \<Rightarrow> bool" where
  "binding_ids_ok p \<longleftrightarrow> sbp_InstanceId p \<noteq> [] \<and> sbp_PlanId p \<noteq> [] \<and> sbp_ServiceId p \<noteq> []"

lemma validateInputs_None:
  "validateInputs p oid = None \<longleftrightarrow> identity_ok oid \<and> binding_ids_ok p"
  by (auto simp: validateInputs_def identity_ok_def binding_ids_ok_def)

lemma BuildUnbindRequest_ok:
  "(\<exists>req. BuildUnbindRequest X sb oid = Inr req) \<longleftrightarrow>
     identity_ok oid \<and> binding_ids_ok (sb_ForProvider sb) \<and> sb_GetExternalName X sb \<noteq> []"
  by (auto simp: BuildUnbindRequest_def identity_ok_def binding_ids_ok_def sb_GetExternalName_def Let_def)

lemma buildBindingLastOperationRequest_ok:
  "(\<exists>req. buildBindingLastOperationRequest X sb oid = Inr req) \<longleftrightarrow>
     identity_ok oid \<and> binding_ids_ok (sb_ForProvider sb) \<and> sb_GetExternalName X sb \<noteq> []"
  by (auto simp: buildBindingLastOperationRequest_def identity_ok_def binding_ids_ok_def
      sb_GetExternalName_def Let_def)

lemma BuildUnbindRequest_Inr:
  "BuildUnbindRequest X sb oid = Inr req \<Longrightarrow>
     req = \<lparr> ubr_InstanceID = sbp_InstanceId (sb_ForProvider sb), ubr_BindingID = sb_GetExternalName X sb,
             ubr_AcceptsIncomplete = True, ubr_ServiceID = sbp_ServiceId (sb_ForProvider sb),
             ubr_PlanID = sbp_PlanId (sb_ForProvider sb), ubr_OriginatingIdentity = Some oid \<rparr>"
  by (auto simp: BuildUnbindRequest_def sb_GetExternalName_def Let_def split: if_splits)

lemma buildGetBindingRequest_Inr:
  "buildGetBindingRequest X sb = Inr req \<longleftrightarrow>
     sbp_InstanceId (sb_ForProvider sb) \<noteq> [] \<and> sb_GetExternalName X sb \<noteq> []
     \<and> req = \<lparr> gbr_InstanceID = sbp_InstanceId (sb_ForProvider sb), gbr_BindingID = sb_GetExternalName X sb \<rparr>"
  by (auto simp: buildGetBindingRequest_def Let_def)

lemma buildRotateBindingRequest_Inr:
  "buildRotateBindingRequest X sb oid u = Inr req \<longleftrightarrow>
     identity_ok oid \<and> sbp_InstanceId (sb_ForProvider sb) \<noteq> [] \<and> sb_GetExternalName X sb \<noteq> [] \<and> u \<noteq> []
     \<and> req = \<lparr> rbr_InstanceID = sbp_InstanceId (sb_ForProvider sb), rbr_BindingID = u,
               rbr_AcceptsIncomplete = True, rbr_PredecessorBindingID = sb_GetExternalName X sb,
               rbr_OriginatingIdentity = Some oid \<rparr>"
  by (auto simp: buildRotateBindingRequest_def identity_ok_def Let_def)

section \<open>Conversions\<close>

text \<open>The context always converts, so only the parameters of the specification can fail.\<close>

lemma ConvertSpecsData_value:
  "ConvertSpecsData R sb =
     (case unmarshal_map (f64_lit R) (sbp_Parameters (sb_ForProvider sb)) of
        None \<Rightarrow> Inl (wrap (SbErr sb_errFailedUnMarshallingRequestParams) (ErrStd JsonUnmarshalError))
      | Some params \<Rightarrow>
          Inr (Some (map_build (map (\<lambda>(k, v). (utf8_fix k, canon v))
                 (context_members (sbp_Context (sb_ForProvider sb))))), params))"
proof -
  let ?c = "sbp_Context (sb_ForProvider sb)"
  have "KubernetesOSBContext_ToMap R ?c
      = Inr (Some (map_build (map (\<lambda>(k, v). (utf8_fix k, canon v)) (context_members ?c))))"
    by (rule ToMap_value)
  then show ?thesis
    by (auto simp: KubernetesOSBContext_ToMap_def ConvertSpecsData_def simp del: enc.simps
        split: option.splits)
qed

lemma SetResponseDataInStatus_cases:
  "SetResponseDataInStatus P sb rd = (err, sb') \<Longrightarrow>
     (err \<noteq> None \<longrightarrow> sb' = sb)
     \<and> sb_ObjectMeta sb' = sb_ObjectMeta sb \<and> sb_Spec sb' = sb_Spec sb
     \<and> sbst_ResourceStatus (sb_Status sb') = sbst_ResourceStatus (sb_Status sb)
     \<and> sbo_LastOperationState (sb_AtProvider sb') = sbo_LastOperationState (sb_AtProvider sb)
     \<and> sbo_LastOperationKey (sb_AtProvider sb') = sbo_LastOperationKey (sb_AtProvider sb)
     \<and> sbo_LastOperationDescription (sb_AtProvider sb') = sbo_LastOperationDescription (sb_AtProvider sb)
     \<and> sbo_LastOperationPolledTime (sb_AtProvider sb') = sbo_LastOperationPolledTime (sb_AtProvider sb)"
  by (auto simp: SetResponseDataInStatus_def setAtProvider_def split: option.splits)

lemma SetResponseDataInStatus_None:
  "SetResponseDataInStatus P sb rd = (None, sb') \<Longrightarrow>
     marshal_map (rd_Parameters rd) = Some (sbo_Parameters (sb_AtProvider sb'))
     \<and> enc (items_doc (Endpoint_json P) (rd_Endpoints rd)) = Some (sbo_Endpoints (sb_AtProvider sb'))
     \<and> enc (items_doc (VolumeMount_json P) (rd_VolumeMounts rd)) = Some (sbo_VolumeMounts (sb_AtProvider sb'))
     \<and> sbo_RouteServiceURL (sb_AtProvider sb') = rd_RouteServiceURL rd
     \<and> sbo_SyslogDrainURL (sb_AtProvider sb') = rd_SyslogDrainURL rd
     \<and> sbo_Metadata (sb_AtProvider sb') = rd_Metadata rd"
  by (auto simp: SetResponseDataInStatus_def setAtProvider_def split: option.splits)

text \<open>It succeeds on every document without an unsupported value.\<close>

definition response_ok :: "('ep, 'vm) osb_pkg \<Rightarrow> ('ep, 'vm) responseData \<Rightarrow> bool" where
  "response_ok P rd \<longleftrightarrow>
     (\<forall>kvs. rd_Parameters rd = Some kvs \<longrightarrow> \<not> has_other (AObj kvs))
     \<and> \<not> has_other (items_doc (Endpoint_json P) (rd_Endpoints rd))
     \<and> \<not> has_other (items_doc (VolumeMount_json P) (rd_VolumeMounts rd))"

lemma marshal_map_None_iff:
  "marshal_map m = None \<longleftrightarrow> (\<exists>kvs. m = Some kvs \<and> has_other (AObj kvs))"
  using enc_None_iff(1) [of ANull] enc_None_iff(1) [of "AObj (the m)"]
  by (cases m) (simp_all add: marshal_map_def del: enc.simps)

lemma SetResponseDataInStatus_ok_iff:
  "fst (SetResponseDataInStatus P sb rd) = None \<longleftrightarrow> response_ok P rd"
  using marshal_map_None_iff [of "rd_Parameters rd"]
    enc_None_iff(1) [of "items_doc (Endpoint_json P) (rd_Endpoints rd)"]
    enc_None_iff(1) [of "items_doc (VolumeMount_json P) (rd_VolumeMounts rd)"]
  by (auto simp: SetResponseDataInStatus_def setAtProvider_def response_ok_def split: option.splits)

section \<open>Credentials\<close>

text \<open>Credentials the code can marshal, in the canonical form of a Go map.\<close>

definition creds_ok :: "gany gomap option \<Rightarrow> bool" where
  "creds_ok c \<longleftrightarrow> (\<forall>m. c = Some m \<longrightarrow> map_ok m \<and> (\<forall>kv \<in> set m. \<not> has_other (snd kv)))"

lemma MarshalBindingCredentials_value:
  assumes "range_laws R" and "creds_ok (gb_Credentials r)"
  shows "MarshalBindingCredentials R r w = Inr (map_option marshalled (gb_Credentials r))"
  using assms
  by (cases "gb_Credentials r") (simp_all add: MarshalBindingCredentials_def creds_ok_def MarshalMapValues_Inr)

lemma MarshalBindingCredentials_Inl:
  assumes "range_laws R" and "gb_Credentials r = Some m" and "\<exists>kv \<in> set m. has_other (snd kv)"
  shows "\<exists>e. MarshalBindingCredentials R r w = Inl e"
proof -
  have "\<exists>kv \<in> set (range_order R w m). enc (snd kv) = None"
    using assms(1,3) by (simp add: range_laws_def enc_None_iff flip: set_mset_mset)
  from MarshalMapValues_loop_err [OF this, of "[]"] show ?thesis
    using assms(2) by (auto simp: MarshalBindingCredentials_def MarshalMapValues_def)
qed

text \<open>The three loops over credentials are the same function up to the error they report.\<close>

lemma extractCredentials_loop_same:
  "(\<forall>out. GetCredsFromResponse_loop kvs creds = Inr out \<longleftrightarrow> extractCredentials_loop kvs creds = Inr out)
   \<and> (\<forall>out. MarshalMapValues_loop kvs creds = Inr out \<longleftrightarrow> extractCredentials_loop kvs creds = Inr out)"
  by (induction kvs creds rule: extractCredentials_loop.induct) (auto split: option.splits)

lemma extractCredentials_Inr:
  assumes "range_laws R" and "b_Credentials resp = Some m" and "creds_ok (Some m)"
  shows "extractCredentials R resp w = Inr (marshalled m)"
proof -
  have "GetCredsFromResponse R resp w = Inr (marshalled m)"
    using assms by (intro GetCredsFromResponse_Inr) (simp_all add: creds_ok_def)
  then show ?thesis
    by (simp add: GetCredsFromResponse_def extractCredentials_def extractCredentials_loop_same)
qed

section \<open>Renewal\<close>

text \<open>
  The receiver after an operation differs from the one before in its conditions only, or in
  its status only.
\<close>

definition same_but_conditions ::
  "('m, 's, 'q) ServiceBinding \<Rightarrow> ('m, 's, 'q) ServiceBinding \<Rightarrow> bool" where
  "same_but_conditions sb sb' \<longleftrightarrow>
     sb_ObjectMeta sb' = sb_ObjectMeta sb \<and> sb_Spec sb' = sb_Spec sb \<and> sb_AtProvider sb' = sb_AtProvider sb"

lemma same_but_conditions_refl [simp]: "same_but_conditions sb sb"
  by (simp add: same_but_conditions_def)

lemma same_but_conditions_SetConditions [simp]:
  "same_but_conditions sb (sb_SetConditions X cs sb') \<longleftrightarrow> same_but_conditions sb sb'"
  by (simp add: same_but_conditions_def sb_SetConditions_def)

text \<open>A rotation is due: the renewal time has passed and the expiry time can be read.\<close>

definition rotation_due :: "'w runtime \<Rightarrow> ('ep, 'vm) GetBindingResponse \<Rightarrow> 'w \<Rightarrow> bool" where
  "rotation_due R r w \<longleftrightarrow>
     (case gb_Metadata r of
        None \<Rightarrow> False
      | Some md \<Rightarrow>
          md_RenewBefore md \<noteq> []
          \<and> (case time_Parse (md_RenewBefore md) of
               None \<Rightarrow> False
             | Some t \<Rightarrow> time_Before t (fst (time_Now R w)))
          \<and> time_Parse (md_ExpiresAt md) \<noteq> None)"

lemma HandleRenewalBindings_cases:
  "\<exists>a err sb' w'. HandleRenewalBindings X R sb (Some r) rotation w = Ret (a, err) sb' w'
     \<and> same_but_conditions sb sb'
     \<and> (a = RotateBinding \<longleftrightarrow> rotation \<and> rotation_due R r w) \<and> (a = RotateBinding \<longrightarrow> err = None)
     \<and> (a = RenewalData \<longleftrightarrow> (\<exists>md. gb_Metadata r = Some md \<and> md_RenewBefore md = []))
     \<and> (a = RenewalData \<longrightarrow> err = None)
     \<and> (\<forall>n. a \<noteq> OtherBindingAction n)"
  by (auto simp: HandleRenewalBindings_def rotation_due_def MarkBindingIfExpired_def
      MarkBindingAsExpiringSoon_def ParseISO8601Time_def
      split: option.splits prod.splits if_splits)

lemma HandleRenewalBindings_no_metadata:
  "gb_Metadata r = None \<Longrightarrow>
     HandleRenewalBindings X R sb (Some r) rotation w = Ret (BindingNothingToDo, None) sb w"
  by (simp add: HandleRenewalBindings_def)

section \<open>Observing a binding that is not in progress\<close>

abbreviation "refreshed P sb r \<equiv> snd (SetResponseDataInStatus P sb (CreateResponseData r))"

lemma refreshed_frame:
  "sb_ObjectMeta (refreshed P sb r) = sb_ObjectMeta sb" "sb_Spec (refreshed P sb r) = sb_Spec sb"
  "sbst_ResourceStatus (sb_Status (refreshed P sb r)) = sbst_ResourceStatus (sb_Status sb)"
  "sbo_LastOperationState (sb_AtProvider (refreshed P sb r)) = sbo_LastOperationState (sb_AtProvider sb)"
  "sbo_LastOperationKey (sb_AtProvider (refreshed P sb r)) = sbo_LastOperationKey (sb_AtProvider sb)"
  using SetResponseDataInStatus_cases [of P sb "CreateResponseData r"]
  by (metis prod.collapse)+

text \<open>What follows a successful fetch: the renewal decision, then the comparison.\<close>

definition observe_rest ::
  "('m, 's) crossplane \<Rightarrow> 'w runtime \<Rightarrow> ('m, 's, 'q) ServiceBinding \<Rightarrow> ('ep, 'vm) GetBindingResponse
     \<Rightarrow> string gomap option \<Rightarrow> bool \<Rightarrow> 'w
     \<Rightarrow> (Action \<times> string gomap option \<times> go_error option, ('m, 's, 'q) ServiceBinding, 'w) res" where
  "observe_rest X R sb r creds rotation w =
     bind_go (HandleRenewalBindings X R sb (Some r) rotation w) (\<lambda>(action, err) sb3 w3.
     case err of
       Some e \<Rightarrow> Ret (NothingToDo, None, Some (wrap (SbErr sb_errFailedToHandleRenewalBindings) e)) sb3 w3
     | None \<Rightarrow>
         if action = RenewalData then Ret (NothingToDo, creds, None) sb3 w3
         else if action = RotateBinding then Ret (NeedToUpdate, creds, None) sb3 w3
         else
          (case IsStatusParametersNotLikeSpecParameters R sb3 of
             (_, Some e) \<Rightarrow>
               Ret (NothingToDo, None, Some (wrap (SbErr sb_errStatusSpecCompareFailed) e)) sb3 w3
           | (differ, None) \<Rightarrow>
               if differ then Ret (NothingToDo, None, Some (Sentinel (SbErr sb_errStatusSpecMismatch))) sb3 w3
               else Ret (NothingToDo, creds, None) sb3 w3))"

lemma observe_rest_cases:
  "\<exists>a c' err s' w'. observe_rest X R s r c rotation w = Ret (a, c', err) s' w'
     \<and> same_but_conditions s s'
     \<and> a = (if rotation \<and> rotation_due R r w then NeedToUpdate else NothingToDo)
     \<and> (a = NeedToUpdate \<longrightarrow> c' = c \<and> err = None)"
proof -
  obtain a err s' w' where h: "HandleRenewalBindings X R s (Some r) rotation w = Ret (a, err) s' w'"
      "same_but_conditions s s'" "a = RotateBinding \<longleftrightarrow> rotation \<and> rotation_due R r w"
      "a = RotateBinding \<longrightarrow> err = None"
    using HandleRenewalBindings_cases [of X R s r rotation w] by blast
  then show ?thesis
    by (cases "a = RotateBinding") (auto simp: observe_rest_def split: option.split prod.split)
qed

lemma observe_rest_action:
  "observed_action (observe_rest X R s r c rotation w)
     = Some (if rotation \<and> rotation_due R r w then NeedToUpdate else NothingToDo)"
  using observe_rest_cases [of X R s r c rotation w] by (elim exE conjE) simp

section \<open>Polling\<close>

lemma handleLastOperation_action:
  "observed_action (sb_handleLastOperationInProgress X P kube osb sb oid w) \<noteq> Some NeedToUpdate"
  "observed_action (sb_handleLastOperationInProgress X P kube osb sb oid w) = Some NeedToCreate \<longleftrightarrow>
     (\<exists>req resp e w1. buildBindingLastOperationRequest X sb oid = Inr req
        \<and> osb_PollBindingLastOperation osb req w = (resp, Some e, w1)
        \<and> IsResourceGone P e \<and> meta_WasDeleted X (sb_ObjectMeta sb)
        \<and> fst (HandleFinalizer kube sb sb_asyncDeletionFinalizer
                 (RemoveFinalizerIfExists X sb_ObjectMeta sb_set_ObjectMeta) w1) = None)"
  by (auto simp: sb_handleLastOperationInProgress_def sb_handlePollError_def
      split: sum.splits prod.splits option.splits if_splits bind_go_splits)

lemma handleLastOperation_error:
  "sb_handleLastOperationInProgress X P kube osb sb oid w = Ret (a, Some e) sb' w' \<Longrightarrow> a = NothingToDo"
  by (auto simp: sb_handleLastOperationInProgress_def sb_handlePollError_def
      split: sum.splits prod.splits option.splits if_splits bind_go_splits)

lemma observe_in_progress:
  "sb_IsStateInProgress sb \<Longrightarrow>
     observed_action (sb_ObserveState X R P kube osb sb rotation oid w)
       = observed_action (sb_handleLastOperationInProgress X P kube osb sb oid w)"
  by (auto simp: sb_ObserveState_def dest: handleLastOperation_error
      split: bind_go_splits option.splits prod.splits)

lemma UpdateBindingStatus_Some:
  "UpdateBindingStatusFromResponse P sb (Some r) w
     = Ret (fst (SetResponseDataInStatus P sb (CreateResponseData r))) (refreshed P sb r) w"
  by (auto simp: UpdateBindingStatusFromResponse_def split: prod.splits option.splits)

lemma UpdateBindingStatus_nil: "UpdateBindingStatusFromResponse P sb None w = Panic sb w"
  by (simp add: UpdateBindingStatusFromResponse_def)

text \<open>The observation of a binding that is not in progress, by what the broker answers.\<close>

lemma observe_no_name:
  "\<not> sb_IsStateInProgress sb \<Longrightarrow> sb_GetExternalName X sb = [] \<Longrightarrow>
     sb_ObserveState X R P kube osb sb rotation oid w = Ret (NeedToCreate, None, None) sb w"
  by (simp add: sb_ObserveState_def sb_IsExternalNameEmpty_def sb_GetExternalName_def)

lemma observe_no_instance:
  "\<not> sb_IsStateInProgress sb \<Longrightarrow> sb_GetExternalName X sb \<noteq> [] \<Longrightarrow> sbp_InstanceId (sb_ForProvider sb) = [] \<Longrightarrow>
     sb_ObserveState X R P kube osb sb rotation oid w
       = Ret (NothingToDo, None, Some (wrap (SbErr sb_errFailedToBuildGetBindingRequest)
                (Sentinel (SbErr sb_errInstanceIdIsEmpty)))) sb w"
  by (simp add: sb_ObserveState_def sb_IsExternalNameEmpty_def sb_GetExternalName_def buildGetBindingRequest_def)

abbreviation "get_request X sb \<equiv>
  \<lparr> gbr_InstanceID = sbp_InstanceId (sb_ForProvider sb), gbr_BindingID = sb_GetExternalName X sb \<rparr>"

lemma observe_get:
  assumes "\<not> sb_IsStateInProgress sb" and "sb_GetExternalName X sb \<noteq> []"
    and "sbp_InstanceId (sb_ForProvider sb) \<noteq> []"
  shows "sb_ObserveState X R P kube osb sb rotation oid w =
     (case osb_GetBinding osb (get_request X sb) w of
        (_, Some err, w1) \<Rightarrow>
          if IsResourceGone P err then Ret (NeedToCreate, None, None) sb w1
          else Ret (NothingToDo, None, Some (wrap (SbErr sb_errOSBBindRequestFailed) err)) sb w1
      | (None, None, w1) \<Rightarrow> Panic sb w1
      | (Some r, None, w1) \<Rightarrow>
          (case fst (SetResponseDataInStatus P sb (CreateResponseData r)) of
             Some e \<Rightarrow> Ret (NothingToDo, None, Some (wrap (SbErr sb_errUpdateBindingStatus) e)) (refreshed P sb r) w1
           | None \<Rightarrow>
               (case MarshalBindingCredentials R r w1 of
                  Inl e \<Rightarrow> Ret (NothingToDo, None, Some (wrap (SbErr sb_errMarshalCredentials) e)) (refreshed P sb r) w1
                | Inr creds \<Rightarrow> observe_rest X R (refreshed P sb r) r creds rotation w1)))"
proof -
  have req: "buildGetBindingRequest X sb = Inr (get_request X sb)"
    using assms by (simp add: buildGetBindingRequest_Inr)
  have rest: "bind_go (HandleRenewalBindings X R s (Some r) rotation w1) f = observe_rest X R s r creds rotation w1"
    if "f = (\<lambda>(action, err) sb3 w3.
     case err of
       Some e \<Rightarrow> Ret (NothingToDo, None, Some (wrap (SbErr sb_errFailedToHandleRenewalBindings) e)) sb3 w3
     | None \<Rightarrow>
     (case action of
        RenewalData \<Rightarrow> Ret (NothingToDo, creds, None) sb3 w3
      | RotateBinding \<Rightarrow> Ret (NeedToUpdate, creds, None) sb3 w3
      | OtherBindingAction _ \<Rightarrow>
          Ret (NothingToDo, None, Some (Sentinel (SbErr sb_errCannotHandleUnknowAction))) sb3 w3
      | BindingNothingToDo \<Rightarrow>
     (case IsStatusParametersNotLikeSpecParameters R sb3 of
        (_, Some e) \<Rightarrow>
          Ret (NothingToDo, None, Some (wrap (SbErr sb_errStatusSpecCompareFailed) e)) sb3 w3
      | (differ, None) \<Rightarrow>
          if differ then Ret (NothingToDo, None, Some (Sentinel (SbErr sb_errStatusSpecMismatch))) sb3 w3
          else Ret (NothingToDo, creds, None) sb3 w3)))" for s r w1 creds f
  proof -
    obtain a err s' w' where "HandleRenewalBindings X R s (Some r) rotation w1 = Ret (a, err) s' w'"
        "\<forall>n. a \<noteq> OtherBindingAction n"
      using HandleRenewalBindings_cases [of X R s r rotation w1] by blast
    then show ?thesis
      using that by (cases a) (simp_all add: observe_rest_def split: option.split)
  qed
  show ?thesis
    using assms(1,2)
    by (auto simp: sb_ObserveState_def req sb_IsExternalNameEmpty_def sb_GetExternalName_def rest
        UpdateBindingStatus_Some UpdateBindingStatus_nil split: option.split prod.split sum.split)
qed

text \<open>The status after a fetch holds the broker's parameters, which are what gets compared.\<close>

lemma refreshed_parameters:
  assumes "response_ok P (CreateResponseData r)" and "map_readable R (gb_Parameters r)"
  shows "sbo_Parameters (sb_AtProvider (refreshed P sb r)) \<noteq> []"
    and "unmarshal_map (f64_lit R) (sbo_Parameters (sb_AtProvider (refreshed P sb r))) = Some (gb_Parameters r)"
proof -
  have "fst (SetResponseDataInStatus P sb (CreateResponseData r)) = None"
    using assms(1) by (simp add: SetResponseDataInStatus_ok_iff)
  then have m: "marshal_map (gb_Parameters r) = Some (sbo_Parameters (sb_AtProvider (refreshed P sb r)))"
    using SetResponseDataInStatus_None [of P sb "CreateResponseData r"]
    by (simp add: CreateResponseData_def prod_eq_iff split_paired_all)
  then show "sbo_Parameters (sb_AtProvider (refreshed P sb r)) \<noteq> []"
    by (rule marshal_map_nonempty)
  from m assms(2)
  show "unmarshal_map (f64_lit R) (sbo_Parameters (sb_AtProvider (refreshed P sb r))) = Some (gb_Parameters r)"
    by (rule unmarshal_readable)
qed

lemma compare_refreshed:
  assumes "response_ok P (CreateResponseData r)" and "map_readable R (gb_Parameters r)"
    and "sb_Spec s' = sb_Spec sb" and "sb_AtProvider s' = sb_AtProvider (refreshed P sb r)"
  shows "IsStatusParametersNotLikeSpecParameters R s' =
     (case unmarshal_map (f64_lit R) (sbp_Parameters (sb_ForProvider sb)) of
        None \<Rightarrow> (True, Some (wrap (SbErr sb_errFailedToParseSpecParamaters) (ErrStd JsonUnmarshalError)))
      | Some m \<Rightarrow> (\<not> deep_equal_map (gb_Parameters r) m, None))"
  using refreshed_parameters [OF assms(1,2), of sb] assms(3,4)
  by (simp add: IsStatusParametersNotLikeSpecParameters_def isStatusParametersEmpty_def)

text \<open>Without an operation in progress, observing changes nothing but status data and conditions.\<close>

lemma observe_idle:
  assumes "\<not> sb_IsStateInProgress sb"
  shows "let sb' = res_obj (sb_ObserveState X R P kube osb sb rotation oid w) in
     sb_ObjectMeta sb' = sb_ObjectMeta sb \<and> sb_Spec sb' = sb_Spec sb
     \<and> sbo_LastOperationState (sb_AtProvider sb') = sbo_LastOperationState (sb_AtProvider sb)
     \<and> sbo_LastOperationKey (sb_AtProvider sb') = sbo_LastOperationKey (sb_AtProvider sb)"
proof -
  have rest: "let sb' = res_obj (observe_rest X R (refreshed P sb r) r c rotation w1) in
     sb_ObjectMeta sb' = sb_ObjectMeta sb \<and> sb_Spec sb' = sb_Spec sb
     \<and> sbo_LastOperationState (sb_AtProvider sb') = sbo_LastOperationState (sb_AtProvider sb)
     \<and> sbo_LastOperationKey (sb_AtProvider sb') = sbo_LastOperationKey (sb_AtProvider sb)" for r c w1
    using observe_rest_cases [of X R "refreshed P sb r" r c rotation w1]
    by (elim exE conjE) (simp add: same_but_conditions_def refreshed_frame)
  show ?thesis
    using assms rest
    by (cases "sb_GetExternalName X sb = []"; cases "sbp_InstanceId (sb_ForProvider sb) = []")
      (auto simp: observe_no_name observe_no_instance observe_get refreshed_frame
        split: option.split prod.split sum.split)
qed

section \<open>Binding\<close>

text \<open>
  The request a bind sends, field by field, with the receiver and the world at that point;
  None when nothing is sent.
\<close>

definition bind_request ::
  "('m, 's) crossplane \<Rightarrow> 'w runtime \<Rightarrow> ('m, 's, 'q) ServiceBinding \<Rightarrow> OriginatingIdentity \<Rightarrow> bool \<Rightarrow> 'w
     \<Rightarrow> (BindRequest \<times> ('m, 's, 'q) ServiceBinding \<times> 'w) option" where
  "bind_request X R sb oid disableAsync w =
     (let p = sb_ForProvider sb in
      case unmarshal_map (f64_lit R) (sbp_Parameters p) of
        None \<Rightarrow> None
      | Some params \<Rightarrow>
          if \<not> identity_ok oid \<or> \<not> binding_ids_ok p then None
          else case EnsureBindingUUID X R sb w of (ident, sb1, w1) \<Rightarrow>
            Some (\<lparr> br_BindingID = ident, br_InstanceID = sbp_InstanceId p,
                    br_AcceptsIncomplete = (\<not> disableAsync), br_ServiceID = sbp_ServiceId p,
                    br_PlanID = sbp_PlanId p,
                    br_AppGUID = (if sbp_AppGuid p = [] then None else Some (sbp_AppGuid p)),
                    br_BindResource = Some
                      \<lparr> obr_AppGUID = (if sbp_AppGuid p = [] then None else Some (sbp_AppGuid p)),
                        obr_Route = Some (bres_Route (sbp_BindResource p)) \<rparr>,
                    br_Parameters = params,
                    br_Context = Some (map_build (map (\<lambda>(k, v). (utf8_fix k, canon v))
                                         (context_members (sbp_Context p)))),
                    br_OriginatingIdentity = Some oid \<rparr>, sb1, w1))"

lemma EnsureBindingUUID_Spec: "EnsureBindingUUID X R sb w = (i, sb1, w1) \<Longrightarrow> sb_Spec sb1 = sb_Spec sb"
  by (auto simp: EnsureBindingUUID_def sb_SetExternalName_def Let_def split: if_splits prod.splits)

lemma EnsureBindingUUID_Status: "EnsureBindingUUID X R sb w = (i, sb1, w1) \<Longrightarrow> sb_Status sb1 = sb_Status sb"
  by (auto simp: EnsureBindingUUID_def sb_SetExternalName_def Let_def split: if_splits prod.splits)

lemma EnsureBindingUUID_name:
  "external_name_laws X \<Longrightarrow> EnsureBindingUUID X R sb w = (i, sb1, w1) \<Longrightarrow> sb_GetExternalName X sb1 = i"
  by (auto simp: EnsureBindingUUID_def sb_SetExternalName_def sb_GetExternalName_def Let_def
      external_name_laws_def split: if_splits prod.splits)

lemma EnsureBindingUUID_named:
  "sb_GetExternalName X sb \<noteq> [] \<Longrightarrow> EnsureBindingUUID X R sb w = (sb_GetExternalName X sb, sb, w)"
  by (simp add: EnsureBindingUUID_def sb_GetExternalName_def)

lemma sb_Bind_request:
  assumes "bind_request X R sb oid disableAsync w = Some (req, sb1, w1)"
  shows "sb_Bind X R osb sb oid disableAsync w =
     (case osb_Bind osb req w1 of
        (_, Some e, w2) \<Rightarrow> Ret (None, False, Some (wrap (SbErr sb_errOSBBindRequestFailed) e)) sb1 w2
      | (None, None, w2) \<Rightarrow>
          Ret (None, False, Some (Errorf (SbErr sb_errOSBBindongIdIsNil) [Sprint None])) sb1 w2
      | (Some resp, None, w2) \<Rightarrow>
          if b_Async resp then
            Ret (None, True, None)
              (HandleAsyncStatus sb_SetLastOperationState sb_SetLastOperationKey sb1 (b_OperationKey resp)) w2
          else Ret (Some resp, False, None) sb1 w2)"
proof -
  obtain params ident where p: "unmarshal_map (f64_lit R) (sbp_Parameters (sb_ForProvider sb)) = Some params"
    and v: "validateInputs (sb_ForProvider sb) oid = None"
    and e: "EnsureBindingUUID X R sb w = (ident, sb1, w1)"
    using assms
    by (auto simp: bind_request_def Let_def validateInputs_None split: option.splits if_splits prod.splits)
  have build: "buildBindRequest X R sb oid (fst ctx) (snd ctx) disableAsync w = Ret (Inr req) sb1 w1"
    if "ConvertSpecsData R sb = Inr ctx" for ctx
    using assms that p v e EnsureBindingUUID_Spec [OF e]
    by (cases params)
      (auto simp: buildBindRequest_def bind_request_def Let_def ConvertSpecsData_value
        addBindResource_def addContextAndParams_def split: if_splits)
  obtain ctx where ctx: "ConvertSpecsData R sb = Inr ctx"
    using p by (simp add: ConvertSpecsData_value)
  show ?thesis
    using build [OF ctx]
    by (cases ctx) (auto simp: sb_Bind_def ctx handleBindRequest_def split: option.split prod.split)
qed

lemma sb_Bind_refused:
  assumes "bind_request X R sb oid disableAsync w = None"
  shows "\<exists>e. sb_Bind X R osb sb oid disableAsync w = Ret (None, False, Some e) sb w
    \<and> (errors_Is e (Sentinel (SbErr sb_errConvertBindingSpecFailed))
       \<or> errors_Is e (Sentinel (SbErr sb_errFailedToBuildBindRequest)))"
proof (cases "unmarshal_map (f64_lit R) (sbp_Parameters (sb_ForProvider sb))")
  case None
  then show ?thesis by (simp add: sb_Bind_def ConvertSpecsData_value)
next
  case (Some params)
  then have "validateInputs (sb_ForProvider sb) oid \<noteq> None"
    using assms by (auto simp: bind_request_def Let_def validateInputs_None split: if_splits prod.splits)
  with Some show ?thesis
    by (auto simp: sb_Bind_def ConvertSpecsData_value buildBindRequest_def)
qed

text \<open>Recording an asynchronous operation leaves everything but the operation fields alone.\<close>

lemma HandleAsync_frame [simp]:
  "sb_ObjectMeta (HandleAsyncStatus sb_SetLastOperationState sb_SetLastOperationKey sb k) = sb_ObjectMeta sb"
  "sb_Spec (HandleAsyncStatus sb_SetLastOperationState sb_SetLastOperationKey sb k) = sb_Spec sb"
  "sbst_ResourceStatus (sb_Status (HandleAsyncStatus sb_SetLastOperationState sb_SetLastOperationKey sb k))
     = sbst_ResourceStatus (sb_Status sb)"
  by (auto simp: HandleAsyncStatus_def go_defs split: option.split)

text \<open>Once a request has been built, the same one is built again, whatever the broker said.\<close>

lemma bind_request_again:
  assumes "external_name_laws X" and "\<And>w. fst (uuid_NewUUID R w) \<noteq> []"
    and "bind_request X R sb oid disableAsync w = Some (req, sb1, w1)"
    and "sb_ObjectMeta sb2 = sb_ObjectMeta sb1" and "sb_Spec sb2 = sb_Spec sb1"
  shows "sb_GetExternalName X sb2 = br_BindingID req \<and> br_BindingID req \<noteq> []
    \<and> bind_request X R sb2 oid disableAsync w2 = Some (req, sb2, w2)"
proof -
  obtain ident where e: "EnsureBindingUUID X R sb w = (ident, sb1, w1)" and i: "br_BindingID req = ident"
    using assms(3) by (auto simp: bind_request_def Let_def split: option.splits if_splits prod.splits)
  have n: "sb_GetExternalName X sb2 = ident"
    using EnsureBindingUUID_name [OF assms(1) e] assms(4) by (simp add: sb_GetExternalName_def)
  have ne: "ident \<noteq> []"
    using e assms(2) [of w] by (auto simp: EnsureBindingUUID_def Let_def split: if_splits prod.splits)
  have "EnsureBindingUUID X R sb2 w2 = (ident, sb2, w2)"
    using EnsureBindingUUID_named [of X sb2 R w2] n ne by simp
  then show ?thesis
    using assms(3,5) EnsureBindingUUID_Spec [OF e] e n ne i
    by (auto simp: bind_request_def Let_def split: option.splits if_splits)
qed

section \<open>Rotation\<close>

definition rotate_request ::
  "('m, 's) crossplane \<Rightarrow> ('m, 's, 'q) ServiceBinding \<Rightarrow> OriginatingIdentity \<Rightarrow> string \<Rightarrow> RotateBindingRequest" where
  "rotate_request X sb oid u =
     \<lparr> rbr_InstanceID = sbp_InstanceId (sb_ForProvider sb), rbr_BindingID = u,
       rbr_AcceptsIncomplete = True, rbr_PredecessorBindingID = sb_GetExternalName X sb,
       rbr_OriginatingIdentity = Some oid \<rparr>"

lemma rotation_accepted_renames:
  assumes "uuid_NewUUID R w = (u, w1)" and "buildRotateBindingRequest X sb oid u = Inr req"
    and "osb_RotateBinding osb req w1 = (r, None, w2)"
  shows "sb_ObjectMeta (res_obj (TriggerRotation X R osb sb oid w)) = meta_SetExternalName X (sb_ObjectMeta sb) u"
  using assms
  by (auto simp: TriggerRotation_def Let_def TimeNow_def go_defs HandleAsyncStatus_def
      split: prod.splits option.splits sum.splits if_splits)

section \<open>Round trip of the stored lists\<close>

text \<open>What the encoding of a structure must satisfy to be read back.\<close>

definition item_laws :: "('a \<Rightarrow> gany) \<Rightarrow> (gany \<Rightarrow> 'a option) \<Rightarrow> bool" where
  "item_laws tod ofd \<longleftrightarrow>
     (\<forall>x. nums_ok Some (tod x) \<and> nesting (tod x) < max_nesting \<and> ofd (repair (tod x)) = Some x)"

lemma fold_max_less: "fold max xs (a::nat) < d \<longleftrightarrow> a < d \<and> (\<forall>x \<in> set xs. x < d)"
  by (induction xs arbitrary: a) auto

lemma decode_slice_enc:
  assumes "item_laws tod ofd" and "enc (items_doc tod xs) = Some t"
  shows "decode_slice ofd (Some t) = Inr xs"
proof -
  have "nums_ok Some (items_doc tod xs)" "nesting (items_doc tod xs) \<le> max_nesting"
    using assms(1)
    by (auto simp: items_doc_def item_laws_def fold_max_less Suc_le_eq max_nesting_def split: option.split)
  from dec_enc_aux(1) [OF assms(2) this, of "Suc (length t)" "[]"]
  have p: "parse_doc Some t = Some (repair (items_doc tod xs))"
    by (simp add: parse_doc_def skip_ws_def)
  have "parse_doc Some [] = None"
    by code_simp
  with p have ne: "t \<noteq> []"
    by force
  show ?thesis
  proof (cases xs)
    case None
    with p ne show ?thesis by (simp add: decode_slice_def items_doc_def)
  next
    case (Some ys)
    have "all_some (map ofd (map repair (map tod ys))) = Some (map id ys)"
      unfolding map_map using assms(1) by (intro all_some_map) (simp add: item_laws_def)
    with p ne Some show ?thesis by (simp add: decode_slice_def items_doc_def)
  qed
qed


text \<open>The empty string is no JSON document.\<close>

lemma unmarshal_nothing: "unmarshal_map lit [] = None"
  by code_simp

end
