(* ===== verification/Managed.thy ===== *)
theory Managed
  imports Util
begin

text \<open>
  What the managed reconciler of \<^verbatim>\<open>crossplane-runtime\<close> exchanges with a controller: the
  results of its external client, and the collaborators of a connector. A managed resource
  reaches a controller behind an interface: it is of the controller's kind, or of another one
  (whose type is printed in the error).
\<close>

datatype 'o managed = ThisKind 'o | OtherKind string

record ExternalObservation =
  eo_ResourceExists :: bool
  eo_ResourceUpToDate :: bool
  eo_ConnectionDetails :: "string gomap option"

record ExternalCreation =
  ec_ConnectionDetails :: "string gomap option"
  ec_AdditionalDetails :: "string gomap option"

record ExternalUpdate =
  eu_ConnectionDetails :: "string gomap option"

record ExternalDelete =
  ed_AdditionalDetails :: "string gomap option"

abbreviation "ExternalObservation_zero \<equiv>
  \<lparr> eo_ResourceExists = False, eo_ResourceUpToDate = False, eo_ConnectionDetails = None \<rparr>"
abbreviation "ExternalCreation_zero \<equiv>
  \<lparr> ec_ConnectionDetails = None, ec_AdditionalDetails = None \<rparr>"
abbreviation "ExternalUpdate_zero \<equiv> \<lparr> eu_ConnectionDetails = None \<rparr>"
abbreviation "ExternalDelete_zero \<equiv> \<lparr> ed_AdditionalDetails = None \<rparr>"
abbreviation "async_details \<equiv> Some [(''async'', ''true'')]"

text \<open>
  The collaborators of a connector: the tracker of provider configuration usage, the reader
  of configurations, the credential extractor and the factory of OSB clients. Extracted
  credentials are bytes; nil and empty have the same length and are not told apart.
\<close>

record ('o, 'sel, 'w) tracker =
  usage_Track :: "'o \<Rightarrow> 'w \<Rightarrow> go_error option \<times> 'w"
  CommonCredentialExtractor :: "string \<Rightarrow> 'sel \<Rightarrow> 'w \<Rightarrow> (go_error + string) \<times> 'w"

section \<open>The interface of an external client\<close>

text \<open>
  The contract for one resource \<open>mg\<close> in one world: a resource of another kind is refused with an
  error and nothing else; a failed call has the zero result; an observation is the zero result or
  one of an existing resource, so that only an existing one is up to date or has details.
\<close>

definition keeps_contract ::
  "('o managed \<Rightarrow> 'w \<Rightarrow> (ExternalObservation \<times> go_error option, 'o managed, 'w) res)
   \<Rightarrow> ('o managed \<Rightarrow> 'w \<Rightarrow> (ExternalCreation \<times> go_error option, 'o managed, 'w) res)
   \<Rightarrow> ('o managed \<Rightarrow> 'w \<Rightarrow> (ExternalUpdate \<times> go_error option, 'o managed, 'w) res)
   \<Rightarrow> ('o managed \<Rightarrow> 'w \<Rightarrow> (ExternalDelete \<times> go_error option, 'o managed, 'w) res)
   \<Rightarrow> 'o managed \<Rightarrow> 'w \<Rightarrow> bool" where
  "keeps_contract observe create update delete mg w \<longleftrightarrow>
     (\<forall>ob e. res_val (observe mg w) = Some (ob, e) \<longrightarrow>
        ob = ExternalObservation_zero \<or> e = None \<and> eo_ResourceExists ob)
     \<and> (\<forall>ec e. res_val (create mg w) = Some (ec, Some e) \<longrightarrow> ec = ExternalCreation_zero)
     \<and> (\<forall>eu e. res_val (update mg w) = Some (eu, Some e) \<longrightarrow> eu = ExternalUpdate_zero)
     \<and> (\<forall>ed e. res_val (delete mg w) = Some (ed, Some e) \<longrightarrow> ed = ExternalDelete_zero)
     \<and> (\<forall>t. mg = OtherKind t \<longrightarrow>
          (\<exists>e. observe mg w = Ret (ExternalObservation_zero, Some e) mg w)
        \<and> (\<exists>e. create mg w = Ret (ExternalCreation_zero, Some e) mg w)
        \<and> (\<exists>e. update mg w = Ret (ExternalUpdate_zero, Some e) mg w)
        \<and> (\<exists>e. delete mg w = Ret (ExternalDelete_zero, Some e) mg w))"

text \<open>
  What the reconciler of \<^verbatim>\<open>crossplane-runtime\<close> relies on: a resource of another kind is
  refused without any effect; a failed call returns the zero result; an observation that is up
  to date also exists, and connection details come only with an existing resource.
\<close>

locale external_client =
  fixes observe :: "'o managed \<Rightarrow> 'w \<Rightarrow> (ExternalObservation \<times> go_error option, 'o managed, 'w) res"
    and create :: "'o managed \<Rightarrow> 'w \<Rightarrow> (ExternalCreation \<times> go_error option, 'o managed, 'w) res"
    and update :: "'o managed \<Rightarrow> 'w \<Rightarrow> (ExternalUpdate \<times> go_error option, 'o managed, 'w) res"
    and delete :: "'o managed \<Rightarrow> 'w \<Rightarrow> (ExternalDelete \<times> go_error option, 'o managed, 'w) res"
  assumes observe_other: "\<exists>e. observe (OtherKind t) w = Ret (ExternalObservation_zero, Some e) (OtherKind t) w"
    and create_other: "\<exists>e. create (OtherKind t) w = Ret (ExternalCreation_zero, Some e) (OtherKind t) w"
    and update_other: "\<exists>e. update (OtherKind t) w = Ret (ExternalUpdate_zero, Some e) (OtherKind t) w"
    and delete_other: "\<exists>e. delete (OtherKind t) w = Ret (ExternalDelete_zero, Some e) (OtherKind t) w"
    and observe_error: "res_val (observe mg w) = Some (ob, Some e) \<Longrightarrow> ob = ExternalObservation_zero"
    and observe_exists: "res_val (observe mg w) = Some (ob, err) \<Longrightarrow>
      eo_ResourceUpToDate ob \<or> eo_ConnectionDetails ob \<noteq> None \<Longrightarrow> eo_ResourceExists ob"
    and create_error: "res_val (create mg w) = Some (ec, Some e) \<Longrightarrow> ec = ExternalCreation_zero"
    and update_error: "res_val (update mg w) = Some (eu, Some e) \<Longrightarrow> eu = ExternalUpdate_zero"
    and delete_error: "res_val (delete mg w) = Some (ed, Some e) \<Longrightarrow> ed = ExternalDelete_zero"
begin

text \<open>An observation is one of four verdicts: failed, absent, outdated, up to date.\<close>

lemma verdicts:
  assumes "res_val (observe mg w) = Some (ob, e)"
  shows "e \<noteq> None \<and> ob = ExternalObservation_zero
    \<or> e = None \<and> ob = ExternalObservation_zero
    \<or> e = None \<and> eo_ResourceExists ob"
proof (cases "eo_ResourceExists ob")
  case True
  then show ?thesis using assms observe_error by (cases e) fastforce+
next
  case False
  then have "ob = ExternalObservation_zero"
    using observe_exists [OF assms] by (cases "eo_ConnectionDetails ob") (auto intro: ExternalObservation.equality)
  then show ?thesis by (cases e) auto
qed

lemma contract: "keeps_contract observe create update delete mg w"
  unfolding keeps_contract_def
  using verdicts [of mg w] create_error [of mg w] update_error [of mg w] delete_error [of mg w]
    observe_other [of _ w] create_other [of _ w] update_other [of _ w] delete_other [of _ w]
  by blast

end

end
