(* ===== verification/Binding_Controller.thy ===== *)
theory Binding_Controller
  imports Managed Binding_Operations
begin

text \<open>
  The controller of service bindings (\<^verbatim>\<open>internal/controller/servicebinding\<close>): connecting to
  a broker, and the external client's observe, create, update and delete.
\<close>

section \<open>Connecting\<close>

record ('o, 'sel, 'av, 'r, 'cl, 'w) sbc_connector =
  sbcn_kube :: "('sel, 'w) config_reader"
  sbcn_usage :: "('o, 'sel, 'w) tracker"
  sbcn_factory :: "('av, 'r, 'cl) osb_factory"
  sbcn_originatingIdentityValue :: KubernetesOSBOriginatingIdentityValue
  sbcn_rotateBinding :: bool

record 'cl sbc_external =
  sbce_osb :: 'cl
  sbce_originatingIdentity :: OriginatingIdentity
  sbce_disableAsync :: bool
  sbce_rotateBinding :: bool

definition sbc_Connect ::
  "('m, 's) crossplane \<Rightarrow> (('m, 's, 'q) ServiceBinding, 'sel, 'av, 'r, 'cl, 'w) sbc_connector
     \<Rightarrow> ('m, 's, 'q) ServiceBinding managed \<Rightarrow> 'w \<Rightarrow> (go_error + 'cl sbc_external) \<times> 'w" where
  "sbc_Connect X c mg w =
     (case mg of
        OtherKind t \<Rightarrow> (Inl (Errorf (SbcErr sbc_errNotServiceBindingCR) [Txt t]), w)
      | ThisKind obj \<Rightarrow>
     (case usage_Track (sbcn_usage c) obj w of
        (Some err, w1) \<Rightarrow> (Inl (wrap (SbcErr sbc_errCannotTrackProviderConfig) err), w1)
      | (None, w1) \<Rightarrow>
     (case ResolveProviderConfig (sbcn_kube c) (meta_GetNamespace X (sb_ObjectMeta obj))
             (meta_GetName X (sb_ObjectMeta obj))
             (mrs_ProviderConfigReference (sbs_Managed (sb_Spec obj))) w1 of
        (Inl err, w2) \<Rightarrow> (Inl err, w2)
      | (Inr (pc, pcSpec), w2) \<Rightarrow>
     (case CommonCredentialExtractor (sbcn_usage c) (pcr_Source (pcs_Credentials pcSpec))
             (pcr_Selectors (pcs_Credentials pcSpec)) w2 of
        (Inl err, w3) \<Rightarrow> (Inl (wrap (SbcErr sbc_errCannotGetCredentials) err), w3)
      | (Inr creds, w3) \<Rightarrow>
     (case NewOsbClient (sbcn_factory c) pc creds of
        Inl err \<Rightarrow> (Inl (wrap (SbcErr sbc_errCannotCreateNewOsbClient) err), w3)
      | Inr client \<Rightarrow>
     (case MakeOriginatingIdentityFromValue X (sbcn_originatingIdentityValue c) of
        Inl err \<Rightarrow> (Inl (wrap (SbcErr sbc_errCannotMakeOriginatingIdentity) err), w3)
      | Inr oid \<Rightarrow>
          (Inr \<lparr> sbce_osb = client, sbce_originatingIdentity = oid,
                 sbce_disableAsync = pcs_DisableAsync pcSpec,
                 sbce_rotateBinding = sbcn_rotateBinding c \<rparr>, w3)))))))"

section \<open>The external client\<close>

text \<open>\<open>kube\<close> is the API server client of the connector, for objects of this kind.\<close>

definition sbc_Observe_obj ::
  "('m, 's) crossplane \<Rightarrow> 'w runtime \<Rightarrow> ('ep, 'vm) osb_pkg
     \<Rightarrow> (('m, 's, 'q) ServiceBinding, 'w) kube_client \<Rightarrow> ('ep, 'vm, 'w) osb_client sbc_external
     \<Rightarrow> ('m, 's, 'q) ServiceBinding \<Rightarrow> 'w
     \<Rightarrow> (ExternalObservation \<times> go_error option, ('m, 's, 'q) ServiceBinding, 'w) res" where
  "sbc_Observe_obj X R P kube c binding w =
     bind_go (sb_ObserveState X R P kube (sbce_osb c) binding (sbce_rotateBinding c)
                (sbce_originatingIdentity c) w) (\<lambda>(action, credentials, err) b1 w1.
     case err of
       Some e \<Rightarrow> Ret (ExternalObservation_zero, Some (wrap (SbcErr sbc_errFailedToObserveState) e)) b1 w1
     | None \<Rightarrow>
         (case action of
            NeedToCreate \<Rightarrow>
              Ret (ExternalObservation_zero\<lparr>eo_ResourceExists := False\<rparr>, None) b1 w1
          | NeedToUpdate \<Rightarrow>
              Ret (ExternalObservation_zero\<lparr>eo_ResourceExists := True, eo_ResourceUpToDate := False\<rparr>, None)
                b1 w1
          | NothingToDo \<Rightarrow>
              Ret (\<lparr> eo_ResourceExists = True, eo_ResourceUpToDate = True,
                     eo_ConnectionDetails = credentials \<rparr>, None)
                (sb_SetConditions X [xp_Available X] b1) w1
          | OtherAction _ \<Rightarrow> Ret (ExternalObservation_zero, None) b1 w1))"

definition sbc_Create_obj ::
  "('m, 's) crossplane \<Rightarrow> 'w runtime \<Rightarrow> ('ep, 'vm) osb_pkg
     \<Rightarrow> ('ep, 'vm, 'w) osb_client sbc_external \<Rightarrow> ('m, 's, 'q) ServiceBinding \<Rightarrow> 'w
     \<Rightarrow> (ExternalCreation \<times> go_error option, ('m, 's, 'q) ServiceBinding, 'w) res" where
  "sbc_Create_obj X R P c binding w =
     bind_go (sb_Bind X R (sbce_osb c) binding (sbce_originatingIdentity c) (sbce_disableAsync c) w)
       (\<lambda>(bindResponse, async, err) b1 w1.
     case err of
       Some e \<Rightarrow> Ret (ExternalCreation_zero, Some (wrap (SbcErr sbc_errFailedToBindServiceBinding) e)) b1 w1
     | None \<Rightarrow>
         if async then Ret (ExternalCreation_zero\<lparr>ec_AdditionalDetails := async_details\<rparr>, None) b1 w1
         else
           (case bindResponse of
              None \<Rightarrow> Panic b1 w1
            | Some resp \<Rightarrow>
           (case GetCredsFromResponse R resp w1 of
              Inl e \<Rightarrow> Ret (ExternalCreation_zero, Some (wrap (SbcErr sbc_errExtractCredsFailed) e)) b1 w1
            | Inr creds \<Rightarrow>
           (case CreateResponseDataWithBindingParameters R b1 resp of
              Inl e \<Rightarrow> Ret (ExternalCreation_zero, Some (wrap (SbcErr sbc_errCreateRespDataFailed) e)) b1 w1
            | Inr data \<Rightarrow>
           (case SetResponseDataInStatus P b1 data of
              (Some e, b2) \<Rightarrow>
                Ret (ExternalCreation_zero, Some (wrap (SbcErr sbc_errUpdateStatusFailed) e)) b2 w1
            | (None, b2) \<Rightarrow>
                Ret (ExternalCreation_zero\<lparr>ec_ConnectionDetails := Some creds\<rparr>, None) b2 w1)))))"

definition sbc_Update_obj ::
  "('m, 's) crossplane \<Rightarrow> 'w runtime \<Rightarrow> ('ep, 'vm, 'w) osb_client sbc_external
     \<Rightarrow> ('m, 's, 'q) ServiceBinding \<Rightarrow> 'w
     \<Rightarrow> (ExternalUpdate \<times> go_error option, ('m, 's, 'q) ServiceBinding, 'w) res" where
  "sbc_Update_obj X R c binding w =
     bind_go (TriggerRotation X R (sbce_osb c) binding (sbce_originatingIdentity c) w)
       (\<lambda>(creds, err) b1 w1.
     case err of
       Some e \<Rightarrow> Ret (ExternalUpdate_zero, Some (wrap (SbcErr sbc_errOSBRotatingRequestFailed) e)) b1 w1
     | None \<Rightarrow> Ret (\<lparr> eu_ConnectionDetails = creds \<rparr>, None) b1 w1)"

definition sbc_Delete_obj ::
  "('m, 's) crossplane \<Rightarrow> (('m, 's, 'q) ServiceBinding, 'w) kube_client
     \<Rightarrow> ('ep, 'vm, 'w) osb_client sbc_external \<Rightarrow> ('m, 's, 'q) ServiceBinding \<Rightarrow> 'w
     \<Rightarrow> (ExternalDelete \<times> go_error option, ('m, 's, 'q) ServiceBinding, 'w) res" where
  "sbc_Delete_obj X kube c binding w =
     bind_go (sb_UnBind X kube (sbce_osb c) (sb_SetConditions X [xp_Deleting X] binding)
                (sbce_originatingIdentity c) w) (\<lambda>(isAsync, err) b1 w1.
     case err of
       Some e \<Rightarrow> Ret (ExternalDelete_zero, Some (wrap (SbcErr sbc_errFailedToUnBindServiceBinding) e)) b1 w1
     | None \<Rightarrow>
         if isAsync then Ret (\<lparr> ed_AdditionalDetails = async_details \<rparr>, None) b1 w1
         else Ret (ExternalDelete_zero, None) b1 w1)"

text \<open>The methods of the interface: the type assertion, then the operation on the object.\<close>

fun sbc_Observe where
  "sbc_Observe X R P kube c (OtherKind t) w =
     Ret (ExternalObservation_zero, Some (Errorf (SbcErr sbc_errNotServiceBindingCR) [Txt t])) (OtherKind t) w"
| "sbc_Observe X R P kube c (ThisKind binding) w = in_obj ThisKind (sbc_Observe_obj X R P kube c binding w)"

fun sbc_Create where
  "sbc_Create X R P c (OtherKind t) w =
     Ret (ExternalCreation_zero, Some (Errorf (SbcErr sbc_errNotServiceBindingCR) [Txt t])) (OtherKind t) w"
| "sbc_Create X R P c (ThisKind binding) w = in_obj ThisKind (sbc_Create_obj X R P c binding w)"

fun sbc_Update where
  "sbc_Update X R c (OtherKind t) w =
     Ret (ExternalUpdate_zero, Some (Errorf (SbcErr sbc_errNotServiceBindingCR) [Txt t])) (OtherKind t) w"
| "sbc_Update X R c (ThisKind binding) w = in_obj ThisKind (sbc_Update_obj X R c binding w)"

fun sbc_Delete where
  "sbc_Delete X kube c (OtherKind t) w =
     Ret (ExternalDelete_zero, Some (Errorf (SbcErr sbc_errNotServiceBindingCR) [Txt t])) (OtherKind t) w"
| "sbc_Delete X kube c (ThisKind binding) w = in_obj ThisKind (sbc_Delete_obj X kube c binding w)"

definition sbc_Disconnect :: "'w \<Rightarrow> go_error option \<times> 'w" where
  "sbc_Disconnect w = (None, w)"

section \<open>The interface\<close>

interpretation sbc_client: external_client
  "sbc_Observe X R P kube c" "sbc_Create X R P c" "sbc_Update X R c" "sbc_Delete X kube c"
  for X R P kube c
proof
  fix mg w ob e
  show "res_val (sbc_Observe X R P kube c mg w) = Some (ob, e) \<Longrightarrow>
      eo_ResourceUpToDate ob \<or> eo_ConnectionDetails ob \<noteq> None \<Longrightarrow> eo_ResourceExists ob"
    by (cases mg) (auto simp: sbc_Observe_obj_def split: bind_go_splits option.splits Action.splits)
next
  fix mg w ob e
  show "res_val (sbc_Observe X R P kube c mg w) = Some (ob, Some e) \<Longrightarrow> ob = ExternalObservation_zero"
    by (cases mg) (auto simp: sbc_Observe_obj_def split: bind_go_splits option.splits Action.splits)
next
  fix mg w ec e
  show "res_val (sbc_Create X R P c mg w) = Some (ec, Some e) \<Longrightarrow> ec = ExternalCreation_zero"
    by (cases mg) (auto simp: sbc_Create_obj_def split: bind_go_splits option.splits sum.splits prod.splits if_splits)
next
  fix mg w eu e
  show "res_val (sbc_Update X R c mg w) = Some (eu, Some e) \<Longrightarrow> eu = ExternalUpdate_zero"
    by (cases mg) (auto simp: sbc_Update_obj_def split: bind_go_splits option.splits)
next
  fix mg w ed e
  show "res_val (sbc_Delete X kube c mg w) = Some (ed, Some e) \<Longrightarrow> ed = ExternalDelete_zero"
    by (cases mg) (auto simp: sbc_Delete_obj_def split: bind_go_splits option.splits if_splits)
qed auto

end
