(* ===== verification/Binding_Lifecycle.thy ===== *)
theory Binding_Lifecycle
  imports Binding_Facts Binding_Controller
begin

text \<open>
  The life of a service binding under its controller, as a step relation on the object and
  the world: any operation of the external client, against any broker and API server, or an
  edit by a user. The invariant is that a binding with an operation in progress has an
  external name, so that the operation can be polled.
\<close>

text \<open>An API server that does not drop the external name of the objects it answers with.\<close>

definition kube_keeps_name ::
  "('m, 's) crossplane \<Rightarrow> (('m, 's, 'q) ServiceBinding, 'w) kube_client \<Rightarrow> bool" where
  "kube_keeps_name X kube \<longleftrightarrow>
     (\<forall>ns n ob w. sb_GetExternalName X ob \<noteq> [] \<longrightarrow>
        sb_GetExternalName X (fst (snd (kube_Get kube ns n ob w))) \<noteq> [])
     \<and> (\<forall>ob w. sb_GetExternalName X ob \<noteq> [] \<longrightarrow>
        sb_GetExternalName X (fst (snd (kube_Update kube ob w))) \<noteq> [])"

text \<open>The invariant.\<close>

definition pollable :: "('m, 's) crossplane \<Rightarrow> ('m, 's, 'q) ServiceBinding \<Rightarrow> bool" where
  "pollable X sb \<longleftrightarrow> (sb_IsStateInProgress sb \<longrightarrow> sb_GetExternalName X sb \<noteq> [])"

inductive binding_step ::
  "('m, 's) crossplane \<Rightarrow> 'w runtime \<Rightarrow> ('ep, 'vm) osb_pkg
     \<Rightarrow> ('m, 's, 'q) ServiceBinding \<times> 'w \<Rightarrow> ('m, 's, 'q) ServiceBinding \<times> 'w \<Rightarrow> bool"
  for X :: "('m, 's) crossplane" and R :: "'w runtime" and P :: "('ep, 'vm) osb_pkg" where
  observe: "kube_keeps_name X kube \<Longrightarrow> r = sbc_Observe_obj X R P kube c sb w \<Longrightarrow>
    binding_step X R P (sb, w) (res_obj r, res_world r)"
| create: "r = sbc_Create_obj X R P c sb w \<Longrightarrow>
    binding_step X R P (sb, w) (res_obj r, res_world r)"
| update: "r = sbc_Update_obj X R (c :: ('ep, 'vm, 'w) osb_client sbc_external) sb w \<Longrightarrow>
    binding_step X R P (sb, w) (res_obj r, res_world r)"
| delete: "kube_keeps_name X kube \<Longrightarrow> r = sbc_Delete_obj X kube (c :: ('ep, 'vm, 'w) osb_client sbc_external) sb w \<Longrightarrow>
    binding_step X R P (sb, w) (res_obj r, res_world r)"
| edit: "sb_Status sb' = sb_Status sb \<Longrightarrow> sb_GetExternalName X sb' = sb_GetExternalName X sb \<Longrightarrow>
    binding_step X R P (sb, w) (sb', w')"

lemma pollable_SetConditions [simp]: "pollable X (sb_SetConditions X' cs sb) = pollable X sb"
  by (simp add: pollable_def sb_IsStateInProgress_def sb_GetExternalName_def sb_SetConditions_def)

lemma pollable_named: "sb_GetExternalName X sb \<noteq> [] \<Longrightarrow> pollable X sb"
  by (simp add: pollable_def)

lemma name_SetConditions [simp]:
  "sb_GetExternalName X (sb_SetConditions X' cs sb) = sb_GetExternalName X sb"
  by (simp add: sb_GetExternalName_def sb_SetConditions_def)

lemma HandleFinalizer_name:
  assumes "kube_keeps_name X kube" and "finalizer_laws X" and "sb_GetExternalName X sb \<noteq> []"
    and "modf \<in> {AddFinalizerIfNotExists X sb_ObjectMeta sb_set_ObjectMeta,
                 RemoveFinalizerIfExists X sb_ObjectMeta sb_set_ObjectMeta}"
  shows "sb_GetExternalName X (fst (snd (HandleFinalizer kube sb f modf w))) \<noteq> []"
proof -
  have "sb_GetExternalName X (snd (modf sb f)) \<noteq> []"
    using assms(2-4)
    by (auto simp: AddFinalizerIfNotExists_def RemoveFinalizerIfExists_def finalizer_laws_def
        sb_GetExternalName_def sb_set_ObjectMeta_def split: if_splits)
  then show ?thesis
    using assms(1) by (auto simp: HandleFinalizer_def kube_keeps_name_def split: prod.split)
qed

lemma name_UpdateStatusFromLastOp [simp]:
  "sb_GetExternalName X (UpdateStatusFromLastOp X' sb_SetLastOperationState sb_SetLastOperationDescription
       (sb_SetConditions X') sb r) = sb_GetExternalName X sb"
  by (auto simp: UpdateStatusFromLastOp_def sb_GetExternalName_def go_defs Let_def
      split: option.split LastOperationState.split)

lemma GetLatest_name:
  assumes "kube_keeps_name X kube" and "sb_GetExternalName X sb \<noteq> []"
    and "GetLatestKubeObject X sb_ObjectMeta kube sb w = (e, sb', w')"
  shows "sb_GetExternalName X sb' \<noteq> []"
  using assms by (auto simp: GetLatestKubeObject_def kube_keeps_name_def split: prod.splits option.splits)
    (metis fst_conv snd_conv)+

lemma handleLastOperation_name:
  assumes k: "kube_keeps_name X kube" and f: "finalizer_laws X"
    and n: "sb_GetExternalName X sb \<noteq> []"
  shows "sb_GetExternalName X (res_obj (sb_handleLastOperationInProgress X P kube osb sb oid w)) \<noteq> []"
proof -
  have "sb_GetExternalName X (res_obj (sb_handlePollError X P kube sb err w1)) \<noteq> []" for err w1
    using HandleFinalizer_name [OF k f n, of "RemoveFinalizerIfExists X sb_ObjectMeta sb_set_ObjectMeta"
        sb_asyncDeletionFinalizer w1] n
    by (auto simp: sb_handlePollError_def split: prod.split option.split)
  then have pe: "sb_GetExternalName X sb2 \<noteq> []"
    if "sb_handlePollError X P kube sb err w1 = Ret a sb2 w2" for err w1 a sb2 w2
    using that by (metis res_obj.simps(1))
  have np: "sb_handlePollError X P kube sb err w1 \<noteq> Panic sb2 w2" for err w1 sb2 w2
    by (auto simp: sb_handlePollError_def split: prod.split option.split)
  show ?thesis
    using n by (auto simp: sb_handleLastOperationInProgress_def np dest: GetLatest_name [OF k n] pe
        split: sum.split prod.split option.split bind_go_splits)
qed

lemma observe_pollable:
  assumes "kube_keeps_name X kube" and "finalizer_laws X" and "pollable X sb"
  shows "pollable X (res_obj (sb_ObserveState X R P kube osb sb rotation oid w))"
proof (cases "sb_IsStateInProgress sb")
  case True
  then have "sb_GetExternalName X sb \<noteq> []"
    using assms(3) by (simp add: pollable_def)
  from handleLastOperation_name [OF assms(1,2) this, of P osb oid w]
  show ?thesis
    using True
    by (cases "sb_handleLastOperationInProgress X P kube osb sb oid w")
      (auto simp: sb_ObserveState_def intro: pollable_named split: option.split prod.split)
next
  case False
  from observe_idle [OF this, of X R P kube osb rotation oid w] False
  show ?thesis
    by (simp add: pollable_def sb_IsStateInProgress_def Let_def)
qed

lemma bind_pollable:
  assumes "external_name_laws X" and "\<And>w. fst (uuid_NewUUID R w) \<noteq> []" and "pollable X sb"
  shows "pollable X (res_obj (sb_Bind X R osb sb oid da w))"
proof (cases "bind_request X R sb oid da w")
  case None
  with sb_Bind_refused [OF None, of osb] assms(3) show ?thesis by auto
next
  case (Some a)
  obtain req sb1 w1 where a: "a = (req, sb1, w1)" by (cases a)
  have "sb_ObjectMeta (res_obj (sb_Bind X R osb sb oid da w)) = sb_ObjectMeta sb1"
    "sb_Spec (res_obj (sb_Bind X R osb sb oid da w)) = sb_Spec sb1"
    using Some a by (auto simp: sb_Bind_request split: option.split prod.split)
  from bind_request_again [OF assms(1,2) Some [unfolded a] this] show ?thesis
    by (intro pollable_named) auto
qed

lemma unbind_keeps_name:
  assumes "kube_keeps_name X kube" and "finalizer_laws X" and n: "sb_GetExternalName X sb \<noteq> []"
  shows "sb_GetExternalName X (res_obj (sb_UnBind X kube osb sb oid w)) \<noteq> []"
proof -
  have "sb_GetExternalName X (fst (snd (HandleFinalizer kube
      (HandleAsyncStatus sb_SetLastOperationState sb_SetLastOperationKey sb k) sb_asyncDeletionFinalizer
      (AddFinalizerIfNotExists X sb_ObjectMeta sb_set_ObjectMeta) w1))) \<noteq> []" for k w1
    using n by (intro HandleFinalizer_name [OF assms(1,2)]) (simp_all add: sb_GetExternalName_def)
  then have fin: "sb_GetExternalName X s \<noteq> []"
    if "HandleFinalizer kube (HandleAsyncStatus sb_SetLastOperationState sb_SetLastOperationKey sb k)
      sb_asyncDeletionFinalizer (AddFinalizerIfNotExists X sb_ObjectMeta sb_set_ObjectMeta) w1 = (e, s, w2)"
    for k w1 e s w2
    using that by (metis fst_conv snd_conv)
  show ?thesis
    using n by (auto simp: sb_UnBind_def handleUnBindRequest_def Let_def dest: fin
        split: sum.split prod.split option.split)
qed

lemma unbind_pollable:
  assumes "kube_keeps_name X kube" and "finalizer_laws X" and "pollable X sb"
  shows "pollable X (res_obj (sb_UnBind X kube osb sb oid w))"
proof (cases "BuildUnbindRequest X sb oid")
  case (Inl e)
  then show ?thesis using assms(3) by (simp add: sb_UnBind_def)
next
  case (Inr req)
  then have "sb_GetExternalName X sb \<noteq> []"
    using BuildUnbindRequest_ok [of X sb oid] by blast
  then show ?thesis
    by (intro pollable_named unbind_keeps_name [OF assms(1,2)])
qed

lemma rotation_pollable:
  assumes "external_name_laws X" and "pollable X sb"
  shows "pollable X (res_obj (TriggerRotation X R osb sb oid w))"
proof -
  obtain u w1 where u: "uuid_NewUUID R w = (u, w1)" by (cases "uuid_NewUUID R w")
  show ?thesis
  proof (cases "buildRotateBindingRequest X sb oid u")
    case (Inl e)
    then show ?thesis using assms(2) u by (simp add: TriggerRotation_def)
  next
    case (Inr req)
    then have "u \<noteq> []"
      by (simp add: buildRotateBindingRequest_Inr)
    then have named: "pollable X s" if "sb_ObjectMeta s = meta_SetExternalName X (sb_ObjectMeta sb) u" for s
      using that assms(1) by (simp add: pollable_def sb_GetExternalName_def external_name_laws_def)
    obtain r e w2 where r: "osb_RotateBinding osb req w1 = (r, e, w2)" by (metis prod_cases3)
    show ?thesis
    proof (cases e)
      case (Some err)
      then show ?thesis using assms(2) u Inr r by (simp add: TriggerRotation_def)
    next
      case None
      then show ?thesis
        using u Inr r rotation_accepted_renames [of R w u w1 X sb oid req osb r w2]
        by (intro named) simp
    qed
  qed
qed

lemma create_pollable:
  assumes "external_name_laws X" and "\<And>w. fst (uuid_NewUUID R w) \<noteq> []" and "pollable X sb"
  shows "pollable X (res_obj (sbc_Create_obj X R P c sb w))"
proof -
  have b: "pollable X (res_obj (sb_Bind X R (sbce_osb c) sb (sbce_originatingIdentity c) (sbce_disableAsync c) w))"
    by (rule bind_pollable [OF assms])
  have s: "pollable X s'" if "SetResponseDataInStatus P s d = (e, s')" "pollable X s" for s d e s'
    using SetResponseDataInStatus_cases [OF that(1)] that(2)
    by (simp add: pollable_def sb_IsStateInProgress_def sb_GetExternalName_def)
  show ?thesis
    unfolding sbc_Create_obj_def
    by (rule bind_go_obj [where P = "pollable X", OF b])
      (auto split: option.split sum.split prod.split dest: s)
qed

lemma step_pollable:
  assumes "binding_step X R P s s'" and "pollable X (fst s)"
    and "external_name_laws X" and "finalizer_laws X" and "\<And>w. fst (uuid_NewUUID R w) \<noteq> []"
  shows "pollable X (fst s')"
  using assms(1,2)
proof (induction rule: binding_step.induct)
  case (observe kube r c sb w)
  have "pollable X (res_obj (sb_ObserveState X R P kube (sbce_osb c) sb (sbce_rotateBinding c)
      (sbce_originatingIdentity c) w))"
    using observe assms(4) by (intro observe_pollable) simp_all
  then show ?case
    unfolding observe fst_conv sbc_Observe_obj_def
    by (rule bind_go_obj [where P = "pollable X"]) (auto split: option.split Action.split)
next
  case (create r c sb w)
  then show ?case using create_pollable [OF assms(3,5)] by simp
next
  case (update r c sb w)
  then have "pollable X (res_obj (TriggerRotation X R (sbce_osb c) sb (sbce_originatingIdentity c) w))"
    using assms(3) by (intro rotation_pollable) simp_all
  then show ?case
    unfolding update fst_conv sbc_Update_obj_def
    by (rule bind_go_obj [where P = "pollable X"]) (auto split: option.split)
next
  case (delete kube r c sb w)
  then have "pollable X (res_obj (sb_UnBind X kube (sbce_osb c) (sb_SetConditions X [xp_Deleting X] sb)
      (sbce_originatingIdentity c) w))"
    using assms(4) by (intro unbind_pollable) simp_all
  then show ?case
    unfolding delete fst_conv sbc_Delete_obj_def
    by (rule bind_go_obj [where P = "pollable X"]) (auto split: option.split)
next
  case (edit sb' sb w w')
  then show ?case by (simp add: pollable_def sb_IsStateInProgress_def)
qed

section \<open>Runs\<close>

abbreviation "sb_upd X \<equiv> UpdateStatusFromLastOp X sb_SetLastOperationState sb_SetLastOperationDescription (sb_SetConditions X)"

lemma sb_upd_frame:
  "sb_ObjectMeta (sb_upd X sb r) = sb_ObjectMeta sb" "sb_Spec (sb_upd X sb r) = sb_Spec sb"
  by (auto simp: UpdateStatusFromLastOp_def go_defs Let_def split: option.split LastOperationState.split)

text \<open>A poll that is answered records the state and asks for nothing.\<close>

lemma observe_polled:
  assumes "sb_IsStateInProgress sb" and "kube_current X sb_ObjectMeta kube sb"
    and "identity_ok oid" and "binding_ids_ok (sb_ForProvider sb)" and "sb_GetExternalName X sb \<noteq> []"
    and "\<And>req. always (osb_PollBindingLastOperation osb req) (Some lo, None)"
  shows "\<exists>w'. sb_ObserveState X R P kube osb sb rotation oid w = Ret (NothingToDo, None, None) (sb_upd X sb lo) w'"
proof -
  obtain req where req: "buildBindingLastOperationRequest X sb oid = Inr req"
    using assms(3-5) buildBindingLastOperationRequest_ok by blast
  obtain w1 where poll: "osb_PollBindingLastOperation osb req w = (Some lo, None, w1)"
    using alwaysD [OF assms(6)] by blast
  obtain w2 where "GetLatestKubeObject X sb_ObjectMeta kube sb w1 = (None, sb, w2)"
    using current_latest [OF assms(2)] by blast
  with req poll assms(1) show ?thesis
    by (simp add: sb_ObserveState_def sb_handleLastOperationInProgress_def)
qed

lemma SetConditions_frame [simp]:
  "sb_ObjectMeta (sb_SetConditions X cs sb) = sb_ObjectMeta sb" "sb_Spec (sb_SetConditions X cs sb) = sb_Spec sb"
  "sb_AtProvider (sb_SetConditions X cs sb) = sb_AtProvider sb"
  "sb_IsStateInProgress (sb_SetConditions X cs sb) = sb_IsStateInProgress sb"
  by (simp_all add: sb_SetConditions_def sb_IsStateInProgress_def)

lemma sb_ready: "condition_laws X \<Longrightarrow>
    c_Status (xp_GetCondition X (sbst_ResourceStatus (sb_Status (sb_SetConditions X [xp_Available X] sb))) TypeReady)
      = ConditionTrue"
  by (simp add: sb_last.conds_set) (metis condition_laws_def)

text \<open>An observation that fetches a binding with the specified parameters.\<close>

lemma observe_in_sync:
  assumes "\<not> sb_IsStateInProgress s" and "sb_GetExternalName X s \<noteq> []"
    and "sbp_InstanceId (sb_ForProvider s) \<noteq> []" and "range_laws R"
    and "\<And>q. always (osb_GetBinding (sbce_osb c) q) (Some r, None)"
    and "gb_Metadata r = None" and "response_ok P (CreateResponseData r)"
    and "creds_ok (gb_Credentials r)" and "map_readable R (gb_Parameters r)"
    and "unmarshal_map (f64_lit R) (sbp_Parameters (sb_ForProvider s)) = Some m"
    and "deep_equal_map (gb_Parameters r) m"
  shows "\<exists>w'. sbc_Observe_obj X R P kube c s w
    = Ret (\<lparr> eo_ResourceExists = True, eo_ResourceUpToDate = True,
             eo_ConnectionDetails = map_option marshalled (gb_Credentials r) \<rparr>, None)
        (sb_SetConditions X [xp_Available X] (refreshed P s r)) w'"
proof -
  obtain w4 where get: "osb_GetBinding (sbce_osb c) (get_request X s) w = (Some r, None, w4)"
    using alwaysD [OF assms(5)] by blast
  have "fst (SetResponseDataInStatus P s (CreateResponseData r)) = None"
    using assms(7) by (simp add: SetResponseDataInStatus_ok_iff)
  then have "sb_ObserveState X R P kube (sbce_osb c) s (sbce_rotateBinding c) (sbce_originatingIdentity c) w
      = observe_rest X R (refreshed P s r) r (map_option marshalled (gb_Credentials r)) (sbce_rotateBinding c) w4"
    using assms(1-3) get MarshalBindingCredentials_value [OF assms(4,8)] by (simp add: observe_get)
  also have "\<dots> = Ret (NothingToDo, map_option marshalled (gb_Credentials r), None) (refreshed P s r) w4"
    using compare_refreshed [OF assms(7,9) refreshed_frame(2) [of P s r] refl] assms(10,11)
    by (simp add: observe_rest_def HandleRenewalBindings_no_metadata [OF assms(6)])
  finally show ?thesis
    by (simp add: sbc_Observe_obj_def)
qed

lemma bind_request_ok:
  assumes "bind_request X R sb oid da w = Some (req, sb1, w1)"
  shows "sb_Spec sb1 = sb_Spec sb" "identity_ok oid" "binding_ids_ok (sb_ForProvider sb)"
  using assms by (auto simp: bind_request_def Let_def dest: EnsureBindingUUID_Spec
      split: option.splits if_splits prod.splits)

end
