(* ===== verification/Service_Instance.thy ===== *)
theory Service_Instance
  imports Service_Binding
begin

text \<open>
  The resource \<^verbatim>\<open>ServiceInstance\<close> (\<^verbatim>\<open>apis/instance/v1alpha1\<close>): its data, the accessors of
  its status, the requests it builds, the comparison with the broker's instance and the
  operations that call the broker: provision, update, deprovision, polling and observation.
\<close>

section \<open>Data\<close>

record ServiceInstanceObservation =
  sio_AppGuid :: string
  sio_InstanceId :: string
  sio_PlanId :: string
  sio_ServiceId :: string
  sio_Context :: KubernetesOSBContext
  sio_Parameters :: SerializableParameters
  sio_OrganizationGuid :: string
  sio_SpaceGuid :: string
  sio_DashboardURL :: "string option"
  sio_LastOperationState :: LastOperationState
  sio_LastOperationKey :: OperationKey
  sio_LastOperationDescription :: string
  sio_HasActiveBindings :: bool

record 'q ServiceInstanceSpec =
  sis_Managed :: "'q ManagedResourceSpec"
  sis_ForProvider :: InstanceData

record 's ServiceInstanceStatus =
  sist_ResourceStatus :: 's
  sist_AtProvider :: ServiceInstanceObservation

record ('m, 's, 'q) ServiceInstance =
  si_ObjectMeta :: 'm
  si_Spec :: "'q ServiceInstanceSpec"
  si_Status :: "'s ServiceInstanceStatus"

abbreviation si_ForProvider :: "('m, 's, 'q) ServiceInstance \<Rightarrow> InstanceData" where
  "si_ForProvider si \<equiv> sis_ForProvider (si_Spec si)"

abbreviation si_AtProvider :: "('m, 's, 'q) ServiceInstance \<Rightarrow> ServiceInstanceObservation" where
  "si_AtProvider si \<equiv> sist_AtProvider (si_Status si)"

section \<open>Accessors\<close>

definition si_set_ObjectMeta :: "'m \<Rightarrow> ('m, 's, 'q) ServiceInstance \<Rightarrow> ('m, 's, 'q) ServiceInstance" where
  [go_defs]: "si_set_ObjectMeta m si = si\<lparr>si_ObjectMeta := m\<rparr>"

definition si_SetConditions ::
  "('m, 's) crossplane \<Rightarrow> condition list \<Rightarrow> ('m, 's, 'q) ServiceInstance \<Rightarrow> ('m, 's, 'q) ServiceInstance" where
  [go_defs]: "si_SetConditions X c si =
     si\<lparr>si_Status := (si_Status si)
        \<lparr>sist_ResourceStatus := xp_SetConditions X (sist_ResourceStatus (si_Status si)) c\<rparr>\<rparr>"

definition si_SetLastOperationState ::
  "LastOperationState \<Rightarrow> ('m, 's, 'q) ServiceInstance \<Rightarrow> ('m, 's, 'q) ServiceInstance" where
  [go_defs]: "si_SetLastOperationState st si =
     si\<lparr>si_Status := (si_Status si)
        \<lparr>sist_AtProvider := (si_AtProvider si)\<lparr>sio_LastOperationState := st\<rparr>\<rparr>\<rparr>"

definition si_SetLastOperationDescription ::
  "string \<Rightarrow> ('m, 's, 'q) ServiceInstance \<Rightarrow> ('m, 's, 'q) ServiceInstance" where
  [go_defs]: "si_SetLastOperationDescription desc si =
     si\<lparr>si_Status := (si_Status si)
        \<lparr>sist_AtProvider := (si_AtProvider si)\<lparr>sio_LastOperationDescription := desc\<rparr>\<rparr>\<rparr>"

definition si_SetLastOperationKey ::
  "OperationKey \<Rightarrow> ('m, 's, 'q) ServiceInstance \<Rightarrow> ('m, 's, 'q) ServiceInstance" where
  [go_defs]: "si_SetLastOperationKey operationKey si =
     si\<lparr>si_Status := (si_Status si)
        \<lparr>sist_AtProvider := (si_AtProvider si)\<lparr>sio_LastOperationKey := operationKey\<rparr>\<rparr>\<rparr>"

definition SetStatusContextFromProviderContext ::
  "('m, 's, 'q) ServiceInstance \<Rightarrow> ('m, 's, 'q) ServiceInstance" where
  [go_defs]: "SetStatusContextFromProviderContext si =
     si\<lparr>si_Status := (si_Status si)
        \<lparr>sist_AtProvider := (si_AtProvider si)\<lparr>sio_Context := id_Context (si_ForProvider si)\<rparr>\<rparr>\<rparr>"

definition SetDashboardURL ::
  "string option \<Rightarrow> ('m, 's, 'q) ServiceInstance \<Rightarrow> ('m, 's, 'q) ServiceInstance" where
  [go_defs]: "SetDashboardURL url si =
     si\<lparr>si_Status := (si_Status si)
        \<lparr>sist_AtProvider := (si_AtProvider si)\<lparr>sio_DashboardURL := url\<rparr>\<rparr>\<rparr>"

definition IsDeletable :: "('m, 's) crossplane \<Rightarrow> ('m, 's, 'q) ServiceInstance \<Rightarrow> bool" where
  "IsDeletable X si \<longleftrightarrow>
     meta_WasDeleted X (si_ObjectMeta si)
     \<and> sio_LastOperationState (si_AtProvider si) = StateSucceeded
     \<and> \<not> sio_HasActiveBindings (si_AtProvider si)"

definition HasLastOperation :: "('m, 's, 'q) ServiceInstance \<Rightarrow> bool" where
  "HasLastOperation si \<longleftrightarrow> sio_LastOperationKey (si_AtProvider si) \<noteq> []"

definition si_IsStateInProgress :: "('m, 's, 'q) ServiceInstance \<Rightarrow> bool" where
  "si_IsStateInProgress si \<longleftrightarrow> sio_LastOperationState (si_AtProvider si) = StateInProgress"

definition IsStateDeleting :: "('m, 's, 'q) ServiceInstance \<Rightarrow> bool" where
  "IsStateDeleting si \<longleftrightarrow> sio_LastOperationState (si_AtProvider si) = StateDeleting"

definition IsAlreadyDeleted :: "('m, 's, 'q) ServiceInstance \<Rightarrow> bool" where
  "IsAlreadyDeleted si \<longleftrightarrow> id_InstanceId (si_ForProvider si) = []"

definition HasActiveBindings :: "('m, 's, 'q) ServiceInstance \<Rightarrow> bool" where
  "HasActiveBindings si = sio_HasActiveBindings (si_AtProvider si)"

definition HasPlanID :: "('m, 's, 'q) ServiceInstance \<Rightarrow> bool" where
  "HasPlanID si \<longleftrightarrow> id_PlanId (si_ForProvider si) \<noteq> []"

definition IsPlanIDDifferent :: "('m, 's, 'q) ServiceInstance \<Rightarrow> string \<Rightarrow> bool" where
  "IsPlanIDDifferent si osbPlanID \<longleftrightarrow> id_PlanId (si_ForProvider si) \<noteq> osbPlanID"

definition IsInstanceIDEmpty :: "('m, 's, 'q) ServiceInstance \<Rightarrow> bool" where
  "IsInstanceIDEmpty si \<longleftrightarrow> id_InstanceId (si_ForProvider si) = []"

definition GetSpecForProvider :: "('m, 's, 'q) ServiceInstance \<Rightarrow> InstanceData" where
  "GetSpecForProvider si = si_ForProvider si"

text \<open>A pointer into the specification: reading and writing through it.\<close>

definition GetSpecForProviderPtr ::
  "('m, 's, 'q) ServiceInstance \<Rightarrow> InstanceData \<times> (InstanceData \<Rightarrow> ('m, 's, 'q) ServiceInstance)" where
  "GetSpecForProviderPtr si =
     (si_ForProvider si, \<lambda>p. si\<lparr>si_Spec := (si_Spec si)\<lparr>sis_ForProvider := p\<rparr>\<rparr>)"

interpretation si_meta: object_meta si_ObjectMeta si_set_ObjectMeta
  by unfold_locales (simp_all add: go_defs)

interpretation si_last: last_op_setter si_SetLastOperationState
  "\<lambda>si. sio_LastOperationState (si_AtProvider si)" si_SetLastOperationDescription
  "\<lambda>si. sio_LastOperationDescription (si_AtProvider si)" si_SetConditions
  "\<lambda>si. sist_ResourceStatus (si_Status si)"
  by unfold_locales (simp_all add: go_defs)

section \<open>Comparison with the broker's instance\<close>

definition compareParametersWithOSB ::
  "'w runtime \<Rightarrow> ('m, 's, 'q) ServiceInstance \<Rightarrow> GetInstanceResponse \<Rightarrow> Action \<times> go_error option" where
  "compareParametersWithOSB R si osbInstance =
     (if length (id_Parameters (si_ForProvider si)) = 0 then (NeedToUpdate, None)
      else
     (case ToParameters R (Some (id_Parameters (si_ForProvider si))) of
        Inl err \<Rightarrow> (NothingToDo, Some (wrap (SiErr si_errFailedToParseServiceInstanceParameters) err))
      | Inr params \<Rightarrow>
          if \<not> deep_equal_map params (gi_Parameters osbInstance) then (NeedToUpdate, None)
          else (NothingToDo, None)))"

text \<open>
  The contexts are compared field by field; annotation maps that are nil and empty differ.
\<close>

definition CompareSpecWithOSB ::
  "'w runtime \<Rightarrow> ('m, 's, 'q) ServiceInstance \<Rightarrow> GetInstanceResponse option
     \<Rightarrow> Action \<times> go_error option" where
  "CompareSpecWithOSB R si osbInstance =
     (case osbInstance of
        None \<Rightarrow> (NothingToDo, None)
      | Some inst \<Rightarrow>
          if HasPlanID si \<and> IsPlanIDDifferent si (gi_PlanID inst) then (NothingToDo, None)
          else
            (case compareParametersWithOSB R si inst of
               (action, err) \<Rightarrow>
                 if err \<noteq> None \<or> NeedToUpdate = action then (action, err)
                 else if id_Context (si_ForProvider si) \<noteq> sio_Context (si_AtProvider si)
                   then (NeedToUpdate, None)
                 else (NothingToDo, None)))"

section \<open>Requests\<close>

definition buildProvisionRequest ::
  "('m, 's, 'q) ServiceInstance \<Rightarrow> gany gomap option \<Rightarrow> gany gomap option \<Rightarrow> bool
     \<Rightarrow> go_error + ProvisionRequest" where
  "buildProvisionRequest si params ctxMap disableAsync =
     (let fp = si_ForProvider si in
      if id_InstanceId fp = [] then Inl (Sentinel (SiErr si_errInstanceIdIsEmpty))
      else if id_PlanId fp = [] then Inl (Sentinel (SiErr si_errPlanIdEmpty))
      else if id_ServiceId fp = [] then Inl (Sentinel (SiErr si_errServiceIdEmpty))
      else if id_OrganizationGuid fp = [] then Inl (Sentinel (SiErr si_errOrganizationGuidEmpty))
      else if id_SpaceGuid fp = [] then Inl (Sentinel (SiErr si_errSpaceGuidEmpty))
      else if ctxMap = None \<or> ctxMap = Some [] then Inl (Sentinel (SiErr si_errCtxMapEmpty))
      else
        let provisionRequest =
              \<lparr> pr_InstanceID = id_InstanceId fp,
                pr_AcceptsIncomplete = (\<not> disableAsync),
                pr_ServiceID = id_ServiceId fp,
                pr_PlanID = id_PlanId fp,
                pr_OrganizationGUID = id_OrganizationGuid fp,
                pr_SpaceGUID = id_SpaceGuid fp,
                pr_Parameters = None,
                pr_Context = ctxMap \<rparr>
        in if params \<noteq> None then Inr (provisionRequest\<lparr>pr_Parameters := params\<rparr>)
           else Inr provisionRequest)"

definition buildUpdateInstanceRequest ::
  "'w runtime \<Rightarrow> ('m, 's, 'q) ServiceInstance \<Rightarrow> OriginatingIdentity \<Rightarrow> bool
     \<Rightarrow> go_error + UpdateInstanceRequest" where
  "buildUpdateInstanceRequest R si oid disableAsync =
     (let fp = si_ForProvider si in
      case ToParameters R (Some (id_Parameters fp)) of
        Inl err \<Rightarrow> Inl (wrap (SiErr si_errFailedToMarshallServiceInstanceParameters) err)
      | Inr params \<Rightarrow>
     (case KubernetesOSBContext_ToMap R (id_Context fp) of
        Inl err \<Rightarrow> Inl (wrap (SiErr si_errFailedToMarshallServiceInstanceContext) err)
      | Inr ctxMap \<Rightarrow>
          if id_InstanceId fp = [] then Inl (Sentinel (SiErr si_errInstanceIdIsEmpty))
          else if id_ServiceId fp = [] then Inl (Sentinel (SiErr si_errServiceIdEmpty))
          else if oid_Platform oid = [] then Inl (Sentinel (SiErr si_errOidPlatformIsEmpty))
          else if oid_Value oid = [] then Inl (Sentinel (SiErr si_errOidValueIsEmpty))
          else Inr
            \<lparr> uir_InstanceID = id_InstanceId fp,
              uir_AcceptsIncomplete = (\<not> disableAsync),
              uir_ServiceID = id_ServiceId fp,
              uir_PlanID = (if id_PlanId fp \<noteq> [] then Some (id_PlanId fp) else None),
              uir_Parameters = params,
              uir_Context = (if ctxMap = None \<or> ctxMap = Some [] then None else ctxMap),
              uir_OriginatingIdentity = Some oid \<rparr>))"

definition BuildPollLastOperationRequest ::
  "('m, 's, 'q) ServiceInstance \<Rightarrow> OriginatingIdentity \<Rightarrow> go_error + LastOperationRequest" where
  "BuildPollLastOperationRequest si oid =
     (let fp = si_ForProvider si; key = sio_LastOperationKey (si_AtProvider si) in
      if id_InstanceId fp = [] then Inl (Sentinel (SiErr si_errInstanceIdIsEmpty))
      else if oid_Platform oid = [] then Inl (Sentinel (SiErr si_errOidPlatformIsEmpty))
      else if oid_Value oid = [] then Inl (Sentinel (SiErr si_errOidValueIsEmpty))
      else Inr
        \<lparr> lor_InstanceID = id_InstanceId fp,
          lor_ServiceID = (if id_ServiceId fp \<noteq> [] then Some (id_ServiceId fp) else None),
          lor_PlanID = (if id_PlanId fp \<noteq> [] then Some (id_PlanId fp) else None),
          lor_OriginatingIdentity = Some oid,
          lor_OperationKey = (if key \<noteq> [] then Some key else None) \<rparr>)"

definition buildDeprovisionRequest ::
  "('m, 's, 'q) ServiceInstance \<Rightarrow> OriginatingIdentity \<Rightarrow> bool \<Rightarrow> go_error + DeprovisionRequest" where
  "buildDeprovisionRequest si oid disableAsync =
     (let fp = si_ForProvider si in
      if id_InstanceId fp = [] then Inl (Sentinel (SiErr si_errInstanceIdIsEmpty))
      else if id_ServiceId fp = [] then Inl (Sentinel (SiErr si_errServiceIdEmpty))
      else if id_PlanId fp = [] then Inl (Sentinel (SiErr si_errPlanIdEmpty))
      else if oid_Platform oid = [] then Inl (Sentinel (SiErr si_errOidPlatformIsEmpty))
      else if oid_Value oid = [] then Inl (Sentinel (SiErr si_errOidValueIsEmpty))
      else Inr
        \<lparr> dr_InstanceID = id_InstanceId fp,
          dr_AcceptsIncomplete = (\<not> disableAsync),
          dr_ServiceID = id_ServiceId fp,
          dr_PlanID = id_PlanId fp,
          dr_OriginatingIdentity = Some oid \<rparr>)"

definition buildGetInstanceRequest ::
  "('m, 's, 'q) ServiceInstance \<Rightarrow> go_error + GetInstanceRequest" where
  "buildGetInstanceRequest si =
     (let fp = si_ForProvider si in
      if id_InstanceId fp = [] then Inl (Sentinel (SiErr si_errInstanceIdIsEmpty))
      else Inr
        \<lparr> gir_InstanceID = id_InstanceId fp, gir_ServiceID = id_ServiceId fp, gir_PlanID = id_PlanId fp \<rparr>)"

section \<open>Status from responses\<close>

definition UpdateStatus ::
  "('m, 's) crossplane \<Rightarrow> ('m, 's, 'q) ServiceInstance \<Rightarrow> ProvisionResponse \<Rightarrow> ('m, 's, 'q) ServiceInstance" where
  "UpdateStatus X si resp =
     (let s1 = si\<lparr>si_Status := (si_Status si)\<lparr>sist_AtProvider := (si_AtProvider si)
                 \<lparr>sio_Context := id_Context (si_ForProvider si), sio_DashboardURL := p_DashboardURL resp\<rparr>\<rparr>\<rparr>
      in if p_Async resp then
           let s2 = si_SetLastOperationState StateInProgress (si_SetConditions X [xp_Creating X] s1)
           in (case p_OperationKey resp of
                 Some k \<Rightarrow> si_SetLastOperationKey k s2
               | None \<Rightarrow> s2)
         else si_SetLastOperationState StateSucceeded (si_SetConditions X [xp_Available X] s1))"

text \<open>The context is copied before the first method of the response is called.\<close>

definition UpdateStatusFromOSB ::
  "('m, 's) crossplane \<Rightarrow> ('m, 's, 'q) ServiceInstance \<Rightarrow> OSBAsyncResponse option \<Rightarrow> 'w
     \<Rightarrow> (unit, ('m, 's, 'q) ServiceInstance, 'w) res" where
  "UpdateStatusFromOSB X si resp w =
     (let s1 = SetStatusContextFromProviderContext si in
      case resp of
        None \<Rightarrow> Panic s1 w
      | Some r \<Rightarrow>
          let s2 = SetDashboardURL (ar_GetDashboardURL r) s1 in
          if ar_IsAsync r then
            let s3 = si_SetLastOperationState StateInProgress (si_SetConditions X [xp_Creating X] s2)
            in (case ar_GetOperationKey r of
                  Some k \<Rightarrow> Ret () (si_SetLastOperationKey k s3) w
                | None \<Rightarrow> Ret () s3 w)
          else Ret () (si_SetLastOperationState StateSucceeded (si_SetConditions X [xp_Available X] s2)) w)"

definition UpdateStatusForAsyncDeletion ::
  "('m, 's, 'q) ServiceInstance \<Rightarrow> DeprovisionResponse \<Rightarrow> ('m, 's, 'q) ServiceInstance" where
  "UpdateStatusForAsyncDeletion si resp =
     (let s1 = si_SetLastOperationState StateDeleting si in
      case dp_OperationKey resp of
        Some k \<Rightarrow> si_SetLastOperationKey k s1
      | None \<Rightarrow> s1)"

end
