(* ===== verification/Instance_Operations.thy ===== *)
theory Instance_Operations
  imports Service_Instance
begin

text \<open>
  The operations of a \<^verbatim>\<open>ServiceInstance\<close> that call the broker and the API server. The object
  that \<^verbatim>\<open>GetLatestKubeObject\<close> returns is the receiver itself, refreshed in place, so the
  deletion test after a poll sees the new state.
\<close>

definition Deprovision ::
  "('ep, 'vm) osb_pkg \<Rightarrow> (('m, 's, 'q) ServiceInstance, 'w) kube_client \<Rightarrow> ('ep, 'vm, 'w) osb_client
     \<Rightarrow> ('m, 's, 'q) ServiceInstance \<Rightarrow> OriginatingIdentity \<Rightarrow> bool \<Rightarrow> 'w
     \<Rightarrow> (go_error option, ('m, 's, 'q) ServiceInstance, 'w) res" where
  "Deprovision P kube osb si oid disableAsync w =
     (if IsInstanceIDEmpty si then Ret None si w
      else if IsAlreadyDeleted si then Ret None si w
      else if HasActiveBindings si then
        Ret (Some (Sentinel (SiErr si_errCannotDeleteWithActiveBindings))) si w
      else
     (case buildDeprovisionRequest si oid disableAsync of
        Inl err \<Rightarrow> Ret (Some (wrap (SiErr si_errFailedToBuildDeprovisionRequest) err)) si w
      | Inr req \<Rightarrow>
     (case osb_DeprovisionInstance osb req w of
        (_, Some err, w1) \<Rightarrow>
          if IsResourceGone P err then Ret None si w1
          else Ret (Some (wrap (SiErr si_errOSBDeprovisionInstanceFailed) err)) si w1
      | (None, None, w1) \<Rightarrow> Panic si w1
      | (Some resp, None, w1) \<Rightarrow>
          if dp_Async resp then
            (case kube_StatusUpdate kube (UpdateStatusForAsyncDeletion si resp) w1 of
               (Some err, si2, w2) \<Rightarrow>
                 Ret (Some (wrap (SiErr si_errCannotUpdateServiceInstanceStatus) err)) si2 w2
             | (None, si2, w2) \<Rightarrow> Ret None si2 w2)
          else Ret None si w1)))"

definition HandleLastOperationInProgress ::
  "('m, 's) crossplane \<Rightarrow> ('ep, 'vm) osb_pkg \<Rightarrow> (('m, 's, 'q) ServiceInstance, 'w) kube_client
     \<Rightarrow> ('ep, 'vm, 'w) osb_client \<Rightarrow> ('m, 's, 'q) ServiceInstance \<Rightarrow> OriginatingIdentity \<Rightarrow> 'w
     \<Rightarrow> (Action \<times> go_error option, ('m, 's, 'q) ServiceInstance, 'w) res" where
  "HandleLastOperationInProgress X P kube osb si oid w =
     (case BuildPollLastOperationRequest si oid of
        Inl err \<Rightarrow> Ret (NothingToDo, Some (wrap (SiErr si_errFailedToBuildPollLastOperationRequest) err)) si w
      | Inr req \<Rightarrow>
     (case osb_PollLastOperation osb req w of
        (_, Some err, w1) \<Rightarrow>
          if IsResourceGone P err then Ret (NeedToCreate, None) si w1
          else Ret (NothingToDo, Some (wrap (SiErr si_errOSBPollLastOperationFailed) err)) si w1
      | (resp, None, w1) \<Rightarrow>
     (case GetLatestKubeObject X si_ObjectMeta kube si w1 of
        (Some err, si2, w2) \<Rightarrow>
          Ret (NothingToDo, Some (wrap (SiErr si_errFailedToGetLastestKubeObject) err)) si2 w2
      | (None, latest, w2) \<Rightarrow>
     (case resp of
        None \<Rightarrow> Panic latest w2
      | Some r \<Rightarrow>
          let latest = UpdateStatusFromLastOp X si_SetLastOperationState si_SetLastOperationDescription
                         (si_SetConditions X) latest r
          in if IsDeletable X latest then Ret (NeedToCreate, None) latest w2
             else
               (case kube_StatusUpdate kube latest w2 of
                  (Some err, si3, w3) \<Rightarrow>
                    Ret (NothingToDo, Some (wrap (SiErr si_errCannotUpdateServiceInstanceStatus) err)) si3 w3
                | (None, si3, w3) \<Rightarrow> Ret (NothingToDo, None) si3 w3)))))"

definition HandleDeletionWithActiveBindings ::
  "(('m, 's, 'q) ServiceInstance, 'w) kube_client \<Rightarrow> ('m, 's, 'q) ServiceInstance \<Rightarrow> 'w
     \<Rightarrow> (go_error option, ('m, 's, 'q) ServiceInstance, 'w) res" where
  "HandleDeletionWithActiveBindings kube si w =
     (case kube_StatusUpdate kube si w of
        (Some err, si1, w1) \<Rightarrow>
          Ret (Some (wrap (SiErr si_errCannotUpdateServiceInstanceStatus) err)) si1 w1
      | (None, si1, w1) \<Rightarrow> Ret None si1 w1)"

definition Provision ::
  "('m, 's) crossplane \<Rightarrow> 'w runtime \<Rightarrow> ('ep, 'vm) osb_pkg
     \<Rightarrow> (('m, 's, 'q) ServiceInstance, 'w) kube_client \<Rightarrow> ('ep, 'vm, 'w) osb_client
     \<Rightarrow> ('m, 's, 'q) ServiceInstance \<Rightarrow> bool \<Rightarrow> 'w
     \<Rightarrow> (go_error option, ('m, 's, 'q) ServiceInstance, 'w) res" where
  "Provision X R P kube osb si disableAsync w =
     (case ToParameters R (Some (id_Parameters (si_ForProvider si))) of
        Inl err \<Rightarrow> Ret (Some (wrap (SiErr si_errParseParametersFailed) err)) si w
      | Inr params \<Rightarrow>
     (case KubernetesOSBContext_ToMap R (id_Context (si_ForProvider si)) of
        Inl err \<Rightarrow> Ret (Some (wrap (SiErr si_errParseContextFailed) err)) si w
      | Inr ctxMap \<Rightarrow>
     (case buildProvisionRequest si params ctxMap disableAsync of
        Inl err \<Rightarrow> Ret (Some (wrap (SiErr si_errFailedToBuildProvisionRequest) err)) si w
      | Inr req \<Rightarrow>
     (case osb_ProvisionInstance osb req w of
        (_, Some err, w1) \<Rightarrow> Ret (Some (wrap (SiErr si_errOSBProvisionInstanceFailed) err)) si w1
      | (resp, None, w1) \<Rightarrow>
          bind_go (UpdateStatusFromOSB X si (ProvisionResponse_iface P resp) w1) (\<lambda>_ si2 w2.
            case kube_StatusUpdate kube si2 w2 of
              (Some err, si3, w3) \<Rightarrow>
                Ret (Some (wrap (SiErr si_errCannotUpdateServiceInstanceStatus) err)) si3 w3
            | (None, si3, w3) \<Rightarrow> Ret None si3 w3)))))"

definition si_Update ::
  "('m, 's) crossplane \<Rightarrow> 'w runtime \<Rightarrow> (('m, 's, 'q) ServiceInstance, 'w) kube_client
     \<Rightarrow> ('ep, 'vm, 'w) osb_client \<Rightarrow> ('m, 's, 'q) ServiceInstance \<Rightarrow> OriginatingIdentity \<Rightarrow> bool \<Rightarrow> 'w
     \<Rightarrow> (go_error option, ('m, 's, 'q) ServiceInstance, 'w) res" where
  "si_Update X R kube osb si oid disableAsync w =
     (case buildUpdateInstanceRequest R si oid disableAsync of
        Inl err \<Rightarrow> Ret (Some (wrap (SiErr si_errCannotBuildUpdateRequest) err)) si w
      | Inr req \<Rightarrow>
     (case osb_UpdateInstance osb req w of
        (_, Some err, w1) \<Rightarrow> Ret (Some (wrap (SiErr si_errOSBUpdateInstanceFailed) err)) si w1
      | (resp, None, w1) \<Rightarrow>
          bind_go (UpdateStatusFromOSB X si resp w1) (\<lambda>_ si2 w2.
            case kube_StatusUpdate kube si2 w2 of
              (Some err, si3, w3) \<Rightarrow>
                Ret (Some (wrap (SiErr si_errCannotUpdateServiceInstanceStatus) err)) si3 w3
            | (None, si3, w3) \<Rightarrow> Ret None si3 w3)))"

definition si_ObserveState ::
  "('m, 's) crossplane \<Rightarrow> 'w runtime \<Rightarrow> ('ep, 'vm) osb_pkg
     \<Rightarrow> (('m, 's, 'q) ServiceInstance, 'w) kube_client \<Rightarrow> ('ep, 'vm, 'w) osb_client
     \<Rightarrow> ('m, 's, 'q) ServiceInstance \<Rightarrow> OriginatingIdentity \<Rightarrow> 'w
     \<Rightarrow> (Action \<times> GetInstanceResponse option \<times> go_error option, ('m, 's, 'q) ServiceInstance, 'w) res" where
  "si_ObserveState X R P kube osb si oid w =
     (if HasLastOperation si then
        bind_go (HandleLastOperationInProgress X P kube osb si oid w) (\<lambda>(action, err) si1 w1.
          case err of
            Some e \<Rightarrow>
              Ret (NothingToDo, None, Some (wrap (SiErr si_errFailedToHandleLastOperationInProgress) e)) si1 w1
          | None \<Rightarrow> Ret (action, None, None) si1 w1)
      else if meta_WasDeleted X (si_ObjectMeta si) then
        bind_go (HandleDeletionWithActiveBindings kube si w) (\<lambda>err si1 w1.
          case err of
            Some e \<Rightarrow>
              Ret (NeedToCreate, None, Some (wrap (SiErr si_errFailedToHandleDeletionWithActiveBindings) e)) si1 w1
          | None \<Rightarrow> Ret (NeedToCreate, None, None) si1 w1)
      else
     (case buildGetInstanceRequest si of
        Inl err \<Rightarrow>
          Ret (NothingToDo, None, Some (wrap (SiErr si_errFailedToBuildGetInstanceRequest) err)) si w
      | Inr req \<Rightarrow>
     (case osb_GetInstance osb req w of
        (_, Some err, w1) \<Rightarrow>
          if IsResourceGone P err then Ret (NeedToCreate, None, None) si w1
          else Ret (NothingToDo, None, Some (wrap (SiErr si_errOSBGetInstance) err)) si w1
      | (osbInstance, None, w1) \<Rightarrow>
     (case CompareSpecWithOSB R si osbInstance of
        (_, Some err) \<Rightarrow>
          Ret (NothingToDo, None, Some (wrap (SiErr si_errFailedToCompareSpecWithOSB) err)) si w1
      | (action, None) \<Rightarrow> Ret (action, osbInstance, None) si w1))))"

end
