(* ===== verification/Instance_Controller.thy ===== *)
theory Instance_Controller
  imports Managed Instance_Operations
begin

text \<open>
  The controller of service instances (\<^verbatim>\<open>internal/controller/serviceinstance\<close>): connecting
  to a broker, and the external client's observe, create, update and delete.
\<close>

section \<open>Connecting\<close>

record ('o, 'sel, 'av, 'r, 'cl, 'w) sic_connector =
  sicn_kube :: "('sel, 'w) config_reader"
  sicn_usage :: "('o, 'sel, 'w) tracker"
  sicn_factory :: "('av, 'r, 'cl) osb_factory"
  sicn_originatingIdentityValue :: KubernetesOSBOriginatingIdentityValue

record 'cl sic_external =
  sice_osb :: 'cl
  sice_originatingIdentity :: OriginatingIdentity
  sice_disableAsync :: bool

definition sic_Connect ::
  "('m, 's) crossplane \<Rightarrow> (('m, 's, 'q) ServiceInstance, 'sel, 'av, 'r, 'cl, 'w) sic_connector
     \<Rightarrow> ('m, 's, 'q) ServiceInstance managed \<Rightarrow> 'w \<Rightarrow> (go_error + 'cl sic_external) \<times> 'w" where
  "sic_Connect X c mg w =
     (case mg of
        OtherKind t \<Rightarrow> (Inl (Errorf (SicErr sic_errNotServiceInstanceCR) [Txt t]), w)
      | ThisKind obj \<Rightarrow>
     (case usage_Track (sicn_usage c) obj w of
        (Some err, w1) \<Rightarrow> (Inl (wrap (SicErr sic_errCannotTrackProviderConfigUsage) err), w1)
      | (None, w1) \<Rightarrow>
     (case ResolveProviderConfig (sicn_kube c) (meta_GetNamespace X (si_ObjectMeta obj))
             (meta_GetName X (si_ObjectMeta obj))
             (mrs_ProviderConfigReference (sis_Managed (si_Spec obj))) w1 of
        (Inl err, w2) \<Rightarrow> (Inl err, w2)
      | (Inr (pc, pcSpec), w2) \<Rightarrow>
     (case CommonCredentialExtractor (sicn_usage c) (pcr_Source (pcs_Credentials pcSpec))
             (pcr_Selectors (pcs_Credentials pcSpec)) w2 of
        (Inl err, w3) \<Rightarrow> (Inl (wrap (SicErr sic_errCannotTrackProviderConfig) err), w3)
      | (Inr creds, w3) \<Rightarrow>
     (case NewOsbClient (sicn_factory c) pc creds of
        Inl err \<Rightarrow> (Inl (wrap (SicErr sic_errCannotCreateNewOsbClient) err), w3)
      | Inr client \<Rightarrow>
     (case MakeOriginatingIdentityFromValue X (sicn_originatingIdentityValue c) of
        Inl err \<Rightarrow> (Inl (wrap (SicErr sic_errCannotMakeOriginatingIdentity) err), w3)
      | Inr oid \<Rightarrow>
          (Inr \<lparr> sice_osb = client, sice_originatingIdentity = oid,
                 sice_disableAsync = pcs_DisableAsync pcSpec \<rparr>, w3)))))))"

section \<open>The external client\<close>

text \<open>The dashboard URL is read through the pointer the observation returned.\<close>

definition sic_Observe_obj ::
  "('m, 's) crossplane \<Rightarrow> 'w runtime \<Rightarrow> ('ep, 'vm) osb_pkg
     \<Rightarrow> (('m, 's, 'q) ServiceInstance, 'w) kube_client \<Rightarrow> ('ep, 'vm, 'w) osb_client sic_external
     \<Rightarrow> ('m, 's, 'q) ServiceInstance \<Rightarrow> 'w
     \<Rightarrow> (ExternalObservation \<times> go_error option, ('m, 's, 'q) ServiceInstance, 'w) res" where
  "sic_Observe_obj X R P kube c inst w =
     (if IsInstanceIDEmpty inst then
        Ret (ExternalObservation_zero, Some (Sentinel (SicErr sic_errInstanceIDNotSet))) inst w
      else
     bind_go (si_ObserveState X R P kube (sice_osb c) inst (sice_originatingIdentity c) w)
       (\<lambda>(action, osbInstance, err) i1 w1.
     case err of
       Some e \<Rightarrow> Ret (ExternalObservation_zero, Some (wrap (SicErr sic_errFailedToObserveState) e)) i1 w1
     | None \<Rightarrow>
         (case action of
            NeedToCreate \<Rightarrow>
              Ret (ExternalObservation_zero\<lparr>eo_ResourceExists := False\<rparr>, None) i1 w1
          | NothingToDo \<Rightarrow>
              Ret (ExternalObservation_zero\<lparr>eo_ResourceExists := True, eo_ResourceUpToDate := True\<rparr>, None)
                (si_SetConditions X [xp_Available X] i1) w1
          | NeedToUpdate \<Rightarrow>
              (case osbInstance of
                 None \<Rightarrow> Panic i1 w1
               | Some r \<Rightarrow>
                   Ret (\<lparr> eo_ResourceExists = True, eo_ResourceUpToDate = False,
                          eo_ConnectionDetails = Some [(''dashboardURL'', gi_DashboardURL r)] \<rparr>, None) i1 w1)
          | OtherAction _ \<Rightarrow> Ret (ExternalObservation_zero, None) i1 w1)))"

definition sic_Create_obj ::
  "('m, 's) crossplane \<Rightarrow> 'w runtime \<Rightarrow> ('ep, 'vm) osb_pkg
     \<Rightarrow> (('m, 's, 'q) ServiceInstance, 'w) kube_client \<Rightarrow> ('ep, 'vm, 'w) osb_client sic_external
     \<Rightarrow> ('m, 's, 'q) ServiceInstance \<Rightarrow> 'w
     \<Rightarrow> (ExternalCreation \<times> go_error option, ('m, 's, 'q) ServiceInstance, 'w) res" where
  "sic_Create_obj X R P kube c inst w =
     bind_go (Provision X R P kube (sice_osb c) inst (sice_disableAsync c) w) (\<lambda>err i1 w1.
     case err of
       Some e \<Rightarrow> Ret (ExternalCreation_zero, Some (wrap (SicErr sic_errFailedToProvision) e)) i1 w1
     | None \<Rightarrow> Ret (ExternalCreation_zero, None) i1 w1)"

definition sic_Update_obj ::
  "('m, 's) crossplane \<Rightarrow> 'w runtime
     \<Rightarrow> (('m, 's, 'q) ServiceInstance, 'w) kube_client \<Rightarrow> ('ep, 'vm, 'w) osb_client sic_external
     \<Rightarrow> ('m, 's, 'q) ServiceInstance \<Rightarrow> 'w
     \<Rightarrow> (ExternalUpdate \<times> go_error option, ('m, 's, 'q) ServiceInstance, 'w) res" where
  "sic_Update_obj X R kube c inst w =
     bind_go (si_Update X R kube (sice_osb c) inst (sice_originatingIdentity c) (sice_disableAsync c) w)
       (\<lambda>err i1 w1.
     case err of
       Some e \<Rightarrow> Ret (ExternalUpdate_zero, Some (wrap (SicErr sic_errFailedToUpdate) e)) i1 w1
     | None \<Rightarrow> Ret (\<lparr> eu_ConnectionDetails = Some [] \<rparr>, None) i1 w1)"

definition sic_Delete_obj ::
  "('m, 's) crossplane \<Rightarrow> ('ep, 'vm) osb_pkg
     \<Rightarrow> (('m, 's, 'q) ServiceInstance, 'w) kube_client \<Rightarrow> ('ep, 'vm, 'w) osb_client sic_external
     \<Rightarrow> ('m, 's, 'q) ServiceInstance \<Rightarrow> 'w
     \<Rightarrow> (ExternalDelete \<times> go_error option, ('m, 's, 'q) ServiceInstance, 'w) res" where
  "sic_Delete_obj X P kube c inst w =
     bind_go (Deprovision P kube (sice_osb c) (si_SetConditions X [xp_Deleting X] inst)
                (sice_originatingIdentity c) (sice_disableAsync c) w) (\<lambda>err i1 w1.
     case err of
       Some e \<Rightarrow> Ret (ExternalDelete_zero, Some (wrap (SicErr sic_errFailedToDeprovision) e)) i1 w1
     | None \<Rightarrow> Ret (ExternalDelete_zero, None) i1 w1)"

fun sic_Observe where
  "sic_Observe X R P kube c (OtherKind t) w =
     Ret (ExternalObservation_zero, Some (Errorf (SicErr sic_errNotServiceInstanceCR) [Txt t])) (OtherKind t) w"
| "sic_Observe X R P kube c (ThisKind inst) w = in_obj ThisKind (sic_Observe_obj X R P kube c inst w)"

fun sic_Create where
  "sic_Create X R P kube c (OtherKind t) w =
     Ret (ExternalCreation_zero, Some (Errorf (SicErr sic_errNotServiceInstanceCR) [Txt t])) (OtherKind t) w"
| "sic_Create X R P kube c (ThisKind inst) w = in_obj ThisKind (sic_Create_obj X R P kube c inst w)"

fun sic_Update where
  "sic_Update X R kube c (OtherKind t) w =
     Ret (ExternalUpdate_zero, Some (Errorf (SicErr sic_errNotServiceInstanceCR) [Txt t])) (OtherKind t) w"
| "sic_Update X R kube c (ThisKind inst) w = in_obj ThisKind (sic_Update_obj X R kube c inst w)"

fun sic_Delete where
  "sic_Delete X P kube c (OtherKind t) w =
     Ret (ExternalDelete_zero, Some (Errorf (SicErr sic_errNotServiceInstanceCR) [Txt t])) (OtherKind t) w"
| "sic_Delete X P kube c (ThisKind inst) w = in_obj ThisKind (sic_Delete_obj X P kube c inst w)"

definition sic_Disconnect :: "'w \<Rightarrow> go_error option \<times> 'w" where
  "sic_Disconnect w = (None, w)"

section \<open>The interface\<close>

interpretation sic_client: external_client
  "sic_Observe X R P kube c" "sic_Create X R P kube c" "sic_Update X R kube c" "sic_Delete X P kube c"
  for X R P kube c
proof
  fix mg w ob e
  show "res_val (sic_Observe X R P kube c mg w) = Some (ob, e) \<Longrightarrow>
      eo_ResourceUpToDate ob \<or> eo_ConnectionDetails ob \<noteq> None \<Longrightarrow> eo_ResourceExists ob"
    by (cases mg) (auto simp: sic_Observe_obj_def split: bind_go_splits option.splits Action.splits if_splits)
next
  fix mg w ob e
  show "res_val (sic_Observe X R P kube c mg w) = Some (ob, Some e) \<Longrightarrow> ob = ExternalObservation_zero"
    by (cases mg) (auto simp: sic_Observe_obj_def split: bind_go_splits option.splits Action.splits if_splits)
next
  fix mg w ec e
  show "res_val (sic_Create X R P kube c mg w) = Some (ec, Some e) \<Longrightarrow> ec = ExternalCreation_zero"
    by (cases mg) (auto simp: sic_Create_obj_def split: bind_go_splits option.splits sum.splits prod.splits if_splits)
next
  fix mg w eu e
  show "res_val (sic_Update X R kube c mg w) = Some (eu, Some e) \<Longrightarrow> eu = ExternalUpdate_zero"
    by (cases mg) (auto simp: sic_Update_obj_def split: bind_go_splits option.splits)
next
  fix mg w ed e
  show "res_val (sic_Delete X P kube c mg w) = Some (ed, Some e) \<Longrightarrow> ed = ExternalDelete_zero"
    by (cases mg) (auto simp: sic_Delete_obj_def split: bind_go_splits option.splits if_splits)
qed auto

end
