(* ===== verification/Example_Environment.thy ===== *)
theory Example_Environment
  imports Binding_Lifecycle Instance_Controller
begin

text \<open>
  A concrete environment: one instance of every third-party interface of \<^theory_text>\<open>Platform\<close> that
  satisfies its documented laws. The worked examples that accompany the properties run the
  model's operations in it. The world is the list of the calls made so far.
\<close>

section \<open>Metadata and conditions\<close>

record ex_meta =
  em_name :: string
  em_namespace :: string
  em_external :: string
  em_finalizers :: "string list"
  em_deleted :: bool

type_synonym ex_status = "condition list"

fun ex_SetConditions :: "ex_status \<Rightarrow> condition list \<Rightarrow> ex_status" where
  "ex_SetConditions s [] = s"
| "ex_SetConditions s (c # cs) =
     ex_SetConditions (c # filter (\<lambda>x. c_Type x \<noteq> c_Type c) s) cs"

definition ex_GetCondition :: "ex_status \<Rightarrow> ConditionType \<Rightarrow> condition" where
  "ex_GetCondition s t =
     (case filter (\<lambda>x. c_Type x = t) s of
        c # _ \<Rightarrow> c
      | [] \<Rightarrow> \<lparr> c_Type = t, c_Status = ConditionUnknown, c_Reason = [], c_Message = [] \<rparr>)"

definition ready_condition :: "ConditionStatus \<Rightarrow> string \<Rightarrow> condition" where
  "ready_condition st r = \<lparr> c_Type = TypeReady, c_Status = st, c_Reason = r, c_Message = [] \<rparr>"

definition ex_X :: "(ex_meta, ex_status) crossplane" where
  "ex_X =
     \<lparr> meta_GetExternalName = em_external,
       meta_SetExternalName = (\<lambda>m n. m\<lparr>em_external := n\<rparr>),
       meta_WasDeleted = em_deleted,
       meta_FinalizerExists = (\<lambda>m f. f \<in> set (em_finalizers m)),
       meta_AddFinalizer =
         (\<lambda>m f. if f \<in> set (em_finalizers m) then m else m\<lparr>em_finalizers := em_finalizers m @ [f]\<rparr>),
       meta_RemoveFinalizer = (\<lambda>m f. m\<lparr>em_finalizers := filter (\<lambda>g. g \<noteq> f) (em_finalizers m)\<rparr>),
       meta_DeletionTimestamp_IsZero = (\<lambda>m. \<not> em_deleted m),
       meta_GetName = em_name,
       meta_GetNamespace = em_namespace,
       xp_SetConditions = ex_SetConditions,
       xp_GetCondition = ex_GetCondition,
       xp_Available = ready_condition ConditionTrue ''Available'',
       xp_Unavailable = ready_condition ConditionFalse ''Unavailable'',
       xp_Creating = ready_condition ConditionFalse ''Creating'',
       xp_Deleting = ready_condition ConditionFalse ''Deleting'',
       apiext_JSON_doc = (\<lambda>raw. AObj []) \<rparr>"

lemma ex_external_name_laws: "external_name_laws ex_X"
  by (simp add: external_name_laws_def ex_X_def)

lemma ex_finalizer_laws: "finalizer_laws ex_X"
  by (auto simp: finalizer_laws_def ex_X_def)

lemma filter_other_type:
  "t \<noteq> t' \<Longrightarrow> filter (\<lambda>x. c_Type x = t) (filter (\<lambda>x. c_Type x \<noteq> t') s) = filter (\<lambda>x. c_Type x = t) s"
  by (induction s) auto

lemma ex_condition_laws: "condition_laws ex_X"
proof -
  have "ex_GetCondition (ex_SetConditions s [c]) (c_Type c) = c" for s c
    by (simp add: ex_GetCondition_def)
  moreover have "ex_GetCondition (ex_SetConditions s [c]) t = ex_GetCondition s t"
    if "t \<noteq> c_Type c" for s c t
    using that by (simp add: ex_GetCondition_def filter_other_type eq_commute [of "c_Type c"] del: filter_filter)
  ultimately show ?thesis
    by (simp add: condition_laws_def ex_X_def ready_condition_def)
qed

section \<open>Clock, brokers and clients\<close>

type_synonym ex_world = "string list"

definition ex_now :: gotime where
  "ex_now = time_Date 2025 6 1 12 0 0 0"

definition ex_R :: "ex_world runtime" where
  "ex_R =
     \<lparr> time_Now = (\<lambda>w. (ex_now, w)),
       uuid_NewUUID = (\<lambda>w. (''uuid-'' @ map (\<lambda>_. CHR ''x'') w, w @ [''uuid''])),
       range_order = (\<lambda>w kvs. if even (length w) then kvs else rev kvs),
       f64_lit = Some \<rparr>"

lemma ex_range_laws: "range_laws ex_R"
  by (simp add: range_laws_def ex_R_def)

fun bool_of_doc :: "gany \<Rightarrow> bool option" where
  "bool_of_doc (ABool b) = Some b"
| "bool_of_doc v = None"

text \<open>Endpoints and volume mounts are booleans; HTTP errors are told by their text.\<close>

definition ex_P :: "(bool, bool) osb_pkg" where
  "ex_P =
     \<lparr> IsHTTPError =
         (\<lambda>e. case e of
                ErrExt t \<Rightarrow> if t = ''410'' then Some 410 else if t = ''404'' then Some 404
                            else if t = ''500'' then Some 500 else None
              | _ \<Rightarrow> None),
       ProvisionResponse_iface =
         map_option (\<lambda>r. \<lparr> ar_IsAsync = p_Async r, ar_GetOperationKey = p_OperationKey r,
                            ar_GetDashboardURL = p_DashboardURL r \<rparr>),
       Endpoint_json = ABool, Endpoint_of_json = bool_of_doc,
       VolumeMount_json = ABool, VolumeMount_of_json = bool_of_doc \<rparr>"

lemma ex_http_laws: "http_laws ex_P"
  by (simp add: http_laws_def ex_P_def)

lemma ex_async_iface_laws: "async_iface_laws ex_P"
  by (simp add: async_iface_laws_def ex_P_def)

text \<open>An API server that answers every call with the object it is given.\<close>

definition ex_kube :: "('o, ex_world) kube_client" where
  "ex_kube =
     \<lparr> kube_Get = (\<lambda>ns n ob w. (None, ob, w @ [''get''])),
       kube_Update = (\<lambda>ob w. (None, ob, w @ [''update''])),
       kube_StatusUpdate = (\<lambda>ob w. (None, ob, w @ [''status''])) \<rparr>"

text \<open>A broker that logs its calls and gives fixed answers.\<close>

definition ex_call :: "string \<Rightarrow> 'a option \<times> go_error option \<Rightarrow> ('a, ex_world) call" where
  "ex_call name ans = (\<lambda>w. (fst ans, snd ans, w @ [name]))"

definition ex_osb ::
  "(bool, bool) BindResponse \<Rightarrow> (bool, bool) GetBindingResponse \<Rightarrow> UnbindResponse
     \<Rightarrow> LastOperationResponse option \<times> go_error option \<Rightarrow> (bool, bool, ex_world) osb_client" where
  "ex_osb br gr ur poll =
     \<lparr> osb_Bind = (\<lambda>_. ex_call ''bind'' (Some br, None)),
       osb_Unbind = (\<lambda>_. ex_call ''unbind'' (Some ur, None)),
       osb_GetBinding = (\<lambda>_. ex_call ''get-binding'' (Some gr, None)),
       osb_RotateBinding = (\<lambda>_. ex_call ''rotate'' (Some br, None)),
       osb_PollBindingLastOperation = (\<lambda>_. ex_call ''poll-binding'' poll),
       osb_ProvisionInstance = (\<lambda>_. ex_call ''provision'' (Some \<lparr> p_Async = False,
          p_OperationKey = None, p_DashboardURL = Some ''http://d'' \<rparr>, None)),
       osb_UpdateInstance = (\<lambda>_. ex_call ''update'' (Some \<lparr> ar_IsAsync = False,
          ar_GetOperationKey = None, ar_GetDashboardURL = None \<rparr>, None)),
       osb_DeprovisionInstance = (\<lambda>_. ex_call ''deprovision'' (Some \<lparr> dp_Async = True,
          dp_OperationKey = Some ''op'' \<rparr>, None)),
       osb_GetInstance = (\<lambda>_. ex_call ''get-instance'' (Some \<lparr> gi_PlanID = ''plan'',
          gi_Parameters = Some [], gi_DashboardURL = ''http://d'' \<rparr>, None)),
       osb_PollLastOperation = (\<lambda>_. ex_call ''poll'' poll) \<rparr>"

definition ex_oid :: OriginatingIdentity where
  "ex_oid = \<lparr> oid_Platform = ''kubernetes'', oid_Value = ''me'' \<rparr>"

definition ex_bind :: "(bool, bool) BindResponse" where
  "ex_bind =
     \<lparr> b_Async = False, b_OperationKey = None, b_Credentials = Some [(''user'', AStr ''u'')],
       b_Endpoints = None, b_VolumeMounts = None, b_RouteServiceURL = None,
       b_SyslogDrainURL = None, b_Metadata = None \<rparr>"

definition ex_get :: "(bool, bool) GetBindingResponse" where
  "ex_get =
     \<lparr> gb_Credentials = Some [(''user'', AStr ''u'')], gb_Parameters = Some [(''p'', AStr ''v'')],
       gb_Endpoints = None, gb_VolumeMounts = None, gb_RouteServiceURL = None,
       gb_SyslogDrainURL = None, gb_Metadata = None \<rparr>"

definition ex_unbind :: UnbindResponse where
  "ex_unbind = \<lparr> ub_Async = True, ub_OperationKey = Some ''op'' \<rparr>"

definition ex_succeeded :: LastOperationResponse where
  "ex_succeeded = \<lparr> lo_State = StateSucceeded, lo_Description = None \<rparr>"

definition ex_broker :: "(bool, bool, ex_world) osb_client" where
  "ex_broker = ex_osb ex_bind ex_get ex_unbind (Some ex_succeeded, None)"

section \<open>Resources\<close>

definition ex_metadata :: ex_meta where
  "ex_metadata =
     \<lparr> em_name = ''n'', em_namespace = ''ns'', em_external = [], em_finalizers = [], em_deleted = False \<rparr>"

definition ex_context :: KubernetesOSBContext where
  "ex_context =
     \<lparr> kc_Platform = ''kubernetes'', kc_Namespace = ''ns'', kc_NamespaceAnnotations = None,
       kc_InstanceAnnotations = Some [(''team'', ''t'')], kc_ClusterId = ''c'', kc_InstanceName = ''i'' \<rparr>"

definition ex_observation :: ServiceBindingObservation where
  "ex_observation =
     \<lparr> sbo_Parameters = [], sbo_RouteServiceURL = None, sbo_Endpoints = [], sbo_VolumeMounts = [],
       sbo_SyslogDrainURL = None, sbo_Metadata = None, sbo_LastOperationState = LastOperationState_zero,
       sbo_LastOperationKey = [], sbo_LastOperationDescription = [], sbo_LastOperationPolledTime = [] \<rparr>"

definition ex_sb :: "(ex_meta, ex_status, unit) ServiceBinding" where
  "ex_sb =
     \<lparr> sb_ObjectMeta = ex_metadata,
       sb_Spec = \<lparr> sbs_Managed = \<lparr> mrs_ProviderConfigReference = None, mrs_rest = () \<rparr>,
                  sbs_ForProvider =
                    \<lparr> sbp_AppGuid = ''app'', sbp_InstanceId = ''inst'', sbp_PlanId = ''plan'',
                      sbp_ServiceId = ''svc'', sbp_Context = ex_context,
                      sbp_Parameters = ''{\"p\":\"v\"}'',
                      sbp_BindResource = \<lparr> bres_AppGuid = [], bres_Route = [] \<rparr> \<rparr> \<rparr>,
       sb_Status = \<lparr> sbst_ResourceStatus = [], sbst_AtProvider = ex_observation \<rparr> \<rparr>"

text \<open>A binding that has been created, and one with an operation in progress.\<close>

definition ex_bound :: "(ex_meta, ex_status, unit) ServiceBinding" where
  "ex_bound = ex_sb\<lparr>sb_ObjectMeta := ex_metadata\<lparr>em_external := ''b1''\<rparr>\<rparr>"

definition ex_busy :: "(ex_meta, ex_status, unit) ServiceBinding" where
  "ex_busy = sb_SetLastOperationState StateInProgress ex_bound"

definition ex_si :: "(ex_meta, ex_status, unit) ServiceInstance" where
  "ex_si =
     \<lparr> si_ObjectMeta = ex_metadata,
       si_Spec = \<lparr> sis_Managed = \<lparr> mrs_ProviderConfigReference = None, mrs_rest = () \<rparr>,
                  sis_ForProvider =
                    \<lparr> id_AppGuid = [], id_InstanceId = ''inst'', id_PlanId = ''plan'',
                      id_ServiceId = ''svc'', id_Context = ex_context, id_Parameters = ''{}'',
                      id_OrganizationGuid = ''org'', id_SpaceGuid = ''space'' \<rparr> \<rparr>,
       si_Status =
         \<lparr> sist_ResourceStatus = [],
           sist_AtProvider =
             \<lparr> sio_AppGuid = [], sio_InstanceId = [], sio_PlanId = [], sio_ServiceId = [],
               sio_Context = ex_context, sio_Parameters = [], sio_OrganizationGuid = [],
               sio_SpaceGuid = [], sio_DashboardURL = None,
               sio_LastOperationState = LastOperationState_zero, sio_LastOperationKey = [],
               sio_LastOperationDescription = [], sio_HasActiveBindings = False \<rparr> \<rparr> \<rparr>"

lemmas ex_defs = ex_X_def ex_R_def ex_P_def ex_kube_def ex_osb_def ex_call_def ex_broker_def
  ex_bind_def ex_get_def ex_unbind_def ex_succeeded_def ex_oid_def ex_metadata_def
  ex_observation_def ex_sb_def ex_bound_def ex_busy_def ex_si_def

section \<open>Facts of the environment\<close>

lemma ex_uuid: "fst (uuid_NewUUID ex_R w) \<noteq> []"
  by (simp add: ex_R_def)

lemma ex_get_ok:
  "gb_Metadata ex_get = None" "response_ok ex_P (CreateResponseData ex_get)"
  "creds_ok (gb_Credentials ex_get)" "map_readable ex_R (gb_Parameters ex_get)"
  by (simp_all add: ex_get_def ex_P_def ex_R_def response_ok_def CreateResponseData_def items_doc_def
      creds_ok_def map_ok_def map_readable_def max_nesting_def)

definition ex_ext :: "(bool, bool, ex_world) osb_client \<Rightarrow> (bool, bool, ex_world) osb_client sbc_external" where
  "ex_ext osb = \<lparr> sbce_osb = osb, sbce_originatingIdentity = ex_oid, sbce_disableAsync = False,
                  sbce_rotateBinding = True \<rparr>"

lemma ex_kube_current: "kube_current X getm ex_kube ob"
  by (simp add: kube_current_def ex_kube_def)

lemma ex_kube_updates_metadata: "kube_updates_metadata X getm ex_kube"
  by (simp add: kube_updates_metadata_def ex_kube_def)

lemma ex_kube_stores_status: "kube_stores_status X getm getspec getst ex_kube"
  by (simp add: kube_stores_status_def ex_kube_def)

lemma ex_apiext_laws: "apiext_laws ex_X"
  by (simp add: apiext_laws_def ex_X_def)

definition ex_ext_si :: "(bool, bool, ex_world) osb_client \<Rightarrow> (bool, bool, ex_world) osb_client sic_external" where
  "ex_ext_si osb = \<lparr> sice_osb = osb, sice_originatingIdentity = ex_oid, sice_disableAsync = False \<rparr>"

lemma ex_broker_answers: "broker_answers (ex_osb br gr ur poll) \<longleftrightarrow> poll \<noteq> (None, None)"
  by (auto simp: broker_answers_def answers_def ex_osb_def ex_call_def prod_eq_iff)

end
