(* ===== verification/Binding_Properties.thy ===== *)
theory Binding_Properties
  imports Binding_Lifecycle Example_Environment
begin

text \<open>
  The properties of service bindings: what an observation decides, what is sent to the broker
  and when, and what the operations leave behind on the object.
\<close>

section \<open>What an observation decides\<close>

text \<open>C1: Observing a binding asks for its creation in exactly two situations: with no operation
  in progress, when it has no external name or the broker answers that the binding is gone;
  with one, when the poll answers that it is gone, the object is being deleted and the
  removal of the asynchronous-deletion finalizer went through. A failed or unclear answer
  never leads to a second bind.\<close>
theorem observe_creates_iff:
  "observed_action (sb_ObserveState X R P kube osb sb rotation oid w) = Some NeedToCreate
   \<longleftrightarrow> (if sb_IsStateInProgress sb
       then \<exists>req resp e w1. buildBindingLastOperationRequest X sb oid = Inr req
              \<and> osb_PollBindingLastOperation osb req w = (resp, Some e, w1)
              \<and> IsResourceGone P e \<and> meta_WasDeleted X (sb_ObjectMeta sb)
              \<and> fst (HandleFinalizer kube sb sb_asyncDeletionFinalizer
                       (RemoveFinalizerIfExists X sb_ObjectMeta sb_set_ObjectMeta) w1) = None
       else sb_GetExternalName X sb = []
            \<or> sbp_InstanceId (sb_ForProvider sb) \<noteq> []
              \<and> (\<exists>resp e w1. osb_GetBinding osb (get_request X sb) w = (resp, Some e, w1)
                     \<and> IsResourceGone P e))"
proof (cases "sb_IsStateInProgress sb")
  case True
  then show ?thesis
    by (simp only: observe_in_progress handleLastOperation_action if_True)
next
  case False
  then show ?thesis
    by (cases "sb_GetExternalName X sb = []"; cases "sbp_InstanceId (sb_ForProvider sb) = []")
      (auto simp: observe_no_name observe_no_instance observe_get observe_rest_action
        split: option.split prod.split sum.split)
qed

text \<open>C2: Observing asks for an update, which is a rotation, exactly when no operation is in
  progress, rotation is enabled, the binding was fetched and its data stored, its renewal time
  has passed and its expiry time can be read. Nothing else ever triggers a rotation. Whether
  the binding has expired does not matter: the comment on \<open>HandleRenewalBindings\<close> announces a
  rotation only of an expired binding, the code rotates from the renewal time on.\<close>
theorem observe_updates_iff:
  "observed_action (sb_ObserveState X R P kube osb sb rotation oid w) = Some NeedToUpdate
   \<longleftrightarrow> \<not> sb_IsStateInProgress sb \<and> sb_GetExternalName X sb \<noteq> [] \<and> sbp_InstanceId (sb_ForProvider sb) \<noteq> []
     \<and> rotation
     \<and> (\<exists>r c w1. osb_GetBinding osb (get_request X sb) w = (Some r, None, w1)
          \<and> response_ok P (CreateResponseData r) \<and> MarshalBindingCredentials R r w1 = Inr c
          \<and> rotation_due R r w1)"
proof (cases "sb_IsStateInProgress sb")
  case True
  then show ?thesis
    by (simp add: observe_in_progress handleLastOperation_action)
next
  case False
  then show ?thesis
    by (cases "sb_GetExternalName X sb = []"; cases "sbp_InstanceId (sb_ForProvider sb) = []")
      (auto simp: observe_no_name observe_no_instance observe_get observe_rest_action
        SetResponseDataInStatus_ok_iff [of P sb, symmetric] split: option.split prod.split sum.split)
qed

text \<open>C3: For a fetched binding without renewal metadata, the observation is up to date, with the
  broker's credentials, when the specification's parameters equal the broker's as JSON
  values; different parameters are the drift error, and a specification that is not a JSON
  object is a comparison error. Either way the broker's data has been stored in the status.\<close>
theorem observe_compares_parameters:
  assumes "\<not> sb_IsStateInProgress sb" and "sb_GetExternalName X sb \<noteq> []"
    and "sbp_InstanceId (sb_ForProvider sb) \<noteq> []"
    and "osb_GetBinding osb (get_request X sb) w = (Some r, None, w1)"
    and "gb_Metadata r = None" and "response_ok P (CreateResponseData r)"
    and "creds_ok (gb_Credentials r)" and "map_readable R (gb_Parameters r)" and "range_laws R"
  shows "sb_ObserveState X R P kube osb sb rotation oid w =
     Ret (case unmarshal_map (f64_lit R) (sbp_Parameters (sb_ForProvider sb)) of
            None \<Rightarrow> (NothingToDo, None, Some (wrap (SbErr sb_errStatusSpecCompareFailed)
                      (wrap (SbErr sb_errFailedToParseSpecParamaters) (ErrStd JsonUnmarshalError))))
          | Some m \<Rightarrow>
              if deep_equal_map (gb_Parameters r) m
              then (NothingToDo, map_option marshalled (gb_Credentials r), None)
              else (NothingToDo, None, Some (Sentinel (SbErr sb_errStatusSpecMismatch))))
       (refreshed P sb r) w1"
proof -
  have "fst (SetResponseDataInStatus P sb (CreateResponseData r)) = None"
    using assms(6) by (simp add: SetResponseDataInStatus_ok_iff)
  then have "sb_ObserveState X R P kube osb sb rotation oid w
      = observe_rest X R (refreshed P sb r) r (map_option marshalled (gb_Credentials r)) rotation w1"
    using assms(1-4) MarshalBindingCredentials_value [OF assms(9,7)] by (simp add: observe_get)
  then show ?thesis
    using compare_refreshed [OF assms(6,8) refreshed_frame(2) [of P sb r] refl]
    by (auto simp: observe_rest_def HandleRenewalBindings_no_metadata [OF assms(5)] split: option.split)
qed

theorem observe_compares_parameters_witness:
  "sb_ObserveState ex_X ex_R ex_P ex_kube ex_broker ex_bound True ex_oid []
     = Ret (NothingToDo, Some [(''user'', ''\"u\"'')], None) (refreshed ex_P ex_bound ex_get) [''get-binding'']"
proof -
  have "\<not> sb_IsStateInProgress ex_bound" "sb_GetExternalName ex_X ex_bound \<noteq> []"
    "sbp_InstanceId (sb_ForProvider ex_bound) \<noteq> []"
    "osb_GetBinding ex_broker (get_request ex_X ex_bound) [] = (Some ex_get, None, [''get-binding''])"
    by code_simp+
  note obs = observe_compares_parameters [OF this ex_get_ok ex_range_laws]
  have "unmarshal_map (f64_lit ex_R) (sbp_Parameters (sb_ForProvider ex_bound)) = Some (gb_Parameters ex_get)"
    by code_simp
  moreover have "map_option marshalled (gb_Credentials ex_get) = Some [(''user'', ''\"u\"'')]"
    by code_simp
  ultimately show ?thesis
    by (simp add: obs)
qed

text \<open>C39: A broker that sends renewal metadata without a renewal time switches drift detection off:
  whatever the specification's parameters are, the observation is up to date. (The comparison
  is skipped by an early return; the comment in the code announces that it goes on.)\<close>
theorem observe_without_renewal_time:
  assumes "\<not> sb_IsStateInProgress sb" and "sb_GetExternalName X sb \<noteq> []"
    and "sbp_InstanceId (sb_ForProvider sb) \<noteq> []"
    and "osb_GetBinding osb (get_request X sb) w = (Some r, None, w1)"
    and "gb_Metadata r = Some md" and "md_RenewBefore md = []"
    and "response_ok P (CreateResponseData r)" and "creds_ok (gb_Credentials r)" and "range_laws R"
  shows "sb_ObserveState X R P kube osb sb rotation oid w
       = Ret (NothingToDo, map_option marshalled (gb_Credentials r), None) (refreshed P sb r) w1"
proof -
  have "fst (SetResponseDataInStatus P sb (CreateResponseData r)) = None"
    using assms(7) by (simp add: SetResponseDataInStatus_ok_iff)
  then show ?thesis
    using assms(1-6) MarshalBindingCredentials_value [OF assms(9,8)]
    by (simp add: observe_get observe_rest_def HandleRenewalBindings_def)
qed

definition ex_get_renewable :: "(bool, bool) GetBindingResponse" where
  "ex_get_renewable = ex_get\<lparr>gb_Parameters := Some [(''other'', AStr ''x'')],
     gb_Metadata := Some \<lparr> md_ExpiresAt = ''2030-01-01T00:00:00Z'', md_RenewBefore = [] \<rparr>\<rparr>"

theorem observe_without_renewal_time_witness:
  "res_val (sb_ObserveState ex_X ex_R ex_P ex_kube
      (ex_osb ex_bind ex_get_renewable ex_unbind (None, None)) ex_bound True ex_oid [])
     = Some (NothingToDo, Some [(''user'', ''\"u\"'')], None)"
proof -
  have "\<not> sb_IsStateInProgress ex_bound" "sb_GetExternalName ex_X ex_bound \<noteq> []"
    "sbp_InstanceId (sb_ForProvider ex_bound) \<noteq> []"
    "osb_GetBinding (ex_osb ex_bind ex_get_renewable ex_unbind (None, None)) (get_request ex_X ex_bound) []
       = (Some ex_get_renewable, None, [''get-binding''])"
    "gb_Metadata ex_get_renewable = Some \<lparr> md_ExpiresAt = ''2030-01-01T00:00:00Z'', md_RenewBefore = [] \<rparr>"
    "md_RenewBefore \<lparr> md_ExpiresAt = ''2030-01-01T00:00:00Z'', md_RenewBefore = [] \<rparr> = []"
    by code_simp+
  moreover have "response_ok ex_P (CreateResponseData ex_get_renewable)" "creds_ok (gb_Credentials ex_get_renewable)"
    using ex_get_ok(2,3) by (simp_all add: ex_get_renewable_def response_ok_def CreateResponseData_def)
  moreover have "map_option marshalled (gb_Credentials ex_get_renewable) = Some [(''user'', ''\"u\"'')]"
    by code_simp
  ultimately show ?thesis
    using observe_without_renewal_time [of ex_bound ex_X _ "[]" ex_get_renewable _ _ ex_P ex_R] ex_range_laws
    by simp
qed

text \<open>Without an operation in progress, observing changes neither the metadata (name,
  finalizers) nor the specification nor the recorded operation: only response data and
  conditions are written. In particular such an observation never removes a finalizer.\<close>
theorem observe_idle_frame:
  assumes "\<not> sb_IsStateInProgress sb"
  shows "let sb' = res_obj (sb_ObserveState X R P kube osb sb rotation oid w) in
     sb_ObjectMeta sb' = sb_ObjectMeta sb \<and> sb_Spec sb' = sb_Spec sb
     \<and> sbo_LastOperationState (sb_AtProvider sb') = sbo_LastOperationState (sb_AtProvider sb)
     \<and> sbo_LastOperationKey (sb_AtProvider sb') = sbo_LastOperationKey (sb_AtProvider sb)"
  using assms by (rule observe_idle)

theorem observe_idle_frame_witness:
  "sb_ObjectMeta (res_obj (sb_ObserveState ex_X ex_R ex_P ex_kube ex_broker ex_bound True ex_oid []))
     = ex_metadata\<lparr>em_external := ''b1''\<rparr>"
proof -
  have "\<not> sb_IsStateInProgress ex_bound" by code_simp
  from observe_idle_frame [OF this, of ex_X ex_R ex_P ex_kube ex_broker True ex_oid "[]"] show ?thesis
    by (simp add: Let_def ex_bound_def)
qed

section \<open>What the status stores\<close>

text \<open>C15: Storing response data keeps the recorded operation, and what is stored can be read back:
  the parameters, the endpoints and the volume mounts decode to the values of the response.\<close>
theorem status_roundtrip:
  assumes "SetResponseDataInStatus P sb rd = (None, sb')" and "map_readable R (rd_Parameters rd)"
    and "item_laws (Endpoint_json P) (Endpoint_of_json P)"
    and "item_laws (VolumeMount_json P) (VolumeMount_of_json P)"
  shows "ToParameters R (Some (sbo_Parameters (sb_AtProvider sb'))) = Inr (rd_Parameters rd)
     \<and> ToEndpoints P (Some (sbo_Endpoints (sb_AtProvider sb'))) = Inr (rd_Endpoints rd)
     \<and> ToVolumeMounts P (Some (sbo_VolumeMounts (sb_AtProvider sb'))) = Inr (rd_VolumeMounts rd)
     \<and> sbo_LastOperationState (sb_AtProvider sb') = sbo_LastOperationState (sb_AtProvider sb)
     \<and> sbo_LastOperationKey (sb_AtProvider sb') = sbo_LastOperationKey (sb_AtProvider sb)
     \<and> sbo_LastOperationDescription (sb_AtProvider sb') = sbo_LastOperationDescription (sb_AtProvider sb)
     \<and> sbo_LastOperationPolledTime (sb_AtProvider sb') = sbo_LastOperationPolledTime (sb_AtProvider sb)"
  using SetResponseDataInStatus_None [OF assms(1)] SetResponseDataInStatus_cases [OF assms(1)]
    decode_slice_enc [OF assms(3)] decode_slice_enc [OF assms(4)]
  by (auto simp: ToEndpoints_def ToVolumeMounts_def intro: ToParameters_marshal [OF _ assms(2)])

theorem status_roundtrip_witness:
  "ToParameters ex_R (Some (sbo_Parameters (sb_AtProvider (refreshed ex_P ex_busy ex_get))))
     = Inr (Some [(''p'', AStr ''v'')])
   \<and> sb_IsStateInProgress (refreshed ex_P ex_busy ex_get)"
proof -
  have "SetResponseDataInStatus ex_P ex_busy (CreateResponseData ex_get) = (None, refreshed ex_P ex_busy ex_get)"
    by code_simp
  moreover have "map_readable ex_R (rd_Parameters (CreateResponseData ex_get))"
    using ex_get_ok(4) by (simp add: CreateResponseData_def)
  moreover have "item_laws (Endpoint_json ex_P) (Endpoint_of_json ex_P)"
    "item_laws (VolumeMount_json ex_P) (VolumeMount_of_json ex_P)"
    by (simp_all add: item_laws_def ex_P_def max_nesting_def)
  ultimately have "ToParameters ex_R (Some (sbo_Parameters (sb_AtProvider (refreshed ex_P ex_busy ex_get))))
      = Inr (rd_Parameters (CreateResponseData ex_get))
    \<and> sbo_LastOperationState (sb_AtProvider (refreshed ex_P ex_busy ex_get))
      = sbo_LastOperationState (sb_AtProvider ex_busy)"
    using status_roundtrip by blast
  then show ?thesis
    by (simp add: CreateResponseData_def ex_get_def sb_IsStateInProgress_def ex_busy_def sb_SetLastOperationState_def)
qed

section \<open>Bind\<close>

text \<open>C4: A bind calls the broker once, with exactly the request that the specification, the
  identity and the binding's identifier determine, or not at all: when the parameters are not
  a JSON object or a required field is empty it fails with the object and the world as they
  were. The answer is mapped to the result: an asynchronous one is recorded on the object, a
  failed or empty one is an error that keeps the identifier.\<close>
theorem bind_outcome:
  "case bind_request X R sb oid disableAsync w of
     None \<Rightarrow> \<exists>e. sb_Bind X R osb sb oid disableAsync w = Ret (None, False, Some e) sb w
       \<and> (errors_Is e (Sentinel (SbErr sb_errConvertBindingSpecFailed))
          \<or> errors_Is e (Sentinel (SbErr sb_errFailedToBuildBindRequest)))
   | Some (req, sb1, w1) \<Rightarrow>
       sb_Bind X R osb sb oid disableAsync w =
         (case osb_Bind osb req w1 of
            (_, Some e, w2) \<Rightarrow> Ret (None, False, Some (wrap (SbErr sb_errOSBBindRequestFailed) e)) sb1 w2
          | (None, None, w2) \<Rightarrow>
              Ret (None, False, Some (Errorf (SbErr sb_errOSBBindongIdIsNil) [Sprint None])) sb1 w2
          | (Some resp, None, w2) \<Rightarrow>
              if b_Async resp then
                Ret (None, True, None)
                  (HandleAsyncStatus sb_SetLastOperationState sb_SetLastOperationKey sb1 (b_OperationKey resp)) w2
              else Ret (Some resp, False, None) sb1 w2)"
  using sb_Bind_refused [of X R sb oid disableAsync w osb]
  by (auto simp: sb_Bind_request split: option.split)

theorem bind_outcome_witness:
  "res_world (sb_Bind ex_X ex_R ex_broker ex_sb ex_oid False []) = [''uuid'', ''bind'']
   \<and> br_BindingID (fst (the (bind_request ex_X ex_R ex_sb ex_oid False []))) = ''uuid-''"
proof -
  have some: "bind_request ex_X ex_R ex_sb ex_oid False []
      = Some (fst (the (bind_request ex_X ex_R ex_sb ex_oid False [])),
              sb_SetExternalName ex_X ex_sb ''uuid-'', [''uuid''])"
    by code_simp
  have "osb_Bind ex_broker (fst (the (bind_request ex_X ex_R ex_sb ex_oid False []))) [''uuid'']
      = (Some ex_bind, None, [''uuid'', ''bind''])"
    by (simp add: ex_broker_def ex_osb_def ex_call_def)
  moreover have "br_BindingID (fst (the (bind_request ex_X ex_R ex_sb ex_oid False []))) = ''uuid-''"
    by code_simp
  moreover have "\<not> b_Async ex_bind"
    by (simp add: ex_bind_def)
  ultimately show ?thesis
    using bind_outcome [where X = ex_X and R = ex_R and sb = ex_sb and oid = ex_oid and disableAsync = False and w = "[]" and osb = ex_broker] by (subst (asm) some) simp
qed

text \<open>C5: A binding without parameters, which the specification declares optional, can neither be
  created nor be in sync: a bind fails to convert them, without a call to the broker or a
  change of the object, and when a binding that exists is compared with the broker's data the
  comparison fails, whatever data is stored. (The empty text is not a JSON document; elsewhere
  the code reads it as the empty object.)\<close>
theorem empty_parameters_block_bind:
  assumes "sbp_Parameters (sb_ForProvider sb) = []"
  shows "(\<exists>e. sb_Bind X R osb sb oid disableAsync w = Ret (None, False, Some e) sb w
         \<and> errors_Is e (Sentinel (SbErr sb_errConvertBindingSpecFailed)))
    \<and> (\<exists>e. IsStatusParametersNotLikeSpecParameters R sb = (True, Some e))"
proof
  have "\<exists>e. ConvertSpecsData R sb = Inl e"
    using assms unfolding ConvertSpecsData_def
    by (simp add: unmarshal_nothing del: enc.simps split: option.split)
  then obtain e where "ConvertSpecsData R sb = Inl e" ..
  then show "\<exists>e. sb_Bind X R osb sb oid disableAsync w = Ret (None, False, Some e) sb w
         \<and> errors_Is e (Sentinel (SbErr sb_errConvertBindingSpecFailed))"
    by (simp add: sb_Bind_def errors_Is_def)
  show "\<exists>e. IsStatusParametersNotLikeSpecParameters R sb = (True, Some e)"
    using assms by (simp add: IsStatusParametersNotLikeSpecParameters_def unmarshal_nothing split: option.split)
qed

definition ex_no_params :: "(ex_meta, ex_status, unit) ServiceBinding" where
  "ex_no_params = ex_sb\<lparr>sb_Spec := (sb_Spec ex_sb)
     \<lparr>sbs_ForProvider := (sb_ForProvider ex_sb)\<lparr>sbp_Parameters := []\<rparr>\<rparr>\<rparr>"

theorem empty_parameters_block_bind_witness:
  "\<exists>e. sb_Bind ex_X ex_R ex_broker ex_no_params ex_oid False [] = Ret (None, False, Some e) ex_no_params []"
proof -
  have "sbp_Parameters (sb_ForProvider ex_no_params) = []" by (simp add: ex_no_params_def)
  from empty_parameters_block_bind [OF this, of ex_X ex_R ex_broker ex_oid False "[]"] show ?thesis by blast
qed

text \<open>C6: A bind that is tried again, whatever the broker did with the first one, sends the very same
  request: the identifier generated for the first attempt is kept on the object and no new
  one is generated, so a retry cannot create a second binding.\<close>
theorem bind_retry_same_request:
  assumes "external_name_laws X" and "\<And>w. fst (uuid_NewUUID R w) \<noteq> []"
    and "bind_request X R sb oid disableAsync w = Some (req, sb1, w1)"
  shows "let sb2 = res_obj (sb_Bind X R osb sb oid disableAsync w) in
     sb_GetExternalName X sb2 = br_BindingID req \<and> br_BindingID req \<noteq> []
     \<and> bind_request X R sb2 oid disableAsync w' = Some (req, sb2, w')"
proof -
  have "sb_ObjectMeta (res_obj (sb_Bind X R osb sb oid disableAsync w)) = sb_ObjectMeta sb1"
    "sb_Spec (res_obj (sb_Bind X R osb sb oid disableAsync w)) = sb_Spec sb1"
    by (auto simp: sb_Bind_request [OF assms(3)] split: option.split prod.split)
  from bind_request_again [OF assms this] show ?thesis
    by (simp add: Let_def)
qed

theorem bind_retry_same_request_witness:
  "let sb2 = res_obj (sb_Bind ex_X ex_R ex_broker ex_sb ex_oid False []) in
     sb_GetExternalName ex_X sb2 = ''uuid-''
     \<and> map_option (snd \<circ> snd) (bind_request ex_X ex_R sb2 ex_oid False [''later'']) = Some [''later'']"
proof -
  have "bind_request ex_X ex_R ex_sb ex_oid False []
      = Some (fst (the (bind_request ex_X ex_R ex_sb ex_oid False [])),
              sb_SetExternalName ex_X ex_sb ''uuid-'', [''uuid''])"
    by code_simp
  moreover have "br_BindingID (fst (the (bind_request ex_X ex_R ex_sb ex_oid False []))) = ''uuid-''"
    by code_simp
  ultimately show ?thesis
    using bind_retry_same_request [OF ex_external_name_laws ex_uuid, where sb = ex_sb and oid = ex_oid
        and disableAsync = False and w = "[]" and osb = ex_broker and w' = "[''later'']"]
    by (auto simp: Let_def)
qed

section \<open>Rotation\<close>

text \<open>C9: A rotation renames the binding if and only if the broker accepted it: a request that cannot
  be built and one the broker refuses leave the whole object as it was.\<close>
theorem rotation_renames_iff_accepted:
  "let u = fst (uuid_NewUUID R w); w1 = snd (uuid_NewUUID R w);
       sendable = (identity_ok oid \<and> sbp_InstanceId (sb_ForProvider sb) \<noteq> []
                   \<and> sb_GetExternalName X sb \<noteq> [] \<and> u \<noteq> []);
       answer = osb_RotateBinding osb (rotate_request X sb oid u) w1;
       result = TriggerRotation X R osb sb oid w
   in if sendable \<and> fst (snd answer) = None
      then sb_ObjectMeta (res_obj result) = meta_SetExternalName X (sb_ObjectMeta sb) u
      else (\<exists>e. result = Ret (None, Some e) sb (if sendable then snd (snd answer) else w1))"
proof -
  obtain u w1 where u: "uuid_NewUUID R w = (u, w1)" by (cases "uuid_NewUUID R w")
  show ?thesis
  proof (cases "buildRotateBindingRequest X sb oid u")
    case (Inl e)
    then have "\<not> (identity_ok oid \<and> sbp_InstanceId (sb_ForProvider sb) \<noteq> [] \<and> sb_GetExternalName X sb \<noteq> [] \<and> u \<noteq> [])"
      using buildRotateBindingRequest_Inr [of X sb oid u] by auto
    with Inl u show ?thesis
      by (auto simp: TriggerRotation_def Let_def)
  next
    case (Inr req)
    obtain r e w2 where r: "osb_RotateBinding osb req w1 = (r, e, w2)" by (metis prod_cases3)
    show ?thesis
      using Inr u r buildRotateBindingRequest_Inr [of X sb oid u req]
      by (auto simp: TriggerRotation_def Let_def TimeNow_def rotate_request_def go_defs
          HandleAsyncStatus_def split: prod.splits option.splits sum.splits if_splits)
  qed
qed

theorem rotation_renames_iff_accepted_witness:
  "em_external (sb_ObjectMeta (res_obj (TriggerRotation ex_X ex_R ex_broker ex_bound ex_oid []))) = ''uuid-''"
proof -
  have "fst (snd (osb_RotateBinding ex_broker
      (rotate_request ex_X ex_bound ex_oid (fst (uuid_NewUUID ex_R []))) (snd (uuid_NewUUID ex_R [])))) = None"
    "identity_ok ex_oid" "sbp_InstanceId (sb_ForProvider ex_bound) \<noteq> []" "sb_GetExternalName ex_X ex_bound \<noteq> []"
    "fst (uuid_NewUUID ex_R []) \<noteq> []"
    "meta_SetExternalName ex_X (sb_ObjectMeta ex_bound) (fst (uuid_NewUUID ex_R []))
       = (sb_ObjectMeta ex_bound)\<lparr>em_external := ''uuid-''\<rparr>"
    by code_simp+
  then show ?thesis
    using rotation_renames_iff_accepted [where R = ex_R and w = "[]" and oid = ex_oid and sb = ex_bound and X = ex_X and osb = ex_broker] by (simp add: Let_def)
qed

text \<open>C10: A rotation that succeeds gives the binding a fresh name and tells the broker the old one as
  its predecessor; synchronously it returns the marshalled credentials and leaves the status
  alone, asynchronously it records the operation, its key and its time and returns none.\<close>
theorem rotation_result:
  assumes "external_name_laws X" and "TriggerRotation X R osb sb oid w = Ret (creds, None) sb' w'"
  shows "sb_GetExternalName X sb' = fst (uuid_NewUUID R w) \<and> sb_Spec sb' = sb_Spec sb
     \<and> (\<exists>r w2. osb_RotateBinding osb (rotate_request X sb oid (fst (uuid_NewUUID R w))) (snd (uuid_NewUUID R w))
                 = (Some r, None, w2)
          \<and> (if b_Async r
             then creds = None \<and> sb_IsStateInProgress sb'
               \<and> sbo_LastOperationKey (sb_AtProvider sb')
                   = (case b_OperationKey r of Some k \<Rightarrow> k | None \<Rightarrow> sbo_LastOperationKey (sb_AtProvider sb))
               \<and> sbo_LastOperationDescription (sb_AtProvider sb') = []
               \<and> sbo_LastOperationPolledTime (sb_AtProvider sb') = time_Format (fst (time_Now R w2))
             else sb_Status sb' = sb_Status sb \<and> creds \<noteq> None \<and> extractCredentials R r w2 = Inr (the creds)))"
proof -
  obtain u w1 where u: "uuid_NewUUID R w = (u, w1)" by (cases "uuid_NewUUID R w")
  obtain req where req: "buildRotateBindingRequest X sb oid u = Inr req"
    using assms(2) u by (auto simp: TriggerRotation_def split: sum.splits)
  then have rq: "req = rotate_request X sb oid u"
    by (simp add: buildRotateBindingRequest_Inr rotate_request_def)
  obtain r w2 where r: "osb_RotateBinding osb req w1 = (Some r, None, w2)"
    using assms(2) u req by (auto simp: TriggerRotation_def Let_def split: prod.splits option.splits)
  show ?thesis
    using assms u req r rq
    by (auto simp: TriggerRotation_def Let_def TimeNow_def sb_IsStateInProgress_def sb_GetExternalName_def
        external_name_laws_def go_defs HandleAsyncStatus_def
        split: prod.splits option.splits sum.splits if_splits)
qed

theorem rotation_result_witness:
  "\<exists>creds sb' w'. TriggerRotation ex_X ex_R ex_broker ex_bound ex_oid [] = Ret (creds, None) sb' w'
     \<and> sb_GetExternalName ex_X sb' = ''uuid-''"
proof -
  have "TriggerRotation ex_X ex_R ex_broker ex_bound ex_oid []
      = Ret (Some [(''user'', ''\"u\"'')], None) (sb_SetExternalName ex_X ex_bound ''uuid-'') [''uuid'', ''rotate'']"
    by code_simp
  from rotation_result [OF ex_external_name_laws this] this show ?thesis
    by (auto simp: ex_R_def)
qed

section \<open>Unbind\<close>

text \<open>C11: When an unbind is accepted asynchronously, the object handed on has the operation in progress
  with the broker's key and carries the asynchronous-deletion finalizer; the API server is
  called, once, only if the finalizer was not there yet.\<close>
theorem unbind_async_guarded:
  assumes "finalizer_laws X" and "sb_UnBind X kube osb sb oid w = Ret (True, None) sb' w'"
  shows "\<exists>resp sb2 w1. osb_Unbind osb
        \<lparr> ubr_InstanceID = sbp_InstanceId (sb_ForProvider sb), ubr_BindingID = sb_GetExternalName X sb,
          ubr_AcceptsIncomplete = True, ubr_ServiceID = sbp_ServiceId (sb_ForProvider sb),
          ubr_PlanID = sbp_PlanId (sb_ForProvider sb), ubr_OriginatingIdentity = Some oid \<rparr> w
        = (Some resp, None, w1)
     \<and> ub_Async resp
     \<and> sb_IsStateInProgress sb2
     \<and> sbo_LastOperationKey (sb_AtProvider sb2)
         = (case ub_OperationKey resp of Some k \<Rightarrow> k | None \<Rightarrow> sbo_LastOperationKey (sb_AtProvider sb))
     \<and> meta_FinalizerExists X (sb_ObjectMeta sb2) sb_asyncDeletionFinalizer
     \<and> (if meta_FinalizerExists X (sb_ObjectMeta sb) sb_asyncDeletionFinalizer
        then sb' = sb2 \<and> w' = w1 else kube_Update kube sb2 w1 = (None, sb', w'))"
proof -
  obtain req where req: "BuildUnbindRequest X sb oid = Inr req"
    using assms(2) by (auto simp: sb_UnBind_def split: sum.splits)
  obtain resp w1 where resp: "osb_Unbind osb req w = (Some resp, None, w1)" and a: "ub_Async resp"
    using assms(2) by (auto simp: sb_UnBind_def req handleUnBindRequest_def
        split: prod.splits option.splits if_splits)
  define sb1 where "sb1 = HandleAsyncStatus sb_SetLastOperationState sb_SetLastOperationKey sb (ub_OperationKey resp)"
  define sb2 where "sb2 = snd (AddFinalizerIfNotExists X sb_ObjectMeta sb_set_ObjectMeta sb1 sb_asyncDeletionFinalizer)"
  have st: "sb_Status sb2 = sb_Status sb1"
    by (simp add: sb2_def AddFinalizerIfNotExists_def sb_set_ObjectMeta_def)
  have fin: "meta_FinalizerExists X (sb_ObjectMeta sb2) sb_asyncDeletionFinalizer"
    unfolding sb2_def by (rule sb_meta.add_finalizer_present [OF assms(1)])
  have "HandleFinalizer kube sb1 sb_asyncDeletionFinalizer
      (AddFinalizerIfNotExists X sb_ObjectMeta sb_set_ObjectMeta) w1 = (None, sb', w')"
    using assms(2) a
    by (auto simp: sb_UnBind_def req resp handleUnBindRequest_def sb1_def [symmetric] Let_def
        split: prod.splits option.splits)
  then have upd: "if meta_FinalizerExists X (sb_ObjectMeta sb) sb_asyncDeletionFinalizer
      then sb' = sb2 \<and> w' = w1 else kube_Update kube sb2 w1 = (None, sb', w')"
    by (auto simp: HandleFinalizer_def sb2_def AddFinalizerIfNotExists_def sb1_def split: if_splits)
  show ?thesis
    using resp a fin upd st sb_async.async_state [of sb "ub_OperationKey resp"]
      sb_async.async_key [of sb "ub_OperationKey resp"] BuildUnbindRequest_Inr [OF req]
    by (intro exI [of _ resp] exI [of _ sb2] exI [of _ w1])
      (simp add: sb1_def sb_IsStateInProgress_def split: option.split)
qed

theorem unbind_async_guarded_witness:
  "\<exists>sb' w'. sb_UnBind ex_X ex_kube ex_broker ex_bound ex_oid [] = Ret (True, None) sb' w'
     \<and> w' = [''unbind'', ''update'']"
proof -
  have u: "sb_UnBind ex_X ex_kube ex_broker ex_bound ex_oid []
      = Ret (True, None) (res_obj (sb_UnBind ex_X ex_kube ex_broker ex_bound ex_oid [])) [''unbind'', ''update'']"
    by code_simp
  from unbind_async_guarded [OF ex_finalizer_laws this] u show ?thesis
    by blast
qed

text \<open>C12: An unbind sends nothing and changes nothing unless the identity, the identifiers of the
  specification and the binding's name are all there.\<close>
theorem unbind_refused_without_ids:
  "if identity_ok oid \<and> binding_ids_ok (sb_ForProvider sb) \<and> sb_GetExternalName X sb \<noteq> [] then True
   else \<exists>e. sb_UnBind X kube osb sb oid w = Ret (False, Some e) sb w"
  using BuildUnbindRequest_ok [of X sb oid]
  by (cases "BuildUnbindRequest X sb oid") (auto simp: sb_UnBind_def)

theorem unbind_refused_without_ids_witness:
  "\<exists>e. sb_UnBind ex_X ex_kube ex_broker ex_sb ex_oid [] = Ret (False, Some e) ex_sb []"
proof -
  have "sb_GetExternalName ex_X ex_sb = []" by code_simp
  then show ?thesis
    using unbind_refused_without_ids [where oid = ex_oid and sb = ex_sb and X = ex_X] by simp
qed

section \<open>Life of a binding\<close>

text \<open>C8: Along any sequence of controller operations and user edits, from a binding with nothing in
  progress, with brokers and API servers that may answer anything (but do not drop external
  names), a binding whose operation is in progress has a name: the operation can be polled.\<close>
theorem in_progress_is_named:
  assumes "(binding_step X R P)\<^sup>*\<^sup>* (sb, w) (sb', w')" and "\<not> sb_IsStateInProgress sb"
    and "external_name_laws X" and "finalizer_laws X" and "\<And>w. fst (uuid_NewUUID R w) \<noteq> []"
    and "sb_IsStateInProgress sb'"
  shows "sb_GetExternalName X sb' \<noteq> []"
proof -
  have "pollable X (fst s')" if "(binding_step X R P)\<^sup>*\<^sup>* s s'" "pollable X (fst s)" for s s'
    using that by (induction rule: rtranclp_induct) (auto dest: step_pollable [OF _ _ assms(3-5)])
  from this [OF assms(1)] assms(2,6) show ?thesis
    by (simp add: pollable_def)
qed

theorem in_progress_is_named_witness:
  "sb_GetExternalName ex_X (res_obj (sbc_Delete_obj ex_X ex_kube
     \<lparr> sbce_osb = ex_broker, sbce_originatingIdentity = ex_oid, sbce_disableAsync = False,
       sbce_rotateBinding = True \<rparr> ex_bound [])) \<noteq> []"
proof -
  let ?c = "\<lparr> sbce_osb = ex_broker, sbce_originatingIdentity = ex_oid, sbce_disableAsync = False,
       sbce_rotateBinding = True \<rparr>"
  have k: "kube_keeps_name ex_X (ex_kube :: ((ex_meta, ex_status, unit) ServiceBinding, ex_world) kube_client)"
    by (simp add: kube_keeps_name_def ex_kube_def)
  have steps: "(binding_step ex_X ex_R ex_P)\<^sup>*\<^sup>* (ex_bound, [])
      (res_obj (sbc_Delete_obj ex_X ex_kube ?c ex_bound []), res_world (sbc_Delete_obj ex_X ex_kube ?c ex_bound []))"
    by (intro r_into_rtranclp delete [OF k]) simp
  have "\<not> sb_IsStateInProgress ex_bound"
    and "sb_IsStateInProgress (res_obj (sbc_Delete_obj ex_X ex_kube ?c ex_bound []))"
    by code_simp+
  with steps show ?thesis
    by (intro in_progress_is_named [OF steps _ ex_external_name_laws ex_finalizer_laws ex_uuid])
qed




section \<open>Deletion\<close>

text \<open>C13: When the poll of a deleted binding answers that it is gone, the observation reports that the
  resource does not exist and the asynchronous-deletion finalizer is off the object, so that
  Kubernetes can drop it.\<close>
theorem gone_poll_finishes_deletion:
  assumes "finalizer_laws X" and "kube_updates_metadata X sb_ObjectMeta kube" and "sb_IsStateInProgress sb"
    and "meta_WasDeleted X (sb_ObjectMeta sb)" and "identity_ok (sbce_originatingIdentity c)"
    and "binding_ids_ok (sb_ForProvider sb)" and "sb_GetExternalName X sb \<noteq> []"
    and "\<And>q. always (osb_PollBindingLastOperation (sbce_osb c) q) (None, Some e)" and "IsResourceGone P e"
  shows "let r = sbc_Observe_obj X R P kube c sb w in
     res_val r = Some (ExternalObservation_zero, None)
     \<and> \<not> meta_FinalizerExists X (sb_ObjectMeta (res_obj r)) sb_asyncDeletionFinalizer
     \<and> (\<forall>f. f \<noteq> sb_asyncDeletionFinalizer \<longrightarrow>
          meta_FinalizerExists X (sb_ObjectMeta (res_obj r)) f = meta_FinalizerExists X (sb_ObjectMeta sb) f)"
proof -
  obtain req where req: "buildBindingLastOperationRequest X sb (sbce_originatingIdentity c) = Inr req"
    using assms(5-7) buildBindingLastOperationRequest_ok by blast
  obtain w1 where poll: "osb_PollBindingLastOperation (sbce_osb c) req w = (None, Some e, w1)"
    using alwaysD [OF assms(8)] by blast
  let ?rm = "RemoveFinalizerIfExists X sb_ObjectMeta sb_set_ObjectMeta"
  obtain sb2 w2 where h: "HandleFinalizer kube sb sb_asyncDeletionFinalizer ?rm w1 = (None, sb2, w2)"
    and f: "\<And>f. meta_FinalizerExists X (sb_ObjectMeta sb2) f
              = meta_FinalizerExists X (sb_ObjectMeta (snd (?rm sb sb_asyncDeletionFinalizer))) f"
    using HandleFinalizer_updated [OF assms(2), of sb sb_asyncDeletionFinalizer ?rm w1] by blast
  have "sbc_Observe_obj X R P kube c sb w = Ret (ExternalObservation_zero, None) sb2 w2"
    using assms(3,4,9) req poll h
    by (auto simp: sbc_Observe_obj_def sb_ObserveState_def sb_handleLastOperationInProgress_def sb_handlePollError_def)
  moreover have "meta_FinalizerExists X (sb_ObjectMeta sb2) f
      \<longleftrightarrow> f \<noteq> sb_asyncDeletionFinalizer \<and> meta_FinalizerExists X (sb_ObjectMeta sb) f" for f
    using assms(1) by (auto simp: f RemoveFinalizerIfExists_def finalizer_laws_def)
  ultimately show ?thesis
    by (simp add: Let_def)
qed

definition ex_gone_osb :: "(bool, bool, ex_world) osb_client" where
  "ex_gone_osb = ex_osb ex_bind ex_get ex_unbind (None, Some (ErrExt ''410''))"

definition ex_deleting :: "(ex_meta, ex_status, unit) ServiceBinding" where
  "ex_deleting = sb_set_ObjectMeta
     (ex_metadata\<lparr>em_external := ''b1'', em_deleted := True,
        em_finalizers := [sb_asyncDeletionFinalizer, ''other'']\<rparr>) ex_busy"

theorem gone_poll_finishes_deletion_witness:
  "em_finalizers (sb_ObjectMeta (res_obj (sbc_Observe_obj ex_X ex_R ex_P ex_kube (ex_ext ex_gone_osb) ex_deleting [])))
     = [''other'']
   \<and> res_val (sbc_Observe_obj ex_X ex_R ex_P ex_kube (ex_ext ex_gone_osb) ex_deleting [])
     = Some (ExternalObservation_zero, None)"
proof -
  have pre: "sb_IsStateInProgress ex_deleting" "meta_WasDeleted ex_X (sb_ObjectMeta ex_deleting)"
    "identity_ok (sbce_originatingIdentity (ex_ext ex_gone_osb))" "binding_ids_ok (sb_ForProvider ex_deleting)"
    "sb_GetExternalName ex_X ex_deleting \<noteq> []"
    by code_simp+
  have poll: "\<And>q. always (osb_PollBindingLastOperation (sbce_osb (ex_ext ex_gone_osb)) q) (None, Some (ErrExt ''410''))"
    by (simp add: always_def ex_ext_def ex_gone_osb_def ex_osb_def ex_call_def)
  have "IsResourceGone ex_P (ErrExt ''410'')"
    by code_simp
  from gone_poll_finishes_deletion [OF ex_finalizer_laws ex_kube_updates_metadata pre poll this, of ex_R "[]"]
  have "res_val (sbc_Observe_obj ex_X ex_R ex_P ex_kube (ex_ext ex_gone_osb) ex_deleting [])
     = Some (ExternalObservation_zero, None)"
    by (simp add: Let_def)
  then show ?thesis
    by (intro conjI) code_simp+
qed

text \<open>Once a binding has no operation in progress, no number of observations, with any brokers and
  API servers, takes a finalizer off it. A deletion whose poll answers "succeeded" instead of
  "gone" therefore keeps its asynchronous-deletion finalizer: only the poll's error path
  removes it.\<close>
theorem idle_observations_keep_metadata:
  assumes "\<not> sb_IsStateInProgress sb"
  shows "sb_ObjectMeta (foldl (\<lambda>s (kube, c, w). res_obj (sbc_Observe_obj X R P kube c s w)) sb runs) = sb_ObjectMeta sb
    \<and> \<not> sb_IsStateInProgress (foldl (\<lambda>s (kube, c, w). res_obj (sbc_Observe_obj X R P kube c s w)) sb runs)"
proof -
  let ?keeps = "\<lambda>s t. sb_ObjectMeta t = sb_ObjectMeta s \<and> \<not> sb_IsStateInProgress t"
  have step: "?keeps s (res_obj (sbc_Observe_obj X R P kube c s w))" if "\<not> sb_IsStateInProgress s" for kube c s w
  proof -
    have "?keeps s (res_obj (sb_ObserveState X R P kube (sbce_osb c) s (sbce_rotateBinding c)
        (sbce_originatingIdentity c) w))"
      using observe_idle [OF that, of X R P kube "sbce_osb c" "sbce_rotateBinding c" "sbce_originatingIdentity c" w] that
      by (simp add: Let_def sb_IsStateInProgress_def)
    then show ?thesis
      unfolding sbc_Observe_obj_def
      by (rule bind_go_obj [where P = "?keeps s"]) (auto split: option.splits Action.splits)
  qed
  show ?thesis
    using assms
  proof (induction runs arbitrary: sb)
    case (Cons run runs)
    obtain kube c w where run: "run = (kube, c, w)" by (cases run)
    show ?case
      using Cons.IH [of "res_obj (sbc_Observe_obj X R P kube c sb w)"] step [OF Cons.prems, of kube c w]
      by (simp add: run)
  qed simp
qed

theorem idle_observations_keep_metadata_witness:
  "meta_FinalizerExists ex_X (sb_ObjectMeta (foldl (\<lambda>s (kube, c, w). res_obj (sbc_Observe_obj ex_X ex_R ex_P kube c s w))
      (sb_upd ex_X ex_deleting ex_succeeded) (replicate 3 (ex_kube, ex_ext ex_gone_osb, [])))) sb_asyncDeletionFinalizer"
proof -
  have "\<not> sb_IsStateInProgress (sb_upd ex_X ex_deleting ex_succeeded)"
    by code_simp
  moreover have "meta_FinalizerExists ex_X (sb_ObjectMeta (sb_upd ex_X ex_deleting ex_succeeded)) sb_asyncDeletionFinalizer"
    by code_simp
  ultimately show ?thesis
    using idle_observations_keep_metadata [of "sb_upd ex_X ex_deleting ex_succeeded" ex_X ex_R ex_P] by simp
qed

text \<open>C14: The state an asynchronous unbind records is lost when the finalizer has to be added: the API
  server answers an update of a resource with a status subresource with the status it has
  stored, and the code records the operation on the object before that update. The unbind then
  reports an asynchronous operation on an object that has none in progress.\<close>
theorem unbind_update_loses_operation:
  assumes "\<not> meta_FinalizerExists X (sb_ObjectMeta sb) sb_asyncDeletionFinalizer"
    and "\<And>ob w. sb_Status (fst (snd (kube_Update kube ob w))) = stored"
    and "sbo_LastOperationState (sbst_AtProvider stored) \<noteq> StateInProgress"
    and "sb_UnBind X kube osb sb oid w = Ret (True, None) sb' w'"
  shows "\<not> sb_IsStateInProgress sb' \<and> sbo_LastOperationKey (sb_AtProvider sb') = sbo_LastOperationKey (sbst_AtProvider stored)"
proof -
  have "\<exists>ob w1. kube_Update kube ob w1 = (None, sb', w')"
    using assms(1,4)
    by (auto simp: sb_UnBind_def handleUnBindRequest_def HandleFinalizer_def AddFinalizerIfNotExists_def Let_def
        split: sum.splits prod.splits option.splits if_splits)
  then have "sb_Status sb' = stored"
    using assms(2) by (metis fst_conv snd_conv)
  then show ?thesis
    using assms(3) by (simp add: sb_IsStateInProgress_def)
qed

text \<open>An API server that keeps the status it has, here the one of \<open>ex_bound\<close>.\<close>

definition ex_subresource_kube :: "((ex_meta, ex_status, unit) ServiceBinding, ex_world) kube_client" where
  "ex_subresource_kube = ex_kube
     \<lparr> kube_Update := (\<lambda>ob w. (None, ob\<lparr>sb_Status := sb_Status ex_bound\<rparr>, w @ [''update''])) \<rparr>"

theorem unbind_update_loses_operation_witness:
  "\<exists>sb' w'. sb_UnBind ex_X ex_subresource_kube ex_broker ex_bound ex_oid [] = Ret (True, None) sb' w'
     \<and> \<not> sb_IsStateInProgress sb'"
proof -
  let ?r = "sb_UnBind ex_X ex_subresource_kube ex_broker ex_bound ex_oid []"
  have r: "?r = Ret (True, None) (res_obj ?r) (res_world ?r)"
    by code_simp
  have "\<not> meta_FinalizerExists ex_X (sb_ObjectMeta ex_bound) sb_asyncDeletionFinalizer"
    by code_simp
  moreover have "sb_Status (fst (snd (kube_Update ex_subresource_kube ob w))) = sb_Status ex_bound" for ob w
    by (simp add: ex_subresource_kube_def)
  moreover have "sbo_LastOperationState (sbst_AtProvider (sb_Status ex_bound)) \<noteq> StateInProgress"
    by code_simp
  ultimately have "\<not> sb_IsStateInProgress (res_obj ?r)"
    using unbind_update_loses_operation [OF _ _ _ r] by simp
  with r show ?thesis
    by metis
qed

end
