(* ===== verification/Binding_Phases.thy ===== *)
theory Binding_Phases
  imports Binding_Lifecycle
begin

text \<open>
  An abstract machine of three phases for the life of a service binding, and the simulation:
  every operation of the controller is a step of the machine.
\<close>

section \<open>The abstract life cycle\<close>

text \<open>
  A binding is unbound (no external name), idle, or pending (named, with an operation in
  progress). The operations of the external client and a user's edit move it between these
  phases; every operation may also leave the phase as it is.
\<close>

datatype phase = Unbound | Idle | Pending

text \<open>The phases in the order of a life; every name-giving step goes up.\<close>

fun phase_rank :: "phase \<Rightarrow> nat" where
  "phase_rank Unbound = 0"
| "phase_rank Idle = 1"
| "phase_rank Pending = 2"

lemma phase_rank_inject [simp]: "phase_rank p = phase_rank q \<longleftrightarrow> p = q"
  by (cases p; cases q) simp_all

instantiation phase :: linorder
begin

definition less_eq_phase :: "phase \<Rightarrow> phase \<Rightarrow> bool" where
  "less_eq_phase p q \<longleftrightarrow> phase_rank p \<le> phase_rank q"

definition less_phase :: "phase \<Rightarrow> phase \<Rightarrow> bool" where
  "less_phase p q \<longleftrightarrow> phase_rank p < phase_rank q"

instance
  by standard (auto simp: less_eq_phase_def less_phase_def)

end

datatype control_op = Observing | Creating | Rotating | Deleting | Editing

inductive phase_step :: "control_op \<Rightarrow> phase \<Rightarrow> phase \<Rightarrow> bool" where
  stay: "phase_step q p p"
| bound: "phase_step Creating Unbound Idle"
| bind_started: "p \<noteq> Pending \<Longrightarrow> phase_step Creating p Pending"
| polled: "phase_step Observing Pending Idle"
| rotation_started: "phase_step Rotating Idle Pending"
| unbind_started: "phase_step Deleting Idle Pending"
| unbind_overwritten: "phase_step Deleting Pending Idle"

definition phase_of :: "('m, 's) crossplane \<Rightarrow> ('m, 's, 'q) ServiceBinding \<Rightarrow> phase" where
  "phase_of X sb = (if sb_GetExternalName X sb = [] then Unbound
     else if sb_IsStateInProgress sb then Pending else Idle)"

lemma phase_of_Unbound [simp]: "phase_of X sb = Unbound \<longleftrightarrow> sb_GetExternalName X sb = []"
  by (simp add: phase_of_def)

text \<open>No step of the abstract machine goes below \<open>Idle\<close> from above: none gives up a name.\<close>

inductive_simps phase_step_from_Unbound: "phase_step q Unbound p"
inductive_simps phase_step_from_Idle: "phase_step q Idle p"
inductive_simps phase_step_from_Pending: "phase_step q Pending p"

lemmas phase_step_simps = phase_step_from_Unbound phase_step_from_Idle phase_step_from_Pending

lemma named_iff: "Idle \<le> p \<longleftrightarrow> p \<noteq> Unbound"
  by (cases p) (simp_all add: less_eq_phase_def)

lemma phase_step_mono: "phase_step q p p' \<Longrightarrow> min Idle p \<le> min Idle p'"
  by (cases p; cases p') (simp_all add: phase_step_simps less_eq_phase_def)

lemma phase_of_eq:
  "sb_GetExternalName X sb' = sb_GetExternalName X sb \<Longrightarrow> sb_IsStateInProgress sb' = sb_IsStateInProgress sb \<Longrightarrow>
     phase_of X sb' = phase_of X sb"
  by (simp add: phase_of_def)

lemma phase_of_named: "sb_GetExternalName X sb \<noteq> [] \<Longrightarrow> phase_of X sb = (if sb_IsStateInProgress sb then Pending else Idle)"
  by (simp add: phase_of_def)

lemma phase_SetConditions [simp]: "phase_of X (sb_SetConditions X' cs sb) = phase_of X sb"
  by (simp add: phase_of_def)

lemma in_progress_HandleAsync [simp]:
  "sb_IsStateInProgress (HandleAsyncStatus sb_SetLastOperationState sb_SetLastOperationKey sb k)"
  "sb_GetExternalName X (HandleAsyncStatus sb_SetLastOperationState sb_SetLastOperationKey sb k) = sb_GetExternalName X sb"
  using sb_async.async_state [of sb k] by (simp_all add: sb_IsStateInProgress_def sb_GetExternalName_def)

section \<open>Simulation\<close>

lemma observe_phase:
  assumes "kube_keeps_name X kube" and "finalizer_laws X" and "pollable X sb"
  shows "phase_step Observing (phase_of X sb) (phase_of X (res_obj (sb_ObserveState X R P kube osb sb rotation oid w)))"
proof (cases "sb_IsStateInProgress sb")
  case True
  then have n: "sb_GetExternalName X sb \<noteq> []"
    using assms(3) by (simp add: pollable_def)
  have "sb_GetExternalName X (res_obj (sb_ObserveState X R P kube osb sb rotation oid w)) \<noteq> []"
    using handleLastOperation_name [OF assms(1,2) n, of P osb oid w] True
    by (cases "sb_handleLastOperationInProgress X P kube osb sb oid w")
      (auto simp: sb_ObserveState_def split: option.split prod.split)
  with True n show ?thesis
    by (auto simp: phase_of_named intro: phase_step.intros)
next
  case False
  from observe_idle [OF False, of X R P kube osb rotation oid w]
  have "phase_of X (res_obj (sb_ObserveState X R P kube osb sb rotation oid w)) = phase_of X sb"
    by (simp add: Let_def phase_of_def sb_GetExternalName_def sb_IsStateInProgress_def)
  then show ?thesis by (simp add: stay)
qed

lemma EnsureBindingUUID_keeps:
  "EnsureBindingUUID X R sb w = (u, sb1, w1) \<Longrightarrow> sb_GetExternalName X sb \<noteq> [] \<Longrightarrow> sb1 = sb"
  using EnsureBindingUUID_named [of X sb R w] by simp

lemma bind_phase:
  assumes "external_name_laws X" and "\<And>w. fst (uuid_NewUUID R w) \<noteq> []"
  shows "phase_step Creating (phase_of X sb) (phase_of X (res_obj (sb_Bind X R osb sb oid da w)))"
proof (cases "bind_request X R sb oid da w")
  case None
  with sb_Bind_refused [OF None, of osb] show ?thesis by (auto intro: stay)
next
  case (Some a)
  obtain req sb1 w1 where a: "a = (req, sb1, w1)" by (cases a)
  let ?sb = "res_obj (sb_Bind X R osb sb oid da w)"
  obtain u where e: "EnsureBindingUUID X R sb w = (u, sb1, w1)"
    using Some a by (auto simp: bind_request_def Let_def split: option.splits if_splits prod.splits)
  have n1: "sb_GetExternalName X sb1 \<noteq> []"
    using bind_request_again [OF assms Some [unfolded a] refl refl] by auto
  have st: "sb_IsStateInProgress sb1 = sb_IsStateInProgress sb"
    using EnsureBindingUUID_Status [OF e] by (simp add: sb_IsStateInProgress_def)
  have "?sb = sb1 \<or> (\<exists>k. ?sb = HandleAsyncStatus sb_SetLastOperationState sb_SetLastOperationKey sb1 k)"
    unfolding sb_Bind_request [OF Some [unfolded a]] by (auto split: prod.split option.split)
  then have "phase_of X ?sb = Pending \<or> phase_of X ?sb = phase_of X sb1"
    using n1 by (auto simp: phase_of_named)
  moreover have "phase_of X sb1 = phase_of X sb \<or> phase_of X sb = Unbound"
    using EnsureBindingUUID_keeps [OF e] by (cases "sb_GetExternalName X sb = []") auto
  moreover have "phase_of X sb1 \<noteq> Unbound" using n1 by simp
  ultimately show ?thesis
    by (cases "phase_of X sb"; cases "phase_of X ?sb"; cases "phase_of X sb1")
      (auto intro: phase_step.intros simp del: phase_of_Unbound)
qed

lemma rotation_phase:
  assumes "external_name_laws X"
  shows "phase_step Rotating (phase_of X sb) (phase_of X (res_obj (TriggerRotation X R osb sb oid w)))"
proof -
  obtain u w1 where u: "uuid_NewUUID R w = (u, w1)" by (cases "uuid_NewUUID R w")
  show ?thesis
  proof (cases "buildRotateBindingRequest X sb oid u")
    case (Inl e)
    then show ?thesis using u by (simp add: TriggerRotation_def stay)
  next
    case (Inr req)
    then have ne: "sb_GetExternalName X sb \<noteq> []" "u \<noteq> []"
      by (simp_all add: buildRotateBindingRequest_Inr)
    obtain r e w2 where r: "osb_RotateBinding osb req w1 = (r, e, w2)" by (metis prod_cases3)
    show ?thesis
    proof (cases e)
      case (Some err)
      then show ?thesis using u Inr r by (simp add: TriggerRotation_def stay)
    next
      case None
      let ?sb = "res_obj (TriggerRotation X R osb sb oid w)"
      have "sb_GetExternalName X ?sb \<noteq> []"
        using rotation_accepted_renames [OF u Inr, of osb r w2] r None ne(2) assms
        by (simp add: sb_GetExternalName_def external_name_laws_def)
      then show ?thesis
        using ne(1) u Inr r None
        by (auto simp: phase_of_named TriggerRotation_def Let_def TimeNow_def sb_IsStateInProgress_def go_defs
            HandleAsyncStatus_def intro: phase_step.intros split: prod.split option.split sum.split)
    qed
  qed
qed

lemma unbind_phase:
  assumes "kube_keeps_name X kube" and "finalizer_laws X"
  shows "phase_step Deleting (phase_of X sb) (phase_of X (res_obj (sb_UnBind X kube osb sb oid w)))"
proof (cases "BuildUnbindRequest X sb oid")
  case (Inl e)
  then show ?thesis by (simp add: sb_UnBind_def stay)
next
  case (Inr req)
  then have n: "sb_GetExternalName X sb \<noteq> []"
    using BuildUnbindRequest_ok [of X sb oid] by blast
  have "sb_GetExternalName X (res_obj (sb_UnBind X kube osb sb oid w)) \<noteq> []"
    by (rule unbind_keeps_name [OF assms n])
  with n show ?thesis
    by (auto simp: phase_of_named intro: phase_step.intros)
qed

lemma create_phase:
  assumes "external_name_laws X" and "\<And>w. fst (uuid_NewUUID R w) \<noteq> []"
  shows "phase_step Creating (phase_of X sb) (phase_of X (res_obj (sbc_Create_obj X R P c sb w)))"
proof -
  have s: "phase_of X s' = phase_of X s" if "SetResponseDataInStatus P s d = (e, s')" for s d e s'
    using SetResponseDataInStatus_cases [OF that]
    by (simp add: phase_of_def sb_IsStateInProgress_def sb_GetExternalName_def)
  show ?thesis
    unfolding sbc_Create_obj_def
    by (rule bind_go_obj [where P = "\<lambda>s. phase_step Creating (phase_of X sb) (phase_of X s)", OF bind_phase [OF assms]])
      (auto split: option.split sum.split prod.split dest!: s)
qed

text \<open>Every operation of the controller is a step of the abstract machine.\<close>

lemma sbc_phases:
  assumes "kube_keeps_name X kube" and "external_name_laws X" and "finalizer_laws X"
    and "\<And>w. fst (uuid_NewUUID R w) \<noteq> []"
  shows "pollable X sb \<Longrightarrow> phase_step Observing (phase_of X sb) (phase_of X (res_obj (sbc_Observe_obj X R P kube c sb w)))"
    "phase_step Creating (phase_of X sb) (phase_of X (res_obj (sbc_Create_obj X R P c sb w)))"
    "phase_step Rotating (phase_of X sb) (phase_of X (res_obj (sbc_Update_obj X R c sb w)))"
    "phase_step Deleting (phase_of X sb) (phase_of X (res_obj (sbc_Delete_obj X kube c sb w)))"
proof -
  let ?step = "\<lambda>q s. phase_step q (phase_of X sb) (phase_of X s)"
  show "pollable X sb \<Longrightarrow> ?step Observing (res_obj (sbc_Observe_obj X R P kube c sb w))"
    unfolding sbc_Observe_obj_def
    by (rule bind_go_obj [where P = "?step Observing", OF observe_phase [OF assms(1,3)]])
      (auto split: option.split Action.split)
  show "?step Creating (res_obj (sbc_Create_obj X R P c sb w))"
    by (rule create_phase [OF assms(2,4)])
  show "?step Rotating (res_obj (sbc_Update_obj X R c sb w))"
    unfolding sbc_Update_obj_def
    by (rule bind_go_obj [where P = "?step Rotating", OF rotation_phase [OF assms(2)]]) (auto split: option.split)
  show "?step Deleting (res_obj (sbc_Delete_obj X kube c sb w))"
    using unbind_phase [OF assms(1,3), of "sb_SetConditions X [xp_Deleting X] sb" "sbce_osb c" "sbce_originatingIdentity c" w]
    unfolding sbc_Delete_obj_def phase_SetConditions
    by (rule bind_go_obj [where P = "?step Deleting"]) (auto split: option.split)
qed

lemma step_phase:
  assumes "binding_step X R P s s'" and "pollable X (fst s)"
    and "external_name_laws X" and "finalizer_laws X" and "\<And>w. fst (uuid_NewUUID R w) \<noteq> []"
  shows "\<exists>q. phase_step q (phase_of X (fst s)) (phase_of X (fst s'))"
  using assms(1,2)
proof (induction rule: binding_step.induct)
  case (observe kube r c sb w)
  then show ?case by (auto intro!: exI sbc_phases(1) [OF observe(1) assms(3-5)])
next
  case (create r c sb w)
  then show ?case by (auto intro!: exI create_phase [OF assms(3,5)])
next
  case (update r c sb w)
  have "phase_step Rotating (phase_of X sb) (phase_of X (res_obj (sbc_Update_obj X R c sb w)))"
    unfolding sbc_Update_obj_def
    by (rule bind_go_obj [where P = "\<lambda>s. phase_step Rotating (phase_of X sb) (phase_of X s)", OF rotation_phase [OF assms(3)]])
      (auto split: option.split)
  then show ?case using update by auto
next
  case (delete kube r c sb w)
  then show ?case by (auto intro!: exI sbc_phases(4) [OF delete(1) assms(3-5)])
next
  case (edit sb' sb w w')
  then show ?case by (auto simp: phase_of_def sb_IsStateInProgress_def intro: stay)
qed

text \<open>Runs of the controller are runs of the abstract machine, and the invariant holds along them.\<close>

lemma run_phases:
  assumes "(binding_step X R P)\<^sup>*\<^sup>* s s'" and "pollable X (fst s)"
    and "external_name_laws X" and "finalizer_laws X" and "\<And>w. fst (uuid_NewUUID R w) \<noteq> []"
  shows "pollable X (fst s') \<and> (\<lambda>p p'. \<exists>q. phase_step q p p')\<^sup>*\<^sup>* (phase_of X (fst s)) (phase_of X (fst s'))"
  using assms(1,2)
proof (induction rule: rtranclp_induct)
  case (step y z)
  then have p: "pollable X (fst y)" by simp
  from step_phase [OF step(2) p assms(3-5)] step_pollable [OF step(2) p assms(3-5)] step show ?case
    by (auto elim: rtranclp.rtrancl_into_rtrancl)
qed simp

lemma run_mono: "(\<lambda>p p'. \<exists>q. phase_step q p p')\<^sup>*\<^sup>* p p' \<Longrightarrow> min Idle p \<le> min Idle p'"
  by (induction rule: rtranclp_induct) (blast intro: order_trans dest: phase_step_mono)+

lemma run_never_unbound:
  assumes "(\<lambda>p p'. \<exists>q. phase_step q p p')\<^sup>*\<^sup>* p p'" and "p \<noteq> Unbound"
  shows "p' \<noteq> Unbound"
  using run_mono [OF assms(1)] assms(2) by (simp add: min_def named_iff split: if_splits)

end
