(* ===== verification/Binding_Phase_Properties.thy ===== *)
theory Binding_Phase_Properties
  imports Binding_Phases Example_Environment
begin

text \<open>
  The controller of service bindings refines the machine of phases.
\<close>

section \<open>Refinement\<close>

text \<open>C16: The controller of bindings refines a machine of three phases (unbound, idle, pending): each
  operation of the external client moves the phase only as the machine allows, for every
  broker: only creating binds, only an observation or an overwriting delete ends an operation,
  and an unbound binding is never rotated, polled or deleted into another phase.\<close>
theorem binding_refines_phases:
  assumes "kube_keeps_name X kube" and "external_name_laws X" and "finalizer_laws X"
    and "\<And>w. fst (uuid_NewUUID R w) \<noteq> []" and "pollable X sb"
  shows "phase_step Observing (phase_of X sb) (phase_of X (res_obj (sbc_Observe_obj X R P kube c sb w)))
    \<and> phase_step Creating (phase_of X sb) (phase_of X (res_obj (sbc_Create_obj X R P c sb w)))
    \<and> phase_step Rotating (phase_of X sb) (phase_of X (res_obj (sbc_Update_obj X R c sb w)))
    \<and> phase_step Deleting (phase_of X sb) (phase_of X (res_obj (sbc_Delete_obj X kube c sb w)))"
  by (intro conjI sbc_phases [OF assms(1-4)] assms(5))

theorem binding_refines_phases_witness:
  "phase_step Creating (phase_of ex_X ex_sb)
     (phase_of ex_X (res_obj (sbc_Create_obj ex_X ex_R ex_P (ex_ext ex_broker) ex_sb [])))"
proof -
  have "kube_keeps_name ex_X (ex_kube :: ((ex_meta, ex_status, unit) ServiceBinding, ex_world) kube_client)"
    by (simp add: kube_keeps_name_def ex_kube_def)
  moreover have "pollable ex_X ex_sb" by code_simp
  ultimately show ?thesis
    using binding_refines_phases [where kube = ex_kube and X = ex_X and R = ex_R and sb = ex_sb and P = ex_P
        and c = "ex_ext ex_broker" and w = "[]"] ex_external_name_laws ex_finalizer_laws ex_uuid
    by blast
qed

text \<open>C17: Every run of the controller, with any brokers and any user edits that leave the annotation
  alone, is a run of the phase machine; so a binding that has once been named is never unbound
  again.\<close>
theorem named_for_ever:
  assumes "(binding_step X R P)\<^sup>*\<^sup>* (sb, w) (sb', w')" and "pollable X sb"
    and "external_name_laws X" and "finalizer_laws X" and "\<And>w. fst (uuid_NewUUID R w) \<noteq> []"
  shows "(\<lambda>p p'. \<exists>q. phase_step q p p')\<^sup>*\<^sup>* (phase_of X sb) (phase_of X sb')
    \<and> (phase_of X sb \<noteq> Unbound \<longrightarrow> phase_of X sb' \<noteq> Unbound)"
  using run_phases [OF assms(1), unfolded fst_conv, OF assms(2-5)]
  by (auto dest: run_never_unbound simp del: phase_of_Unbound)

theorem named_for_ever_witness:
  "phase_of ex_X (res_obj (sbc_Update_obj ex_X ex_R (ex_ext ex_broker) ex_bound [])) \<noteq> Unbound"
proof -
  let ?r = "sbc_Update_obj ex_X ex_R (ex_ext ex_broker) ex_bound []"
  have "(binding_step ex_X ex_R ex_P)\<^sup>*\<^sup>* (ex_bound, []) (res_obj ?r, res_world ?r)"
    by (intro r_into_rtranclp binding_step.update) simp
  moreover have "pollable ex_X ex_bound" "phase_of ex_X ex_bound \<noteq> Unbound" by code_simp+
  ultimately show ?thesis
    using named_for_ever [OF _ _ ex_external_name_laws ex_finalizer_laws ex_uuid] by blast
qed

end
