(* ===== verification/Instance_Facts.thy ===== *)
theory Instance_Facts
  imports Instance_Operations
begin

text \<open>
  Facts about the service instance operations that the properties rest on: when a request is
  built and what it holds, what a status update changes, the comparison with the broker as
  one case distinction, and the two kinds of observation, polling and fetching.
\<close>

section \<open>Requests\<close>

definition instance_ids_ok :: "InstanceData \<Rightarrow> bool" where
  "instance_ids_ok p \<longleftrightarrow> id_InstanceId p \<noteq> [] \<and> id_PlanId p \<noteq> [] \<and> id_ServiceId p \<noteq> []"

lemma buildDeprovisionRequest_Inr:
  "buildDeprovisionRequest si oid da = Inr req \<longleftrightarrow>
     identity_ok oid \<and> instance_ids_ok (si_ForProvider si)
     \<and> req = \<lparr> dr_InstanceID = id_InstanceId (si_ForProvider si), dr_AcceptsIncomplete = (\<not> da),
               dr_ServiceID = id_ServiceId (si_ForProvider si), dr_PlanID = id_PlanId (si_ForProvider si),
               dr_OriginatingIdentity = Some oid \<rparr>"
  by (auto simp: buildDeprovisionRequest_def identity_ok_def instance_ids_ok_def Let_def)

lemma BuildPollLastOperationRequest_ok:
  "(\<exists>req. BuildPollLastOperationRequest si oid = Inr req) \<longleftrightarrow>
     identity_ok oid \<and> id_InstanceId (si_ForProvider si) \<noteq> []"
  by (auto simp: BuildPollLastOperationRequest_def identity_ok_def Let_def)

text \<open>The context object as the request carries it.\<close>

abbreviation "context_map c \<equiv> map_build (map (\<lambda>(k, v). (utf8_fix k, canon v)) (context_members c))"

definition provision_request ::
  "'w runtime \<Rightarrow> ('m, 's, 'q) ServiceInstance \<Rightarrow> bool \<Rightarrow> ProvisionRequest option" where
  "provision_request R si disableAsync =
     (let p = si_ForProvider si in
      case ToParameters R (Some (id_Parameters p)) of
        Inl _ \<Rightarrow> None
      | Inr params \<Rightarrow>
          if \<not> instance_ids_ok p \<or> id_OrganizationGuid p = [] \<or> id_SpaceGuid p = [] then None
          else Some
            \<lparr> pr_InstanceID = id_InstanceId p, pr_AcceptsIncomplete = (\<not> disableAsync),
              pr_ServiceID = id_ServiceId p, pr_PlanID = id_PlanId p,
              pr_OrganizationGUID = id_OrganizationGuid p, pr_SpaceGUID = id_SpaceGuid p,
              pr_Parameters = params, pr_Context = Some (context_map (id_Context p)) \<rparr>)"

lemma buildProvisionRequest_Inr:
  assumes "ctx \<noteq> []"
  shows "buildProvisionRequest si params (Some ctx) da = Inr req \<longleftrightarrow>
     instance_ids_ok (si_ForProvider si) \<and> id_OrganizationGuid (si_ForProvider si) \<noteq> []
     \<and> id_SpaceGuid (si_ForProvider si) \<noteq> []
     \<and> req = \<lparr> pr_InstanceID = id_InstanceId (si_ForProvider si), pr_AcceptsIncomplete = (\<not> da),
               pr_ServiceID = id_ServiceId (si_ForProvider si), pr_PlanID = id_PlanId (si_ForProvider si),
               pr_OrganizationGUID = id_OrganizationGuid (si_ForProvider si),
               pr_SpaceGUID = id_SpaceGuid (si_ForProvider si), pr_Parameters = params, pr_Context = Some ctx \<rparr>"
  using assms by (auto simp: buildProvisionRequest_def instance_ids_ok_def Let_def)

lemma buildProvisionRequest_no_ctx_error:
  assumes "ctx \<noteq> []"
  shows "buildProvisionRequest si params (Some ctx) da \<noteq> Inl (Sentinel (SiErr si_errCtxMapEmpty))"
  using assms by (auto simp: buildProvisionRequest_def Let_def)

lemma context_map_nonempty: "context_map c \<noteq> []"
  by (simp add: context_members_def)

section \<open>Status updates\<close>

lemma UpdateStatusFromOSB_Some:
  "\<exists>si'. UpdateStatusFromOSB X si (Some r) w = Ret () si' w
     \<and> si_ObjectMeta si' = si_ObjectMeta si \<and> si_Spec si' = si_Spec si
     \<and> sio_Context (si_AtProvider si') = id_Context (si_ForProvider si)
     \<and> sio_DashboardURL (si_AtProvider si') = ar_GetDashboardURL r
     \<and> sio_HasActiveBindings (si_AtProvider si') = sio_HasActiveBindings (si_AtProvider si)
     \<and> sio_LastOperationState (si_AtProvider si') = (if ar_IsAsync r then StateInProgress else StateSucceeded)
     \<and> sio_LastOperationKey (si_AtProvider si')
         = (case ar_GetOperationKey r of
              Some k \<Rightarrow> if ar_IsAsync r then k else sio_LastOperationKey (si_AtProvider si)
            | None \<Rightarrow> sio_LastOperationKey (si_AtProvider si))
     \<and> sist_ResourceStatus (si_Status si')
         = xp_SetConditions X (sist_ResourceStatus (si_Status si))
             [if ar_IsAsync r then xp_Creating X else xp_Available X]"
  by (cases "ar_IsAsync r"; cases "ar_GetOperationKey r") (simp_all add: UpdateStatusFromOSB_def Let_def go_defs)

text \<open>
  What an answer to a provision or an update leaves on the object: the context sent, the
  dashboard, the state of the operation, the key of an asynchronous one, and the condition.
\<close>

definition answered ::
  "('m, 's) crossplane \<Rightarrow> ('m, 's, 'q) ServiceInstance \<Rightarrow> bool \<Rightarrow> OperationKey option \<Rightarrow> string option
     \<Rightarrow> ('m, 's, 'q) ServiceInstance" where
  "answered X si async key url =
     si\<lparr>si_Status :=
       \<lparr> sist_ResourceStatus = xp_SetConditions X (sist_ResourceStatus (si_Status si))
           [if async then xp_Creating X else xp_Available X],
         sist_AtProvider = (si_AtProvider si)
           \<lparr> sio_Context := id_Context (si_ForProvider si), sio_DashboardURL := url,
             sio_LastOperationState := (if async then StateInProgress else StateSucceeded),
             sio_LastOperationKey := (case key of
                Some k \<Rightarrow> if async then k else sio_LastOperationKey (si_AtProvider si)
              | None \<Rightarrow> sio_LastOperationKey (si_AtProvider si)) \<rparr> \<rparr>\<rparr>"

lemma UpdateStatusFromOSB_answered:
  "UpdateStatusFromOSB X si (Some r) w
     = Ret () (answered X si (ar_IsAsync r) (ar_GetOperationKey r) (ar_GetDashboardURL r)) w"
  by (cases "ar_IsAsync r"; cases "ar_GetOperationKey r")
    (simp_all add: UpdateStatusFromOSB_def answered_def Let_def go_defs)

lemma UpdateStatusFromOSB_nil:
  "UpdateStatusFromOSB X si None w
     = Panic (si\<lparr>si_Status := (si_Status si)\<lparr>sist_AtProvider :=
         (si_AtProvider si)\<lparr>sio_Context := id_Context (si_ForProvider si)\<rparr>\<rparr>\<rparr>) w"
  by (simp add: UpdateStatusFromOSB_def Let_def go_defs)

abbreviation "si_upd X \<equiv> UpdateStatusFromLastOp X si_SetLastOperationState si_SetLastOperationDescription (si_SetConditions X)"

lemma si_upd_frame:
  "si_ObjectMeta (si_upd X si r) = si_ObjectMeta si" "si_Spec (si_upd X si r) = si_Spec si"
  "sio_LastOperationKey (si_AtProvider (si_upd X si r)) = sio_LastOperationKey (si_AtProvider si)"
  "sio_HasActiveBindings (si_AtProvider (si_upd X si r)) = sio_HasActiveBindings (si_AtProvider si)"
  "sio_Context (si_AtProvider (si_upd X si r)) = sio_Context (si_AtProvider si)"
  by (auto simp: UpdateStatusFromLastOp_def go_defs Let_def split: option.split LastOperationState.split)

lemma si_SetConditions_frame [simp]:
  "si_ObjectMeta (si_SetConditions X cs si) = si_ObjectMeta si" "si_Spec (si_SetConditions X cs si) = si_Spec si"
  "si_AtProvider (si_SetConditions X cs si) = si_AtProvider si"
  by (simp_all add: si_SetConditions_def)

section \<open>Comparison\<close>

text \<open>The parameters agree: there are some, they parse, and they equal the broker's.\<close>

definition parameters_agree :: "'w runtime \<Rightarrow> string \<Rightarrow> gany gomap option \<Rightarrow> bool" where
  "parameters_agree R t broker \<longleftrightarrow>
     t \<noteq> [] \<and> (case ToParameters R (Some t) of Inl _ \<Rightarrow> False | Inr m \<Rightarrow> deep_equal_map m broker)"

lemma CompareSpecWithOSB_value:
  "CompareSpecWithOSB R si (Some inst) =
     (let p = si_ForProvider si in
      if id_PlanId p \<noteq> [] \<and> id_PlanId p \<noteq> gi_PlanID inst then (NothingToDo, None)
      else if id_Parameters p = [] then (NeedToUpdate, None)
      else case ToParameters R (Some (id_Parameters p)) of
             Inl e \<Rightarrow> (NothingToDo, Some (wrap (SiErr si_errFailedToParseServiceInstanceParameters) e))
           | Inr m \<Rightarrow>
               if deep_equal_map m (gi_Parameters inst) \<and> id_Context p = sio_Context (si_AtProvider si)
               then (NothingToDo, None) else (NeedToUpdate, None))"
  by (auto simp: CompareSpecWithOSB_def compareParametersWithOSB_def HasPlanID_def IsPlanIDDifferent_def Let_def
      split: sum.split)

lemma CompareSpecWithOSB_action: "fst (CompareSpecWithOSB R si r) \<in> {NothingToDo, NeedToUpdate}"
  by (cases r) (auto simp: CompareSpecWithOSB_value Let_def CompareSpecWithOSB_def [of R si None] split: sum.split)

lemma CompareSpecWithOSB_update:
  "CompareSpecWithOSB R si r = (NeedToUpdate, e) \<Longrightarrow> e = None \<and> r \<noteq> None"
  by (cases r) (auto simp: CompareSpecWithOSB_value Let_def CompareSpecWithOSB_def [of R si None] split: sum.splits if_splits)

section \<open>Observing\<close>

abbreviation "si_get_request si \<equiv>
  \<lparr> gir_InstanceID = id_InstanceId (si_ForProvider si), gir_ServiceID = id_ServiceId (si_ForProvider si),
     gir_PlanID = id_PlanId (si_ForProvider si) \<rparr>"

text \<open>An observation that fetches the instance.\<close>

lemma si_observe_get:
  assumes "\<not> HasLastOperation si" and "\<not> meta_WasDeleted X (si_ObjectMeta si)"
    and "id_InstanceId (si_ForProvider si) \<noteq> []"
  shows "si_ObserveState X R P kube osb si oid w =
     (case osb_GetInstance osb (si_get_request si) w of
        (_, Some err, w1) \<Rightarrow>
          if IsResourceGone P err then Ret (NeedToCreate, None, None) si w1
          else Ret (NothingToDo, None, Some (wrap (SiErr si_errOSBGetInstance) err)) si w1
      | (r, None, w1) \<Rightarrow>
          (case CompareSpecWithOSB R si r of
             (_, Some err) \<Rightarrow> Ret (NothingToDo, None, Some (wrap (SiErr si_errFailedToCompareSpecWithOSB) err)) si w1
           | (action, None) \<Rightarrow> Ret (action, r, None) si w1))"
  using assms by (simp add: si_ObserveState_def buildGetInstanceRequest_def Let_def)

text \<open>An observation that polls, when the poll is answered.\<close>

lemma si_observe_polled:
  assumes "HasLastOperation si" and "kube_current X si_ObjectMeta kube si" and "identity_ok oid"
    and "kube_stores_status X si_ObjectMeta si_Spec si_Status kube"
    and "id_InstanceId (si_ForProvider si) \<noteq> []"
    and "\<And>req. always (osb_PollLastOperation osb req) (Some lo, None)"
  shows "\<exists>si' w'. si_ObserveState X R P kube osb si oid w
    = Ret (if IsDeletable X (si_upd X si lo) then NeedToCreate else NothingToDo, None, None) si' w'
      \<and> si_Status si' = si_Status (si_upd X si lo)"
proof -
  obtain req where req: "BuildPollLastOperationRequest si oid = Inr req"
    using assms(3,5) BuildPollLastOperationRequest_ok by blast
  obtain w1 where poll: "osb_PollLastOperation osb req w = (Some lo, None, w1)"
    using alwaysD [OF assms(6)] by blast
  obtain w2 where latest: "GetLatestKubeObject X si_ObjectMeta kube si w1 = (None, si, w2)"
    using current_latest [OF assms(2)] by blast
  obtain si' w3 where "kube_StatusUpdate kube (si_upd X si lo) w2 = (None, si', w3)"
    "si_Status si' = si_Status (si_upd X si lo)"
    using kube_stores_statusD [OF assms(4)] by metis
  with req poll latest assms(1) show ?thesis
    by (simp add: si_ObserveState_def HandleLastOperationInProgress_def Let_def)
qed

lemma si_ready: "condition_laws X \<Longrightarrow>
    c_Status (xp_GetCondition X (sist_ResourceStatus (si_Status (si_SetConditions X [xp_Available X] si))) TypeReady)
      = ConditionTrue"
  by (simp add: si_last.conds_set) (metis condition_laws_def)

section \<open>Provisioning\<close>

text \<open>One request that the specification determines, or none.\<close>

lemma provision_sends:
  "case provision_request R si disableAsync of
     None \<Rightarrow> (\<exists>e. Provision X R P kube osb si disableAsync w = Ret (Some e) si w
       \<and> \<not> errors_Is e (Sentinel (SiErr si_errParseContextFailed))
       \<and> e \<noteq> wrap (SiErr si_errFailedToBuildProvisionRequest) (Sentinel (SiErr si_errCtxMapEmpty)))
   | Some req \<Rightarrow>
       Provision X R P kube osb si disableAsync w =
         (case osb_ProvisionInstance osb req w of
            (_, Some e, w1) \<Rightarrow> Ret (Some (wrap (SiErr si_errOSBProvisionInstanceFailed) e)) si w1
          | (r, None, w1) \<Rightarrow>
              bind_go (UpdateStatusFromOSB X si (ProvisionResponse_iface P r) w1) (\<lambda>_ si2 w2.
                case kube_StatusUpdate kube si2 w2 of
                  (e, si3, w3) \<Rightarrow>
                    Ret (map_option (wrap (SiErr si_errCannotUpdateServiceInstanceStatus)) e) si3 w3))"
proof (cases "ToParameters R (Some (id_Parameters (si_ForProvider si)))")
  case (Inl e)
  then show ?thesis by (simp add: provision_request_def Provision_def Let_def)
next
  case (Inr params)
  define ctx where "ctx = context_map (id_Context (si_ForProvider si))"
  have ne: "ctx \<noteq> []"
    unfolding ctx_def by (rule context_map_nonempty)
  have ctx: "KubernetesOSBContext_ToMap R (id_Context (si_ForProvider si)) = Inr (Some ctx)"
    by (simp only: ToMap_value ctx_def)
  have req: "provision_request R si disableAsync = Some q \<longleftrightarrow>
      buildProvisionRequest si params (Some ctx) disableAsync = Inr q" for q
    unfolding provision_request_def Let_def ctx_def [symmetric] buildProvisionRequest_Inr [OF ne]
    using Inr by auto
  show ?thesis
  proof (cases "buildProvisionRequest si params (Some ctx) disableAsync")
    case (Inl e)
    then have "provision_request R si disableAsync = None"
      using req by (cases "provision_request R si disableAsync") auto
    moreover have "e \<noteq> Sentinel (SiErr si_errCtxMapEmpty)"
      using Inl buildProvisionRequest_no_ctx_error [OF ne] by auto
    ultimately show ?thesis
      using Inl \<open>ToParameters R _ = Inr params\<close> by (simp add: Provision_def ctx)
  next
    case (Inr q)
    then have "provision_request R si disableAsync = Some q"
      using req by blast
    moreover have "Provision X R P kube osb si disableAsync w =
        (case osb_ProvisionInstance osb q w of
            (_, Some e, w1) \<Rightarrow> Ret (Some (wrap (SiErr si_errOSBProvisionInstanceFailed) e)) si w1
          | (r, None, w1) \<Rightarrow>
              bind_go (UpdateStatusFromOSB X si (ProvisionResponse_iface P r) w1) (\<lambda>_ si2 w2.
                case kube_StatusUpdate kube si2 w2 of
                  (e, si3, w3) \<Rightarrow>
                    Ret (map_option (wrap (SiErr si_errCannotUpdateServiceInstanceStatus)) e) si3 w3))"
      using Inr \<open>ToParameters R _ = Inr params\<close>
      by (auto simp: Provision_def ctx split: prod.split option.split intro!: arg_cong [where f = "bind_go _"] ext)
    ultimately show ?thesis
      by simp
  qed
qed

end
