(* ===== verification/Instance_Lifecycle.thy ===== *)
theory Instance_Lifecycle
  imports Instance_Facts Instance_Controller
begin

text \<open>
  The life of a service instance under its controller, as a step relation on the object and
  the world. The locale is what a property of the status needs in order to be kept by every
  step; it is interpreted for the recorded operation key, which is never dropped, and for the
  absence of active bindings, which no operation ever records.
\<close>

section \<open>Steps\<close>

text \<open>
  The environment: the API server answers with an object that still has the property \<open>Q\<close>, and
  the broker's answers are of the form \<open>A\<close> (provision and update) and \<open>D\<close> (deprovision).
\<close>

definition kube_keeps ::
  "(('m, 's, 'q) ServiceInstance \<Rightarrow> bool) \<Rightarrow> (('m, 's, 'q) ServiceInstance, 'w) kube_client \<Rightarrow> bool" where
  "kube_keeps Q kube \<longleftrightarrow>
     (\<forall>ns n ob w. Q ob \<longrightarrow> Q (fst (snd (kube_Get kube ns n ob w))))
     \<and> (\<forall>ob w. Q ob \<longrightarrow> Q (fst (snd (kube_StatusUpdate kube ob w))))"

definition answers_in ::
  "(OSBAsyncResponse \<Rightarrow> bool) \<Rightarrow> (DeprovisionResponse \<Rightarrow> bool) \<Rightarrow> ('ep, 'vm) osb_pkg \<Rightarrow> ('ep, 'vm, 'w) osb_client \<Rightarrow> bool" where
  "answers_in A D P osb \<longleftrightarrow>
     (\<forall>q w r. fst (osb_DeprovisionInstance osb q w) = Some r \<longrightarrow> D r)
     \<and> (\<forall>q w r. fst (osb_UpdateInstance osb q w) = Some r \<longrightarrow> A r)
     \<and> (\<forall>q w r. ProvisionResponse_iface P (fst (osb_ProvisionInstance osb q w)) = Some r \<longrightarrow> A r)"

abbreviation "key_given r \<equiv> ar_GetOperationKey r \<noteq> Some []"
abbreviation "delete_key_given r \<equiv> dp_OperationKey r \<noteq> Some []"

text \<open>One step: an operation of the external client, or a user's edit of metadata and specification.\<close>

inductive instance_step ::
  "((('m, 's, 'q) ServiceInstance, 'w) kube_client \<Rightarrow> bool) \<Rightarrow> (('ep, 'vm, 'w) osb_client \<Rightarrow> bool)
     \<Rightarrow> ('m, 's) crossplane \<Rightarrow> 'w runtime \<Rightarrow> ('ep, 'vm) osb_pkg
     \<Rightarrow> ('m, 's, 'q) ServiceInstance \<times> 'w \<Rightarrow> ('m, 's, 'q) ServiceInstance \<times> 'w \<Rightarrow> bool"
  for K :: "(('m, 's, 'q) ServiceInstance, 'w) kube_client \<Rightarrow> bool" and B :: "('ep, 'vm, 'w) osb_client \<Rightarrow> bool"
    and X :: "('m, 's) crossplane" and R :: "'w runtime" and P :: "('ep, 'vm) osb_pkg" where
  si_observe: "K kube \<Longrightarrow> r = sic_Observe_obj X R P kube c si w \<Longrightarrow>
    instance_step K B X R P (si, w) (res_obj r, res_world r)"
| si_create: "K kube \<Longrightarrow> B (sice_osb c) \<Longrightarrow>
    r = sic_Create_obj X R P kube c si w \<Longrightarrow> instance_step K B X R P (si, w) (res_obj r, res_world r)"
| si_update: "K kube \<Longrightarrow> B (sice_osb c) \<Longrightarrow>
    r = sic_Update_obj X R kube c si w \<Longrightarrow> instance_step K B X R P (si, w) (res_obj r, res_world r)"
| si_delete: "K kube \<Longrightarrow> B (sice_osb c) \<Longrightarrow>
    r = sic_Delete_obj X P kube c si w \<Longrightarrow> instance_step K B X R P (si, w) (res_obj r, res_world r)"
| si_edit: "si_Status si' = si_Status si \<Longrightarrow> instance_step K B X R P (si, w) (si', w')"

lemma stored_result:
  "(case t of (Some err, s, w) \<Rightarrow> Ret (Some (f err)) s w | (None, s, w) \<Rightarrow> Ret None s w)
     = (case t of (e, s, w) \<Rightarrow> Ret (map_option f e) s w)"
  by (auto split: prod.split option.split)

lemma UpdateStatusFromOSB_obj:
  "res_obj (UpdateStatusFromOSB X si r w) = res_obj (UpdateStatusFromOSB X si r w')"
  by (simp add: UpdateStatusFromOSB_def Let_def split: option.split)

section \<open>Properties of the status\<close>

text \<open>
  A property of the status that conditions and the state of the last operation do not bear on,
  and that recording an answer of the broker keeps.
\<close>

locale status_invariant =
  fixes X :: "('m, 's) crossplane"
    and Q :: "('m, 's, 'q) ServiceInstance \<Rightarrow> bool"
    and A :: "OSBAsyncResponse \<Rightarrow> bool" and D :: "DeprovisionResponse \<Rightarrow> bool"
  assumes of_status: "si_Status si' = si_Status si \<Longrightarrow> Q si' = Q si"
    and conditions: "Q (si_SetConditions X cs si) = Q si"
    and polled: "Q (si_upd X si lo) = Q si"
    and recorded: "Q si \<Longrightarrow> (\<And>x. r = Some x \<Longrightarrow> A x) \<Longrightarrow> Q (res_obj (UpdateStatusFromOSB X si r ()))"
    and deleting: "Q si \<Longrightarrow> D x \<Longrightarrow> Q (UpdateStatusForAsyncDeletion si x)"
begin

lemma get_latest:
  "kube_keeps Q kube \<Longrightarrow> Q si \<Longrightarrow> GetLatestKubeObject X si_ObjectMeta kube si w = (e, si', w') \<Longrightarrow> Q si'"
  by (auto simp: GetLatestKubeObject_def kube_keeps_def split: prod.splits option.splits)
    (metis fst_conv snd_conv)+

lemma status_update:
  "kube_keeps Q kube \<Longrightarrow> Q si \<Longrightarrow> kube_StatusUpdate kube si w = (e, si', w') \<Longrightarrow> Q si'"
  unfolding kube_keeps_def by (metis fst_conv snd_conv)

lemma polled_update:
  "kube_keeps Q kube \<Longrightarrow> kube_StatusUpdate kube (si_upd X si lo) w = (e, si', w') \<Longrightarrow> Q si \<Longrightarrow> Q si'"
  by (erule status_update) (simp_all add: polled)

lemma polled_last_operation:
  assumes "kube_keeps Q kube" and "Q si"
  shows "Q (res_obj (HandleLastOperationInProgress X P kube osb si oid w))"
  using assms
  by (auto simp: HandleLastOperationInProgress_def Let_def polled dest: get_latest [OF assms]
      intro: polled_update [OF assms(1)] split: sum.split prod.split option.split)

lemma observed:
  assumes "kube_keeps Q kube" and "Q si"
  shows "Q (res_obj (si_ObserveState X R P kube osb si oid w))"
proof (cases "HasLastOperation si")
  case True
  then show ?thesis
    unfolding si_ObserveState_def
    by simp (rule bind_go_obj [where P = Q, OF polled_last_operation [OF assms]], auto split: option.split)
next
  case False
  have "Q (res_obj (HandleDeletionWithActiveBindings kube si w))"
    by (auto simp: HandleDeletionWithActiveBindings_def intro: status_update [OF assms] split: prod.split option.split)
  note deleted = bind_go_obj [where P = Q, OF this]
  show ?thesis
  proof (cases "meta_WasDeleted X (si_ObjectMeta si)")
    case True
    with False show ?thesis
      unfolding si_ObserveState_def by simp (rule deleted, auto split: option.split)
  next
    case not_deleted: False
    with False assms(2) show ?thesis
      by (simp add: si_ObserveState_def split: sum.split prod.split option.split)
  qed
qed

text \<open>What follows an answer in both operations that send one: record it, then store the status.\<close>

lemma recorded_in:
  assumes "Q si" and "\<And>x. r = Some x \<Longrightarrow> A x"
  shows "Q (res_obj (UpdateStatusFromOSB X si r w))"
  using recorded [OF assms] by (simp only: UpdateStatusFromOSB_obj [of X si r w "()"])

lemma record_and_store:
  assumes "kube_keeps Q kube" and "Q si" and "\<And>x. r = Some x \<Longrightarrow> A x"
  shows "Q (res_obj (bind_go (UpdateStatusFromOSB X si r w) (\<lambda>_ si2 w2.
            case kube_StatusUpdate kube si2 w2 of
              (e, si3, w3) \<Rightarrow> Ret (map_option f e) si3 w3)))"
  by (rule bind_go_obj [where P = Q, OF recorded_in [OF assms(2,3)]])
    (auto split: prod.split option.split intro: status_update [OF assms(1)])

lemma provisioned:
  assumes "kube_keeps Q kube" and "Q si" and "answers_in A D P osb"
  shows "Q (res_obj (Provision X R P kube osb si da w))"
proof (cases "provision_request R si da")
  case None
  then show ?thesis
    using provision_sends [where R = R and si = si and disableAsync = da and X = X and P = P and kube = kube and osb = osb and w = w] assms(2) by auto
next
  case (Some req)
  obtain r e w1 where u: "osb_ProvisionInstance osb req w = (r, e, w1)" by (metis prod_cases3)
  have "A x" if "ProvisionResponse_iface P r = Some x" for x
    using assms(3) u that unfolding answers_in_def by (metis fst_conv)
  from record_and_store [OF assms(1,2) this] show ?thesis
    using assms(2) provision_sends [where R = R and si = si and disableAsync = da and X = X and P = P and kube = kube and osb = osb and w = w] Some u
    by (cases e) simp_all
qed

lemma updated:
  assumes "kube_keeps Q kube" and "Q si" and "answers_in A D P osb"
  shows "Q (res_obj (si_Update X R kube osb si oid da w))"
proof (cases "buildUpdateInstanceRequest R si oid da")
  case (Inl e)
  then show ?thesis using assms(2) by (simp add: si_Update_def)
next
  case (Inr req)
  obtain r e w1 where u: "osb_UpdateInstance osb req w = (r, e, w1)" by (metis prod_cases3)
  have "\<And>x. r = Some x \<Longrightarrow> A x"
    using assms(3) u unfolding answers_in_def by (metis fst_conv)
  from record_and_store [OF assms(1,2) this] show ?thesis
    using assms(2) Inr u by (cases e) (simp_all add: si_Update_def stored_result)
qed

lemma deprovisioned:
  assumes "kube_keeps Q kube" and "Q si" and "answers_in A D P osb"
  shows "Q (res_obj (Deprovision P kube osb si oid da w))"
proof (cases "buildDeprovisionRequest si oid da")
  case (Inl e)
  then show ?thesis using assms(2) by (simp add: Deprovision_def)
next
  case (Inr req)
  obtain r e w1 where u: "osb_DeprovisionInstance osb req w = (r, e, w1)" by (metis prod_cases3)
  have "D x" if "r = Some x" for x
    using assms(3) u that unfolding answers_in_def by (metis fst_conv)
  then have "Q (UpdateStatusForAsyncDeletion si x)" if "r = Some x" for x
    using that assms(2) by (simp add: deleting)
  then show ?thesis
    using assms(2) Inr u
    by (auto simp: Deprovision_def split: prod.split option.split intro: status_update [OF assms(1)])
qed

lemma kept_by_step:
  assumes "instance_step (kube_keeps Q) (answers_in A D P) X R P s s'" and "Q (fst s)"
  shows "Q (fst s')"
  using assms
proof (induction rule: instance_step.induct)
  case (si_observe kube r c si w)
  then have "Q (res_obj (si_ObserveState X R P kube (sice_osb c) si (sice_originatingIdentity c) w))"
    by (intro observed) simp_all
  then have "Q (res_obj (sic_Observe_obj X R P kube c si w))" if "Q si"
    unfolding sic_Observe_obj_def using that
    by (cases "IsInstanceIDEmpty si", simp, simp only: if_False, elim bind_go_obj [where P = Q])
      (auto simp: conditions split: option.split Action.split)
  with si_observe show ?case by simp
next
  case (si_create kube c r si w)
  then have "Q (res_obj (Provision X R P kube (sice_osb c) si (sice_disableAsync c) w))"
    by (intro provisioned) simp_all
  then show ?case
    unfolding si_create fst_conv sic_Create_obj_def
    by (rule bind_go_obj [where P = Q]) (auto simp: conditions split: option.split)
next
  case (si_update kube c r si w)
  then have "Q (res_obj (si_Update X R kube (sice_osb c) si (sice_originatingIdentity c) (sice_disableAsync c) w))"
    by (intro updated [where P = P]) simp_all
  then show ?case
    unfolding si_update fst_conv sic_Update_obj_def
    by (rule bind_go_obj [where P = Q]) (auto simp: conditions split: option.split)
next
  case (si_delete kube c r si w)
  then have "Q (res_obj (Deprovision P kube (sice_osb c) (si_SetConditions X [xp_Deleting X] si)
      (sice_originatingIdentity c) (sice_disableAsync c) w))"
    by (intro deprovisioned) (simp_all add: conditions)
  then show ?case
    unfolding si_delete fst_conv sic_Delete_obj_def
    by (rule bind_go_obj [where P = Q]) (auto simp: conditions split: option.split)
next
  case (si_edit si' si w w')
  then show ?case using of_status [of si' si] by simp
qed

lemma kept_by_run:
  assumes "(instance_step (kube_keeps Q) (answers_in A D P) X R P)\<^sup>*\<^sup>* (si, w) (si', w')" and "Q si"
  shows "Q si'"
proof -
  have "Q (fst s')"
    if "(instance_step (kube_keeps Q) (answers_in A D P) X R P)\<^sup>*\<^sup>* s s'" "Q (fst s)" for s s'
    using that by (induction rule: rtranclp_induct) (auto dest: kept_by_step)
  from this [OF assms(1)] assms(2) show ?thesis by simp
qed

end

text \<open>A recorded operation key stays recorded, when the broker gives no empty keys.\<close>

lemma UpdateStatusFromOSB_keeps_key:
  assumes "HasLastOperation si" and "\<And>x. r = Some x \<Longrightarrow> key_given x"
  shows "HasLastOperation (res_obj (UpdateStatusFromOSB X si r w))"
proof (cases r)
  case None
  then show ?thesis
    using assms(1) by (simp add: UpdateStatusFromOSB_def Let_def HasLastOperation_def SetStatusContextFromProviderContext_def)
next
  case (Some x)
  then show ?thesis
    using UpdateStatusFromOSB_Some [of X si x w] assms by (auto simp: HasLastOperation_def split: option.splits if_splits)
qed

interpretation key_recorded: status_invariant X HasLastOperation key_given delete_key_given
  by unfold_locales (auto simp: HasLastOperation_def si_upd_frame UpdateStatusForAsyncDeletion_def go_defs Let_def
      dest: UpdateStatusFromOSB_keeps_key [unfolded HasLastOperation_def] split: option.split)

text \<open>No operation ever records that there are active bindings, whatever the broker answers.\<close>

lemma UpdateStatusFromOSB_active:
  "HasActiveBindings (res_obj (UpdateStatusFromOSB X si r w)) = HasActiveBindings si"
  by (cases r) (auto simp: UpdateStatusFromOSB_def HasActiveBindings_def Let_def go_defs HandleAsyncStatus_def
      split: option.split)

interpretation no_active_bindings:
  status_invariant X "\<lambda>si. \<not> HasActiveBindings si" "\<lambda>r. True" "\<lambda>r. True"
  by unfold_locales (auto simp: UpdateStatusFromOSB_active [unfolded HasActiveBindings_def] HasActiveBindings_def si_upd_frame
      UpdateStatusForAsyncDeletion_def go_defs Let_def split: option.split)

text \<open>The guard of the deletion is then never taken: every error of a deprovision has another cause.\<close>

lemma Deprovision_not_guarded:
  "\<not> HasActiveBindings si \<Longrightarrow>
     res_val (Deprovision P kube osb si oid da w) \<noteq> Some (Some (Sentinel (SiErr si_errCannotDeleteWithActiveBindings)))"
  by (auto simp: Deprovision_def split: sum.split prod.split option.split)

end
