(* ===== verification/Instance_Properties.thy ===== *)
theory Instance_Properties
  imports Instance_Lifecycle Example_Environment
begin

text \<open>
  The properties of service instances: what provisioning, updating, polling and deleting do
  for every answer of the broker, when drift is reported, and two runs of the controller.
\<close>

section \<open>Provision and update\<close>

text \<open>C18: Provisioning calls the broker once, with exactly the request the specification determines, or
  not at all: when the parameters do not parse or a required identifier is empty it fails with
  the object and the world as they were. A request is never refused for an empty context: the
  context of an instance always has entries. A failed call leaves the object. An answer is
  recorded: the context sent, the dashboard, the state (in progress or succeeded) with its
  condition and, of an asynchronous answer that has one, the operation key; then the status is
  stored, and only its storing can fail.\<close>
theorem provision_outcome:
  assumes "async_iface_laws P"
  shows "let store = (\<lambda>si2 w2. case kube_StatusUpdate kube si2 w2 of
             (e, si3, w3) \<Rightarrow> Ret (map_option (wrap (SiErr si_errCannotUpdateServiceInstanceStatus)) e) si3 w3) in
   case provision_request R si disableAsync of
     None \<Rightarrow> (\<exists>e. Provision X R P kube osb si disableAsync w = Ret (Some e) si w
       \<and> \<not> errors_Is e (Sentinel (SiErr si_errParseContextFailed))
       \<and> e \<noteq> wrap (SiErr si_errFailedToBuildProvisionRequest) (Sentinel (SiErr si_errCtxMapEmpty)))
   | Some req \<Rightarrow>
       Provision X R P kube osb si disableAsync w =
         (case osb_ProvisionInstance osb req w of
            (_, Some e, w1) \<Rightarrow> Ret (Some (wrap (SiErr si_errOSBProvisionInstanceFailed) e)) si w1
          | (Some r, None, w1) \<Rightarrow>
              store (si\<lparr>si_Status :=
                \<lparr> sist_ResourceStatus = xp_SetConditions X (sist_ResourceStatus (si_Status si))
                    [if p_Async r then xp_Creating X else xp_Available X],
                  sist_AtProvider = (si_AtProvider si)
                    \<lparr> sio_Context := id_Context (si_ForProvider si), sio_DashboardURL := p_DashboardURL r,
                      sio_LastOperationState := (if p_Async r then StateInProgress else StateSucceeded),
                      sio_LastOperationKey := (case p_OperationKey r of
                         Some k \<Rightarrow> if p_Async r then k else sio_LastOperationKey (si_AtProvider si)
                       | None \<Rightarrow> sio_LastOperationKey (si_AtProvider si)) \<rparr> \<rparr>\<rparr>) w1
          | (None, None, w1) \<Rightarrow>
              (case ProvisionResponse_iface P None of
                 None \<Rightarrow> Panic (si\<lparr>si_Status := (si_Status si)\<lparr>sist_AtProvider :=
                   (si_AtProvider si)\<lparr>sio_Context := id_Context (si_ForProvider si)\<rparr>\<rparr>\<rparr>) w1
               | Some a \<Rightarrow> store (answered X si (ar_IsAsync a) (ar_GetOperationKey a) (ar_GetDashboardURL a)) w1))"
  using provision_sends [where R = R and si = si and disableAsync = disableAsync and X = X and P = P and kube = kube
      and osb = osb and w = w] assms
  unfolding answered_def [symmetric] Let_def async_iface_laws_def
  by (auto simp: UpdateStatusFromOSB_answered UpdateStatusFromOSB_nil split: option.split prod.split)

theorem provision_outcome_witness:
  "res_world (Provision ex_X ex_R ex_P ex_kube ex_broker ex_si True []) = [''provision'', ''status'']
   \<and> sio_DashboardURL (si_AtProvider (res_obj (Provision ex_X ex_R ex_P ex_kube ex_broker ex_si True []))) = Some ''http://d''"
proof -
  have some: "provision_request ex_R ex_si True = Some (the (provision_request ex_R ex_si True))"
    by code_simp
  have "osb_ProvisionInstance ex_broker (the (provision_request ex_R ex_si True)) []
      = (Some \<lparr> p_Async = False, p_OperationKey = None, p_DashboardURL = Some ''http://d'' \<rparr>, None, [''provision''])"
    by (simp add: ex_broker_def ex_osb_def ex_call_def)
  with provision_outcome [OF ex_async_iface_laws, where R = ex_R and si = ex_si and disableAsync = True and X = ex_X
      and kube = ex_kube and osb = ex_broker and w = "[]"]
  show ?thesis
    unfolding Let_def by (subst (asm) some) (simp add: ex_kube_def)
qed

text \<open>The two status updates of the code, one over the provision response and one over the interface
  of asynchronous responses, do the same to the object.\<close>
theorem UpdateStatus_equivalent:
  assumes "async_iface_laws P"
  shows "UpdateStatusFromOSB X si (ProvisionResponse_iface P (Some resp)) w = Ret () (UpdateStatus X si resp) w"
  using assms
  by (cases "p_OperationKey resp") (simp_all add: async_iface_laws_def UpdateStatusFromOSB_def UpdateStatus_def Let_def go_defs)

theorem UpdateStatus_equivalent_witness:
  "UpdateStatusFromOSB ex_X ex_si (ProvisionResponse_iface ex_P
       (Some \<lparr> p_Async = True, p_OperationKey = Some ''k'', p_DashboardURL = None \<rparr>)) []
     = Ret () (UpdateStatus ex_X ex_si \<lparr> p_Async = True, p_OperationKey = Some ''k'', p_DashboardURL = None \<rparr>) []"
  by (rule UpdateStatus_equivalent [OF ex_async_iface_laws])

section \<open>Drift\<close>

text \<open>C19: An instance without a recorded operation is reported as out of date exactly when the broker
  has it with the plan of the specification (or the specification has none) and the
  specification has no parameters, or parameters that differ from the broker's, or a context
  that differs from the one last sent. A different plan is never reported, and an instance
  without parameters is out of date forever.\<close>
theorem instance_update_iff:
  assumes "\<not> HasLastOperation si" and "\<not> meta_WasDeleted X (si_ObjectMeta si)"
    and "id_InstanceId (si_ForProvider si) \<noteq> []"
  shows "observed_action (si_ObserveState X R P kube osb si oid w) = Some NeedToUpdate
    \<longleftrightarrow> (\<exists>r w1. osb_GetInstance osb (si_get_request si) w = (Some r, None, w1)
        \<and> \<not> (id_PlanId (si_ForProvider si) \<noteq> [] \<and> id_PlanId (si_ForProvider si) \<noteq> gi_PlanID r)
        \<and> (id_Parameters (si_ForProvider si) = []
           \<or> (\<exists>m. ToParameters R (Some (id_Parameters (si_ForProvider si))) = Inr m
                \<and> \<not> (deep_equal_map m (gi_Parameters r)
                     \<and> id_Context (si_ForProvider si) = sio_Context (si_AtProvider si)))))"
proof -
  obtain r e w1 where g: "osb_GetInstance osb (si_get_request si) w = (r, e, w1)" by (metis prod_cases3)
  show ?thesis
    using g by (cases r; cases e)
      (auto simp: si_observe_get [OF assms] CompareSpecWithOSB_value CompareSpecWithOSB_def [of R si None] Let_def
        split: sum.split)
qed

theorem instance_update_iff_witness:
  "observed_action (si_ObserveState ex_X ex_R ex_P ex_kube ex_broker
      (ex_si\<lparr>si_Spec := (si_Spec ex_si)\<lparr>sis_ForProvider := (si_ForProvider ex_si)\<lparr>id_Parameters := []\<rparr>\<rparr>\<rparr>) ex_oid [])
     = Some NeedToUpdate"
proof -
  let ?si = "ex_si\<lparr>si_Spec := (si_Spec ex_si)\<lparr>sis_ForProvider := (si_ForProvider ex_si)\<lparr>id_Parameters := []\<rparr>\<rparr>\<rparr>"
  have "\<not> HasLastOperation ?si" "\<not> meta_WasDeleted ex_X (si_ObjectMeta ?si)"
    "id_InstanceId (si_ForProvider ?si) \<noteq> []"
    by code_simp+
  from instance_update_iff [OF this, of ex_R ex_P ex_kube ex_broker ex_oid "[]"]
  show ?thesis
    by (simp add: ex_broker_def ex_osb_def ex_call_def ex_si_def)
qed

text \<open>C20: A synchronous update converges: once the broker reports the parameters of the specification,
  the next observation of the updated instance is up to date and ready.\<close>
theorem update_converges:
  assumes "kube_stores_status X si_ObjectMeta si_Spec si_Status kube" and "condition_laws X"
    and "\<not> HasLastOperation si"
    and "\<not> meta_WasDeleted X (si_ObjectMeta si)"
    and "buildUpdateInstanceRequest R si (sice_originatingIdentity c) (sice_disableAsync c) = Inr req"
    and "always (osb_UpdateInstance (sice_osb c) req) (Some resp, None)" and "\<not> ar_IsAsync resp"
    and "always (osb_GetInstance (sice_osb c) (si_get_request si)) (Some r, None)"
    and "id_PlanId (si_ForProvider si) = gi_PlanID r"
    and "parameters_agree R (id_Parameters (si_ForProvider si)) (gi_Parameters r)"
  shows "let r1 = sic_Update_obj X R kube c si w;
             r2 = sic_Observe_obj X R P kube c (res_obj r1) (res_world r1)
         in res_val r1 = Some (\<lparr> eu_ConnectionDetails = Some [] \<rparr>, None)
          \<and> res_val r2 = Some (ExternalObservation_zero\<lparr>eo_ResourceExists := True, eo_ResourceUpToDate := True\<rparr>, None)
          \<and> c_Status (xp_GetCondition X (sist_ResourceStatus (si_Status (res_obj r2))) TypeReady) = ConditionTrue"
proof -
  obtain w1 where u: "osb_UpdateInstance (sice_osb c) req w = (Some resp, None, w1)"
    using alwaysD [OF assms(6)] by blast
  obtain si2 where s: "UpdateStatusFromOSB X si (Some resp) w1 = Ret () si2 w1"
      "si_ObjectMeta si2 = si_ObjectMeta si" "si_Spec si2 = si_Spec si"
      "sio_Context (si_AtProvider si2) = id_Context (si_ForProvider si)"
      "sio_LastOperationKey (si_AtProvider si2) = sio_LastOperationKey (si_AtProvider si)"
    using UpdateStatusFromOSB_Some [of X si resp w1] assms(7) by (auto split: option.splits)
  obtain si3 w2 where k: "kube_StatusUpdate kube si2 w1 = (None, si3, w2)" "si_Status si3 = si_Status si2"
      "si_Spec si3 = si_Spec si" "meta_WasDeleted X (si_ObjectMeta si3) = meta_WasDeleted X (si_ObjectMeta si)"
    using kube_stores_statusD [OF assms(1)] s(2,3) by metis
  have r1: "sic_Update_obj X R kube c si w = Ret (\<lparr> eu_ConnectionDetails = Some [] \<rparr>, None) si3 w2"
    by (simp add: sic_Update_obj_def si_Update_def assms(5) u s(1) k)
  obtain w3 where g: "osb_GetInstance (sice_osb c) (si_get_request si3) w2 = (Some r, None, w3)"
    using alwaysD [OF assms(8)] k(3) by (metis (no_types))
  have ids: "id_InstanceId (si_ForProvider si3) \<noteq> []"
    using assms(5) k(3) by (auto simp: buildUpdateInstanceRequest_def Let_def split: sum.splits if_splits)
  have cmp: "CompareSpecWithOSB R si3 (Some r) = (NothingToDo, None)"
    using assms(9,10) s(4) k(2,3)
    by (auto simp: CompareSpecWithOSB_value Let_def parameters_agree_def split: sum.splits)
  have nl: "\<not> HasLastOperation si3" "\<not> meta_WasDeleted X (si_ObjectMeta si3)"
    using assms(3,4) s(5) k(2,4) by (simp_all add: HasLastOperation_def)
  have r2: "sic_Observe_obj X R P kube c si3 w2
      = Ret (ExternalObservation_zero\<lparr>eo_ResourceExists := True, eo_ResourceUpToDate := True\<rparr>, None)
          (si_SetConditions X [xp_Available X] si3) w3"
    using ids by (simp add: sic_Observe_obj_def IsInstanceIDEmpty_def si_observe_get [OF nl ids] g cmp)
  show ?thesis
    using si_ready [OF assms(2), of si3] by (simp add: Let_def r1 r2 del: si_last.conds_set)
qed

theorem update_converges_witness:
  "let c = \<lparr> sice_osb = ex_broker, sice_originatingIdentity = ex_oid, sice_disableAsync = False \<rparr>;
       r1 = sic_Update_obj ex_X ex_R ex_kube c ex_si [];
       r2 = sic_Observe_obj ex_X ex_R ex_P ex_kube c (res_obj r1) (res_world r1)
   in res_val r2 = Some (ExternalObservation_zero\<lparr>eo_ResourceExists := True, eo_ResourceUpToDate := True\<rparr>, None)"
proof -
  let ?c = "\<lparr> sice_osb = ex_broker, sice_originatingIdentity = ex_oid, sice_disableAsync = False \<rparr>"
  have "case buildUpdateInstanceRequest ex_R ex_si (sice_originatingIdentity ?c) (sice_disableAsync ?c) of
      Inl _ \<Rightarrow> False | Inr _ \<Rightarrow> True"
    by code_simp
  then obtain req where req: "buildUpdateInstanceRequest ex_R ex_si (sice_originatingIdentity ?c) (sice_disableAsync ?c) = Inr req"
    by (auto split: sum.splits)
  have "\<not> HasLastOperation ex_si" "\<not> meta_WasDeleted ex_X (si_ObjectMeta ex_si)"
    "parameters_agree ex_R (id_Parameters (si_ForProvider ex_si)) (Some [])"
    by code_simp+
  then show ?thesis
    using update_converges [OF ex_kube_stores_status ex_condition_laws _ _ req,
      where resp = "\<lparr> ar_IsAsync = False, ar_GetOperationKey = None, ar_GetDashboardURL = None \<rparr>"
        and r = "\<lparr> gi_PlanID = ''plan'', gi_Parameters = Some [], gi_DashboardURL = ''http://d'' \<rparr>"
        and P = ex_P and w = "[]"]
    by (simp add: Let_def always_def ex_broker_def ex_osb_def ex_call_def ex_si_def)
qed

section \<open>Polling and deletion\<close>

text \<open>C21: An observation that polls records the broker's state and description, and the instance is
  ready afterwards exactly when the operation succeeded; the result is "gone" exactly when the
  instance is being deleted, the operation succeeded and no bindings are active.\<close>
theorem poll_records_state:
  assumes "condition_laws X" and "kube_current X si_ObjectMeta kube si"
    and "kube_stores_status X si_ObjectMeta si_Spec si_Status kube" and "HasLastOperation si" and "identity_ok oid"
    and "id_InstanceId (si_ForProvider si) \<noteq> []"
    and "\<And>req. always (osb_PollLastOperation osb req) (Some lo, None)" and "\<nexists>t. lo_State lo = StateOther t"
  shows "let r = si_ObserveState X R P kube osb si oid w; si' = res_obj r in
     res_val r = Some (if meta_WasDeleted X (si_ObjectMeta si) \<and> lo_State lo = StateSucceeded
                          \<and> \<not> sio_HasActiveBindings (si_AtProvider si)
                       then NeedToCreate else NothingToDo, None, None)
     \<and> sio_LastOperationState (si_AtProvider si') = lo_State lo
     \<and> sio_LastOperationDescription (si_AtProvider si')
         = (case lo_Description lo of Some d \<Rightarrow> d | None \<Rightarrow> sio_LastOperationDescription (si_AtProvider si))
     \<and> c_Status (xp_GetCondition X (sist_ResourceStatus (si_Status si')) TypeReady)
         = (if lo_State lo = StateSucceeded then ConditionTrue else ConditionFalse)"
proof -
  obtain si' w' where r: "si_ObserveState X R P kube osb si oid w
      = Ret (if IsDeletable X (si_upd X si lo) then NeedToCreate else NothingToDo, None, None) si' w'"
    and st: "si_Status si' = si_Status (si_upd X si lo)"
    using si_observe_polled [OF assms(4,2,5,3,6,7)] by blast
  show ?thesis
    by (simp add: Let_def r st IsDeletable_def si_upd_frame si_last.upd_state si_last.upd_desc
        si_last.upd_ready [OF assms(1,8)])
qed

definition ex_keyed :: "(ex_meta, ex_status, unit) ServiceInstance" where
  "ex_keyed = si_SetLastOperationKey ''op'' ex_si"

theorem poll_records_state_witness:
  "let r = si_ObserveState ex_X ex_R ex_P ex_kube ex_broker ex_keyed ex_oid [] in
     c_Status (xp_GetCondition ex_X (sist_ResourceStatus (si_Status (res_obj r))) TypeReady) = ConditionTrue"
proof -
  have "HasLastOperation ex_keyed" "identity_ok ex_oid" "id_InstanceId (si_ForProvider ex_keyed) \<noteq> []"
    by code_simp+
  from poll_records_state [OF ex_condition_laws ex_kube_current ex_kube_stores_status this, of ex_broker ex_succeeded ex_R ex_P "[]"]
  show ?thesis
    by (simp add: Let_def always_def ex_broker_def ex_osb_def ex_call_def ex_succeeded_def)
qed

text \<open>C22: Deprovisioning calls the broker exactly when the instance has an identifier, no active
  bindings and complete identifiers; a broker for which the instance is gone counts as success,
  and an asynchronous answer is recorded and stored.\<close>
theorem deprovision_outcome:
  "Deprovision P kube osb si oid disableAsync w =
     (if id_InstanceId (si_ForProvider si) = [] then Ret None si w
      else if sio_HasActiveBindings (si_AtProvider si) then
        Ret (Some (Sentinel (SiErr si_errCannotDeleteWithActiveBindings))) si w
      else if \<not> identity_ok oid \<or> \<not> instance_ids_ok (si_ForProvider si) then
        Ret (Some (wrap (SiErr si_errFailedToBuildDeprovisionRequest)
                     (projl (buildDeprovisionRequest si oid disableAsync)))) si w
      else
        (case osb_DeprovisionInstance osb
                \<lparr> dr_InstanceID = id_InstanceId (si_ForProvider si), dr_AcceptsIncomplete = (\<not> disableAsync),
                  dr_ServiceID = id_ServiceId (si_ForProvider si), dr_PlanID = id_PlanId (si_ForProvider si),
                  dr_OriginatingIdentity = Some oid \<rparr> w of
           (_, Some e, w1) \<Rightarrow>
             Ret (if IsResourceGone P e then None
                  else Some (wrap (SiErr si_errOSBDeprovisionInstanceFailed) e)) si w1
         | (None, None, w1) \<Rightarrow> Panic si w1
         | (Some r, None, w1) \<Rightarrow>
             if \<not> dp_Async r then Ret None si w1
             else (case kube_StatusUpdate kube
                      (case dp_OperationKey r of
                         Some k \<Rightarrow> si_SetLastOperationKey k (si_SetLastOperationState StateDeleting si)
                       | None \<Rightarrow> si_SetLastOperationState StateDeleting si) w1 of
                     (e, si2, w2) \<Rightarrow>
                       Ret (map_option (wrap (SiErr si_errCannotUpdateServiceInstanceStatus)) e) si2 w2)))"
proof (cases "buildDeprovisionRequest si oid disableAsync")
  case (Inl e)
  then have "\<not> (identity_ok oid \<and> instance_ids_ok (si_ForProvider si))"
    using buildDeprovisionRequest_Inr [of si oid disableAsync] by auto
  with Inl show ?thesis
    by (simp add: Deprovision_def IsInstanceIDEmpty_def IsAlreadyDeleted_def HasActiveBindings_def)
next
  case (Inr req)
  then show ?thesis
    using buildDeprovisionRequest_Inr [of si oid disableAsync req]
    by (auto simp: Deprovision_def IsInstanceIDEmpty_def IsAlreadyDeleted_def HasActiveBindings_def
        UpdateStatusForAsyncDeletion_def Let_def split: prod.split option.split)
qed

theorem deprovision_outcome_witness:
  "res_world (Deprovision ex_P ex_kube ex_broker ex_si ex_oid False []) = [''deprovision'', ''status'']"
proof -
  have "id_InstanceId (si_ForProvider ex_si) \<noteq> []" "\<not> sio_HasActiveBindings (si_AtProvider ex_si)"
    "identity_ok ex_oid" "instance_ids_ok (si_ForProvider ex_si)"
    by code_simp+
  then show ?thesis
    using deprovision_outcome [of ex_P ex_kube ex_broker ex_si ex_oid False "[]"]
    by (simp add: ex_broker_def ex_osb_def ex_call_def ex_kube_def)
qed

text \<open>C23: An asynchronous deletion runs to its end: the delete stores the broker's key, and the
  observation that polls "gone" reports that the instance does not exist.\<close>
theorem async_delete_converges:
  assumes "kube_stores_status X si_ObjectMeta si_Spec si_Status kube" and "\<not> sio_HasActiveBindings (si_AtProvider si)"
    and "identity_ok (sice_originatingIdentity c)" and "instance_ids_ok (si_ForProvider si)"
    and "\<And>q. always (osb_DeprovisionInstance (sice_osb c) q) (Some r, None)" and "dp_Async r"
    and "dp_OperationKey r = Some k" and "k \<noteq> []"
    and "\<And>q. always (osb_PollLastOperation (sice_osb c) q) (None, Some e)" and "IsResourceGone P e"
  shows "let r1 = sic_Delete_obj X P kube c si w;
             r2 = sic_Observe_obj X R P kube c (res_obj r1) (res_world r1)
         in res_val r1 = Some (ExternalDelete_zero, None)
          \<and> IsStateDeleting (res_obj r1) \<and> sio_LastOperationKey (si_AtProvider (res_obj r1)) = k
          \<and> res_val r2 = Some (ExternalObservation_zero, None)"
proof -
  let ?s = "si_SetConditions X [xp_Deleting X] si"
  let ?s1 = "UpdateStatusForAsyncDeletion ?s r"
  have fr: "si_Spec ?s1 = si_Spec si" "sio_LastOperationKey (si_AtProvider ?s1) = k" "IsStateDeleting ?s1"
    using assms(7) by (simp_all add: UpdateStatusForAsyncDeletion_def Let_def go_defs IsStateDeleting_def)
  obtain req where req: "buildDeprovisionRequest ?s (sice_originatingIdentity c) (sice_disableAsync c) = Inr req"
    using assms(3,4) buildDeprovisionRequest_Inr [of ?s] by auto
  obtain w1 where d: "osb_DeprovisionInstance (sice_osb c) req w = (Some r, None, w1)"
    using alwaysD [OF assms(5)] by blast
  obtain si2 w2 where k: "kube_StatusUpdate kube ?s1 w1 = (None, si2, w2)" and st: "si_Status si2 = si_Status ?s1"
    and sp: "si_Spec si2 = si_Spec si"
    using kube_stores_statusD [OF assms(1), of ?s1 w1] fr(1) by metis
  have r1: "sic_Delete_obj X P kube c si w = Ret (ExternalDelete_zero, None) si2 w2"
    using assms(2,4,6)
    by (simp add: sic_Delete_obj_def Deprovision_def IsInstanceIDEmpty_def IsAlreadyDeleted_def HasActiveBindings_def
        req d k instance_ids_ok_def)
  have key: "sio_LastOperationKey (si_AtProvider si2) = k" "IsStateDeleting si2"
    using fr(2,3) st by (simp_all add: IsStateDeleting_def)
  have ids: "id_InstanceId (si_ForProvider si2) \<noteq> []"
    using assms(4) sp by (simp add: instance_ids_ok_def)
  then obtain q where q: "BuildPollLastOperationRequest si2 (sice_originatingIdentity c) = Inr q"
    using assms(3) BuildPollLastOperationRequest_ok by blast
  obtain w3 where p: "osb_PollLastOperation (sice_osb c) q w2 = (None, Some e, w3)"
    using alwaysD [OF assms(9)] by blast
  have "sic_Observe_obj X R P kube c si2 w2 = Ret (ExternalObservation_zero, None) si2 w3"
    using ids key(1) assms(8,10)
    by (simp add: sic_Observe_obj_def IsInstanceIDEmpty_def si_ObserveState_def HasLastOperation_def
        HandleLastOperationInProgress_def q p)
  then show ?thesis
    by (simp add: Let_def r1 key)
qed

theorem async_delete_converges_witness:
  "let c = ex_ext_si (ex_osb ex_bind ex_get ex_unbind (None, Some (ErrExt ''404'')));
       r1 = sic_Delete_obj ex_X ex_P ex_kube c ex_si [];
       r2 = sic_Observe_obj ex_X ex_R ex_P ex_kube c (res_obj r1) (res_world r1)
   in res_val r2 = Some (ExternalObservation_zero, None)"
proof -
  let ?c = "ex_ext_si (ex_osb ex_bind ex_get ex_unbind (None, Some (ErrExt ''404'')))"
  have "\<not> sio_HasActiveBindings (si_AtProvider ex_si)" "identity_ok (sice_originatingIdentity ?c)"
    "instance_ids_ok (si_ForProvider ex_si)" "IsResourceGone ex_P (ErrExt ''404'')"
    by code_simp+
  then show ?thesis
    using async_delete_converges [OF ex_kube_stores_status, where c = ?c and si = ex_si and P = ex_P and X = ex_X and R = ex_R
        and r = "\<lparr> dp_Async = True, dp_OperationKey = Some ''op'' \<rparr>" and k = "''op''" and e = "ErrExt ''404''" and w = "[]"]
    by (simp add: Let_def always_def ex_ext_si_def ex_osb_def ex_call_def)
qed

text \<open>C25: A deleted instance without a recorded operation is reported as gone without asking the
  broker: the observation is the same whatever broker is configured, so the deprovisioning of
  an instance that still exists is never requested.\<close>
theorem deleted_instance_not_observed:
  assumes "meta_WasDeleted X (si_ObjectMeta si)" and "\<not> HasLastOperation si"
    and "kube_StatusUpdate kube si w = (None, si', w')"
  shows "si_ObserveState X R P kube osb si oid w = Ret (NeedToCreate, None, None) si' w'
    \<and> (\<forall>osb'. si_ObserveState X R P kube osb' si oid w = si_ObserveState X R P kube osb si oid w)"
  using assms by (simp add: si_ObserveState_def HandleDeletionWithActiveBindings_def)

definition ex_deleted_si :: "(ex_meta, ex_status, unit) ServiceInstance" where
  "ex_deleted_si = si_set_ObjectMeta (ex_metadata\<lparr>em_deleted := True\<rparr>) ex_si"

theorem deleted_instance_not_observed_witness:
  "\<exists>w'. si_ObserveState ex_X ex_R ex_P ex_kube ex_broker ex_deleted_si ex_oid [] = Ret (NeedToCreate, None, None) ex_deleted_si w'"
proof -
  have "meta_WasDeleted ex_X (si_ObjectMeta ex_deleted_si)" "\<not> HasLastOperation ex_deleted_si"
    by code_simp+
  moreover have "kube_StatusUpdate ex_kube ex_deleted_si [] = (None, ex_deleted_si, [''status''])"
    by (simp add: ex_kube_def)
  ultimately have "si_ObserveState ex_X ex_R ex_P ex_kube ex_broker ex_deleted_si ex_oid []
      = Ret (NeedToCreate, None, None) ex_deleted_si [''status'']"
    by (rule deleted_instance_not_observed [THEN conjunct1])
  then show ?thesis
    by blast
qed

text \<open>C24: Once an operation key has been recorded no operation of the controller clears it, and from
  then on an observation asks only for the last operation: it never looks at the instance and
  never finds drift, in any state reachable by controller operations and user edits, whatever
  else the broker holds. The proviso is that no answer of the broker has an empty operation key,
  which in an asynchronous one would be recorded in place of the old one, and that the API
  server does not answer with an instance that has lost its key.\<close>
theorem recorded_key_disables_drift:
  assumes "(instance_step (kube_keeps HasLastOperation) (answers_in key_given delete_key_given P) X R P)\<^sup>*\<^sup>*
             (si, w) (si', w')"
    and "HasLastOperation si"
  shows "HasLastOperation si'
    \<and> observed_action (si_ObserveState X R P kube osb si' oid w'') \<noteq> Some NeedToUpdate
    \<and> si_ObserveState X R P kube (osb\<lparr>osb_GetInstance := g\<rparr>) si' oid w'' = si_ObserveState X R P kube osb si' oid w''"
proof -
  have k: "HasLastOperation si'" by (rule key_recorded.kept_by_run [OF assms])
  have "observed_action (si_ObserveState X R P kube osb si' oid w'') \<noteq> Some NeedToUpdate"
    using k by (auto simp: si_ObserveState_def HandleLastOperationInProgress_def Let_def
        split: sum.splits prod.splits option.splits if_splits bind_go_splits)
  with k show ?thesis
    by (simp add: si_ObserveState_def HandleLastOperationInProgress_def split: sum.split)
qed

theorem recorded_key_disables_drift_witness:
  "HasLastOperation (res_obj (sic_Delete_obj ex_X ex_P ex_kube (ex_ext_si ex_broker) ex_keyed []))"
proof -
  let ?r = "sic_Delete_obj ex_X ex_P ex_kube (ex_ext_si ex_broker) ex_keyed []"
  have "kube_keeps HasLastOperation (ex_kube :: ((ex_meta, ex_status, unit) ServiceInstance, ex_world) kube_client)"
    by (simp add: kube_keeps_def ex_kube_def)
  moreover have "answers_in key_given delete_key_given ex_P (sice_osb (ex_ext_si ex_broker))"
    by (auto simp: answers_in_def ex_ext_si_def ex_broker_def ex_osb_def ex_call_def ex_P_def)
  ultimately have "(instance_step (kube_keeps HasLastOperation) (answers_in key_given delete_key_given ex_P)
      ex_X ex_R ex_P)\<^sup>*\<^sup>* (ex_keyed, []) (res_obj ?r, res_world ?r)"
    by (intro r_into_rtranclp si_delete) simp_all
  moreover have "HasLastOperation ex_keyed" by code_simp
  ultimately show ?thesis
    by (rule recorded_key_disables_drift [THEN conjunct1])
qed

text \<open>C26: No operation of the controller ever records that an instance has active bindings: in every
  state reachable from a fresh instance by controller operations and user edits, whatever the
  broker answers, the flag is unset, provided the API server does not set it. The guard of the
  deletion that looks at the flag is never taken, and a deprovision request is not refused for
  active bindings.\<close>
theorem active_bindings_never_recorded:
  assumes "(instance_step (kube_keeps (\<lambda>si. \<not> HasActiveBindings si)) (answers_in (\<lambda>r. True) (\<lambda>r. True) P) X R P)\<^sup>*\<^sup>*
             (si, w) (si', w')"
    and "\<not> HasActiveBindings si"
  shows "\<not> HasActiveBindings si'
    \<and> res_val (Deprovision P' kube osb si' oid disableAsync w'')
        \<noteq> Some (Some (Sentinel (SiErr si_errCannotDeleteWithActiveBindings)))"
proof -
  have "\<not> HasActiveBindings si'" by (rule no_active_bindings.kept_by_run [OF assms])
  then show ?thesis by (simp add: Deprovision_not_guarded)
qed

theorem active_bindings_never_recorded_witness:
  "\<not> HasActiveBindings (res_obj (sic_Create_obj ex_X ex_R ex_P ex_kube (ex_ext_si ex_broker) ex_si []))"
proof -
  let ?r = "sic_Create_obj ex_X ex_R ex_P ex_kube (ex_ext_si ex_broker) ex_si []"
  have "kube_keeps (\<lambda>si. \<not> HasActiveBindings si)
      (ex_kube :: ((ex_meta, ex_status, unit) ServiceInstance, ex_world) kube_client)"
    by (simp add: kube_keeps_def ex_kube_def)
  then have "(instance_step (kube_keeps (\<lambda>si. \<not> HasActiveBindings si)) (answers_in (\<lambda>r. True) (\<lambda>r. True) ex_P)
      ex_X ex_R ex_P)\<^sup>*\<^sup>* (ex_si, []) (res_obj ?r, res_world ?r)"
    by (intro r_into_rtranclp si_create) (simp_all add: answers_in_def)
  moreover have "\<not> HasActiveBindings ex_si" by code_simp
  ultimately show ?thesis
    by (rule active_bindings_never_recorded [THEN conjunct1])
qed

end
