(* ===== verification/Kinds.thy ===== *)
theory Kinds
  imports Provider_Config
begin

text \<open>
  The groups, versions and kinds of the API types: the constants and variables of the
  \<^verbatim>\<open>groupversion_info.go\<close> files and the type metadata of the \<^verbatim>\<open>types.go\<close> files. The package
  \<^verbatim>\<open>schema\<close> is a parameter.
\<close>

section \<open>Group, version, kind\<close>

record GroupVersion =
  gv_Group :: string
  gv_Version :: string

text \<open>
  \<open>'b\<close> is the type of a \<^verbatim>\<open>scheme.Builder\<close>, \<open>'k\<close> that of a \<^verbatim>\<open>schema.GroupVersionKind\<close> and \<open>'sch\<close>
  that of a \<^verbatim>\<open>runtime.Scheme\<close>. \<open>bd_kinds\<close> and \<open>sch_Recognizes\<close> observe what has been
  registered with a builder and with a scheme.
\<close>

record ('b, 'k, 'sch) schema_pkg =
  GroupVersion_String :: "GroupVersion \<Rightarrow> string"
  GroupKind_String :: "string \<Rightarrow> string \<Rightarrow> string"
  WithKind :: "GroupVersion \<Rightarrow> string \<Rightarrow> 'k"
  gvk_Kind :: "'k \<Rightarrow> string"
  Builder_for :: "GroupVersion \<Rightarrow> 'b"
  Builder_Register :: "'b \<Rightarrow> string list \<Rightarrow> 'b"
  Builder_AddToScheme :: "'b \<Rightarrow> 'sch \<Rightarrow> go_error option \<times> 'sch"
  bd_kinds :: "'b \<Rightarrow> 'k set"
  sch_Recognizes :: "'sch \<Rightarrow> 'k \<Rightarrow> bool"
  runtime_AddToScheme :: "('sch \<Rightarrow> go_error option \<times> 'sch) list \<Rightarrow> 'sch \<Rightarrow> go_error option \<times> 'sch"

definition sb_Group :: string where "sb_Group = ''binding.osb.m.crossplane.io''"
definition si_Group :: string where "si_Group = ''instance.osb.m.crossplane.io''"
definition pc_Group :: string where "pc_Group = ''osb.m.crossplane.io''"

definition Version :: string where
  "Version = ''v1alpha1''"

definition sb_SchemeGroupVersion :: GroupVersion where
  "sb_SchemeGroupVersion = \<lparr> gv_Group = sb_Group, gv_Version = Version \<rparr>"

definition si_SchemeGroupVersion :: GroupVersion where
  "si_SchemeGroupVersion = \<lparr> gv_Group = si_Group, gv_Version = Version \<rparr>"

definition pc_SchemeGroupVersion :: GroupVersion where
  "pc_SchemeGroupVersion = \<lparr> gv_Group = pc_Group, gv_Version = Version \<rparr>"

section \<open>Type metadata\<close>

definition ServiceBindingKind :: string where
  "ServiceBindingKind = ''ServiceBinding''"

definition ServiceInstanceKind :: string where
  "ServiceInstanceKind = ''ServiceInstance''"

definition ProviderConfigUsageKind :: string where
  "ProviderConfigUsageKind = ''ProviderConfigUsage''"

definition ProviderConfigUsageListKind :: string where
  "ProviderConfigUsageListKind = ''ProviderConfigUsageList''"

definition StoreConfigKind :: string where
  "StoreConfigKind = ''StoreConfig''"

text \<open>A kind with its group as a string, as the \<^verbatim>\<open>GroupKind\<close> variables have it.\<close>

definition ServiceBindingGroupKind where
  "ServiceBindingGroupKind S = GroupKind_String S sb_Group ServiceBindingKind"

definition ServiceInstanceGroupKind where
  "ServiceInstanceGroupKind S = GroupKind_String S si_Group ServiceInstanceKind"

definition ProviderConfigGroupKind where
  "ProviderConfigGroupKind S = GroupKind_String S pc_Group ProviderConfigKind"

definition ClusterProviderConfigGroupKind where
  "ClusterProviderConfigGroupKind S = GroupKind_String S pc_Group ClusterProviderConfigKind"

definition ProviderConfigUsageGroupKind where
  "ProviderConfigUsageGroupKind S = GroupKind_String S pc_Group ProviderConfigUsageKind"

definition ProviderConfigUsageListGroupKind where
  "ProviderConfigUsageListGroupKind S = GroupKind_String S pc_Group ProviderConfigUsageListKind"

definition StoreConfigGroupKind where
  "StoreConfigGroupKind S = GroupKind_String S pc_Group StoreConfigKind"

text \<open>A kind with its group version as a string, as the \<^verbatim>\<open>KindAPIVersion\<close> variables have it.\<close>

definition ServiceBindingKindAPIVersion where
  "ServiceBindingKindAPIVersion S = ServiceBindingKind @ ''.'' @ GroupVersion_String S sb_SchemeGroupVersion"

definition ServiceInstanceKindAPIVersion where
  "ServiceInstanceKindAPIVersion S = ServiceInstanceKind @ ''.'' @ GroupVersion_String S si_SchemeGroupVersion"

definition ProviderConfigKindAPIVersion where
  "ProviderConfigKindAPIVersion S = ProviderConfigKind @ ''.'' @ GroupVersion_String S pc_SchemeGroupVersion"

definition ClusterProviderConfigKindAPIVersion where
  "ClusterProviderConfigKindAPIVersion S =
     ClusterProviderConfigKind @ ''.'' @ GroupVersion_String S pc_SchemeGroupVersion"

definition ProviderConfigUsageKindAPIVersion where
  "ProviderConfigUsageKindAPIVersion S =
     ProviderConfigUsageKind @ ''.'' @ GroupVersion_String S pc_SchemeGroupVersion"

definition ProviderConfigUsageListKindAPIVersion where
  "ProviderConfigUsageListKindAPIVersion S =
     ProviderConfigUsageListKind @ ''.'' @ GroupVersion_String S pc_SchemeGroupVersion"

definition StoreConfigKindAPIVersion where
  "StoreConfigKindAPIVersion S = StoreConfigKind @ ''.'' @ GroupVersion_String S pc_SchemeGroupVersion"

definition ServiceBindingGroupVersionKind where
  "ServiceBindingGroupVersionKind S = WithKind S sb_SchemeGroupVersion ServiceBindingKind"

definition ServiceInstanceGroupVersionKind where
  "ServiceInstanceGroupVersionKind S = WithKind S si_SchemeGroupVersion ServiceInstanceKind"

definition ProviderConfigGroupVersionKind where
  "ProviderConfigGroupVersionKind S = WithKind S pc_SchemeGroupVersion ProviderConfigKind"

definition ClusterProviderConfigGroupVersionKind where
  "ClusterProviderConfigGroupVersionKind S = WithKind S pc_SchemeGroupVersion ClusterProviderConfigKind"

definition ProviderConfigUsageGroupVersionKind where
  "ProviderConfigUsageGroupVersionKind S = WithKind S pc_SchemeGroupVersion ProviderConfigUsageKind"

definition ProviderConfigUsageListGroupVersionKind where
  "ProviderConfigUsageListGroupVersionKind S = WithKind S pc_SchemeGroupVersion ProviderConfigUsageListKind"

definition StoreConfigGroupVersionKind where
  "StoreConfigGroupVersionKind S = WithKind S pc_SchemeGroupVersion StoreConfigKind"

section \<open>Types of objects\<close>

text \<open>
  A Go type of an API object is told by the group version its package registers and by its
  name; the scheme finds the kind of an object from its type.
\<close>

datatype go_type = GoType GroupVersion string

fun type_kind :: "('b, 'k, 'sch) schema_pkg \<Rightarrow> go_type \<Rightarrow> 'k" where
  "type_kind S (GoType gv name) = WithKind S gv name"

end
