(* ===== verification/Controller_Setup.thy ===== *)
theory Controller_Setup
  imports Binding_Controller Instance_Controller Kinds
begin

text \<open>
  Starting the provider: the controller options that \<^verbatim>\<open>main\<close> derives from its flags
  (\<^verbatim>\<open>cmd/provider/main.go\<close>), the \<^verbatim>\<open>Setup\<close> functions of the three controllers, and the
  one that calls them (\<^verbatim>\<open>internal/controller/osb.go\<close>). The controller manager and the
  builder of reconcilers are third-party: a record of the calls the code makes.
\<close>

section \<open>Feature flags and options\<close>

type_synonym feature_flag = string

definition EnableAlphaRotateBindings :: feature_flag where
  "EnableAlphaRotateBindings = ''EnableAlphaRotateBindings''"

definition EnableBetaManagementPolicies :: feature_flag where
  "EnableBetaManagementPolicies = ''EnableBetaManagementPolicies''"

record metric_options =
  mo_PollStateMetricInterval :: int
  mo_has_MRStateMetrics :: bool   \<comment> \<open>whether the pointer is not nil\<close>

record controller_options =
  o_MaxConcurrentReconciles :: int
  o_PollInterval :: int
  o_GlobalRateLimiter :: int      \<comment> \<open>the rate it is made for\<close>
  o_Features :: "feature_flag list"
  o_has_ChangeLogOptions :: bool  \<comment> \<open>whether the pointer is not nil\<close>
  o_MetricOptions :: "metric_options option"

text \<open>The flags of the command line, as parsed.\<close>

record main_flags =
  mf_debug :: bool
  mf_leaderElection :: bool
  mf_syncInterval :: int
  mf_pollInterval :: int
  mf_pollStateMetricInterval :: int
  mf_maxReconcileRate :: int
  mf_enableManagementPolicies :: bool
  mf_enableAutomaticRotateBindings :: bool

definition features_Enable :: "feature_flag \<Rightarrow> controller_options \<Rightarrow> controller_options" where
  "features_Enable f c = c\<lparr>o_Features := f # o_Features c\<rparr>"

definition features_Enabled :: "controller_options \<Rightarrow> feature_flag \<Rightarrow> bool" where
  "features_Enabled c f \<longleftrightarrow> f \<in> set (o_Features c)"

definition main_options :: "main_flags \<Rightarrow> controller_options" where
  "main_options fl =
     (let c = \<lparr> o_MaxConcurrentReconciles = mf_maxReconcileRate fl, o_PollInterval = mf_pollInterval fl,
                o_GlobalRateLimiter = mf_maxReconcileRate fl, o_Features = [],
                o_has_ChangeLogOptions = False,
                o_MetricOptions = Some \<lparr> mo_PollStateMetricInterval = mf_pollStateMetricInterval fl,
                                         mo_has_MRStateMetrics = True \<rparr> \<rparr>;
          c1 = (if mf_enableManagementPolicies fl then features_Enable EnableBetaManagementPolicies c else c)
      in if mf_enableAutomaticRotateBindings fl then features_Enable EnableAlphaRotateBindings c1 else c1)"

section \<open>The manager\<close>

text \<open>The identity the API server client impersonates.\<close>

record impersonation =
  im_UserName :: string
  im_UID :: string
  im_Groups :: "string list option"
  im_Extra :: string_lists

text \<open>The options of a managed reconciler; loggers and recorders are told by their name.\<close>

datatype 'c reconciler_option =
    WithExternalConnecter 'c
  | WithLogger string
  | WithPollInterval int
  | WithRecorder string
  | WithManagementPolicies
  | WithChangeLogger
  | WithMetricRecorder

text \<open>
  What the controllers hand to the builder: the reconciler, made for a kind of managed resource
  or for the kinds of a provider configuration, its name, options and rate limit, and which
  objects it is triggered by.
\<close>

datatype ('k, 'c) managed_reconciler = NewManagedReconciler 'k "'c reconciler_option list"

record 'k ProviderConfigKinds =
  pck_Config :: 'k
  pck_Usage :: 'k
  pck_UsageList :: 'k

datatype 'k providerconfig_reconciler =
  NewProviderConfigReconciler "'k ProviderConfigKinds" "unit reconciler_option list"

datatype event_filter = DesiredStateChanged
datatype event_handler = EnqueueRequestForProviderConfig

record 'r controller_build =
  cb_Named :: string
  cb_WithOptions :: controller_options   \<comment> \<open>through \<open>ForControllerRuntime\<close>\<close>
  cb_WithEventFilter :: "event_filter option"
  cb_For :: go_type
  cb_Watches :: "(go_type \<times> event_handler) list"
  cb_RateLimiterName :: string
  cb_Reconciler :: 'r
  cb_GlobalRateLimiter :: int

text \<open>
  The two functions \<open>ControllerName\<close> are those of the packages \<^verbatim>\<open>managed\<close> and
  \<^verbatim>\<open>providerconfig\<close>; \<open>EnableAlphaChangeLogs\<close> names a flag of the library; \<open>mgr_Add\<close> adds the
  recorder of state metrics for a list type; the three \<open>Complete\<close> calls register a build.
\<close>

record ('sel, 'b, 'i, 'bc, 'ic, 'k, 'w) manager =
  managed_ControllerName :: "string \<Rightarrow> string"
  providerconfig_ControllerName :: "string \<Rightarrow> string"
  EnableAlphaChangeLogs :: feature_flag
  mgr_Impersonate :: impersonation
  mgr_GetClient :: "('sel, 'w) config_reader"
  mgr_binding_usage :: "('b, 'sel, 'w) tracker"
  mgr_instance_usage :: "('i, 'sel, 'w) tracker"
  mgr_Add :: "go_type \<Rightarrow> int \<Rightarrow> 'w \<Rightarrow> go_error option \<times> 'w"
  mgr_Complete_binding :: "('k, 'bc) managed_reconciler controller_build \<Rightarrow> 'w \<Rightarrow> go_error option \<times> 'w"
  mgr_Complete_instance :: "('k, 'ic) managed_reconciler controller_build \<Rightarrow> 'w \<Rightarrow> go_error option \<times> 'w"
  mgr_Complete_config :: "'k providerconfig_reconciler controller_build \<Rightarrow> 'w \<Rightarrow> go_error option \<times> 'w"

section \<open>Setting up\<close>

text \<open>
  The identity value of a connector. When the extra attributes cannot be marshalled a message
  is logged and the empty document is used.
\<close>

definition setup_identity :: "impersonation \<Rightarrow> KubernetesOSBOriginatingIdentityValue" where
  "setup_identity im =
     (let (_, extra) = FromMap (im_Extra im) \<lparr> e_Raw = [] \<rparr>
      in \<lparr> oiv_Username = im_UserName im, oiv_UID = im_UID im, oiv_Groups = im_Groups im,
           oiv_Extra = Some extra \<rparr>)"

definition sbc_make_connector where
  "sbc_make_connector F M c =
     \<lparr> sbcn_kube = mgr_GetClient M, sbcn_usage = mgr_binding_usage M, sbcn_factory = F,
       sbcn_originatingIdentityValue = setup_identity (mgr_Impersonate M),
       sbcn_rotateBinding = features_Enabled c EnableAlphaRotateBindings \<rparr>"

definition sic_make_connector where
  "sic_make_connector F M =
     \<lparr> sicn_kube = mgr_GetClient M, sicn_usage = mgr_instance_usage M, sicn_factory = F,
       sicn_originatingIdentityValue = setup_identity (mgr_Impersonate M) \<rparr>"

text \<open>Setting up panics or returns an error, or none.\<close>

datatype setup_result = SetupPanic | SetupReturns "go_error option"

definition sbc_reconciler_options where
  "sbc_reconciler_options F M c name =
     (let opts = [WithExternalConnecter (sbc_make_connector F M c), WithLogger name,
                  WithPollInterval (o_PollInterval c), WithRecorder name, WithManagementPolicies];
          opts1 = (if features_Enabled c (EnableAlphaChangeLogs M) then opts @ [WithChangeLogger] else opts)
      in if o_MetricOptions c \<noteq> None then opts1 @ [WithMetricRecorder] else opts1)"

definition sbc_build where
  "sbc_build S F M c =
     (let name = managed_ControllerName M (ServiceBindingGroupKind S)
      in \<lparr> cb_Named = name, cb_WithOptions = c, cb_WithEventFilter = Some DesiredStateChanged,
           cb_For = GoType sb_SchemeGroupVersion ''ServiceBinding'', cb_Watches = [],
           cb_RateLimiterName = name,
           cb_Reconciler =
             NewManagedReconciler (ServiceBindingGroupVersionKind S) (sbc_reconciler_options F M c name),
           cb_GlobalRateLimiter = o_GlobalRateLimiter c \<rparr>)"

definition sb_recorded_list :: go_type where
  "sb_recorded_list = GoType sb_SchemeGroupVersion ''ServiceBindingList''"

text \<open>The change logger is read from a structure that may be nil.\<close>

definition sbc_Setup where
  "sbc_Setup S F M c w =
     (if features_Enabled c (EnableAlphaChangeLogs M) \<and> \<not> o_has_ChangeLogOptions c then (SetupPanic, w)
      else
     (case o_MetricOptions c of
        None \<Rightarrow> apfst SetupReturns (mgr_Complete_binding M (sbc_build S F M c) w)
      | Some mo \<Rightarrow>
          if mo_has_MRStateMetrics mo then
            (case mgr_Add M sb_recorded_list (mo_PollStateMetricInterval mo) w of
               (Some err, w1) \<Rightarrow>
                 (SetupReturns (Some (Errorf (SbcErr sbc_errCannotRegisterMRStateRecorder)
                    [Txt (gvk_Kind S (ServiceBindingGroupVersionKind S)), Sprint (Some err)])), w1)
             | (None, w1) \<Rightarrow> apfst SetupReturns (mgr_Complete_binding M (sbc_build S F M c) w1))
          else apfst SetupReturns (mgr_Complete_binding M (sbc_build S F M c) w)))"

definition sic_build where
  "sic_build S F M c =
     (let name = managed_ControllerName M (ServiceInstanceGroupKind S)
      in \<lparr> cb_Named = name, cb_WithOptions = c, cb_WithEventFilter = Some DesiredStateChanged,
           cb_For = GoType si_SchemeGroupVersion ''ServiceInstance'', cb_Watches = [],
           cb_RateLimiterName = name,
           cb_Reconciler =
             NewManagedReconciler (ServiceInstanceGroupVersionKind S)
               [WithExternalConnecter (sic_make_connector F M), WithLogger name,
                WithPollInterval (o_PollInterval c), WithManagementPolicies, WithRecorder name],
           cb_GlobalRateLimiter = o_GlobalRateLimiter c \<rparr>)"

definition sic_Setup where
  "sic_Setup S F M c w = apfst SetupReturns (mgr_Complete_instance M (sic_build S F M c) w)"

definition config_build where
  "config_build S M c =
     (let name = providerconfig_ControllerName M (ProviderConfigGroupKind S)
      in \<lparr> cb_Named = name, cb_WithOptions = c, cb_WithEventFilter = None,
           cb_For = GoType pc_SchemeGroupVersion ''ProviderConfig'',
           cb_Watches = [(GoType pc_SchemeGroupVersion ''ProviderConfigUsage'', EnqueueRequestForProviderConfig)],
           cb_RateLimiterName = name,
           cb_Reconciler =
             NewProviderConfigReconciler
               \<lparr> pck_Config = ProviderConfigGroupVersionKind S, pck_Usage = ProviderConfigUsageGroupVersionKind S,
                 pck_UsageList = ProviderConfigUsageListGroupVersionKind S \<rparr>
               [WithLogger name, WithRecorder name],
           cb_GlobalRateLimiter = o_GlobalRateLimiter c \<rparr>)"

definition config_Setup where
  "config_Setup S M c w = apfst SetupReturns (mgr_Complete_config M (config_build S M c) w)"

text \<open>
  \<^verbatim>\<open>Setup\<close> ranges over a map of the three functions, in an order the language leaves open
  (\<open>order\<close>), and stops at the first error.
\<close>

fun Setup_loop ::
  "(string \<times> ('w \<Rightarrow> setup_result \<times> 'w)) list \<Rightarrow> 'w \<Rightarrow> setup_result \<times> 'w" where
  "Setup_loop [] w = (SetupReturns None, w)"
| "Setup_loop ((name, setup) # rest) w =
     (case setup w of
        (SetupPanic, w1) \<Rightarrow> (SetupPanic, w1)
      | (SetupReturns (Some err), w1) \<Rightarrow>
          (SetupReturns (Some (Errorf (OsbErr osb_errFailedToSetupNamespacedController)
             [Txt name, Sprint (Some err)])), w1)
      | (SetupReturns None, w1) \<Rightarrow> Setup_loop rest w1)"

definition controllers where
  "controllers S F M c =
     [(''config'', config_Setup S M c), (''servicebinding'', sbc_Setup S F M c),
      (''serviceinstance'', sic_Setup S F M c)]"

definition Setup where
  "Setup order S F M c w = Setup_loop (order (controllers S F M c)) w"

section \<open>The kinds the controllers use\<close>

text \<open>Every kind that the controllers reconcile, are triggered by or list, read off their builds.\<close>

fun managed_kinds :: "('k, 'c) managed_reconciler \<Rightarrow> 'k list" where
  "managed_kinds (NewManagedReconciler k opts) = [k]"

fun config_kinds :: "'k providerconfig_reconciler \<Rightarrow> 'k list" where
  "config_kinds (NewProviderConfigReconciler ks opts) = [pck_Config ks, pck_Usage ks, pck_UsageList ks]"

definition build_kinds where
  "build_kinds S kinds b =
     kinds (cb_Reconciler b) @ map (type_kind S) (cb_For b # map fst (cb_Watches b))"

definition watched_kinds where
  "watched_kinds S F M c =
     build_kinds S managed_kinds (sbc_build S F M c) @ build_kinds S managed_kinds (sic_build S F M c)
     @ build_kinds S config_kinds (config_build S M c) @ [type_kind S sb_recorded_list]"

lemmas build_defs = sbc_build_def sic_build_def config_build_def build_kinds_def sb_recorded_list_def

lemma watched_kinds_eq:
  "set (watched_kinds S F M c) =
     {ServiceBindingGroupVersionKind S, ServiceInstanceGroupVersionKind S, ProviderConfigGroupVersionKind S,
      ProviderConfigUsageGroupVersionKind S, ProviderConfigUsageListGroupVersionKind S,
      WithKind S sb_SchemeGroupVersion ''ServiceBindingList''}"
  by (auto simp: watched_kinds_def build_defs Let_def ServiceBindingGroupVersionKind_def
      ServiceInstanceGroupVersionKind_def ProviderConfigGroupVersionKind_def ProviderConfigUsageGroupVersionKind_def
      ServiceBindingKind_def ServiceInstanceKind_def ProviderConfigKind_def ProviderConfigUsageKind_def)

text \<open>A set-up panics only for the change log; the other two never do.\<close>

lemma setups_panic:
  "fst (config_Setup S M c w) \<noteq> SetupPanic" "fst (sic_Setup S F M c w) \<noteq> SetupPanic"
  "fst (sbc_Setup S F M c w) = SetupPanic \<longleftrightarrow>
     features_Enabled c (EnableAlphaChangeLogs M) \<and> \<not> o_has_ChangeLogOptions c"
  by (auto simp: config_Setup_def sic_Setup_def sbc_Setup_def split: option.splits prod.splits)

end
