(* ===== verification/Scheme.thy ===== *)
theory Scheme
  imports Controller_Setup
begin

text \<open>
  The registration of the types with the API machinery (the builders of the
  \<^verbatim>\<open>groupversion_info.go\<close> files, the \<^verbatim>\<open>init\<close> functions of the \<^verbatim>\<open>types.go\<close> files and
  \<^verbatim>\<open>apis/osb.go\<close>), and that it covers every kind the controllers use. The packages \<^verbatim>\<open>scheme\<close>
  and \<^verbatim>\<open>runtime\<close> are parameters.
\<close>

text \<open>
  The documented behaviour: registering objects adds their kinds to the builder, whose group and
  version stay; a builder that is added to a scheme without an error adds its kinds, and only
  them; a \<^verbatim>\<open>runtime.SchemeBuilder\<close> applies its functions in order and stops at the first error.
\<close>

definition schema_laws :: "('b, 'k, 'sch) schema_pkg \<Rightarrow> bool" where
  "schema_laws S \<longleftrightarrow>
     (\<forall>gv objs. bd_kinds S (foldl (Builder_Register S) (Builder_for S gv) objs) =
        WithKind S gv ` set (concat objs))
     \<and> (\<forall>b s s'. Builder_AddToScheme S b s = (None, s') \<longrightarrow>
          (\<forall>k. sch_Recognizes S s' k \<longleftrightarrow> k \<in> bd_kinds S b \<or> sch_Recognizes S s k))
     \<and> (\<forall>s. runtime_AddToScheme S [] s = (None, s))
     \<and> (\<forall>f fs s. runtime_AddToScheme S (f # fs) s =
          (case f s of (Some e, s') \<Rightarrow> (Some e, s') | (None, s') \<Rightarrow> runtime_AddToScheme S fs s'))"

section \<open>Registration\<close>

text \<open>
  The builder of each package after its \<^verbatim>\<open>init\<close> functions have run; an object is told by the
  name of its type. Functions \<^verbatim>\<open>init\<close> of one package run in the order of the file names.
\<close>

definition sb_registered :: "string list list" where
  "sb_registered = [[''ServiceBinding'', ''ServiceBindingList'']]"

definition si_registered :: "string list list" where
  "si_registered = [[''ServiceInstance'', ''ServiceInstanceList'']]"

definition pc_types_registered :: "string list list" where
  "pc_types_registered =
     [[''ProviderConfig'', ''ProviderConfigList''], [''ClusterProviderConfig'', ''ClusterProviderConfigList'']]"

definition pcu_types_registered :: "string list list" where
  "pcu_types_registered = [[''ProviderConfigUsage'', ''ProviderConfigUsageList'']]"

definition sc_types_registered :: "string list list" where
  "sc_types_registered = [[''StoreConfig'', ''StoreConfigList'']]"

definition sb_SchemeBuilder where
  "sb_SchemeBuilder S = foldl (Builder_Register S) (Builder_for S sb_SchemeGroupVersion) sb_registered"

definition si_SchemeBuilder where
  "si_SchemeBuilder S = foldl (Builder_Register S) (Builder_for S si_SchemeGroupVersion) si_registered"

definition pc_SchemeBuilder where
  "pc_SchemeBuilder S =
     foldl (Builder_Register S) (Builder_for S pc_SchemeGroupVersion)
       (pc_types_registered @ pcu_types_registered @ sc_types_registered)"

definition AddToSchemes where
  "AddToSchemes S =
     [Builder_AddToScheme S (pc_SchemeBuilder S), Builder_AddToScheme S (si_SchemeBuilder S),
      Builder_AddToScheme S (sb_SchemeBuilder S)]"

definition AddToScheme where
  "AddToScheme S s = runtime_AddToScheme S (AddToSchemes S) s"

definition registered_kinds :: "('b, 'k, 'sch) schema_pkg \<Rightarrow> 'k list" where
  "registered_kinds S =
     map (WithKind S pc_SchemeGroupVersion) (concat (pc_types_registered @ pcu_types_registered @ sc_types_registered))
     @ map (WithKind S si_SchemeGroupVersion) (concat si_registered)
     @ map (WithKind S sb_SchemeGroupVersion) (concat sb_registered)"

lemma schema_lawsD:
  assumes "schema_laws S"
  shows "bd_kinds S (foldl (Builder_Register S) (Builder_for S gv) objs) = WithKind S gv ` set (concat objs)"
    and "Builder_AddToScheme S b s = (None, s') \<Longrightarrow>
      sch_Recognizes S s' k \<longleftrightarrow> k \<in> bd_kinds S b \<or> sch_Recognizes S s k"
    and "runtime_AddToScheme S [] s = (None, s)"
    and "runtime_AddToScheme S (f # fs) s =
      (case f s of (Some e, s') \<Rightarrow> (Some e, s') | (None, s') \<Rightarrow> runtime_AddToScheme S fs s')"
  using assms by (simp_all add: schema_laws_def)

lemma AddToScheme_recognizes:
  assumes laws: "schema_laws S" and ok: "AddToScheme S s = (None, s')"
  shows "sch_Recognizes S s' k \<longleftrightarrow> k \<in> set (registered_kinds S) \<or> sch_Recognizes S s k"
proof -
  note L = schema_lawsD [OF laws]
  obtain t u where "Builder_AddToScheme S (pc_SchemeBuilder S) s = (None, t)"
    "Builder_AddToScheme S (si_SchemeBuilder S) t = (None, u)"
    "Builder_AddToScheme S (sb_SchemeBuilder S) u = (None, s')"
    using ok by (simp add: AddToScheme_def AddToSchemes_def L(3,4) split: prod.splits option.splits)
  from L(2) [OF this(1), of k] L(2) [OF this(2), of k] L(2) [OF this(3), of k]
  have "sch_Recognizes S s' k \<longleftrightarrow> k \<in> bd_kinds S (pc_SchemeBuilder S) \<or> k \<in> bd_kinds S (si_SchemeBuilder S)
      \<or> k \<in> bd_kinds S (sb_SchemeBuilder S) \<or> sch_Recognizes S s k"
    by blast
  then show ?thesis
    by (simp only: pc_SchemeBuilder_def si_SchemeBuilder_def sb_SchemeBuilder_def L(1) registered_kinds_def
        set_append set_map Un_iff disj_ac)
qed

lemma watched_registered: "set (watched_kinds S F M c) \<subseteq> set (registered_kinds S)"
  by (auto simp: watched_kinds_eq registered_kinds_def ServiceBindingGroupVersionKind_def
      ServiceInstanceGroupVersionKind_def ProviderConfigGroupVersionKind_def ProviderConfigUsageGroupVersionKind_def
      ProviderConfigUsageListGroupVersionKind_def pc_types_registered_def pcu_types_registered_def
      sc_types_registered_def sb_registered_def si_registered_def ServiceBindingKind_def ServiceInstanceKind_def
      ProviderConfigKind_def ProviderConfigUsageKind_def ProviderConfigUsageListKind_def)

end
