(* ===== verification/Controller_Facts.thy ===== *)
theory Controller_Facts
  imports Binding_Lifecycle Instance_Lifecycle Controller_Setup
begin

text \<open>
  Facts about both controllers: that no operation panics when the broker gives a response or
  an error, and what connecting and setting up determine.
\<close>

section \<open>No panics\<close>

lemma panics_bind:
  "panics (bind_go r f) \<longleftrightarrow> panics r \<or> (\<exists>a ob w. r = Ret a ob w \<and> panics (f a ob w))"
  by (cases r) auto

lemmas no_panic_splits = prod.split sum.split option.split Action.split BindingAction.split

lemma answersD: "answers c \<Longrightarrow> c w = (r, None, w') \<Longrightarrow> r \<noteq> None"
  unfolding answers_def by metis

lemma answers_Some: "answers c \<Longrightarrow> c w = (r, None, w') \<Longrightarrow> \<exists>x. r = Some x"
  by (drule answersD) auto

lemma sb_handlePollError_no_panic: "\<not> panics (sb_handlePollError X P kube sb err w)"
  by (auto simp: sb_handlePollError_def split: no_panic_splits)

lemma HandleRenewalBindings_no_panic: "\<not> panics (HandleRenewalBindings X R sb resp rotation w)"
  by (auto simp: HandleRenewalBindings_def split: no_panic_splits)

lemma UpdateBindingStatusFromResponse_no_panic: "\<not> panics (UpdateBindingStatusFromResponse P sb (Some r) w)"
  by (auto simp: UpdateBindingStatusFromResponse_def Let_def split: no_panic_splits)

lemma sb_handleLastOperation_no_panic:
  assumes "\<And>q. answers (osb_PollBindingLastOperation osb q)"
  shows "\<not> panics (sb_handleLastOperationInProgress X P kube osb sb oid w)"
proof (cases "buildBindingLastOperationRequest X sb oid")
  case (Inr req)
  obtain r e w1 where p: "osb_PollBindingLastOperation osb req w = (r, e, w1)" by (metis prod_cases3)
  show ?thesis
  proof (cases e)
    case None
    with p answersD [OF assms, of req w r w1] obtain lo where "r = Some lo" by auto
    with None p Inr show ?thesis
      by (auto simp: sb_handleLastOperationInProgress_def split: no_panic_splits)
  next
    case (Some err)
    with p Inr show ?thesis
      by (auto simp: sb_handleLastOperationInProgress_def
          panics_bind sb_handlePollError_no_panic split: no_panic_splits)
  qed
qed (simp add: sb_handleLastOperationInProgress_def)

lemma sb_ObserveState_no_panic:
  assumes "broker_answers osb"
  shows "\<not> panics (sb_ObserveState X R P kube osb sb rotation oid w)"
proof (cases "sb_IsStateInProgress sb \<or> sb_IsExternalNameEmpty X sb \<or> isl (buildGetBindingRequest X sb)")
  case True
  then show ?thesis
    using assms
    by (auto simp: sb_ObserveState_def broker_answers_def isl_def panics_bind
        sb_handleLastOperation_no_panic split: no_panic_splits)
next
  case False
  then obtain req where req: "buildGetBindingRequest X sb = Inr req" "\<not> sb_IsStateInProgress sb"
    "\<not> sb_IsExternalNameEmpty X sb" by (cases "buildGetBindingRequest X sb") auto
  obtain r e w1 where g: "osb_GetBinding osb req w = (r, e, w1)" by (metis prod_cases3)
  show ?thesis
  proof (cases e)
    case None
    have "answers (osb_GetBinding osb req)" using assms by (simp add: broker_answers_def)
    with g None answersD [of "osb_GetBinding osb req" w r w1] obtain br where "r = Some br" by auto
    then show ?thesis
      using req g None
      by (auto simp: sb_ObserveState_def panics_bind UpdateBindingStatusFromResponse_no_panic
          HandleRenewalBindings_no_panic split: no_panic_splits)
  next
    case (Some err)
    then show ?thesis using req g by (simp add: sb_ObserveState_def)
  qed
qed

lemma sb_Bind_no_panic: "\<not> panics (sb_Bind X R osb sb oid da w)"
  by (auto simp: sb_Bind_def panics_bind handleBindRequest_def buildBindRequest_def Let_def
      split: no_panic_splits if_splits)

text \<open>A synchronous bind that succeeds has a response.\<close>

lemma sb_Bind_response: "sb_Bind X R osb sb oid da w = Ret (r, False, None) sb' w' \<Longrightarrow> r \<noteq> None"
  by (auto simp: sb_Bind_def handleBindRequest_def split: sum.splits prod.splits option.splits if_splits bind_go_splits)

lemma sb_UnBind_no_panic: "\<not> panics (sb_UnBind X kube osb sb oid w)"
  by (auto simp: sb_UnBind_def panics_bind handleUnBindRequest_def Let_def split: no_panic_splits)

lemma TriggerRotation_no_panic:
  assumes "\<And>q. answers (osb_RotateBinding osb q)"
  shows "\<not> panics (TriggerRotation X R osb sb oid w)"
  using assms by (auto simp: TriggerRotation_def Let_def split: no_panic_splits dest!: answers_Some)

section \<open>No panics of an instance\<close>

lemma UpdateStatusFromOSB_no_panic: "\<not> panics (UpdateStatusFromOSB X si (Some r) w)"
  using UpdateStatusFromOSB_Some [of X si r w] by auto

lemma Provision_no_panic:
  assumes "\<And>q. answers (osb_ProvisionInstance osb q)" and "async_iface_laws P"
  shows "\<not> panics (Provision X R P kube osb si da w)"
proof (cases "provision_request R si da")
  case None
  then show ?thesis
    using provision_sends [where R = R and si = si and disableAsync = da and X = X and P = P and kube = kube and osb = osb and w = w]
    by auto
next
  case (Some req)
  obtain r e w1 where u: "osb_ProvisionInstance osb req w = (r, e, w1)" by (metis prod_cases3)
  then have "\<exists>x. ProvisionResponse_iface P r = Some x" if "e = None"
    using answersD [OF assms(1), of req w r w1] that assms(2) by (auto simp: async_iface_laws_def)
  then show ?thesis
    using provision_sends [where R = R and si = si and disableAsync = da and X = X and P = P and kube = kube and osb = osb and w = w]
      Some u by (cases e) (auto simp: panics_bind UpdateStatusFromOSB_no_panic split: prod.split)
qed

lemma si_Update_no_panic:
  assumes "\<And>q. answers (osb_UpdateInstance osb q)"
  shows "\<not> panics (si_Update X R kube osb si oid da w)"
  by (auto simp: si_Update_def panics_bind UpdateStatusFromOSB_no_panic split: no_panic_splits
      dest!: answers_Some [OF assms])

lemma Deprovision_no_panic:
  assumes "\<And>q. answers (osb_DeprovisionInstance osb q)"
  shows "\<not> panics (Deprovision P kube osb si oid da w)"
  using assms by (auto simp: Deprovision_def split: no_panic_splits dest!: answers_Some)

lemma si_ObserveState_no_panic:
  assumes "\<And>q. answers (osb_PollLastOperation osb q)"
  shows "\<not> panics (si_ObserveState X R P kube osb si oid w)"
  using assms by (auto simp: si_ObserveState_def HandleLastOperationInProgress_def HandleDeletionWithActiveBindings_def
      panics_bind Let_def split: no_panic_splits dest!: answers_Some)

text \<open>An observation that finds drift has fetched the instance.\<close>

lemma si_ObserveState_drift:
  assumes "si_ObserveState X R P kube osb si oid w = Ret (NeedToUpdate, r, None) si' w'"
  shows "r \<noteq> None"
proof -
  have "HandleLastOperationInProgress X P kube osb si oid w \<noteq> Ret (NeedToUpdate, e) s1 w1" for e s1 w1
    by (auto simp: HandleLastOperationInProgress_def Let_def split: sum.splits prod.splits option.splits if_splits)
  then show ?thesis
    using assms
    by (auto simp: si_ObserveState_def dest: CompareSpecWithOSB_update
        split: sum.splits prod.splits option.splits if_splits bind_go_splits)
qed

section \<open>Connecting\<close>

text \<open>What a connected client takes from its connector.\<close>

lemma sbc_Connect_client:
  assumes "sbc_Connect X c mg w = (Inr ext, w')"
  shows "sbce_rotateBinding ext = sbcn_rotateBinding c"
    "MakeOriginatingIdentityFromValue X (sbcn_originatingIdentityValue c) = Inr (sbce_originatingIdentity ext)"
  using assms by (auto simp: sbc_Connect_def split: managed.splits prod.splits option.splits sum.splits)

lemma sic_Connect_client:
  assumes "sic_Connect X c mg w = (Inr ext, w')"
  shows "MakeOriginatingIdentityFromValue X (sicn_originatingIdentityValue c) = Inr (sice_originatingIdentity ext)"
  using assms by (auto simp: sic_Connect_def split: managed.splits prod.splits option.splits sum.splits)

lemma NewOsbClient_spec:
  "pc_Spec npc = cpc_Spec cpc \<Longrightarrow> NewOsbClient F (PC npc) creds = NewOsbClient F (CPC cpc) creds"
  by (simp add: NewOsbClient_def pc.config_eq cpc.config_eq)

lemma ResolveProviderConfig_PC:
  "get_ProviderConfig K ns n w = (None, npc, w1) \<Longrightarrow>
     ResolveProviderConfig K ns name (Some \<lparr> ref_Name = n, ref_Kind = ProviderConfigKind \<rparr>) w
       = (Inr (PC npc, pc_Spec npc), w1)"
  by (simp add: ResolveProviderConfig_def)

lemma ResolveProviderConfig_CPC:
  "get_ClusterProviderConfig K n w = (None, cpc, w1) \<Longrightarrow>
     ResolveProviderConfig K ns name (Some \<lparr> ref_Name = n, ref_Kind = ClusterProviderConfigKind \<rparr>) w
       = (Inr (CPC cpc, cpc_Spec cpc), w1)"
  by (simp add: ResolveProviderConfig_def ProviderConfigKind_def ClusterProviderConfigKind_def)

section \<open>Rotation\<close>

lemma observe_without_rotation:
  "observed_action (sb_ObserveState X R P kube osb sb False oid w) \<noteq> Some NeedToUpdate"
proof (cases "sb_IsStateInProgress sb")
  case True
  then show ?thesis by (simp add: observe_in_progress handleLastOperation_action)
next
  case False
  then show ?thesis
    by (cases "sb_GetExternalName X sb = []"; cases "sbp_InstanceId (sb_ForProvider sb) = []")
      (auto simp: observe_no_name observe_no_instance observe_get observe_rest_action
        split: option.split prod.split sum.split)
qed

section \<open>Identity\<close>

text \<open>The requests that have a field for the originating identity carry the one they are built for.\<close>

lemma requests_carry_identity:
  "bind_request X R sb oid da v = Some (q1, sb', v') \<Longrightarrow> br_OriginatingIdentity q1 = Some oid"
  "buildRotateBindingRequest X sb oid u = Inr q2 \<Longrightarrow> rbr_OriginatingIdentity q2 = Some oid"
  "BuildUnbindRequest X sb oid = Inr q3 \<Longrightarrow> ubr_OriginatingIdentity q3 = Some oid"
  "buildBindingLastOperationRequest X sb oid = Inr q4 \<Longrightarrow> blo_OriginatingIdentity q4 = Some oid"
  "buildUpdateInstanceRequest R si oid da = Inr q5 \<Longrightarrow> uir_OriginatingIdentity q5 = Some oid"
  "BuildPollLastOperationRequest si oid = Inr q6 \<Longrightarrow> lor_OriginatingIdentity q6 = Some oid"
  "buildDeprovisionRequest si oid da = Inr q7 \<Longrightarrow> dr_OriginatingIdentity q7 = Some oid"
  by (auto simp: bind_request_def buildRotateBindingRequest_def BuildUnbindRequest_def
      buildBindingLastOperationRequest_def buildUpdateInstanceRequest_def BuildPollLastOperationRequest_def
      buildDeprovisionRequest_def addContextAndParams_def addBindResource_def Let_def
      split: option.splits if_splits prod.splits sum.splits)

section \<open>Setting up\<close>

lemma FromMap_ok: "fst (FromMap m e) = None"
  using enc_None_iff(1) [of "lists_doc m"] lists_doc_simple(1) [of m]
  by (auto simp: FromMap_def split: option.split)

lemma main_options_rotation: "features_Enabled (main_options fl) EnableAlphaRotateBindings \<longleftrightarrow> mf_enableAutomaticRotateBindings fl"
  by (simp add: main_options_def features_Enable_def features_Enabled_def Let_def
      EnableAlphaRotateBindings_def EnableBetaManagementPolicies_def)

lemma main_options_change_log:
  "features_Enabled (main_options fl) f \<Longrightarrow> f \<in> {EnableAlphaRotateBindings, EnableBetaManagementPolicies}"
  by (simp add: main_options_def features_Enable_def features_Enabled_def Let_def split: if_splits)

text \<open>
  The set-ups in the order they are run: each in the world its predecessors leave. \<open>setup_world\<close> is
  the world the set-up at a position is run in, if all before it have returned.
\<close>

definition setup_world :: "(string \<times> ('w \<Rightarrow> setup_result \<times> 'w)) list \<Rightarrow> nat \<Rightarrow> 'w \<Rightarrow> 'w" where
  "setup_world fs i w = foldl (\<lambda>v (n, f). snd (f v)) w (take i fs)"

definition setup_at :: "(string \<times> ('w \<Rightarrow> setup_result \<times> 'w)) list \<Rightarrow> nat \<Rightarrow> 'w \<Rightarrow> setup_result \<times> 'w" where
  "setup_at fs i w = snd (fs ! i) (setup_world fs i w)"

lemma setup_at_Cons [simp]:
  "setup_at ((n, f) # fs) 0 w = f w" "setup_at ((n, f) # fs) (Suc i) w = setup_at fs i (snd (f w))"
  "setup_world (x # fs) 0 w = w" "setup_world ((n, f) # fs) (Suc i) w = setup_world fs i (snd (f w))"
  by (simp_all add: setup_at_def setup_world_def)

lemma Setup_loop_ok_iff:
  "fst (Setup_loop fs w) = SetupReturns None \<longleftrightarrow> (\<forall>i<length fs. fst (setup_at fs i w) = SetupReturns None)"
proof (induction fs w rule: Setup_loop.induct)
  case (2 name s rest w)
  obtain r w1 where r: "s w = (r, w1)" by fastforce
  show ?case
    using 2 [OF r [symmetric]] r
    by (cases r rule: setup_result.exhaust) (auto simp: All_less_Suc2 split: option.split)
qed simp

lemma Setup_loop_ok_world:
  "fst (Setup_loop fs w) = SetupReturns None \<Longrightarrow> snd (Setup_loop fs w) = setup_world fs (length fs) w"
  by (induction fs w rule: Setup_loop.induct)
    (auto simp: setup_world_def split: prod.splits setup_result.splits option.splits)

text \<open>Any other end comes from the first set-up that does not return without an error.\<close>

lemma Setup_loop_stops:
  "fst (Setup_loop fs w) \<noteq> SetupReturns None \<Longrightarrow>
   \<exists>i<length fs. (\<forall>j<i. fst (setup_at fs j w) = SetupReturns None)
     \<and> fst (setup_at fs i w) \<noteq> SetupReturns None
     \<and> Setup_loop fs w =
         (case fst (setup_at fs i w) of
            SetupReturns (Some err) \<Rightarrow>
              SetupReturns (Some (Errorf (OsbErr osb_errFailedToSetupNamespacedController)
                [Txt (fst (fs ! i)), Sprint (Some err)]))
          | r \<Rightarrow> r, snd (setup_at fs i w))"
proof (induction fs w rule: Setup_loop.induct)
  case (2 name s rest w)
  obtain r w1 where r: "s w = (r, w1)" by fastforce
  show ?case
  proof (cases "r = SetupReturns None")
    case True
    with r obtain i where "i < length rest" "\<forall>j<i. fst (setup_at rest j w1) = SetupReturns None"
      "fst (setup_at rest i w1) \<noteq> SetupReturns None"
      "Setup_loop rest w1 =
         (case fst (setup_at rest i w1) of
            SetupReturns (Some err) \<Rightarrow>
              SetupReturns (Some (Errorf (OsbErr osb_errFailedToSetupNamespacedController)
                [Txt (fst (rest ! i)), Sprint (Some err)]))
          | r \<Rightarrow> r, snd (setup_at rest i w1))"
      using "2.IH" [of r w1 None] "2.prems" by auto
    then show ?thesis
      using r True by (intro exI [of _ "Suc i"]) (simp add: All_less_Suc2 split: setup_result.split option.split)
  next
    case False
    then show ?thesis
      using r by (intro exI [of _ 0]) (auto split: setup_result.split option.split)
  qed
qed simp

lemma Setup_loop_panic:
  "Setup_loop fs w = (SetupPanic, w') \<Longrightarrow> \<exists>n f v. (n, f) \<in> set fs \<and> f v = (SetupPanic, w')"
  by (induction fs w rule: Setup_loop.induct) (fastforce split: prod.splits setup_result.splits option.splits)+

lemma Setup_panics:
  assumes "Setup order S F M c w = (SetupPanic, w')" and "\<And>xs. set (order xs) \<subseteq> set xs"
  shows "features_Enabled c (EnableAlphaChangeLogs M) \<and> \<not> o_has_ChangeLogOptions c"
proof -
  obtain n f v where "(n, f) \<in> set (controllers S F M c)" "f v = (SetupPanic, w')"
    using Setup_loop_panic [OF assms(1) [unfolded Setup_def]] assms(2) by blast
  then have "fst (config_Setup S M c v) = SetupPanic \<or> fst (sbc_Setup S F M c v) = SetupPanic
      \<or> fst (sic_Setup S F M c v) = SetupPanic"
    by (auto simp: controllers_def)
  then show ?thesis by (simp add: setups_panic)
qed

end
