(* ===== verification/Provider_Main.thy ===== *)
theory Provider_Main
  imports Scheme Controller_Facts
begin

text \<open>
  \<^verbatim>\<open>cmd/provider/main.go\<close>: the flags, the REST configuration, the manager, the registration of
  the types, the metrics, the set-up of the controllers and the start of the manager.
  \<^verbatim>\<open>kingpin.FatalIfError\<close> ends the program with a message. Logging is left out, but for the
  logger that the debug mode installs.
\<close>

section \<open>The flags\<close>

text \<open>
  The flags as they are declared, but for their help texts. Their parser is third-party: it looks
  at the command line, then at the environment, then at the default, and reads a text by the
  kind of its flag.
\<close>

datatype flag_kind = BoolFlag | DurationFlag | IntFlag

record flag_spec =
  fs_Name :: string
  fs_Short :: "char option"
  fs_Default :: "string option"
  fs_Envar :: "string option"
  fs_Kind :: flag_kind

definition main_flag_specs :: "flag_spec list" where
  "main_flag_specs =
     [\<lparr> fs_Name = ''debug'', fs_Short = Some CHR ''d'', fs_Default = None, fs_Envar = None, fs_Kind = BoolFlag \<rparr>,
      \<lparr> fs_Name = ''leader-election'', fs_Short = Some CHR ''l'', fs_Default = Some ''false'',
        fs_Envar = Some ''LEADER_ELECTION'', fs_Kind = BoolFlag \<rparr>,
      \<lparr> fs_Name = ''sync'', fs_Short = Some CHR ''s'', fs_Default = Some ''1h'', fs_Envar = None, fs_Kind = DurationFlag \<rparr>,
      \<lparr> fs_Name = ''poll'', fs_Short = None, fs_Default = Some ''1m'', fs_Envar = None, fs_Kind = DurationFlag \<rparr>,
      \<lparr> fs_Name = ''poll-state-metric'', fs_Short = None, fs_Default = Some ''5s'', fs_Envar = None,
        fs_Kind = DurationFlag \<rparr>,
      \<lparr> fs_Name = ''max-reconcile-rate'', fs_Short = None, fs_Default = Some ''10'', fs_Envar = None, fs_Kind = IntFlag \<rparr>,
      \<lparr> fs_Name = ''enable-management-policies'', fs_Short = None, fs_Default = Some ''false'',
        fs_Envar = Some ''ENABLE_MANAGEMENT_POLICIES'', fs_Kind = BoolFlag \<rparr>,
      \<lparr> fs_Name = ''enable-automatic-binding-rotation'', fs_Short = None, fs_Default = Some ''false'',
        fs_Envar = Some ''ENABLE_AUTOMATIC_ROTATE_BINDINGS'', fs_Kind = BoolFlag \<rparr>]"

text \<open>The values the parser has stored, by the name and kind of the flag; durations in nanoseconds.\<close>

record parsed_flags =
  pf_Bool :: "string \<Rightarrow> bool"
  pf_Duration :: "string \<Rightarrow> int"
  pf_Int :: "string \<Rightarrow> int"

definition main_parsed_flags :: "parsed_flags \<Rightarrow> main_flags" where
  "main_parsed_flags v =
     \<lparr> mf_debug = pf_Bool v ''debug'', mf_leaderElection = pf_Bool v ''leader-election'',
       mf_syncInterval = pf_Duration v ''sync'', mf_pollInterval = pf_Duration v ''poll'',
       mf_pollStateMetricInterval = pf_Duration v ''poll-state-metric'',
       mf_maxReconcileRate = pf_Int v ''max-reconcile-rate'',
       mf_enableManagementPolicies = pf_Bool v ''enable-management-policies'',
       mf_enableAutomaticRotateBindings = pf_Bool v ''enable-automatic-binding-rotation'' \<rparr>"

text \<open>\<^verbatim>\<open>filepath.Base\<close> with the slash as separator: the last element of a path.\<close>

definition filepath_Base :: "string \<Rightarrow> string" where
  "filepath_Base path =
     (if path = [] then ''.''
      else let q = dropWhile (\<lambda>c. c = CHR ''/'') (rev path)
           in if q = [] then ''/'' else rev (takeWhile (\<lambda>c. c \<noteq> CHR ''/'') q))"

section \<open>The options of the manager\<close>

text \<open>Durations are in nanoseconds.\<close>

definition Second :: int where
  "Second = 1000000000"

record manager_options =
  mo_SyncPeriod :: int
  mo_LeaderElection :: bool
  mo_LeaderElectionID :: string
  mo_LeaderElectionResourceLock :: string
  mo_LeaseDuration :: int
  mo_RenewDeadline :: int

definition main_manager_options :: "string \<Rightarrow> main_flags \<Rightarrow> manager_options" where
  "main_manager_options LeasesResourceLock fl =
     \<lparr> mo_SyncPeriod = mf_syncInterval fl, mo_LeaderElection = mf_leaderElection fl,
       mo_LeaderElectionID = ''crossplane-leader-election-provider-osb'',
       mo_LeaderElectionResourceLock = LeasesResourceLock,
       mo_LeaseDuration = 60 * Second, mo_RenewDeadline = 50 * Second \<rparr>"

section \<open>The program\<close>

text \<open>
  The packages \<^verbatim>\<open>main\<close> calls: the parser of the flags, given the name of the program and the
  arguments; the logger of the debug mode; the constant for the lock, the REST configuration and its rate
  limit, the manager with the scheme it holds (part of the world), the registration of a metrics
  collector, which panics when it fails, and the start of the manager, which returns when
  it ends.
\<close>

record ('cfg, 'mgr, 'sch, 'w) main_env =
  me_Parse :: "string \<Rightarrow> flag_spec list \<Rightarrow> string list \<Rightarrow> 'w \<Rightarrow> (go_error + parsed_flags) \<times> 'w"
  me_SetLogger :: "'w \<Rightarrow> 'w"
  me_LeasesResourceLock :: string
  me_GetConfig :: "'w \<Rightarrow> (go_error + 'cfg) \<times> 'w"
  me_LimitRESTConfig :: "'cfg \<Rightarrow> int \<Rightarrow> 'cfg"
  me_NewManager :: "'cfg \<Rightarrow> manager_options \<Rightarrow> 'w \<Rightarrow> (go_error + 'mgr) \<times> 'w"
  me_GetScheme :: "'mgr \<Rightarrow> 'w \<Rightarrow> 'sch"
  me_SetScheme :: "'mgr \<Rightarrow> 'sch \<Rightarrow> 'w \<Rightarrow> 'w"
  me_MustRegister :: "string \<Rightarrow> 'w \<Rightarrow> bool \<times> 'w"   \<comment> \<open>whether it panics\<close>
  me_Start :: "'mgr \<Rightarrow> 'w \<Rightarrow> go_error option \<times> 'w"

datatype main_exit = ParseFailed go_error | Fatal string go_error | MainPanic | Returned

text \<open>The program after the flags have been parsed.\<close>

definition main_main where
  "main_main E S order F fl w =
     (case me_GetConfig E w of
        (Inl err, w1) \<Rightarrow> (Fatal ''Cannot get API server rest config'' err, w1)
      | (Inr cfg, w1) \<Rightarrow>
     (case me_NewManager E (me_LimitRESTConfig E cfg (mf_maxReconcileRate fl))
             (main_manager_options (me_LeasesResourceLock E) fl) w1 of
        (Inl err, w2) \<Rightarrow> (Fatal ''Cannot create controller manager'' err, w2)
      | (Inr mgr, w2) \<Rightarrow>
     (case AddToScheme S (me_GetScheme E mgr w2) of
        (Some err, s) \<Rightarrow> (Fatal ''Cannot add OSB APIs namespace to scheme'' err, me_SetScheme E mgr s w2)
      | (None, s) \<Rightarrow>
     (case me_MustRegister E ''metricRecorder'' (me_SetScheme E mgr s w2) of
        (True, w3) \<Rightarrow> (MainPanic, w3)
      | (False, w3) \<Rightarrow>
     (case me_MustRegister E ''stateMetrics'' w3 of
        (True, w4) \<Rightarrow> (MainPanic, w4)
      | (False, w4) \<Rightarrow>
     (case Setup order S F mgr (main_options fl) w4 of
        (SetupPanic, w5) \<Rightarrow> (MainPanic, w5)
      | (SetupReturns (Some err), w5) \<Rightarrow> (Fatal ''Cannot setup OSB controllers mode'' err, w5)
      | (SetupReturns None, w5) \<Rightarrow>
     (case me_Start E mgr w5 of
        (Some err, w6) \<Rightarrow> (Fatal ''Cannot start controller manager'' err, w6)
      | (None, w6) \<Rightarrow> (Returned, w6))))))))"

text \<open>The program: its name is the first of \<^verbatim>\<open>os.Args\<close>, which is indexed without a test.\<close>

definition main_program where
  "main_program E S order F args w =
     (case args of
        [] \<Rightarrow> (MainPanic, w)
      | arg0 # rest \<Rightarrow>
     (case me_Parse E (filepath_Base arg0) main_flag_specs rest w of
        (Inl err, w1) \<Rightarrow> (ParseFailed err, w1)
      | (Inr v, w1) \<Rightarrow>
          let fl = main_parsed_flags v
          in main_main E S order F fl (if mf_debug fl then me_SetLogger E w1 else w1)))"

text \<open>
  The manager hands out the scheme it was given, registering a metrics collector does not touch
  it, and the flag for change logs is not one of the provider's own.
\<close>

definition main_env_laws ::
  "('cfg, ('sel, 'b, 'i, 'bc, 'ic, 'k, 'w) manager, 'sch, 'w) main_env \<Rightarrow> bool" where
  "main_env_laws E \<longleftrightarrow>
     (\<forall>mgr. (\<forall>s w. me_GetScheme E mgr (me_SetScheme E mgr s w) = s)
       \<and> (\<forall>n w. me_GetScheme E mgr (snd (me_MustRegister E n w)) = me_GetScheme E mgr w)
       \<and> (\<forall>cfg opts w w'. me_NewManager E cfg opts w = (Inr mgr, w') \<longrightarrow>
             EnableAlphaChangeLogs mgr \<notin> {EnableAlphaRotateBindings, EnableBetaManagementPolicies}))"

text \<open>
  How far the program has come, for the flags \<open>fl\<close> from the world \<open>w\<close>: it has the manager, the types
  are in its scheme, the metrics are registered, the controllers are set up; the last argument
  is the world it has come to.
\<close>

definition main_has_manager where
  "main_has_manager E fl w mgr w2 \<longleftrightarrow>
     (\<exists>cfg w1. me_GetConfig E w = (Inr cfg, w1)
        \<and> me_NewManager E (me_LimitRESTConfig E cfg (mf_maxReconcileRate fl))
             (main_manager_options (me_LeasesResourceLock E) fl) w1 = (Inr mgr, w2))"

definition main_has_types where
  "main_has_types E S fl w mgr w3 \<longleftrightarrow>
     (\<exists>w2 s. main_has_manager E fl w mgr w2 \<and> AddToScheme S (me_GetScheme E mgr w2) = (None, s)
        \<and> w3 = me_SetScheme E mgr s w2)"

definition main_has_metrics where
  "main_has_metrics E S fl w mgr w5 \<longleftrightarrow>
     (\<exists>w3 w4. main_has_types E S fl w mgr w3 \<and> me_MustRegister E ''metricRecorder'' w3 = (False, w4)
        \<and> me_MustRegister E ''stateMetrics'' w4 = (False, w5))"

definition main_is_set_up where
  "main_is_set_up E S order F fl w mgr w6 \<longleftrightarrow>
     (\<exists>w5. main_has_metrics E S fl w mgr w5 \<and> Setup order S F mgr (main_options fl) w5 = (SetupReturns None, w6))"

text \<open>What has happened when the program, its flags parsed, ends in one way or another.\<close>

definition main_cause where
  "main_cause E S order F fl w r \<longleftrightarrow>
     (case r of
        ParseFailed err \<Rightarrow> False
      | Fatal msg err \<Rightarrow>
          msg = ''Cannot get API server rest config'' \<and> fst (me_GetConfig E w) = Inl err
        \<or> msg = ''Cannot create controller manager''
          \<and> (\<exists>cfg w1. me_GetConfig E w = (Inr cfg, w1)
               \<and> fst (me_NewManager E (me_LimitRESTConfig E cfg (mf_maxReconcileRate fl))
                        (main_manager_options (me_LeasesResourceLock E) fl) w1) = Inl err)
        \<or> msg = ''Cannot add OSB APIs namespace to scheme''
          \<and> (\<exists>mgr w2. main_has_manager E fl w mgr w2 \<and> fst (AddToScheme S (me_GetScheme E mgr w2)) = Some err)
        \<or> msg = ''Cannot setup OSB controllers mode''
          \<and> (\<exists>mgr w5. main_has_metrics E S fl w mgr w5
               \<and> fst (Setup order S F mgr (main_options fl) w5) = SetupReturns (Some err))
        \<or> msg = ''Cannot start controller manager''
          \<and> (\<exists>mgr w6. main_is_set_up E S order F fl w mgr w6 \<and> fst (me_Start E mgr w6) = Some err)
      | MainPanic \<Rightarrow>
          (\<exists>mgr w3. main_has_types E S fl w mgr w3
             \<and> (fst (me_MustRegister E ''metricRecorder'' w3)
                \<or> fst (me_MustRegister E ''stateMetrics'' (snd (me_MustRegister E ''metricRecorder'' w3)))))
      | Returned \<Rightarrow> (\<exists>mgr w6. main_is_set_up E S order F fl w mgr w6 \<and> fst (me_Start E mgr w6) = None))"

text \<open>When the controllers are set up, the scheme has every kind they use.\<close>

lemma main_types_known:
  assumes E: "main_env_laws E" and S: "schema_laws S" and "main_has_metrics E S fl w mgr w5"
  shows "set (watched_kinds S F mgr (main_options fl)) \<subseteq> {k. sch_Recognizes S (me_GetScheme E mgr w5) k}"
proof -
  obtain w2 w4 s where s: "AddToScheme S (me_GetScheme E mgr w2) = (None, s)"
    and m: "me_MustRegister E ''metricRecorder'' (me_SetScheme E mgr s w2) = (False, w4)"
      "me_MustRegister E ''stateMetrics'' w4 = (False, w5)"
    using assms(3) by (auto simp: main_has_metrics_def main_has_types_def)
  have "me_GetScheme E mgr w5 = s"
    using E m unfolding main_env_laws_def by (metis snd_conv)
  then show ?thesis
    using AddToScheme_recognizes [OF S s] watched_registered [of S F mgr "main_options fl"] by auto
qed

lemma main_causes:
  assumes E: "main_env_laws E" and order: "\<And>xs. set (order xs) \<subseteq> set xs"
  shows "main_cause E S order F fl w (fst (main_main E S order F fl w))"
proof (cases "me_GetConfig E w")
  case (Pair c w1)
  show ?thesis
  proof (cases c)
    case (Inl err)
    then show ?thesis by (simp add: main_main_def main_cause_def Pair)
  next
    case cfg: (Inr cfg)
    let ?cfg = "me_LimitRESTConfig E cfg (mf_maxReconcileRate fl)"
    let ?opts = "main_manager_options (me_LeasesResourceLock E) fl"
    obtain m w2 where m: "me_NewManager E ?cfg ?opts w1 = (m, w2)" by fastforce
    show ?thesis
    proof (cases m)
      case (Inl err)
      then show ?thesis by (simp add: main_main_def main_cause_def Pair cfg m)
    next
      case mgr: (Inr mgr)
      obtain e s where s: "AddToScheme S (me_GetScheme E mgr w2) = (e, s)" by fastforce
      let ?w = "me_SetScheme E mgr s w2"
      obtain p w3 where w3: "me_MustRegister E ''metricRecorder'' ?w = (p, w3)" by fastforce
      obtain q w4 where w4: "me_MustRegister E ''stateMetrics'' w3 = (q, w4)" by fastforce
      obtain f w5 where f: "Setup order S F mgr (main_options fl) w4 = (f, w5)" by fastforce
      obtain g w6 where g: "me_Start E mgr w5 = (g, w6)" by fastforce
      have "f \<noteq> SetupPanic"
        using Setup_panics [OF _ order, of S F mgr "main_options fl" w4 w5] f m mgr E
          main_options_change_log [of fl "EnableAlphaChangeLogs mgr"] unfolding main_env_laws_def by blast
      then obtain h where h: "f = SetupReturns h" by (cases f) auto
      have has: "main_has_manager E fl w mgr w2"
        using Pair cfg m mgr by (auto simp: main_has_manager_def)
      have types: "main_has_types E S fl w mgr ?w" if "e = None"
        using has s that by (auto simp: main_has_types_def)
      have metrics: "main_has_metrics E S fl w mgr w4" if "e = None" "\<not> p" "\<not> q"
        using types w3 w4 that unfolding main_has_metrics_def by (metis (full_types))
      have up: "main_is_set_up E S order F fl w mgr w5" if "e = None" "\<not> p" "\<not> q" "h = None"
        using metrics f h that by (auto simp: main_is_set_up_def)
      show ?thesis
      proof (cases e)
        case (Some err)
        have "\<exists>mgr w2. main_has_manager E fl w mgr w2 \<and> fst (AddToScheme S (me_GetScheme E mgr w2)) = Some err"
          using has s Some by (intro exI [of _ mgr] exI [of _ w2]) simp
        with s Some show ?thesis by (simp add: main_main_def main_cause_def Pair cfg m mgr)
      next
        case None
        note run = main_main_def main_cause_def Pair cfg m mgr s None w3 w4 f h g
        show ?thesis
        proof (cases "p \<or> q")
          case True
          have "\<exists>mgr w3. main_has_types E S fl w mgr w3
             \<and> (fst (me_MustRegister E ''metricRecorder'' w3)
                \<or> fst (me_MustRegister E ''stateMetrics'' (snd (me_MustRegister E ''metricRecorder'' w3))))"
            using types None True w3 w4 by (intro exI [of _ mgr] exI [of _ ?w]) auto
          then show ?thesis using True by (cases p) (simp_all add: run)
        next
          case False
          then have metrics: "main_has_metrics E S fl w mgr w4" using metrics None by simp
          show ?thesis
          proof (cases h)
            case (Some err)
            have "\<exists>mgr w5. main_has_metrics E S fl w mgr w5
                 \<and> fst (Setup order S F mgr (main_options fl) w5) = SetupReturns (Some err)"
              using metrics f h Some by (intro exI [of _ mgr] exI [of _ w4]) simp
            with Some False show ?thesis by (simp add: run)
          next
            case hN: None
            then have "main_is_set_up E S order F fl w mgr w5" using up None False by simp
            with g have "\<exists>mgr w6. main_is_set_up E S order F fl w mgr w6 \<and> fst (me_Start E mgr w6) = g"
              by (intro exI [of _ mgr] exI [of _ w5]) simp
            then show ?thesis using False hN by (cases g) (simp_all add: run)
          qed
        qed
      qed
    qed
  qed
qed

text \<open>The program runs as it does for the flags it has parsed.\<close>

lemma main_program_causes:
  assumes "main_env_laws E" and "\<And>xs. set (order xs) \<subseteq> set xs"
  shows "(args = [] \<and> main_program E S order F args w = (MainPanic, w))
    \<or> args \<noteq> [] \<and> (case me_Parse E (filepath_Base (hd args)) main_flag_specs (tl args) w of
         (Inl err, w1) \<Rightarrow> main_program E S order F args w = (ParseFailed err, w1)
       | (Inr v, w1) \<Rightarrow>
           main_cause E S order F (main_parsed_flags v) (if mf_debug (main_parsed_flags v) then me_SetLogger E w1 else w1)
             (fst (main_program E S order F args w)))"
proof (cases args)
  case (Cons a rest)
  obtain r w1 where "me_Parse E (filepath_Base a) main_flag_specs rest w = (r, w1)" by fastforce
  with Cons main_causes [OF assms] show ?thesis by (cases r) (auto simp: main_program_def Let_def)
qed (simp add: main_program_def)

end
