(* ===== verification/Controller_Properties.thy ===== *)
theory Controller_Properties
  imports Provider_Main Example_Environment
begin

text \<open>
  The properties of both controllers together: their external clients never panic and keep
  the contract of the reconciler, and what the command line, the manager and the provider
  configuration determine of a connected client.
\<close>

section \<open>The external clients\<close>

text \<open>C27: No method of either external client panics on any resource: all nil pointers a broker or
  the API server can produce are checked, as long as the broker gives a response or an error.\<close>
theorem external_clients_do_not_panic:
  fixes P :: "('ep, 'vm) osb_pkg"
  assumes "broker_answers (sbce_osb cb :: ('ep, 'vm, 'w) osb_client)"
    and "broker_answers (sice_osb ci :: ('ep, 'vm, 'w) osb_client)" and "async_iface_laws P"
  shows "\<not> panics (sbc_Observe X R P kube cb mb w) \<and> \<not> panics (sbc_Create X R P cb mb w)
    \<and> \<not> panics (sbc_Update X R cb mb w) \<and> \<not> panics (sbc_Delete X kube cb mb w)
    \<and> \<not> panics (sic_Observe X R P kube' ci mi w) \<and> \<not> panics (sic_Create X R P kube' ci mi w)
    \<and> \<not> panics (sic_Update X R kube' ci mi w) \<and> \<not> panics (sic_Delete X P kube' ci mi w)"
proof (intro conjI)
  note b = assms(1) [unfolded broker_answers_def] and i = assms(2) [unfolded broker_answers_def]
  show "\<not> panics (sbc_Observe X R P kube cb mb w)"
    using assms(1) by (cases mb) (auto simp: sbc_Observe_obj_def panics_bind sb_ObserveState_no_panic split: no_panic_splits)
  show "\<not> panics (sbc_Create X R P cb mb w)"
    by (cases mb) (auto simp: sbc_Create_obj_def panics_bind sb_Bind_no_panic
        dest: sb_Bind_response split: no_panic_splits)
  show "\<not> panics (sbc_Update X R cb mb w)"
    using b by (cases mb) (auto simp: sbc_Update_obj_def panics_bind TriggerRotation_no_panic split: no_panic_splits)
  show "\<not> panics (sbc_Delete X kube cb mb w)"
    by (cases mb) (auto simp: sbc_Delete_obj_def panics_bind sb_UnBind_no_panic split: no_panic_splits)
  show "\<not> panics (sic_Observe X R P kube' ci mi w)"
    using i by (cases mi) (auto simp: sic_Observe_obj_def panics_bind si_ObserveState_no_panic
        dest: si_ObserveState_drift split: no_panic_splits)
  show "\<not> panics (sic_Create X R P kube' ci mi w)"
    using i assms(3) by (cases mi) (auto simp: sic_Create_obj_def panics_bind Provision_no_panic split: no_panic_splits)
  show "\<not> panics (sic_Update X R kube' ci mi w)"
    using i by (cases mi) (auto simp: sic_Update_obj_def panics_bind si_Update_no_panic split: no_panic_splits)
  show "\<not> panics (sic_Delete X P kube' ci mi w)"
    using i by (cases mi) (auto simp: sic_Delete_obj_def panics_bind Deprovision_no_panic split: no_panic_splits)
qed

theorem external_clients_do_not_panic_witness:
  "\<not> panics (sbc_Observe ex_X ex_R ex_P ex_kube (ex_ext ex_broker) (ThisKind ex_bound) [])
   \<and> \<not> panics (sic_Create ex_X ex_R ex_P ex_kube (ex_ext_si ex_broker) (ThisKind ex_si) [])"
proof -
  have "broker_answers (sbce_osb (ex_ext ex_broker))" "broker_answers (sice_osb (ex_ext_si ex_broker))"
    by (simp_all add: ex_ext_def ex_ext_si_def ex_broker_def ex_broker_answers)
  from external_clients_do_not_panic [OF this ex_async_iface_laws] show ?thesis by blast
qed

text \<open>C28: Both controllers keep the contract of an external client, for every resource, broker and API
  server: each of the four methods refuses a resource of another kind with an error, the zero
  result and no effect at all; a failed create, update or delete has the zero result; an
  observation is the zero result or one of an existing resource without an error, so that only
  an existing resource is up to date or has connection details.\<close>
theorem external_clients_keep_contract:
  "keeps_contract (sbc_Observe X R P kube cb) (sbc_Create X R P cb) (sbc_Update X R cb) (sbc_Delete X kube cb) mb w
   \<and> keeps_contract (sic_Observe X R P kube' ci) (sic_Create X R P kube' ci) (sic_Update X R kube' ci)
       (sic_Delete X P kube' ci) mi w"
  by (intro conjI sbc_client.contract sic_client.contract)

section \<open>Connecting\<close>

text \<open>Both controllers build the same client from a namespaced and from a cluster-wide provider
  configuration with the same specification: the result of connecting depends on the kind of
  the reference only through what is read.\<close>
theorem connect_same_for_both_kinds:
  assumes "get_ProviderConfig (sbcn_kube c) (meta_GetNamespace X (sb_ObjectMeta obj)) n w1 = (None, npc, w2)"
    and "get_ClusterProviderConfig (sbcn_kube c) n w1 = (None, cpc, w2)" and "pc_Spec npc = cpc_Spec cpc"
    and "mrs_ProviderConfigReference (sbs_Managed (sb_Spec obj)) = Some \<lparr> ref_Name = n, ref_Kind = ProviderConfigKind \<rparr>"
    and "mrs_ProviderConfigReference (sbs_Managed (sb_Spec obj')) = Some \<lparr> ref_Name = n, ref_Kind = ClusterProviderConfigKind \<rparr>"
    and "usage_Track (sbcn_usage c) obj w = (None, w1)" and "usage_Track (sbcn_usage c) obj' w = (None, w1)"
  shows "sbc_Connect X c (ThisKind obj) w = sbc_Connect X c (ThisKind obj') w"
  using assms(3,6,7)
  by (simp add: sbc_Connect_def assms(4,5) ResolveProviderConfig_PC [OF assms(1)]
      ResolveProviderConfig_CPC [OF assms(2)] NewOsbClient_spec cong: sum.case_cong)

definition ex_spec :: "unit ProviderConfigSpec" where
  "ex_spec =
     \<lparr> pcs_Credentials = \<lparr> pcr_Source = ''None'', pcr_Selectors = () \<rparr>, pcs_BrokerURL = ''http://b'',
       pcs_OSBVersion = ''2.13'', pcs_Timeout = 60, pcs_DisableAsync = False \<rparr>"

definition ex_connector ::
  "bool \<Rightarrow> ((ex_meta, ex_status, unit) ServiceBinding, unit, nat, unit, (bool, bool, ex_world) osb_client, ex_world) sbc_connector" where
  "ex_connector flag =
     \<lparr> sbcn_kube = \<lparr> get_ProviderConfig = (\<lambda>ns n w. (None, \<lparr> pc_Spec = ex_spec \<rparr>, w)),
         get_ClusterProviderConfig = (\<lambda>n w. (None, \<lparr> cpc_Spec = ex_spec \<rparr>, w)) \<rparr>,
       sbcn_usage = \<lparr> usage_Track = (\<lambda>ob w. (None, w @ [''track''])), CommonCredentialExtractor = (\<lambda>s sel w. (Inr [], w)) \<rparr>,
       sbcn_factory = \<lparr> DefaultClientConfiguration =
            \<lparr> cc_URL = [], cc_APIVersion = (0::nat), cc_TimeoutSeconds = 0, cc_AuthConfig = None, cc_rest = () \<rparr>,
          APIVersions = [(''2.13'', 13)], APIVersion_zero = 0,
          NewClient = (\<lambda>cf. if cc_URL cf = ''http://b'' \<and> cc_APIVersion cf = 13 then Inr ex_broker else Inl (ErrExt ''config'')) \<rparr>,
       sbcn_originatingIdentityValue = \<lparr> oiv_Username = ''u'', oiv_UID = ''1'', oiv_Groups = None, oiv_Extra = None \<rparr>,
       sbcn_rotateBinding = flag \<rparr>"

definition ex_with_ref :: "string \<Rightarrow> (ex_meta, ex_status, unit) ServiceBinding" where
  "ex_with_ref kind = ex_sb\<lparr>sb_Spec := (sb_Spec ex_sb)\<lparr>sbs_Managed :=
     \<lparr> mrs_ProviderConfigReference = Some \<lparr> ref_Name = ''pc'', ref_Kind = kind \<rparr>, mrs_rest = () \<rparr>\<rparr>\<rparr>"

theorem connect_same_for_both_kinds_witness:
  "sbc_Connect ex_X (ex_connector True) (ThisKind (ex_with_ref ProviderConfigKind)) []
     = sbc_Connect ex_X (ex_connector True) (ThisKind (ex_with_ref ClusterProviderConfigKind)) []"
  by (rule connect_same_for_both_kinds [where npc = "\<lparr> pc_Spec = ex_spec \<rparr>" and cpc = "\<lparr> cpc_Spec = ex_spec \<rparr>"])
    (simp_all add: ex_connector_def ex_with_ref_def)

section \<open>From the command line to the broker\<close>

text \<open>C29: Bindings are rotated only when the provider is started with automatic rotation enabled: a
  client connected by the set-up binding controller never reports a binding as outdated
  without that flag, whatever the broker says about renewal.\<close>
theorem rotation_needs_flag:
  assumes "\<not> mf_enableAutomaticRotateBindings fl"
    and "sbc_Connect X (sbc_make_connector F M (main_options fl)) mg w = (Inr ext, w1)"
  shows "observed_action (sb_ObserveState X R P kube (sbce_osb ext) sb (sbce_rotateBinding ext)
            (sbce_originatingIdentity ext) w2) \<noteq> Some NeedToUpdate
    \<and> (res_val (sbc_Observe_obj X R P kube ext sb w2) = Some (ob, None) \<longrightarrow>
         eo_ResourceExists ob \<longrightarrow> eo_ResourceUpToDate ob)"
proof -
  have r: "sbce_rotateBinding ext = False"
    using sbc_Connect_client(1) [OF assms(2)] assms(1)
    by (simp add: sbc_make_connector_def main_options_rotation)
  then have o: "observed_action (sb_ObserveState X R P kube (sbce_osb ext) sb (sbce_rotateBinding ext)
      (sbce_originatingIdentity ext) w2) \<noteq> Some NeedToUpdate"
    by (simp add: observe_without_rotation)
  then show ?thesis
    by (auto simp: sbc_Observe_obj_def observed_action_def split: bind_go_splits option.splits Action.splits)
qed

definition ex_flags :: main_flags where
  "ex_flags = \<lparr> mf_debug = True, mf_leaderElection = False, mf_syncInterval = 3600, mf_pollInterval = 60,
     mf_pollStateMetricInterval = 5, mf_maxReconcileRate = 10,
     mf_enableManagementPolicies = True,
     mf_enableAutomaticRotateBindings = False \<rparr>"

definition ex_impersonation :: impersonation where
  "ex_impersonation = \<lparr> im_UserName = ''u'', im_UID = ''1'', im_Groups = Some [''g''],
     im_Extra = Some [(''scopes'', Some [''a'', ''b''])] \<rparr>"

definition ex_manager ::
  "(unit, (ex_meta, ex_status, unit) ServiceBinding, (ex_meta, ex_status, unit) ServiceInstance,
     ((ex_meta, ex_status, unit) ServiceBinding, unit, nat, unit, (bool, bool, ex_world) osb_client, ex_world) sbc_connector,
     ((ex_meta, ex_status, unit) ServiceInstance, unit, nat, unit, (bool, bool, ex_world) osb_client, ex_world) sic_connector,
     string, ex_world) manager" where
  "ex_manager =
     \<lparr> managed_ControllerName = (\<lambda>s. ''managed/'' @ s), providerconfig_ControllerName = (\<lambda>s. ''providerconfig/'' @ s),
       EnableAlphaChangeLogs = ''EnableAlphaChangeLogs'', mgr_Impersonate = ex_impersonation,
       mgr_GetClient = sbcn_kube (ex_connector True), mgr_binding_usage = sbcn_usage (ex_connector True),
       mgr_instance_usage = \<lparr> usage_Track = (\<lambda>ob w. (None, w @ [''track''])),
         CommonCredentialExtractor = (\<lambda>s sel w. (Inr [], w)) \<rparr>,
       mgr_Add = (\<lambda>k n w. (None, w @ [''add''])), mgr_Complete_binding = (\<lambda>b w. (None, w @ [cb_Named b])),
       mgr_Complete_instance = (\<lambda>b w. (None, w @ [cb_Named b])), mgr_Complete_config = (\<lambda>b w. (None, w @ [cb_Named b])) \<rparr>"

theorem rotation_needs_flag_witness:
  "\<exists>ext w1. sbc_Connect ex_X (sbc_make_connector (sbcn_factory (ex_connector True)) ex_manager (main_options ex_flags))
        (ThisKind (ex_with_ref ProviderConfigKind)) [] = (Inr ext, w1)
     \<and> observed_action (sb_ObserveState ex_X ex_R ex_P ex_kube (sbce_osb ext) ex_bound (sbce_rotateBinding ext)
          (sbce_originatingIdentity ext) []) \<noteq> Some NeedToUpdate"
proof -
  let ?c = "sbc_Connect ex_X (sbc_make_connector (sbcn_factory (ex_connector True)) ex_manager (main_options ex_flags))
        (ThisKind (ex_with_ref ProviderConfigKind)) []"
  have "case fst ?c of Inl _ \<Rightarrow> False | Inr _ \<Rightarrow> True" by code_simp
  then obtain ext w1 where "?c = (Inr ext, w1)" by (cases ?c) (auto split: sum.splits)
  note c = this
  have "\<not> mf_enableAutomaticRotateBindings ex_flags" by code_simp
  from rotation_needs_flag [OF this c] c show ?thesis by blast
qed

text \<open>C30: The identity the provider impersonates reaches the broker without its extra attributes. Both
  controllers connect with the same originating identity: the JSON document of the manager's
  user, UID and groups, and of the text of its extra attributes, which reads back as they are
  configured. But the type of that text does not marshal it, so that the document has an empty
  object in its place. Every request for a bind, a rotation, an unbind, a poll, an update or a
  deprovision that is built for an identity carries it; requests to fetch and to provision
  have none.\<close>
theorem identity_reaches_broker:
  assumes "lists_ok (im_Extra (mgr_Impersonate M))" and "apiext_laws X"
    and "sbc_Connect X (sbc_make_connector F M c) mb w = (Inr eb, w1)"
    and "sic_Connect X (sic_make_connector F M) mi w' = (Inr ei, w1')"
  defines "im \<equiv> mgr_Impersonate M" and "oid \<equiv> sbce_originatingIdentity eb"
  shows "sice_originatingIdentity ei = oid \<and> oid_Platform oid = ''kubernetes''
    \<and> (\<exists>e. oiv_Extra (sbcn_originatingIdentityValue (sbc_make_connector F M c)) = Some e
         \<and> Extra_ToMap R e = Inr (im_Extra im))
    \<and> Some (oid_Value oid) = enc (AObj [(''username'', AStr (im_UserName im)), (''uid'', AStr (im_UID im)),
          (''groups'', case im_Groups im of None \<Rightarrow> ANull | Some gs \<Rightarrow> AArr (map AStr gs)), (''extra'', AObj [])])
    \<and> (\<forall>sb da v q sb' v'. bind_request X R sb oid da v = Some (q, sb', v') \<longrightarrow> br_OriginatingIdentity q = Some oid)
    \<and> (\<forall>sb u q. buildRotateBindingRequest X sb oid u = Inr q \<longrightarrow> rbr_OriginatingIdentity q = Some oid)
    \<and> (\<forall>sb q. BuildUnbindRequest X sb oid = Inr q \<longrightarrow> ubr_OriginatingIdentity q = Some oid)
    \<and> (\<forall>sb q. buildBindingLastOperationRequest X sb oid = Inr q \<longrightarrow> blo_OriginatingIdentity q = Some oid)
    \<and> (\<forall>si da q. buildUpdateInstanceRequest R si oid da = Inr q \<longrightarrow> uir_OriginatingIdentity q = Some oid)
    \<and> (\<forall>si q. BuildPollLastOperationRequest si oid = Inr q \<longrightarrow> lor_OriginatingIdentity q = Some oid)
    \<and> (\<forall>si da q. buildDeprovisionRequest si oid da = Inr q \<longrightarrow> dr_OriginatingIdentity q = Some oid)"
proof -
  have b: "MakeOriginatingIdentityFromValue X (setup_identity im) = Inr oid"
    using sbc_Connect_client(2) [OF assms(3)] by (simp add: sbc_make_connector_def im_def oid_def)
  have i: "MakeOriginatingIdentityFromValue X (setup_identity im) = Inr (sice_originatingIdentity ei)"
    using sic_Connect_client [OF assms(4)] by (simp add: sic_make_connector_def im_def)
  obtain e where e: "FromMap (im_Extra im) \<lparr> e_Raw = [] \<rparr> = (None, e)" "Extra_ToMap R e = Inr (im_Extra im)"
    using FromMap_ToMap [OF assms(1)] unfolding im_def by (metis prod.collapse)
  have v: "setup_identity im = \<lparr> oiv_Username = im_UserName im, oiv_UID = im_UID im,
      oiv_Groups = im_Groups im, oiv_Extra = Some e \<rparr>"
    by (simp add: setup_identity_def e(1))
  have "identity_doc X (setup_identity im) =
      AObj [(''username'', AStr (im_UserName im)), (''uid'', AStr (im_UID im)),
        (''groups'', case im_Groups im of None \<Rightarrow> ANull | Some gs \<Rightarrow> AArr (map AStr gs)), (''extra'', AObj [])]"
    using assms(2) by (simp add: v identity_doc_def slice_doc_def apiext_laws_def)
  with b have "oid_Platform oid = ''kubernetes''" and
    "Some (oid_Value oid) = enc (AObj [(''username'', AStr (im_UserName im)), (''uid'', AStr (im_UID im)),
        (''groups'', case im_Groups im of None \<Rightarrow> ANull | Some gs \<Rightarrow> AArr (map AStr gs)), (''extra'', AObj [])])"
    by (auto simp: MakeOriginatingIdentityFromValue_def OriginatingIdentityPlatformName_def simp del: enc.simps
        split: option.splits)
  moreover have "oiv_Extra (sbcn_originatingIdentityValue (sbc_make_connector F M c)) = Some e"
    using v by (simp add: sbc_make_connector_def im_def)
  moreover have "sice_originatingIdentity ei = oid" using b i by simp
  ultimately show ?thesis
    using e(2) by (intro conjI exI [of _ e] allI impI) (assumption | erule requests_carry_identity)+
qed

theorem identity_reaches_broker_witness:
  "\<exists>eb w1. sbc_Connect ex_X (sbc_make_connector (sbcn_factory (ex_connector True)) ex_manager (main_options ex_flags))
        (ThisKind (ex_with_ref ProviderConfigKind)) [] = (Inr eb, w1)
     \<and> oid_Platform (sbce_originatingIdentity eb) = ''kubernetes''"
proof -
  let ?c = "sbc_Connect ex_X (sbc_make_connector (sbcn_factory (ex_connector True)) ex_manager (main_options ex_flags))
        (ThisKind (ex_with_ref ProviderConfigKind)) []"
  let ?d = "sic_Connect ex_X (sic_make_connector (sbcn_factory (ex_connector True)) ex_manager)
        (ThisKind (ex_si\<lparr>si_Spec := (si_Spec ex_si)\<lparr>sis_Managed :=
           \<lparr> mrs_ProviderConfigReference = Some \<lparr> ref_Name = ''pc'', ref_Kind = ProviderConfigKind \<rparr>, mrs_rest = () \<rparr>\<rparr>\<rparr>)) []"
  have "case fst ?c of Inl _ \<Rightarrow> False | Inr _ \<Rightarrow> True" "case fst ?d of Inl _ \<Rightarrow> False | Inr _ \<Rightarrow> True"
    by code_simp+
  then obtain eb w1 ei w1' where c: "?c = (Inr eb, w1)" and d: "?d = (Inr ei, w1')"
    by (cases ?c; cases ?d) (auto split: sum.splits)
  have "lists_ok (im_Extra (mgr_Impersonate ex_manager))" by code_simp
  from identity_reaches_broker [OF this ex_apiext_laws c d]
  have "oid_Platform (sbce_originatingIdentity eb) = ''kubernetes''" by (rule conjunct2 [THEN conjunct1])
  with c show ?thesis by auto
qed

text \<open>A scheme that is the list of its kinds, which is also the world of the program.\<close>

definition ex_S :: "(GroupVersion \<times> string list, string, string list) schema_pkg" where
  "ex_S =
     \<lparr> GroupVersion_String = (\<lambda>gv. gv_Group gv @ ''/'' @ gv_Version gv),
       GroupKind_String = (\<lambda>g k. k @ ''.'' @ g),
       WithKind = (\<lambda>gv k. gv_Group gv @ ''/'' @ gv_Version gv @ '', Kind='' @ k),
       gvk_Kind = (\<lambda>k. tl (dropWhile (\<lambda>c. c \<noteq> CHR ''='') k)),
       Builder_for = (\<lambda>gv. (gv, [])), Builder_Register = (\<lambda>(gv, ks) objs. (gv, ks @ objs)),
       Builder_AddToScheme = (\<lambda>(gv, ks) s. (None, s @ map (\<lambda>k. gv_Group gv @ ''/'' @ gv_Version gv @ '', Kind='' @ k) ks)),
       bd_kinds = (\<lambda>(gv, ks). (\<lambda>k. gv_Group gv @ ''/'' @ gv_Version gv @ '', Kind='' @ k) ` set ks),
       sch_Recognizes = (\<lambda>s k. k \<in> set s),
       runtime_AddToScheme = (\<lambda>fs s. fold (\<lambda>f (e, s). if e = None then f s else (e, s)) fs (None, s)) \<rparr>"

lemma ex_S_register: "foldl (\<lambda>(gv, ks) objs. (gv, ks @ objs)) (gv, ks) objs = (gv, ks @ concat objs)"
  by (induction objs arbitrary: ks) auto

lemma ex_S_failed: "fold (\<lambda>f (e, s). if e = None then f s else (e, s)) fs (Some e, s) = (Some e, s)"
  by (induction fs) auto

lemma ex_S_laws: "schema_laws ex_S"
  by (auto simp: schema_laws_def ex_S_def ex_S_register ex_S_failed image_iff split: prod.split option.split)

text \<open>C31: Setting up the provider runs the set-ups of the three controllers one after the other, in
  whatever order the map is visited, and succeeds exactly when each of them, in the world its
  predecessors leave, returns without an error. Otherwise it ends with the first one that does
  not: its error is reported under the name of its controller, and nothing after it is run. With
  the options \<^verbatim>\<open>main\<close> makes, and a flag for change logs that is not one of the provider's own, it
  never panics.\<close>
theorem setup_outcome:
  assumes "\<And>xs. mset (order xs) = mset xs"
  shows "let cs = order (controllers S F M c); r = Setup order S F M c w in
    mset cs = {# (''config'', config_Setup S M c), (''servicebinding'', sbc_Setup S F M c),
                 (''serviceinstance'', sic_Setup S F M c) #}
    \<and> (fst r = SetupReturns None \<longleftrightarrow> (\<forall>i<length cs. fst (setup_at cs i w) = SetupReturns None))
    \<and> (fst r \<noteq> SetupReturns None \<longrightarrow>
         (\<exists>i<length cs. (\<forall>j<i. fst (setup_at cs j w) = SetupReturns None)
            \<and> fst (setup_at cs i w) \<noteq> SetupReturns None
            \<and> r = (case fst (setup_at cs i w) of
                     SetupReturns (Some err) \<Rightarrow>
                       SetupReturns (Some (Errorf (OsbErr osb_errFailedToSetupNamespacedController)
                         [Txt (fst (cs ! i)), Sprint (Some err)]))
                   | p \<Rightarrow> p, snd (setup_at cs i w))))
    \<and> (c = main_options fl \<and> EnableAlphaChangeLogs M \<notin> {EnableAlphaRotateBindings, EnableBetaManagementPolicies}
         \<longrightarrow> fst r \<noteq> SetupPanic)"
proof -
  have "set (order xs) \<subseteq> set xs" for xs using assms [of xs] by (simp flip: set_mset_mset)
  then have "fst (Setup order S F M c w) \<noteq> SetupPanic"
    if "c = main_options fl" "EnableAlphaChangeLogs M \<notin> {EnableAlphaRotateBindings, EnableBetaManagementPolicies}"
    using Setup_panics [of order S F M c w "snd (Setup order S F M c w)"] that
      main_options_change_log [of fl "EnableAlphaChangeLogs M"] by (metis prod.collapse)
  then show ?thesis
    using Setup_loop_ok_iff [of "order (controllers S F M c)" w] Setup_loop_stops [of "order (controllers S F M c)" w]
    unfolding Let_def Setup_def [symmetric] assms by (simp add: controllers_def)
qed

theorem setup_outcome_witness:
  "fst (setup_at (rev (controllers ex_S (sbcn_factory (ex_connector True)) ex_manager (main_options ex_flags))) 2 [])
     = SetupReturns None"
proof -
  let ?F = "sbcn_factory (ex_connector True)"
  have r: "fst (Setup rev ex_S ?F ex_manager (main_options ex_flags) []) = SetupReturns None" by code_simp
  have "mset (rev xs) = mset xs" for xs :: "'z list" by simp
  from setup_outcome [of rev, OF this, where S = ex_S and F = ?F and M = ex_manager
      and c = "main_options ex_flags" and w = "[]" and fl = ex_flags] r
  have "\<forall>i<length (rev (controllers ex_S ?F ex_manager (main_options ex_flags))).
      fst (setup_at (rev (controllers ex_S ?F ex_manager (main_options ex_flags))) i []) = SetupReturns None"
    unfolding Let_def by blast
  then show ?thesis by (simp add: controllers_def)
qed

section \<open>Starting the provider\<close>

text \<open>C32: However the program ends, the cause is the one it names, whatever its arguments and the order
  the controllers are set up in. It panics without a name of its own, and otherwise only when a
  metrics collector cannot be registered; it reports a parsing error when the parser has one;
  each of its five messages comes with the error of the step it names, all steps before having
  succeeded with the parsed flags and with the manager that was made; it returns only when
  the manager, started with all controllers set up, has. Whenever the controllers are set
  up, the scheme knows every kind their builds reconcile, watch or list.\<close>
theorem main_outcome:
  assumes "main_env_laws E" and "schema_laws S" and "\<And>xs. set (order xs) \<subseteq> set xs"
  shows "if args = [] then main_program E S order F args w = (MainPanic, w)
    else (case me_Parse E (filepath_Base (hd args)) main_flag_specs (tl args) w of
            (Inl err, w1) \<Rightarrow> main_program E S order F args w = (ParseFailed err, w1)
          | (Inr v, w1) \<Rightarrow>
              main_cause E S order F (main_parsed_flags v)
                (if mf_debug (main_parsed_flags v) then me_SetLogger E w1 else w1)
                (fst (main_program E S order F args w)))
      \<and> (\<forall>fl v mgr w5. main_has_metrics E S fl v mgr w5 \<longrightarrow>
            set (watched_kinds S F mgr (main_options fl)) \<subseteq> {k. sch_Recognizes S (me_GetScheme E mgr w5) k})"
proof -
  have "\<forall>fl v mgr w5. main_has_metrics E S fl v mgr w5 \<longrightarrow>
      set (watched_kinds S F mgr (main_options fl)) \<subseteq> {k. sch_Recognizes S (me_GetScheme E mgr w5) k}"
    by (intro allI impI main_types_known [OF assms(1,2)])
  then show ?thesis
    using main_program_causes [OF assms(1,3), of args S F w] by (cases "args = []") (simp_all del: watched_kinds_def)
qed

definition ex_E :: "(unit, _, string list, ex_world) main_env" where
  "ex_E =
     \<lparr> me_Parse = (\<lambda>name specs args w.
         if name = ''provider'' \<and> args = [] then
           (Inr \<lparr> pf_Bool = (\<lambda>n. n = ''debug''), pf_Duration = (\<lambda>n. 60 * Second), pf_Int = (\<lambda>n. 10) \<rparr>, w)
         else (Inl (ErrExt ''usage''), w)),
       me_SetLogger = (\<lambda>w. w @ [''logger'']), me_LeasesResourceLock = ''leases'', me_GetConfig = (\<lambda>w. (Inr (), w)), me_LimitRESTConfig = (\<lambda>c n. c),
       me_NewManager = (\<lambda>c opts w. if mo_LeaseDuration opts = 60 * Second then (Inr ex_manager, w) else (Inl (ErrExt ''lease''), w)),
       me_GetScheme = (\<lambda>m w. w), me_SetScheme = (\<lambda>m s w. s),
       me_MustRegister = (\<lambda>n w. (False, w)), me_Start = (\<lambda>m w. (None, w @ [''started''])) \<rparr>"

lemma ex_E_laws: "main_env_laws ex_E"
proof -
  have "EnableAlphaChangeLogs ex_manager \<notin> {EnableAlphaRotateBindings, EnableBetaManagementPolicies}"
    by (simp add: ex_manager_def EnableAlphaRotateBindings_def EnableBetaManagementPolicies_def)
  then show ?thesis by (auto simp: main_env_laws_def ex_E_def split: if_splits)
qed

theorem main_outcome_witness:
  "fst (main_program ex_E ex_S rev (sbcn_factory (ex_connector True)) [''/usr/bin/provider''] []) = Returned
   \<and> (\<exists>fl mgr w6. main_is_set_up ex_E ex_S rev (sbcn_factory (ex_connector True)) fl [''logger''] mgr w6)"
proof -
  let ?F = "sbcn_factory (ex_connector True)"
  let ?r = "main_program ex_E ex_S rev ?F [''/usr/bin/provider''] []"
  have r: "fst ?r = Returned" by code_simp
  have "set (rev xs) \<subseteq> set xs" for xs :: "'z list" by simp
  note outcome = main_outcome [OF ex_E_laws ex_S_laws this, where F = ?F and args = "[''/usr/bin/provider'']" and w = "[]"]
  have p: "filepath_Base ''/usr/bin/provider'' = ''provider''" by code_simp
  have "\<exists>fl. main_cause ex_E ex_S rev ?F fl [''logger''] Returned"
    using outcome r p by (auto simp: ex_E_def main_parsed_flags_def)
  then show ?thesis using r by (auto simp: main_cause_def)
qed

end
