(* ===== verification/Go_Time_Facts.thy ===== *)
theory Go_Time_Facts
  imports Go_Time Go_Json_Facts
begin

text \<open>
  The calendar conversions are inverse on dates, and a parsed time is printed as text that
  parses back to it.
\<close>

section \<open>The calendar\<close>

text \<open>The first day of year \<open>n\<close> of an era of 400 years, and the length of that year (from March).\<close>

definition year_start :: "int \<Rightarrow> int" where
  "year_start n = n * 365 + n div 4 - n div 100"

definition year_len :: "int \<Rightarrow> int" where
  "year_len n = (if leap_year (n + 1) then 366 else 365)"

text \<open>The day of the era without its leap days, as the conversion computes it.\<close>

definition year_index :: "int \<Rightarrow> int" where
  "year_index k = k - k div 1460 + k div 36524 - k div 146096"

lemma year_index_step: "year_index k \<le> year_index (k + 1)"
proof -
  have "k div 146096 = k div 36524 div 4" "(k + 1) div 146096 = (k + 1) div 36524 div 4"
    by (simp_all add: zdiv_zmult2_eq [symmetric])
  moreover have "(k + 1) div 1460 \<le> k div 1460 + 1" by linarith
  moreover have "k div 36524 \<le> (k + 1) div 36524" "(k + 1) div 36524 \<le> k div 36524 + 1" by linarith+
  moreover have "(a + 1) div 4 \<le> a div 4 + 1" for a :: int by linarith
  ultimately show ?thesis
    unfolding year_index_def by (smt (verit))
qed

lemma year_index_mono: "j \<le> k \<Longrightarrow> year_index j \<le> year_index k"
proof (induction rule: int_ge_induct)
  case (step i)
  then show ?case using year_index_step [of i] by linarith
qed simp

lemma year_table:
  "\<forall>n \<in> set (map int [0..<400]). 365 * n \<le> year_index (year_start n)
     \<and> year_index (year_start n + year_len n - 1) < 365 * (n + 1)"
  by code_simp

lemma year_of_day:
  assumes "0 \<le> n" and "n < 400" and "0 \<le> k" and "k < year_len n"
  shows "year_index (year_start n + k) div 365 = n"
proof -
  have "n \<in> set (map int [0..<400])"
    using assms(1,2) by (auto intro!: image_eqI [where x = "nat n"])
  with year_table have "365 * n \<le> year_index (year_start n)"
    "year_index (year_start n + year_len n - 1) < 365 * (n + 1)" by blast+
  moreover have "year_index (year_start n) \<le> year_index (year_start n + k)"
    "year_index (year_start n + k) \<le> year_index (year_start n + year_len n - 1)"
    using assms(3,4) by (simp_all add: year_index_mono)
  ultimately show ?thesis by (simp add: div_pos_geq int_div_pos_eq)
qed

text \<open>Months counted from March: the days before month \<open>p\<close>.\<close>

definition month_start :: "int \<Rightarrow> int" where
  "month_start p = (153 * p + 2) div 5"

lemma month_of_day:
  assumes "0 \<le> p" and "p \<le> 11" and "0 \<le> e" and "e < month_start (p + 1) - month_start p \<or> p = 11 \<and> e < 29"
  shows "(5 * (month_start p + e) + 2) div 153 = p"
proof -
  have "p \<in> set (map int [0..<12])"
    using assms(1,2) by (auto intro!: image_eqI [where x = "nat p"])
  then have "p \<in> {0,1,2,3,4,5,6,7,8,9,10,11}" by (simp add: upt_rec)
  then show ?thesis
    using assms(3,4) by (elim insertE emptyE) (auto simp: month_start_def)
qed

lemma month_days:
  assumes "1 \<le> m" and "m \<le> 12" and "1 \<le> d" and "d \<le> days_in m y"
  defines "p \<equiv> if m > 2 then m - 3 else m + 9"
  shows "d - 1 < month_start (p + 1) - month_start p \<or> p = 11 \<and> d - 1 < 29"
    "month_start p + d - 1 < (if m \<le> 2 then year_len (y - 1) else year_len y)"
proof -
  have "m \<in> {1,2,3,4,5,6,7,8,9,10,11,12}" using assms(1,2) by (simp, presburger)
  then show "d - 1 < month_start (p + 1) - month_start p \<or> p = 11 \<and> d - 1 < 29"
    "month_start p + d - 1 < (if m \<le> 2 then year_len (y - 1) else year_len y)"
    using assms(3,4) unfolding p_def days_in_def year_len_def month_start_def
    by (elim insertE emptyE; simp split: if_splits)+
qed

lemma leap_year_era: "leap_year (n mod 400 + 1) = leap_year (n + 1)"
proof -
  have "(n mod 400 + 1) mod 400 = (n + 1) mod 400" by (simp add: mod_simps)
  moreover have "a mod 400 mod 4 = a mod 4" "a mod 400 mod 100 = a mod 100" for a :: int
    by (simp_all add: mod_mod_cancel)
  ultimately show ?thesis unfolding leap_year_def by metis
qed

lemma year_len_era: "year_len (n mod 400) = year_len n"
  by (simp add: year_len_def leap_year_era)

lemma year_start_bounds: "0 \<le> n \<Longrightarrow> n < 400 \<Longrightarrow> 0 \<le> year_start n \<and> year_start n + year_len n \<le> 146097"
proof -
  have "\<forall>n \<in> set (map int [0..<400]). 0 \<le> year_start n \<and> year_start n + year_len n \<le> 146097"
    by code_simp
  moreover assume "0 \<le> n" "n < 400"
  then have "n \<in> set (map int [0..<400])"
    by (auto intro!: image_eqI [where x = "nat n"])
  ultimately show ?thesis by blast
qed

text \<open>The two conversions are inverse on dates.\<close>

lemma civil_from_days_from_civil:
  assumes "1 \<le> m" and "m \<le> 12" and "1 \<le> d" and "d \<le> days_in m y"
  shows "civil_from_days (days_from_civil y m d) = (y, m, d)"
proof -
  define y' where "y' = (if m \<le> 2 then y - 1 else y)"
  define era where "era = y' div 400"
  define n where "n = y' mod 400"
  define p where "p = (if m > 2 then m - 3 else m + 9)"
  define k where "k = month_start p + d - 1"
  have n: "0 \<le> n" "n < 400" "y' - era * 400 = n" "y' = n + era * 400"
    by (simp_all add: n_def era_def minus_div_mult_eq_mod)
  have p: "0 \<le> p" "p \<le> 11" "(if p < 10 then p + 3 else p - 9) = m"
    using assms(1,2) by (auto simp: p_def)
  have k: "0 \<le> k" "k < year_len n" "k < year_len y'"
    using month_days(2) [OF assms] assms(3) p(1) unfolding k_def p_def [symmetric]
    by (auto simp: year_len_era n_def y'_def month_start_def split: if_splits)
  define doe where "doe = year_start n + k"
  have doe: "0 \<le> doe" "doe < 146097"
    using year_start_bounds [OF n(1,2)] k by (auto simp: doe_def)
  have days: "days_from_civil y m d + 719468 = era * 146097 + doe"
    unfolding days_from_civil_def Let_def y'_def [symmetric] era_def [symmetric] n(3) p_def [symmetric]
    by (simp add: doe_def k_def year_start_def month_start_def)
  have era: "(days_from_civil y m d + 719468) div 146097 = era" "(days_from_civil y m d + 719468) mod 146097 = doe"
    using doe unfolding days by simp_all
  have yoe: "(doe - doe div 1460 + doe div 36524 - doe div 146096) div 365 = n"
    using year_of_day [OF n(1,2) k(1,2)] by (simp add: doe_def year_index_def)
  have doy: "doe - (365 * n + n div 4 - n div 100) = k"
    by (simp add: doe_def year_start_def)
  have mp: "(5 * k + 2) div 153 = p"
    using month_of_day [OF p(1,2), of "d - 1"] month_days(1) [OF assms] assms(3)
    unfolding p_def [symmetric] k_def by (simp add: algebra_simps)
  have d: "k - (153 * p + 2) div 5 + 1 = d"
    by (simp add: k_def month_start_def)
  have "civil_from_days (days_from_civil y m d) = (n + era * 400 + (if m \<le> 2 then 1 else 0), m, d)"
    unfolding civil_from_days_def Let_def era yoe doy mp p(3) d by (rule refl)
  also have "n + era * 400 + (if m \<le> 2 then 1 else 0) = y"
    using n(4) unfolding y'_def by (cases "m \<le> 2") simp_all
  finally show ?thesis .
qed

section \<open>Digits\<close>

lemma digit_char_simps [simp]: "is_digit (digit_char n)" "digit_val (digit_char n) = n mod 10"
proof -
  have "n mod 10 \<in> set (map int [0..<10])"
    by (auto intro!: image_eqI [where x = "nat (n mod 10)"])
  moreover have "\<forall>k \<in> set (map int [0..<10]). is_digit (char_of (nat (48 + k))) \<and> digit_val (char_of (nat (48 + k))) = k"
    by code_simp
  ultimately show "is_digit (digit_char n)" "digit_val (digit_char n) = n mod 10"
    unfolding digit_char_def by blast+
qed

lemma digits_val_simps:
  "digits_val [a, b] = digit_val a * 10 + digit_val b"
  "digits_val [a, b, c, d] = ((digit_val a * 10 + digit_val b) * 10 + digit_val c) * 10 + digit_val d"
  by (simp_all add: digits_val_def)

lemma getnum_pad2:
  assumes "0 \<le> n" and "n < 100"
  shows "getnum2 (pad2 n @ r) = Some (n, r)" "getnum12 (pad2 n @ r) = Some (n, r)"
proof -
  have "n div 10 mod 10 * 10 + n mod 10 = n"
    using assms by simp
  then show "getnum2 (pad2 n @ r) = Some (n, r)" "getnum12 (pad2 n @ r) = Some (n, r)"
    by (simp_all add: pad2_def digits_val_simps)
qed

lemma horner4:
  fixes n :: int
  assumes "x = a" and "b = 10 * a + u" and "c = 10 * b + v" and "n = 10 * c + w"
  shows "((x * 10 + u) * 10 + v) * 10 + w = n"
  using assms by simp

lemma get_year_pad4:
  assumes "0 \<le> n" and "n < 10000"
  shows "get_year (pad4 n @ r) = Some (n, r)"
proof -
  have "n div 1000 = n div 100 div 10" "n div 100 = n div 10 div 10"
    using zdiv_zmult2_eq [of 10 n 100] zdiv_zmult2_eq [of 10 n 10] by simp_all
  then have "n div 100 = 10 * (n div 1000) + n div 100 mod 10" "n div 10 = 10 * (n div 100) + n div 10 mod 10"
    using mult_div_mod_eq [of 10 "n div 100"] mult_div_mod_eq [of 10 "n div 10"] by metis+
  moreover have "n div 1000 mod 10 = n div 1000" "n = 10 * (n div 10) + n mod 10"
    using assms by simp_all
  ultimately have "((n div 1000 mod 10 * 10 + n div 100 mod 10) * 10 + n div 10 mod 10) * 10 + n mod 10 = n"
    by (intro horner4)
  then show ?thesis
    by (simp only: pad4_def append.simps get_year.simps list.pred_inject digit_char_simps digits_val_simps simp_thms if_True)
qed

lemma get_frac_tenth:
  assumes "0 \<le> t" and "t < 10"
  shows "get_frac ((if t = 0 then [] else [CHR ''.'', digit_char t]) @ ''Z'') = (t * 100000000, ''Z'')"
proof -
  have "\<not> is_digit (CHR ''Z'')" by code_simp
  then show ?thesis
    using assms by (simp add: get_frac_def Let_def digits_val_def mod_pos_pos_trivial)
qed

section \<open>Formatting and parsing\<close>

lemma days_in_bounds: "days_in m y \<le> 31"
  by (simp add: days_in_def)

lemma time_Parse_fields:
  assumes "0 \<le> y" "y < 10000" and "1 \<le> m" "m \<le> 12" and "1 \<le> d" "d \<le> days_in m y"
    and "0 \<le> h" "h < 24" and "0 \<le> mi" "mi < 60" and "0 \<le> s" "s < 60" and "0 \<le> t" "t < 10"
  shows "time_Parse (pad4 y @ ''-'' @ pad2 m @ ''-'' @ pad2 d @ ''T'' @ pad2 h @ '':'' @ pad2 mi @ '':'' @ pad2 s
      @ (if t = 0 then [] else [CHR ''.'', digit_char t]) @ ''Z'')
    = Some (time_Date y m d h mi s (t * 100000000))"
proof -
  have "m < 100" "0 \<le> m" "d < 100" "0 \<le> d" "h < 100" "mi < 100" "s < 100"
    using assms days_in_bounds [of m y] by linarith+
  note nums = get_year_pad4 [OF assms(1,2)] getnum_pad2(1) [OF \<open>0 \<le> m\<close> \<open>m < 100\<close>]
    getnum_pad2(1) [OF \<open>0 \<le> d\<close> \<open>d < 100\<close>] getnum_pad2(2) [OF assms(7) \<open>h < 100\<close>]
    getnum_pad2(1) [OF assms(9) \<open>mi < 100\<close>] getnum_pad2(1) [OF assms(11) \<open>s < 100\<close>]
    get_frac_tenth [OF assms(13,14)]
  have lit: "skip_lit c ([c] @ r) = Some r" for c r by simp
  show ?thesis
    using assms(3-6,8,10,12) unfolding time_Parse_def nums lit bind.simps prod.case Let_def
    by (simp add: nums del: append.simps)
qed

definition date_ok :: "int \<Rightarrow> int \<Rightarrow> int \<Rightarrow> int \<Rightarrow> int \<Rightarrow> int \<Rightarrow> bool" where
  "date_ok y m d h mi s \<longleftrightarrow> 0 \<le> y \<and> y < 10000 \<and> 1 \<le> m \<and> m \<le> 12 \<and> 1 \<le> d \<and> d \<le> days_in m y
     \<and> 0 \<le> h \<and> h < 24 \<and> 0 \<le> mi \<and> mi < 60 \<and> 0 \<le> s \<and> s < 60"

lemma time_Format_Date:
  assumes "date_ok y m d h mi s" and "0 \<le> ns" and "ns < ns_per_sec"
  shows "time_Format (time_Date y m d h mi s ns)
    = pad4 y @ ''-'' @ pad2 m @ ''-'' @ pad2 d @ ''T'' @ pad2 h @ '':'' @ pad2 mi @ '':'' @ pad2 s
      @ (if ns div 100000000 = 0 then [] else [CHR ''.'', digit_char (ns div 100000000)]) @ ''Z''"
proof -
  let ?D = "days_from_civil y m d"
  let ?sod = "h * 3600 + mi * 60 + s"
  have *: "(h * 60 + mi) * 60 + s = ?sod" by simp
  have b: "0 \<le> s" "s < 60" "0 \<le> mi" "mi < 60" "0 \<le> h" "h < 24"
    using assms(1) by (auto simp: date_ok_def)
  have sod: "0 \<le> ?sod" "?sod < 86400"
    using b by linarith+
  have "(a * 60 + s) div 60 = a" "(a * 60 + s) mod 60 = s" for a
    using b(1,2) by simp_all
  from this [of "h * 60 + mi"] have "?sod div 60 = h * 60 + mi" "?sod mod 60 = s"
    unfolding * by this+
  moreover have "(h * 60 + mi) mod 60 = mi" "(h * 60 + mi) div 60 = h"
    using b(3,4) by simp_all
  moreover have "?sod div 3600 = ?sod div 60 div 60"
    using zdiv_zmult2_eq [of 60 ?sod 60] by simp
  ultimately have parts: "?sod div 3600 = h" "?sod div 60 mod 60 = mi" "?sod mod 60 = s"
    by metis+
  have c: "civil_from_days ?D = (y, m, d)"
    using assms(1) by (intro civil_from_days_from_civil) (auto simp: date_ok_def)
  have t: "t_ns (time_Date y m d h mi s ns) = (?D * 86400 + ?sod) * ns_per_sec + ns"
    "t_zone (time_Date y m d h mi s ns) = 0"
    by (simp_all add: time_Date_def add.assoc)
  have ns: "(a * ns_per_sec + ns) div ns_per_sec = a" "(a * ns_per_sec + ns) mod ns_per_sec = ns" for a
    using assms(2,3) by (simp_all add: ns_per_sec_def)
  have day: "(?D * 86400 + ?sod) div 86400 = ?D" "(?D * 86400 + ?sod) mod 86400 = ?sod"
    using div_mult_self3 [of 86400 ?D ?sod] mod_mult_self3 [of ?D 86400 ?sod] sod
    by (simp_all only: div_pos_pos_trivial mod_pos_pos_trivial)
  show ?thesis
    unfolding time_Format_def Let_def t ns add_0_right day c prod.case parts by (rule refl)
qed

lemma time_Parse_Format_Date:
  assumes "date_ok y m d h mi s" and "0 \<le> ns" and "ns < ns_per_sec"
  shows "time_Parse (time_Format (time_Date y m d h mi s ns))
    = Some (time_Date y m d h mi s (ns div 100000000 * 100000000))"
  unfolding time_Format_Date [OF assms]
proof (rule time_Parse_fields)
  show "0 \<le> ns div 100000000" "ns div 100000000 < 10"
    using assms(2,3) by (simp_all add: ns_per_sec_def)
qed (use assms(1) in \<open>simp_all add: date_ok_def\<close>)

text \<open>What \<^verbatim>\<open>time.Parse\<close> accepts is a date, and its value is the instant of that date.\<close>

lemma digit_val_bounds: "is_digit c \<Longrightarrow> 0 \<le> digit_val c \<and> digit_val c \<le> 9"
  by (auto simp: is_digit_def digit_val_def less_eq_char_def)

lemma digits_val_bounds: "list_all is_digit ds \<Longrightarrow> 0 \<le> digits_val ds \<and> digits_val ds < 10 ^ length ds"
proof (induction ds rule: rev_induct)
  case (snoc c ds)
  then have "0 \<le> digit_val c" "digit_val c \<le> 9" "0 \<le> digits_val ds" "digits_val ds + 1 \<le> 10 ^ length ds"
    using digit_val_bounds [of c] by auto
  moreover have "digits_val (ds @ [c]) = digits_val ds * 10 + digit_val c"
    by (simp add: digits_val_def)
  ultimately show ?case by simp
qed (simp add: digits_val_def)

lemma digits2_bounds: "is_digit a \<Longrightarrow> is_digit b \<Longrightarrow> 0 \<le> digits_val [a, b]"
  using digits_val_bounds [of "[a, b]"] by simp

lemma getnum2_bounds: "getnum2 s = Some (n, r) \<Longrightarrow> 0 \<le> n"
  by (cases s rule: getnum2.cases) (auto split: if_splits dest: digits2_bounds)

lemma getnum12_bounds: "getnum12 s = Some (n, r) \<Longrightarrow> 0 \<le> n"
  by (cases s rule: getnum12.cases) (auto split: if_splits list.splits dest: digits2_bounds digit_val_bounds)

lemma get_year_bounds: "get_year s = Some (n, r) \<Longrightarrow> 0 \<le> n \<and> n < 10000"
proof (cases s rule: get_year.cases)
  case (1 a b c d r')
  moreover assume "get_year s = Some (n, r)"
  ultimately show ?thesis
    using digits_val_bounds [of "[a, b, c, d]"] by (auto split: if_splits)
qed simp_all

lemma get_frac_bounds: "get_frac s = (ns, r) \<Longrightarrow> 0 \<le> ns \<and> ns < ns_per_sec"
proof -
  have "0 \<le> digits_val ds * 10 ^ (9 - length ds) \<and> digits_val ds * 10 ^ (9 - length ds) < ns_per_sec"
    if "list_all is_digit ds" "length ds \<le> 9" for ds
  proof -
    have b: "0 \<le> digits_val ds" "digits_val ds < 10 ^ length ds"
      using digits_val_bounds [OF that(1)] by auto
    then have "digits_val ds * 10 ^ (9 - length ds) < 10 ^ length ds * 10 ^ (9 - length ds)"
      by (intro mult_strict_right_mono) simp_all
    also have "\<dots> = ns_per_sec"
      using that(2) by (simp add: ns_per_sec_def flip: power_add)
    finally show ?thesis using b(1) by simp
  qed
  moreover have "list_all is_digit (take 9 (takeWhile is_digit x))" for x
    by (metis list_all_append append_take_drop_id list_all_iff set_takeWhileD)
  moreover have "length (take 9 (takeWhile is_digit x)) \<le> 9" for x by simp
  ultimately have b: "0 \<le> digits_val (take 9 (takeWhile is_digit x)) * 10 ^ (9 - length (take 9 (takeWhile is_digit x)))
      \<and> digits_val (take 9 (takeWhile is_digit x)) * 10 ^ (9 - length (take 9 (takeWhile is_digit x))) < ns_per_sec" for x
    by blast
  assume "get_frac s = (ns, r)"
  then have "ns = 0 \<or> (\<exists>x. ns = digits_val (take 9 (takeWhile is_digit x)) * 10 ^ (9 - length (take 9 (takeWhile is_digit x))))"
    unfolding get_frac_def Let_def by (auto split: list.splits if_splits simp del: takeWhile.simps length_take)
  then show ?thesis
    using b by (auto simp: ns_per_sec_def simp del: length_take)
qed

lemma date_okI:
  "0 \<le> y \<Longrightarrow> y < 10000 \<Longrightarrow> 0 < m \<Longrightarrow> m \<le> 12 \<Longrightarrow> 1 \<le> d \<Longrightarrow> d \<le> days_in m y \<Longrightarrow>
     0 \<le> h \<Longrightarrow> h < 24 \<Longrightarrow> 0 \<le> mi \<Longrightarrow> mi < 60 \<Longrightarrow> 0 \<le> s \<Longrightarrow> s < 60 \<Longrightarrow> date_ok y m d h mi s"
  by (simp add: date_ok_def)

lemma time_Parse_Some:
  assumes "time_Parse v = Some t"
  obtains y m d h mi s ns where "date_ok y m d h mi s" and "0 \<le> ns" and "ns < ns_per_sec"
    and "t = time_Date y m d h mi s ns"
proof -
  have "\<exists>y m d h mi s ns. date_ok y m d h mi s \<and> 0 \<le> ns \<and> ns < ns_per_sec \<and> t = time_Date y m d h mi s ns"
    using assms
    by (auto simp: time_Parse_def not_le not_less split: bind_splits if_splits prod.splits
        dest!: get_year_bounds getnum2_bounds getnum12_bounds get_frac_bounds) (blast intro: date_okI)
  then show thesis using that by blast
qed

text \<open>
  A parsed time is printed as text that parses back to it, cut to a tenth of a second: the
  layout prints one fractional digit.
\<close>

lemma time_reparse:
  assumes "time_Parse v = Some t"
  shows "time_Parse (time_Format t) = Some (t\<lparr>t_ns := t_ns t div 100000000 * 100000000\<rparr>)"
proof -
  obtain y m d h mi s ns where dt: "date_ok y m d h mi s" "0 \<le> ns" "ns < ns_per_sec"
    "t = time_Date y m d h mi s ns"
    by (rule time_Parse_Some [OF assms])
  have "(a * ns_per_sec + ns) div 100000000 * 100000000 = a * ns_per_sec + ns div 100000000 * 100000000" for a
  proof -
    have "(a * 10 * 100000000 + ns) div 100000000 = a * 10 + ns div 100000000"
      by (rule div_mult_self3) simp
    moreover have "a * ns_per_sec = a * 10 * 100000000"
      by (simp add: ns_per_sec_def)
    ultimately show ?thesis
      by (simp only: distrib_right)
  qed
  then show ?thesis
    using time_Parse_Format_Date [OF dt(1-3)] unfolding dt(4) time_Date_def by simp
qed

lemma time_reparse_le:
  assumes "time_Parse v = Some t" and "time_Parse (time_Format t) = Some t'"
  shows "t_ns t' \<le> t_ns t" "t_ns t < t_ns t' + 100000000"
  using assms(2) unfolding time_reparse [OF assms(1)] by auto

end
