(* ===== verification/Util_Properties.thy ===== *)
theory Util_Properties
  imports Binding_Facts Example_Environment Go_Time_Facts
begin

text \<open>
  The properties of the shared packages: credentials, basic authentication, finalizers, time
  stamps, and the parameters and contexts of requests.
\<close>

section \<open>Credentials\<close>

text \<open>C35: The three loops that marshal credentials (of a fetched binding, of a bind and of a rotation)
  agree on every map and every order in which the language visits it: when every value can be
  marshalled each gives every key with its JSON, otherwise each fails.\<close>
theorem credential_loops_agree:
  assumes "range_laws R" and "map_ok m" and "gb_Credentials g = Some m" and "b_Credentials b = Some m"
  shows "if \<exists>kv \<in> set m. has_other (snd kv)
     then isl (MarshalBindingCredentials R g w) \<and> isl (GetCredsFromResponse R b w) \<and> isl (extractCredentials R b w)
     else MarshalBindingCredentials R g w = Inr (Some (marshalled m))
        \<and> GetCredsFromResponse R b w = Inr (marshalled m) \<and> extractCredentials R b w = Inr (marshalled m)"
proof (cases "\<exists>kv \<in> set m. has_other (snd kv)")
  case True
  then have bad: "\<exists>kv \<in> set (range_order R w m). enc (snd kv) = None"
    using assms(1) by (simp add: range_laws_def enc_None_iff flip: set_mset_mset)
  have "isl (MarshalMapValues R (Some m) w)"
    using MarshalMapValues_loop_err [OF bad, of "[]"] by (auto simp: MarshalMapValues_def)
  moreover have "isl (GetCredsFromResponse R b w)"
    using GetCredsFromResponse_loop_err [OF bad, of "[]"] assms(4) by (auto simp: GetCredsFromResponse_def)
  moreover from this have "isl (extractCredentials R b w)"
    using extractCredentials_loop_same [of "range_order R w m" "[]"] assms(4)
    by (cases "extractCredentials R b w") (auto simp: GetCredsFromResponse_def extractCredentials_def isl_def)
  ultimately show ?thesis
    using True assms(3) by (auto simp: MarshalBindingCredentials_def isl_def)
next
  case False
  then have ok: "\<forall>kv \<in> set m. \<not> has_other (snd kv)" by blast
  show ?thesis
    using False ok assms(2,3) MarshalMapValues_Inr [OF assms(1,2) ok] GetCredsFromResponse_Inr [OF assms(1,4,2) ok]
      extractCredentials_Inr [OF assms(1,4), unfolded creds_ok_def]
    by (simp add: MarshalBindingCredentials_def)
qed

theorem credential_loops_agree_witness:
  "isl (GetCredsFromResponse ex_R (ex_bind\<lparr>b_Credentials := Some [(''a'', AOther), (''b'', ANull)]\<rparr>) [])
   \<and> GetCredsFromResponse ex_R (ex_bind\<lparr>b_Credentials := Some [(''a'', ANull)]\<rparr>) [''w''] = Inr [(''a'', ''null'')]"
proof -
  have m: "map_ok [(''a'', AOther), (''b'', ANull)]" "map_ok [(''a'', ANull)]"
    by code_simp+
  from credential_loops_agree [OF ex_range_laws m(1), of "ex_get\<lparr>gb_Credentials := Some [(''a'', AOther), (''b'', ANull)]\<rparr>"
      "ex_bind\<lparr>b_Credentials := Some [(''a'', AOther), (''b'', ANull)]\<rparr>" "[]"]
  have "isl (GetCredsFromResponse ex_R (ex_bind\<lparr>b_Credentials := Some [(''a'', AOther), (''b'', ANull)]\<rparr>) [])"
    by simp
  moreover from credential_loops_agree [OF ex_range_laws m(2), of "ex_get\<lparr>gb_Credentials := Some [(''a'', ANull)]\<rparr>"
      "ex_bind\<lparr>b_Credentials := Some [(''a'', ANull)]\<rparr>" "[''w'']"]
  have "GetCredsFromResponse ex_R (ex_bind\<lparr>b_Credentials := Some [(''a'', ANull)]\<rparr>) [''w''] = Inr [(''a'', ''null'')]"
    by (simp add: marshalled_def)
  ultimately show ?thesis ..
qed

text \<open>C36: Basic-auth credentials survive the way from a secret to the client: the base64 text of a
  JSON document with a user name and a password, in either order, is decoded to that user name
  and password, when its members have the documented names \<open>user\<close> and \<open>password\<close>, and also when
  they are spelled in other cases, as the decoder of the language allows.\<close>
theorem basic_auth_roundtrip:
  assumes "utf8_fix u = u" and "utf8_fix p = p"
    and "(ku, kp) \<in> {(''user'', ''password''), (''User'', ''Password''), (''USER'', ''PASSWORD'')}"
    and "ms = [(ku, AStr u), (kp, AStr p)] \<or> ms = [(kp, AStr p), (ku, AStr u)]"
    and "enc (AObj ms) = Some t"
  shows "decodeB64StringToBasicAuthConfig (b64_enc t) = Inr \<lparr> ba_Username = u, ba_Password = p \<rparr>"
proof -
  have "nums_ok Some (AObj ms)" "nesting (AObj ms) \<le> max_nesting"
    using assms(4) by (auto simp: max_nesting_def)
  then have "parse_doc Some t = Some (repair (AObj ms))"
    using dec_enc_aux(1) [OF assms(5), of Some max_nesting "Suc (length t)" "[]"]
    by (simp add: parse_doc_def skip_ws_def)
  moreover have "utf8_fix ku = ku" "utf8_fix kp = kp" "fold_name ku = ''USER''" "fold_name kp = ''PASSWORD''"
    using assms(3) by (elim insertE emptyE; simp; code_simp)+
  ultimately have "unmarshal_auth t = Some \<lparr> ba_Username = u, ba_Password = p \<rparr>"
    using assms(1,2,4) by (auto simp: unmarshal_auth_def set_string_def)
  moreover have "b64_enc t \<noteq> []"
    using assms(5) by (cases t rule: b64_enc.cases) (auto split: option.splits list.splits)
  ultimately show ?thesis
    by (simp add: decodeB64StringToBasicAuthConfig_def DecodeString_enc)
qed

theorem basic_auth_roundtrip_witness:
  "\<exists>t. decodeB64StringToBasicAuthConfig (b64_enc t) = Inr \<lparr> ba_Username = ''me'', ba_Password = ''s3cret'' \<rparr>"
proof -
  have u: "utf8_fix ''me'' = ''me''" "utf8_fix ''s3cret'' = ''s3cret''" by code_simp+
  let ?ms = "[(''user'', AStr ''me''), (''password'', AStr ''s3cret'')]"
  have "enc (AObj ?ms) \<noteq> None" by code_simp
  then obtain t where "enc (AObj ?ms) = Some t" by auto
  from basic_auth_roundtrip [OF u, of "''user''" "''password''" ?ms t] this show ?thesis by auto
qed

section \<open>Finalizers\<close>

text \<open>C37: Guarding a binding with a finalizer is idempotent and undone by releasing it, with an API
  server that accepts updates and answers with the metadata it was sent, whatever it answers as
  specification and status: guarding sends one update if the finalizer was not there and none
  otherwise, guarding again sends none, and after the release exactly the other finalizers
  remain, under the same external name. What is sent has the specification and status of the
  object it was made of.\<close>
theorem finalizer_guard_and_release:
  assumes "finalizer_laws X" and "kube_updates_metadata X sb_ObjectMeta kube"
    and "HandleFinalizer kube sb f (AddFinalizerIfNotExists X sb_ObjectMeta sb_set_ObjectMeta) w = (e1, sb1, w1)"
    and "HandleFinalizer kube sb1 f (AddFinalizerIfNotExists X sb_ObjectMeta sb_set_ObjectMeta) w1 = (e2, sb2, w2)"
    and "HandleFinalizer kube sb2 f (RemoveFinalizerIfExists X sb_ObjectMeta sb_set_ObjectMeta) w2 = (e3, sb3, w3)"
  shows "e1 = None \<and> e2 = None \<and> e3 = None
    \<and> (if meta_FinalizerExists X (sb_ObjectMeta sb) f then sb1 = sb \<and> w1 = w
        else \<exists>s. kube_Update kube s w = (None, sb1, w1) \<and> sb_Spec s = sb_Spec sb \<and> sb_Status s = sb_Status sb)
    \<and> meta_FinalizerExists X (sb_ObjectMeta sb1) f
    \<and> sb2 = sb1 \<and> w2 = w1
    \<and> (\<exists>s. kube_Update kube s w2 = (None, sb3, w3) \<and> sb_Spec s = sb_Spec sb2 \<and> sb_Status s = sb_Status sb2)
    \<and> (\<forall>g. meta_FinalizerExists X (sb_ObjectMeta sb3) g \<longleftrightarrow> g \<noteq> f \<and> meta_FinalizerExists X (sb_ObjectMeta sb) g)
    \<and> sb_GetExternalName X sb3 = sb_GetExternalName X sb"
proof -
  let ?add = "AddFinalizerIfNotExists X sb_ObjectMeta sb_set_ObjectMeta"
  let ?rem = "RemoveFinalizerIfExists X sb_ObjectMeta sb_set_ObjectMeta"
  have set: "sb_ObjectMeta (snd (?add s f)) = (if meta_FinalizerExists X (sb_ObjectMeta s) f then sb_ObjectMeta s
        else meta_AddFinalizer X (sb_ObjectMeta s) f)"
    "sb_Spec (snd (?add s f)) = sb_Spec s" "sb_Status (snd (?add s f)) = sb_Status s"
    "sb_ObjectMeta (snd (?rem s f)) = (if meta_FinalizerExists X (sb_ObjectMeta s) f
        then meta_RemoveFinalizer X (sb_ObjectMeta s) f else sb_ObjectMeta s)"
    "sb_Spec (snd (?rem s f)) = sb_Spec s" "sb_Status (snd (?rem s f)) = sb_Status s" for s
    by (simp_all add: AddFinalizerIfNotExists_def RemoveFinalizerIfExists_def sb_set_ObjectMeta_def)
  note laws = assms(1) [unfolded finalizer_laws_def]
  have 1: "e1 = None" "\<And>g. meta_FinalizerExists X (sb_ObjectMeta sb1) g \<longleftrightarrow> g = f \<or> meta_FinalizerExists X (sb_ObjectMeta sb) g"
    "meta_GetExternalName X (sb_ObjectMeta sb1) = meta_GetExternalName X (sb_ObjectMeta sb)"
    using HandleFinalizer_updated [OF assms(2), of sb f ?add w] assms(3) laws by (auto simp: set(1))
  have first: "if meta_FinalizerExists X (sb_ObjectMeta sb) f then sb1 = sb \<and> w1 = w
      else \<exists>s. kube_Update kube s w = (None, sb1, w1) \<and> sb_Spec s = sb_Spec sb \<and> sb_Status s = sb_Status sb"
  proof (cases "meta_FinalizerExists X (sb_ObjectMeta sb) f")
    case False
    then have "kube_Update kube (snd (?add sb f)) w = (None, sb1, w1)"
      using assms(3) 1(1) by (simp add: HandleFinalizer_def AddFinalizerIfNotExists_def)
    with False set(2,3) show ?thesis by auto
  qed (use assms(3) in \<open>simp add: HandleFinalizer_def AddFinalizerIfNotExists_def\<close>)
  have 2: "e2 = None" "sb2 = sb1" "w2 = w1"
    using assms(4) 1(2) [of f] by (simp_all add: HandleFinalizer_def AddFinalizerIfNotExists_def)
  have 3: "e3 = None" "\<And>g. meta_FinalizerExists X (sb_ObjectMeta sb3) g \<longleftrightarrow> g \<noteq> f \<and> meta_FinalizerExists X (sb_ObjectMeta sb2) g"
    "meta_GetExternalName X (sb_ObjectMeta sb3) = meta_GetExternalName X (sb_ObjectMeta sb2)"
    using HandleFinalizer_updated [OF assms(2), of sb2 f ?rem w2] assms(5) laws by (auto simp: set(4))
  have "kube_Update kube (snd (?rem sb2 f)) w2 = (None, sb3, w3)"
    using assms(5) 1(2) [of f] 2 3(1) by (auto simp: HandleFinalizer_def RemoveFinalizerIfExists_def)
  with set(5,6) have "\<exists>s. kube_Update kube s w2 = (None, sb3, w3) \<and> sb_Spec s = sb_Spec sb2 \<and> sb_Status s = sb_Status sb2"
    by blast
  with first show ?thesis
    using 1 2 3 by (simp add: sb_GetExternalName_def) blast
qed

theorem finalizer_guard_and_release_witness:
  "\<exists>sb1 w1 sb3 w3.
     HandleFinalizer ex_kube ex_bound ''f'' (AddFinalizerIfNotExists ex_X sb_ObjectMeta sb_set_ObjectMeta) [] = (None, sb1, w1)
     \<and> HandleFinalizer ex_kube sb1 ''f'' (RemoveFinalizerIfExists ex_X sb_ObjectMeta sb_set_ObjectMeta) w1 = (None, sb3, w3)
     \<and> \<not> meta_FinalizerExists ex_X (sb_ObjectMeta sb3) ''f''"
proof -
  let ?add = "AddFinalizerIfNotExists ex_X sb_ObjectMeta sb_set_ObjectMeta"
  let ?rem = "RemoveFinalizerIfExists ex_X sb_ObjectMeta sb_set_ObjectMeta"
  obtain e1 sb1 w1 where 1: "HandleFinalizer ex_kube ex_bound ''f'' ?add [] = (e1, sb1, w1)" by (metis prod_cases3)
  obtain e2 sb2 w2 where 2: "HandleFinalizer ex_kube sb1 ''f'' ?add w1 = (e2, sb2, w2)" by (metis prod_cases3)
  obtain e3 sb3 w3 where 3: "HandleFinalizer ex_kube sb2 ''f'' ?rem w2 = (e3, sb3, w3)" by (metis prod_cases3)
  from finalizer_guard_and_release [OF ex_finalizer_laws ex_kube_updates_metadata 1 2 3] 1 3 show ?thesis by blast
qed

section \<open>Time stamps\<close>

text \<open>C38: The warnings about a binding's expiry name the broker's expiry: the message of the health
  condition ends in a time that parses back, to the tenth of a second below, to the time the
  broker reported, and the binding is unhealthy from then on.\<close>
theorem expiry_warning_names_expiry:
  assumes "condition_laws X" and "ParseISO8601Time v field = Inr t"
  defines "c s \<equiv> xp_GetCondition X (sbst_ResourceStatus (sb_Status s)) TypeHealthy"
  shows "\<exists>text t'. ParseISO8601Time text field = Inr t' \<and> t_ns t' \<le> t_ns t \<and> t_ns t < t_ns t' + 100000000
    \<and> c_Message (c (MarkBindingAsExpiringSoon X sb t)) = ''warning: the binding will expire soon '' @ text
    \<and> c_Status (c (MarkBindingAsExpiringSoon X sb t)) = ConditionFalse
    \<and> (case MarkBindingIfExpired X R sb t w of (expired, sb', w') \<Rightarrow>
         (expired \<longleftrightarrow> t_ns t < t_ns (fst (time_Now R w)))
         \<and> (if expired then c_Status (c sb') = ConditionFalse
              \<and> c_Message (c sb') = ''warning: the binding has expired '' @ text else sb' = sb))"
proof -
  have p: "time_Parse v = Some t"
    using assms(2) by (simp add: ParseISO8601Time_def split: option.splits)
  then obtain t' where t': "time_Parse (time_Format t) = Some t'"
    using time_reparse by blast
  have "ParseISO8601Time (time_Format t) field = Inr t'"
    using t' by (simp add: ParseISO8601Time_def)
  moreover note time_reparse_le [OF p t']
  moreover have set: "c_Status (c (sb_SetConditions X [k] sb)) = c_Status k \<and> c_Message (c (sb_SetConditions X [k] sb)) = c_Message k"
    if "c_Type k = TypeHealthy" for k
    using assms(1) that unfolding c_def sb_last.conds_set condition_laws_def by metis
  ultimately show ?thesis
    by (intro exI [of _ "time_Format t"] exI [of _ t'])
      (auto simp: MarkBindingAsExpiringSoon_def MarkBindingIfExpired_def time_Before_def split: prod.splits)
qed

theorem expiry_warning_names_expiry_witness:
  "\<exists>text t'. ParseISO8601Time text ''expiresAt'' = Inr t'
     \<and> c_Message (xp_GetCondition ex_X (sbst_ResourceStatus (sb_Status (MarkBindingAsExpiringSoon ex_X ex_bound
          (time_Date 2025 2 28 23 59 59 987654321)))) TypeHealthy) = ''warning: the binding will expire soon '' @ text"
proof -
  have "ParseISO8601Time ''2025-02-28T23:59:59.987654321Z'' ''expiresAt'' = Inr (time_Date 2025 2 28 23 59 59 987654321)"
    by code_simp
  from expiry_warning_names_expiry [OF ex_condition_laws this, of ex_bound ex_R "[]"] show ?thesis by blast
qed

section \<open>Parameters and context\<close>

text \<open>C40: The context object that goes into every request exists for every context and has exactly the
  context's fields; annotations are left out when there are none.\<close>
theorem context_of_request:
  "\<exists>m. KubernetesOSBContext_ToMap R c = Inr (Some m) \<and> map_ok m
    \<and> map_get m ''platform'' = Some (AStr (utf8_fix (kc_Platform c)))
    \<and> map_get m ''namespace'' = Some (AStr (utf8_fix (kc_Namespace c)))
    \<and> map_get m ''clusterId'' = Some (AStr (utf8_fix (kc_ClusterId c)))
    \<and> map_get m ''instanceName'' = Some (AStr (utf8_fix (kc_InstanceName c)))
    \<and> (map_get m ''namespaceAnnotations'' = None \<longleftrightarrow> kc_NamespaceAnnotations c \<in> {None, Some []})
    \<and> (map_get m ''instanceAnnotations'' = None \<longleftrightarrow> kc_InstanceAnnotations c \<in> {None, Some []})
    \<and> fst ` set m \<subseteq> {''platform'', ''namespace'', ''namespaceAnnotations'', ''instanceAnnotations'', ''clusterId'', ''instanceName''}"
proof -
  define kp kn ka ia kc ki where keys: "kp = ''platform''" "kn = ''namespace''" "ka = ''namespaceAnnotations''"
    "ia = ''instanceAnnotations''" "kc = ''clusterId''" "ki = ''instanceName''"
  have d: "distinct [kp, kn, ka, ia, kc, ki]"
    unfolding keys by code_simp
  have k: "utf8_fix kp = kp" "utf8_fix kn = kn" "utf8_fix ka = ka" "utf8_fix ia = ia" "utf8_fix kc = kc" "utf8_fix ki = ki"
    unfolding keys by code_simp+
  have opt: "\<exists>vs. map (\<lambda>(k, v). (utf8_fix k, canon v)) (omitempty_map x m) = map (Pair (utf8_fix x)) vs
      \<and> (vs = [] \<longleftrightarrow> m \<in> {None, Some []}) \<and> length vs \<le> 1" for x m
    by (cases m) (auto simp: omitempty_map_def intro: exI [of _ "[]"] exI [of _ "[v]" for v])
  obtain us where us: "map (\<lambda>(k, v). (utf8_fix k, canon v)) (omitempty_map ka (kc_NamespaceAnnotations c)) = map (Pair ka) us"
      "us = [] \<longleftrightarrow> kc_NamespaceAnnotations c \<in> {None, Some []}"
    using opt [of ka "kc_NamespaceAnnotations c"] k by auto
  obtain vs where vs: "map (\<lambda>(k, v). (utf8_fix k, canon v)) (omitempty_map ia (kc_InstanceAnnotations c)) = map (Pair ia) vs"
      "vs = [] \<longleftrightarrow> kc_InstanceAnnotations c \<in> {None, Some []}"
    using opt [of ia "kc_InstanceAnnotations c"] k by auto
  define kvs where "kvs = (kp, AStr (utf8_fix (kc_Platform c))) # (kn, AStr (utf8_fix (kc_Namespace c)))
      # map (Pair ka) us @ map (Pair ia) vs
      @ [(kc, AStr (utf8_fix (kc_ClusterId c))), (ki, AStr (utf8_fix (kc_InstanceName c)))]"
  have "map (\<lambda>(k, v). (utf8_fix k, canon v)) (context_members c) = kvs"
    unfolding context_members_def kvs_def keys [symmetric] map_append us(1) vs(1) using k by simp
  then have m: "KubernetesOSBContext_ToMap R c = Inr (Some (map_build kvs))"
    by (simp add: ToMap_value)
  have none: "x \<noteq> y \<Longrightarrow> map_of (rev (map (Pair x) ws)) y = None"
    and some: "map_of (rev (map (Pair x) ws)) x = None \<longleftrightarrow> ws = []" for x y :: string and ws :: "gany list"
    by (cases ws; auto simp: map_of_eq_None_iff image_image)+
  have neq: "kp \<noteq> kn" "kn \<noteq> kp" "ka \<noteq> kp" "kp \<noteq> ka" "ia \<noteq> kp" "kp \<noteq> ia" "kc \<noteq> kp" "kp \<noteq> kc" "ki \<noteq> kp" "kp \<noteq> ki"
    "ka \<noteq> kn" "kn \<noteq> ka" "ia \<noteq> kn" "kn \<noteq> ia" "kc \<noteq> kn" "kn \<noteq> kc" "ki \<noteq> kn" "kn \<noteq> ki" "ia \<noteq> ka" "ka \<noteq> ia"
    "kc \<noteq> ka" "ka \<noteq> kc" "ki \<noteq> ka" "ka \<noteq> ki" "kc \<noteq> ia" "ia \<noteq> kc" "ki \<noteq> ia" "ia \<noteq> ki" "ki \<noteq> kc" "kc \<noteq> ki"
    using d by auto
  have "map_get (map_build kvs) x = map_of ([(ki, AStr (utf8_fix (kc_InstanceName c))), (kc, AStr (utf8_fix (kc_ClusterId c)))]
      @ rev (map (Pair ia) vs) @ rev (map (Pair ka) us)
      @ [(kn, AStr (utf8_fix (kc_Namespace c))), (kp, AStr (utf8_fix (kc_Platform c)))]) x" for x
    by (simp add: map_get_build kvs_def rev_map)
  then have g: "map_get (map_build kvs) kp = Some (AStr (utf8_fix (kc_Platform c)))"
    "map_get (map_build kvs) kn = Some (AStr (utf8_fix (kc_Namespace c)))"
    "map_get (map_build kvs) kc = Some (AStr (utf8_fix (kc_ClusterId c)))"
    "map_get (map_build kvs) ki = Some (AStr (utf8_fix (kc_InstanceName c)))"
    "map_get (map_build kvs) ka = None \<longleftrightarrow> us = []" "map_get (map_build kvs) ia = None \<longleftrightarrow> vs = []"
    by (simp_all add: map_add_def neq none some split: option.split) auto
  have s: "fst ` set (map_build kvs) \<subseteq> {kp, kn, ka, ia, kc, ki}"
    unfolding keys_map_build by (auto simp: kvs_def)
  show ?thesis
    unfolding keys [symmetric]
    by (intro exI [of _ "map_build kvs"] conjI m map_ok_build g(1-4) s) (simp_all only: g(5,6) us(2) vs(2))
qed

end
