(* ===== verification/Go_Memory.thy ===== *)
theory Go_Memory
  imports Prelude
begin

text \<open>
  The memory of a Go program, for the code whose meaning is what it shares and what it does
  not: pointers, maps and slices are references to cells of a heap, structs are values. The
  heap is the list of its cells, so that an allocation never moves or reuses one.

  The locale \<open>deep_copy\<close> is the contract of the \<^verbatim>\<open>DeepCopyInto\<close> methods that
  \<^verbatim>\<open>controller-gen\<close> writes. Its lemmas are what the callers rely on: the copy has the value
  of the original, shares no cell with it, and neither sees a later write through the other.
  The rules after it build the contract of a struct from those of its fields, of a pointer
  from that of its target, and of a slice of structs from that of its elements.
\<close>

section \<open>Heaps\<close>

type_synonym addr = nat
type_synonym 'c heap = "'c list"

definition alloc :: "'c \<Rightarrow> 'c heap \<Rightarrow> addr \<times> 'c heap" where
  "alloc c h = (length h, h @ [c])"

definition load :: "addr \<Rightarrow> 'c heap \<Rightarrow> 'c" where
  "load a h = h ! a"

definition store :: "addr \<Rightarrow> 'c \<Rightarrow> 'c heap \<Rightarrow> 'c heap" where
  "store a c h = h[a := c]"

text \<open>The cells at the addresses \<open>A\<close> are the same in a later heap.\<close>

definition kept :: "addr set \<Rightarrow> 'c heap \<Rightarrow> 'c heap \<Rightarrow> bool" where
  "kept A h h' \<longleftrightarrow> (\<forall>a\<in>A. a < length h' \<and> h' ! a = h ! a)"

lemma kept_Un [simp]: "kept (A \<union> B) h h' \<longleftrightarrow> kept A h h' \<and> kept B h h'"
  by (auto simp: kept_def)

lemma kept_insert [simp]:
  "kept (insert a A) h h' \<longleftrightarrow> a < length h' \<and> h' ! a = h ! a \<and> kept A h h'"
  by (auto simp: kept_def)

lemma kept_empty [simp]: "kept {} h h'"
  by (simp add: kept_def)

lemma kept_UNION [simp]: "kept (\<Union>x\<in>X. A x) h h' \<longleftrightarrow> (\<forall>x\<in>X. kept (A x) h h')"
  by (auto simp: kept_def)

lemma kept_append [intro]: "(\<And>a. a \<in> A \<Longrightarrow> a < length h) \<Longrightarrow> kept A h (h @ new)"
  by (force simp: kept_def nth_append)

lemma kept_update [intro]: "(\<And>a. a \<in> A \<Longrightarrow> a < length h) \<Longrightarrow> b \<notin> A \<Longrightarrow> kept A h (h[b := c])"
  by (auto simp: kept_def) (metis nth_list_update_neq)

text \<open>What a program does to memory after it has taken a copy: it allocates and it stores.\<close>

datatype 'c mem_op = Alloc 'c | Store addr 'c

fun mem_run :: "'c mem_op list \<Rightarrow> 'c heap \<Rightarrow> 'c heap" where
  "mem_run [] h = h"
| "mem_run (Alloc c # ops) h = mem_run ops (snd (alloc c h))"
| "mem_run (Store a c # ops) h = mem_run ops (store a c h)"

fun stored :: "'c mem_op list \<Rightarrow> addr set" where
  "stored [] = {}"
| "stored (Alloc c # ops) = stored ops"
| "stored (Store a c # ops) = insert a (stored ops)"

lemma mem_run_kept:
  "(\<And>a. a \<in> A \<Longrightarrow> a < length h) \<Longrightarrow> A \<inter> stored ops = {} \<Longrightarrow> kept A h (mem_run ops h)"
proof (induction ops h rule: mem_run.induct)
  case (1 h)
  then show ?case by (simp add: kept_def)
next
  case (2 c ops h)
  then have "kept A (h @ [c]) (mem_run ops (h @ [c]))"
    by (auto simp: alloc_def dest: less_SucI)
  with 2(2) show ?case by (auto simp: alloc_def kept_def nth_append)
next
  case (3 a c ops h)
  then have "kept A (h[a := c]) (mem_run ops (h[a := c]))" and "a \<notin> A"
    by (auto simp: store_def)
  moreover have "kept A h (h[a := c])" by (rule kept_update) (use 3(2) \<open>a \<notin> A\<close> in auto)
  ultimately show ?case by (auto simp: store_def kept_def)
qed

section \<open>The contract of a deep copy\<close>

text \<open>
  \<open>into x h\<close> is the struct that \<^verbatim>\<open>DeepCopyInto\<close> stores behind its argument, and the heap it
  leaves. \<open>fp\<close> is the set of the cells that are reached from a struct, \<open>ok\<close> says that its references lead to cells of
  the right type, and \<open>view\<close> is its value with the references resolved.
\<close>

locale deep_copy =
  fixes into :: "'a \<Rightarrow> 'c heap \<Rightarrow> 'a \<times> 'c heap"
    and fp :: "'c heap \<Rightarrow> 'a \<Rightarrow> addr set"
    and ok :: "'c heap \<Rightarrow> 'a \<Rightarrow> bool"
    and view :: "'c heap \<Rightarrow> 'a \<Rightarrow> 'v"
  assumes fp_bound: "ok h x \<Longrightarrow> a \<in> fp h x \<Longrightarrow> a < length h"
    and frame_fp: "ok h x \<Longrightarrow> kept (fp h x) h h' \<Longrightarrow> fp h' x = fp h x"
    and frame_ok: "ok h x \<Longrightarrow> kept (fp h x) h h' \<Longrightarrow> ok h' x"
    and frame_view: "ok h x \<Longrightarrow> kept (fp h x) h h' \<Longrightarrow> view h' x = view h x"
    and extends: "ok h x \<Longrightarrow> into x h = (y, h') \<Longrightarrow> \<exists>new. h' = h @ new"
    and copy_ok: "ok h x \<Longrightarrow> into x h = (y, h') \<Longrightarrow> ok h' y"
    and copy_view: "ok h x \<Longrightarrow> into x h = (y, h') \<Longrightarrow> view h' y = view h x"
    and copy_fresh: "ok h x \<Longrightarrow> into x h = (y, h') \<Longrightarrow> a \<in> fp h' y \<Longrightarrow> length h \<le> a"
begin

lemma kept_later: "ok h x \<Longrightarrow> kept (fp h x) h (h @ new)"
  using fp_bound by blast

lemma later:
  assumes "ok h x"
  shows "fp (h @ new) x = fp h x" "ok (h @ new) x" "view (h @ new) x = view h x"
  using frame_fp frame_ok frame_view kept_later assms by blast+

lemma original_kept:
  assumes "ok h x" and "into x h = (y, h')"
  shows "fp h' x = fp h x" "ok h' x" "view h' x = view h x"
  using extends [OF assms] later [OF assms(1)] by auto

lemma separate:
  assumes "ok h x" and "into x h = (y, h')"
  shows "fp h' x \<inter> fp h' y = {}"
  using original_kept(1) [OF assms] copy_fresh [OF assms] fp_bound [OF assms(1)] by fastforce

lemma run_kept:
  assumes "ok h x" and "fp h x \<inter> stored ops = {}"
  shows "view (mem_run ops h) x = view h x"
  using assms by (blast intro: frame_view mem_run_kept fp_bound)

text \<open>
  A run that is given only one of the two structs stores in the cells reached from it or in
  cells it has allocated itself: the other struct does not change.
\<close>

theorem independent:
  assumes "ok h x" and "into x h = (y, h')"
  shows "stored ops \<subseteq> fp h' x \<union> {length h'..} \<Longrightarrow> view (mem_run ops h') y = view h x"
    and "stored ops \<subseteq> fp h' y \<union> {length h'..} \<Longrightarrow> view (mem_run ops h') x = view h x"
proof -
  have "fp h' y \<inter> {length h'..} = {}" "fp h' x \<inter> {length h'..} = {}"
    using fp_bound [OF copy_ok [OF assms]] fp_bound [OF original_kept(2) [OF assms]] by fastforce+
  note away = this separate [OF assms]
  show "view (mem_run ops h') y = view h x" if "stored ops \<subseteq> fp h' x \<union> {length h'..}"
  proof -
    have "fp h' y \<inter> stored ops = {}" using that away by blast
    from run_kept [OF copy_ok [OF assms] this] show ?thesis by (simp only: copy_view [OF assms])
  qed
  show "view (mem_run ops h') x = view h x" if "stored ops \<subseteq> fp h' y \<union> {length h'..}"
  proof -
    have "fp h' x \<inter> stored ops = {}" using that away by blast
    from run_kept [OF original_kept(2) [OF assms] this] show ?thesis by (simp only: original_kept(3) [OF assms])
  qed
qed

lemma copy_step:
  assumes "ok h x" and "into x h = (y, h')"
  obtains new where "h' = h @ new" "ok h' y" "view h' y = view h x" "\<And>a. a \<in> fp h' y \<Longrightarrow> length h \<le> a"
  using extends [OF assms] copy_ok [OF assms] copy_view [OF assms] copy_fresh [OF assms] that by blast

end

lemma deep_copyI:
  assumes "\<And>h x a. ok h x \<Longrightarrow> a \<in> fp h x \<Longrightarrow> a < length h"
    and "\<And>h x h'. ok h x \<Longrightarrow> kept (fp h x) h h' \<Longrightarrow> fp h' x = fp h x \<and> ok h' x \<and> view h' x = view h x"
    and "\<And>h x y h'. ok h x \<Longrightarrow> into x h = (y, h') \<Longrightarrow>
      (\<exists>new. h' = h @ new) \<and> ok h' y \<and> view h' y = view h x \<and> (\<forall>a\<in>fp h' y. length h \<le> a)"
  shows "deep_copy into fp ok view"
proof
  fix h x a assume "ok h x" "a \<in> fp h x" then show "a < length h" by (rule assms(1))
next
  fix h x h' assume "ok h x" "kept (fp h x) h h'"
  from assms(2) [OF this] show "fp h' x = fp h x" "ok h' x" "view h' x = view h x" by simp_all
next
  fix h x y h' assume "ok h x" "into x h = (y, h')"
  from assms(3) [OF this]
  show "\<exists>new. h' = h @ new" "ok h' y" "view h' y = view h x" "\<And>a. a \<in> fp h' y \<Longrightarrow> length h \<le> a"
    by simp_all
qed

text \<open>Only valid structs matter.\<close>

lemma deep_copy_cong:
  assumes dc: "deep_copy c fp ok v" and eq: "\<And>h x. ok h x \<Longrightarrow> into x h = c x h"
  shows "deep_copy into fp ok v"
proof (rule deep_copyI, goal_cases)
  case (1 h x a)
  then show ?case by (rule deep_copy.fp_bound [OF dc])
next
  case (2 h x h')
  from deep_copy.frame_fp [OF dc this] deep_copy.frame_ok [OF dc this] deep_copy.frame_view [OF dc this]
  show ?case by simp
next
  case (3 h x y h')
  have "c x h = (y, h')" using 3(2) eq [OF 3(1)] by simp
  note run = 3(1) this
  show ?case
    using deep_copy.extends [OF dc run] deep_copy.copy_ok [OF dc run] deep_copy.copy_view [OF dc run]
      deep_copy.copy_fresh [OF dc run]
    by blast
qed

section \<open>Structs\<close>

text \<open>A struct without references is copied by the assignment.\<close>

lemma deep_copy_flat: "deep_copy Pair (\<lambda>h x. {}) (\<lambda>h. P) (\<lambda>h. V)"
  by unfold_locales auto

definition copy_both where
  "copy_both c1 c2 p h =
     (case p of (x1, x2) \<Rightarrow> case c1 x1 h of (y1, h1) \<Rightarrow> case c2 x2 h1 of (y2, h2) \<Rightarrow> ((y1, y2), h2))"

lemma deep_copy_both:
  assumes "deep_copy c1 fp1 ok1 v1" and "deep_copy c2 fp2 ok2 v2"
  shows "deep_copy (copy_both c1 c2) (\<lambda>h p. fp1 h (fst p) \<union> fp2 h (snd p))
           (\<lambda>h p. ok1 h (fst p) \<and> ok2 h (snd p)) (\<lambda>h p. (v1 h (fst p), v2 h (snd p)))"
proof (rule deep_copyI, goal_cases)
  case (1 h x a)
  then show ?case using deep_copy.fp_bound [OF assms(1)] deep_copy.fp_bound [OF assms(2)] by fastforce
next
  case (2 h x h')
  then have "ok1 h (fst x)" "kept (fp1 h (fst x)) h h'" "ok2 h (snd x)" "kept (fp2 h (snd x)) h h'"
    by simp_all
  note ok = this
  show ?case
    using deep_copy.frame_fp [OF assms(1) ok(1,2)] deep_copy.frame_ok [OF assms(1) ok(1,2)]
      deep_copy.frame_view [OF assms(1) ok(1,2)] deep_copy.frame_fp [OF assms(2) ok(3,4)]
      deep_copy.frame_ok [OF assms(2) ok(3,4)] deep_copy.frame_view [OF assms(2) ok(3,4)]
    by simp
next
  case (3 h x y h')
  obtain x1 x2 y1 y2 h1 where x: "x = (x1, x2)" and y: "y = (y1, y2)"
    and 1: "c1 x1 h = (y1, h1)" and 2: "c2 x2 h1 = (y2, h')"
    using 3(2) by (auto simp: copy_both_def split: prod.splits)
  have ok: "ok1 h x1" "ok2 h x2" using 3(1) x by auto
  obtain n1 where n1: "h1 = h @ n1" "ok1 h1 y1" "v1 h1 y1 = v1 h x1" "\<And>a. a \<in> fp1 h1 y1 \<Longrightarrow> length h \<le> a"
    using deep_copy.copy_step [OF assms(1) ok(1) 1] by blast
  note x2 = deep_copy.later [OF assms(2) ok(2), of n1, folded n1(1)]
  obtain n2 where n2: "h' = h1 @ n2" "ok2 h' y2" "v2 h' y2 = v2 h1 x2" "\<And>a. a \<in> fp2 h' y2 \<Longrightarrow> length h1 \<le> a"
    using deep_copy.copy_step [OF assms(2) x2(2) 2] by blast
  note y1 = deep_copy.later [OF assms(1) n1(2), of n2, folded n2(1)]
  have "\<forall>a\<in>fp2 h' y2. length h \<le> a" using n2(4) n1(1) by fastforce
  moreover have "h' = h @ (n1 @ n2)" using n1(1) n2(1) by simp
  ultimately show ?case using n1(3,4) n2(2,3) x2(3) y1 x y by auto
qed

text \<open>
  A struct is copied by copying some of its fields, which \<open>get\<close> reads and \<open>put\<close> writes, after
  the assignment has copied the others.
\<close>

lemma deep_copy_struct:
  assumes fields: "deep_copy c f k v"
    and into: "\<And>x h. into x h = (case c (get x) h of (y, h') \<Rightarrow> (put y x, h'))"
    and lens: "\<And>x y. get (put y x) = y" "\<And>x. put (get x) x = x"
    and fp: "\<And>h x. fp h x = f h (get x)"
    and ok: "\<And>h x. ok h x \<longleftrightarrow> k h (get x)"
    and view: "\<And>h h' x y. v h' y = v h (get x) \<Longrightarrow> view h' (put y x) = view h x"
  shows "deep_copy into fp ok view"
proof (rule deep_copyI, goal_cases)
  case (1 h x a)
  then show ?case using deep_copy.fp_bound [OF fields] by (simp add: fp ok)
next
  case (2 h x h')
  then have "k h (get x)" "kept (f h (get x)) h h'" by (simp_all add: fp ok)
  note same = deep_copy.frame_fp [OF fields this] deep_copy.frame_ok [OF fields this]
    deep_copy.frame_view [OF fields this]
  from same show ?case using view [of h' "get x" h x] by (simp add: fp ok lens)
next
  case (3 h x y h')
  obtain z where z: "c (get x) h = (z, h')" "y = put z x"
    using 3(2) by (auto simp: into split: prod.splits)
  obtain new where "h' = h @ new" "k h' z" "v h' z = v h (get x)" "\<And>a. a \<in> f h' z \<Longrightarrow> length h \<le> a"
    using deep_copy.copy_step [OF fields 3(1) [unfolded ok] z(1)] by blast
  then show ?case using view [of h' z h x] by (auto simp: fp ok lens z(2))
qed

section \<open>References\<close>

text \<open>A nil reference is None. \<open>the_cell\<close> reads a cell as one of the type it points to.\<close>

definition copy_ptr :: "('a \<Rightarrow> 'c) \<Rightarrow> ('c \<Rightarrow> 'a option) \<Rightarrow> 'a \<Rightarrow> ('a \<Rightarrow> 'c heap \<Rightarrow> 'a \<times> 'c heap)
    \<Rightarrow> addr option \<Rightarrow> 'c heap \<Rightarrow> addr option \<times> 'c heap" where
  "copy_ptr mk cell zero into p h =
     (case p of
        None \<Rightarrow> (None, h)
      | Some a \<Rightarrow>
          (case alloc (mk zero) h of (b, h1) \<Rightarrow>
           case into (the (cell (load a h1))) h1 of (y, h2) \<Rightarrow> (Some b, store b (mk y) h2)))"

definition ptr_fp where
  "ptr_fp cell fp h p = (case p of None \<Rightarrow> {} | Some a \<Rightarrow> insert a (fp h (the (cell (load a h)))))"

definition ptr_ok where
  "ptr_ok cell ok h p = (case p of None \<Rightarrow> True
     | Some a \<Rightarrow> a < length h \<and> (case cell (load a h) of None \<Rightarrow> False | Some x \<Rightarrow> ok h x))"

definition ptr_view where
  "ptr_view cell view h p = map_option (\<lambda>a. view h (the (cell (load a h)))) p"

lemma deep_copy_ptr:
  assumes dc: "deep_copy into fp ok view" and cell: "\<And>x. cell (mk x) = Some x"
  shows "deep_copy (copy_ptr mk cell zero into) (ptr_fp cell fp) (ptr_ok cell ok) (ptr_view cell view)"
proof (rule deep_copyI, goal_cases)
  case (1 h x a)
  then show ?case
    using deep_copy.fp_bound [OF dc] by (auto simp: ptr_fp_def ptr_ok_def split: option.splits)
next
  case (2 h x h')
  show ?case
  proof (cases x)
    case None
    then show ?thesis by (simp add: ptr_fp_def ptr_ok_def ptr_view_def)
  next
    case (Some a)
    with 2 obtain z where z: "cell (load a h) = Some z" "ok h z" "a < length h"
      by (auto simp: ptr_ok_def split: option.splits)
    have k: "kept (fp h z) h h'" "a < length h'" "load a h' = load a h"
      using 2(2) Some z by (simp_all add: ptr_fp_def load_def)
    show ?thesis
      using deep_copy.frame_fp [OF dc z(2) k(1)] deep_copy.frame_ok [OF dc z(2) k(1)]
        deep_copy.frame_view [OF dc z(2) k(1)] k Some z
      by (simp add: ptr_fp_def ptr_ok_def ptr_view_def)
  qed
next
  case (3 h x y h')
  show ?case
  proof (cases x)
    case None
    with 3 show ?thesis by (auto simp: copy_ptr_def ptr_fp_def ptr_ok_def ptr_view_def)
  next
    case (Some a)
    with 3 obtain z where z: "cell (load a h) = Some z" "ok h z" "a < length h"
      by (auto simp: ptr_ok_def split: option.splits)
    let ?h1 = "h @ [mk zero]"
    note z1 = deep_copy.later [OF dc z(2), of "[mk zero]"]
    obtain w h2 where w: "into z ?h1 = (w, h2)" by (cases "into z ?h1")
    obtain new where new: "h2 = ?h1 @ new" "ok h2 w" "view h2 w = view ?h1 z"
      "\<And>c. c \<in> fp h2 w \<Longrightarrow> length ?h1 \<le> c"
      using deep_copy.copy_step [OF dc z1(2) w] by blast
    let ?h' = "h2[length h := mk w]"
    have r: "y = Some (length h)" "h' = ?h'"
      using 3(2) Some z w by (simp_all add: copy_ptr_def alloc_def load_def store_def nth_append)
    have k: "kept (fp h2 w) h2 ?h'"
      using new(4) by (fastforce intro!: kept_update deep_copy.fp_bound [OF dc new(2)])
    note w' = deep_copy.frame_fp [OF dc new(2) k] deep_copy.frame_ok [OF dc new(2) k]
      deep_copy.frame_view [OF dc new(2) k]
    have h': "?h' = h @ mk w # new" "load (length h) ?h' = mk w"
      using new(1) by (simp_all add: load_def)
    have "\<forall>c\<in>fp h2 w. length h \<le> c" using new(4) by fastforce
    with w' z1(3) new(3) r h' z Some show ?thesis
      by (auto simp: ptr_fp_def ptr_ok_def ptr_view_def cell)
  qed
qed

text \<open>
  \<^verbatim>\<open>make(map[string]string, len(*in))\<close> and the loop over the original: \<open>order\<close> is the order in
  which the language visits the entries.
\<close>

fun map_loop :: "('v gomap \<Rightarrow> 'c) \<Rightarrow> ('c \<Rightarrow> 'v gomap option) \<Rightarrow> addr \<Rightarrow> (string \<times> 'v) list \<Rightarrow> 'c heap \<Rightarrow> 'c heap" where
  "map_loop mk cell b [] h = h"
| "map_loop mk cell b ((k, v) # kvs) h =
     map_loop mk cell b kvs (store b (mk (map_put k v (the (cell (load b h))))) h)"

definition copy_map :: "('v gomap \<Rightarrow> 'c) \<Rightarrow> ('c \<Rightarrow> 'v gomap option) \<Rightarrow> ('v gomap \<Rightarrow> (string \<times> 'v) list)
    \<Rightarrow> addr option \<Rightarrow> 'c heap \<Rightarrow> addr option \<times> 'c heap" where
  "copy_map mk cell order p h =
     (case p of
        None \<Rightarrow> (None, h)
      | Some a \<Rightarrow>
          (case alloc (mk []) h of
             (b, h1) \<Rightarrow> (Some b, map_loop mk cell b (order (the (cell (load a h1)))) h1)))"

lemma map_loop_end:
  assumes cell: "\<And>m. cell (mk m) = Some m"
  shows "map_loop mk cell (length h) kvs (h @ [mk m]) = h @ [mk (fold (\<lambda>(k, v) m. map_put k v m) kvs m)]"
proof (induction kvs arbitrary: m)
  case (Cons kv kvs)
  then show ?case by (cases kv) (simp add: load_def store_def cell)
qed simp

lemma deep_copy_map:
  assumes cell: "\<And>m. cell (mk m) = Some m" and order: "\<And>m. mset (order m) = mset m"
  shows "deep_copy (copy_map mk cell order) (ptr_fp cell (\<lambda>h m. {}))
           (ptr_ok cell (\<lambda>h. map_ok)) (ptr_view cell (\<lambda>h m. m))"
proof (rule deep_copy_cong)
  show "deep_copy (copy_ptr mk cell [] Pair) (ptr_fp cell (\<lambda>h m. {}))
           (ptr_ok cell (\<lambda>h. map_ok)) (ptr_view cell (\<lambda>h m. m))"
    by (rule deep_copy_ptr [where mk = mk, OF deep_copy_flat]) (rule cell)
next
  fix h p assume "ptr_ok cell (\<lambda>h. map_ok) h p"
  then have "map_ok m" "a < length h" if "p = Some a" "cell (load a h) = Some m" for a m
    using that by (simp_all add: ptr_ok_def)
  moreover have "map_build (order m) = m" if "map_ok m" for m
    using map_build_perm [of m "order m"] map_build_id [OF that] order [of m] that
    by (simp add: map_ok_def strict_sorted_iff)
  ultimately show "copy_map mk cell order p h = copy_ptr mk cell [] Pair p h"
    using \<open>ptr_ok _ _ _ _\<close>
    by (auto simp: copy_map_def copy_ptr_def alloc_def load_def store_def nth_append map_loop_end [where cell = cell and mk = mk, OF cell]
        map_build_def ptr_ok_def split: option.splits)
qed

section \<open>Slices\<close>

text \<open>A slice is nil, or a window of an array: its cell, the offset and the length.\<close>

datatype slice = NilSlice | Slice addr nat nat

definition elements :: "('c \<Rightarrow> 'a list option) \<Rightarrow> 'c heap \<Rightarrow> addr \<Rightarrow> nat \<Rightarrow> nat \<Rightarrow> 'a list" where
  "elements cell h a off n = take n (drop off (the (cell (load a h))))"

definition slice_fp where
  "slice_fp cell fp h s =
     (case s of NilSlice \<Rightarrow> {} | Slice a off n \<Rightarrow> insert a (\<Union>x\<in>set (elements cell h a off n). fp h x))"

definition slice_ok where
  "slice_ok cell ok h s =
     (case s of
        NilSlice \<Rightarrow> True
      | Slice a off n \<Rightarrow>
          a < length h \<and> (case cell (load a h) of None \<Rightarrow> False | Some xs \<Rightarrow> off + n \<le> length xs)
          \<and> list_all (ok h) (elements cell h a off n))"

definition slice_view where
  "slice_view cell view h s =
     (case s of NilSlice \<Rightarrow> None | Slice a off n \<Rightarrow> Some (map (view h) (elements cell h a off n)))"

text \<open>The built-in \<^verbatim>\<open>copy\<close> writes as many elements as the shorter of the two has.\<close>

definition go_copy :: "'a list \<Rightarrow> 'a list \<Rightarrow> 'a list" where
  "go_copy dst src = take (length dst) src @ drop (length src) dst"

definition copy_slice :: "('a list \<Rightarrow> 'c) \<Rightarrow> ('c \<Rightarrow> 'a list option) \<Rightarrow> 'a \<Rightarrow> slice \<Rightarrow> 'c heap \<Rightarrow> slice \<times> 'c heap" where
  "copy_slice mk cell zero s h =
     (case s of
        NilSlice \<Rightarrow> (NilSlice, h)
      | Slice a off n \<Rightarrow>
          (case alloc (mk (replicate n zero)) h of
             (b, h1) \<Rightarrow>
               (Slice b 0 n,
                store b (mk (go_copy (the (cell (load b h1))) (elements cell h1 a off n))) h1)))"

text \<open>
  A slice of structs: the array is made, and then every element is copied into it.
\<close>

fun items_loop where
  "items_loop mk cell into a off b [] h = h"
| "items_loop mk cell into a off b (i # is) h =
     (case into (the (cell (load a h)) ! (off + i)) h of
        (y, h1) \<Rightarrow>
          items_loop mk cell into a off b is (store b (mk ((the (cell (load b h1)))[i := y])) h1))"

definition copy_items :: "('a list \<Rightarrow> 'c) \<Rightarrow> ('c \<Rightarrow> 'a list option) \<Rightarrow> 'a \<Rightarrow> ('a \<Rightarrow> 'c heap \<Rightarrow> 'a \<times> 'c heap)
    \<Rightarrow> slice \<Rightarrow> 'c heap \<Rightarrow> slice \<times> 'c heap" where
  "copy_items mk cell zero into s h =
     (case s of
        NilSlice \<Rightarrow> (NilSlice, h)
      | Slice a off n \<Rightarrow>
          (case alloc (mk (replicate n zero)) h of
             (b, h1) \<Rightarrow> (Slice b 0 n, items_loop mk cell into a off b [0..<n] h1)))"

text \<open>Bounds and frame are the same for every slice.\<close>

lemma slice_frame:
  assumes dc: "deep_copy into fp ok view" and s: "slice_ok cell ok h s"
  shows "a \<in> slice_fp cell fp h s \<Longrightarrow> a < length h"
    and "kept (slice_fp cell fp h s) h h' \<Longrightarrow> slice_fp cell fp h' s = slice_fp cell fp h s
           \<and> slice_ok cell ok h' s \<and> slice_view cell view h' s = slice_view cell view h s"
proof -
  show "a < length h" if "a \<in> slice_fp cell fp h s"
    using that s deep_copy.fp_bound [OF dc]
    by (fastforce simp: slice_fp_def slice_ok_def list_all_iff split: slice.splits)
  assume k: "kept (slice_fp cell fp h s) h h'"
  show "slice_fp cell fp h' s = slice_fp cell fp h s
      \<and> slice_ok cell ok h' s \<and> slice_view cell view h' s = slice_view cell view h s"
  proof (cases s)
    case NilSlice
    then show ?thesis by (simp add: slice_fp_def slice_ok_def slice_view_def)
  next
    case (Slice b off n)
    let ?es = "elements cell h b off n"
    have l: "b < length h'" "load b h' = load b h"
      using k Slice by (simp_all add: slice_fp_def load_def)
    then have es: "elements cell h' b off n = ?es" by (simp add: elements_def)
    have "ok h x" "kept (fp h x) h h'" if "x \<in> set ?es" for x
      using that k s Slice by (simp_all add: slice_fp_def slice_ok_def list_all_iff)
    then have "fp h' x = fp h x \<and> ok h' x \<and> view h' x = view h x" if "x \<in> set ?es" for x
      using that deep_copy.frame_fp [OF dc] deep_copy.frame_ok [OF dc] deep_copy.frame_view [OF dc] by blast
    then show ?thesis
      using s Slice l es by (simp add: slice_fp_def slice_ok_def slice_view_def list_all_iff)
  qed
qed

lemma deep_copy_slice:
  assumes cell: "\<And>xs. cell (mk xs) = Some xs"
  shows "deep_copy (copy_slice mk cell zero) (slice_fp cell (\<lambda>h x. {}))
           (slice_ok cell (\<lambda>h x. True)) (slice_view cell (\<lambda>h x. x))"
proof (rule deep_copyI, goal_cases)
  case (1 h x a)
  then show ?case by (rule slice_frame(1) [OF deep_copy_flat])
next
  case (2 h x h')
  then show ?case by (rule slice_frame(2) [OF deep_copy_flat])
next
  case (3 h x y h')
  then show ?case
    by (auto simp: copy_slice_def slice_fp_def slice_ok_def slice_view_def elements_def go_copy_def
        alloc_def load_def store_def nth_append cell list_all_iff split: slice.splits option.splits)
qed

text \<open>
  The loop over the elements: after \<open>i\<close> rounds the first \<open>i\<close> elements of the new array are
  copies, and nothing but the new array and cells after it has changed.
\<close>

definition copied_upto where
  "copied_upto mk fp ok view h es i h' \<longleftrightarrow>
     (\<exists>ys new. h' = h @ mk ys # new \<and> length ys = length es
        \<and> (\<forall>j<i. ok h' (ys ! j) \<and> view h' (ys ! j) = view h (es ! j) \<and> (\<forall>c\<in>fp h' (ys ! j). length h < c)))"

lemma copied_step:
  assumes dc: "deep_copy into fp ok view" and cell: "\<And>xs. cell (mk xs) = Some xs"
    and inv: "copied_upto mk fp ok view h es i h'" and i: "i < length es" and e: "ok h (es ! i)"
    and c: "into (es ! i) h' = (y, h'')"
  shows "copied_upto mk fp ok view h es (Suc i)
           (store (length h) (mk ((the (cell (load (length h) h'')))[i := y])) h'')"
proof -
  from inv obtain ys new where h': "h' = h @ mk ys # new" and ys: "length ys = length es"
    and cop: "\<And>j. j < i \<Longrightarrow> ok h' (ys ! j) \<and> view h' (ys ! j) = view h (es ! j) \<and> (\<forall>c\<in>fp h' (ys ! j). length h < c)"
    unfolding copied_upto_def by blast
  note e' = deep_copy.later [OF dc e, of "mk ys # new", folded h']
  obtain new2 where y: "h'' = h' @ new2" "ok h'' y" "view h'' y = view h' (es ! i)"
    "\<And>c. c \<in> fp h'' y \<Longrightarrow> length h' \<le> c"
    using deep_copy.copy_step [OF dc e'(2) c] by blast
  let ?h = "store (length h) (mk ((the (cell (load (length h) h'')))[i := y])) h''"
  have h: "?h = h @ mk (ys[i := y]) # new @ new2"
    using y(1) h' by (simp add: store_def load_def cell)
  have "length h \<notin> fp h'' y" using y(4) [of "length h"] h' by auto
  then have "kept (fp h'' y) h'' ?h"
    unfolding store_def by (intro kept_update deep_copy.fp_bound [OF dc y(2)])
  note y' = deep_copy.frame_fp [OF dc y(2) this] deep_copy.frame_ok [OF dc y(2) this]
    deep_copy.frame_view [OF dc y(2) this]
  have old: "ok ?h (ys ! j) \<and> view ?h (ys ! j) = view h (es ! j) \<and> (\<forall>c\<in>fp ?h (ys ! j). length h < c)"
    if "j < i" for j
  proof -
    note d = cop [OF that]
    have "kept (fp h' (ys ! j)) h' ?h"
      using deep_copy.fp_bound [OF dc conjunct1 [OF d]] d
      by (fastforce simp: kept_def h h' nth_append nth_Cons' not_less)
    from deep_copy.frame_fp [OF dc conjunct1 [OF d] this] deep_copy.frame_ok [OF dc conjunct1 [OF d] this]
      deep_copy.frame_view [OF dc conjunct1 [OF d] this] d
    show ?thesis by simp
  qed
  have new: "\<forall>c\<in>fp h'' y. length h < c" using y(4) h' by fastforce
  have "ok ?h (ys[i := y] ! j) \<and> view ?h (ys[i := y] ! j) = view h (es ! j)
      \<and> (\<forall>c\<in>fp ?h (ys[i := y] ! j). length h < c)" if "j < Suc i" for j
    using that old [of j] y' y(3) e'(3) new i ys by (cases "j = i") auto
  with h ys show ?thesis unfolding copied_upto_def by (metis length_list_update)
qed

lemma items_loop_inv:
  assumes dc: "deep_copy into fp ok view" and cell: "\<And>xs. cell (mk xs) = Some xs"
    and a: "a < length h" "cell (load a h) = Some xs" "off + n \<le> length xs"
    and es: "list_all (ok h) (take n (drop off xs))"
    and inv: "copied_upto mk fp ok view h (take n (drop off xs)) i h'" and i: "i \<le> n"
  shows "copied_upto mk fp ok view h (take n (drop off xs)) n
           (items_loop mk cell into a off (length h) [i..<n] h')"
  using inv i
proof (induction "n - i" arbitrary: i h')
  case 0
  then show ?case by simp
next
  case (Suc k)
  let ?es = "take n (drop off xs)"
  from Suc(2) have i: "i < n" by simp
  then have idx: "[i..<n] = i # [Suc i..<n]" by (rule upt_conv_Cons)
  have len: "length ?es = n" using a(3) by simp
  have at: "xs ! (off + i) = ?es ! i" using i a(3) by simp
  have ld: "load a h' = load a h"
    using Suc(3) a(1) by (auto simp: copied_upto_def load_def nth_append)
  have e: "ok h (?es ! i)" using es i len by (metis list_all_length)
  obtain y h'' where c: "into (?es ! i) h' = (y, h'')" by (cases "into (?es ! i) h'")
  have "copied_upto mk fp ok view h ?es (Suc i)
      (store (length h) (mk ((the (cell (load (length h) h'')))[i := y])) h'')"
    using copied_step [where cell = cell, OF dc cell Suc(3) _ e c] i len by simp
  from Suc(1) [OF _ this] Suc(2) i show ?case
    by (simp add: idx ld a(2) c [folded at])
qed

lemma deep_copy_items:
  assumes dc: "deep_copy into fp ok view" and cell: "\<And>xs. cell (mk xs) = Some xs"
  shows "deep_copy (copy_items mk cell zero into) (slice_fp cell fp) (slice_ok cell ok) (slice_view cell view)"
proof (rule deep_copyI, goal_cases)
  case (1 h x a)
  then show ?case by (rule slice_frame(1) [OF dc])
next
  case (2 h x h')
  then show ?case by (rule slice_frame(2) [OF dc])
next
  case (3 h x y h')
  show ?case
  proof (cases x)
    case NilSlice
    with 3 show ?thesis by (simp add: copy_items_def slice_fp_def slice_ok_def slice_view_def)
  next
    case (Slice a off n)
    with 3 obtain xs where a: "a < length h" "cell (load a h) = Some xs" "off + n \<le> length xs"
      and es: "list_all (ok h) (take n (drop off xs))"
      by (auto simp: slice_ok_def elements_def split: option.splits)
    let ?es = "take n (drop off xs)" and ?h1 = "h @ [mk (replicate n zero)]"
    have "copied_upto mk fp ok view h ?es 0 ?h1"
      using a(3) by (auto simp: copied_upto_def)
    from items_loop_inv [where cell = cell, OF dc cell a es this]
    have "copied_upto mk fp ok view h ?es n h'" and y: "y = Slice (length h) 0 n"
      using 3(2) Slice by (auto simp: copy_items_def alloc_def)
    then obtain ys new where h': "h' = h @ mk ys # new" and ys: "length ys = n"
      and el: "\<And>j. j < n \<Longrightarrow> ok h' (ys ! j) \<and> view h' (ys ! j) = view h (?es ! j) \<and> (\<forall>c\<in>fp h' (ys ! j). length h < c)"
      using a(3) by (auto simp: copied_upto_def)
    have at: "elements cell h' (length h) 0 n = ys" "elements cell h a off n = ?es"
      "load (length h) h' = mk ys"
      using ys a(2) by (simp_all add: elements_def load_def h' cell)
    have "map (view h') ys = map (view h) ?es"
      using el ys a(3) by (intro nth_equalityI) simp_all
    moreover have "\<forall>z\<in>set ys. ok h' z \<and> (\<forall>c\<in>fp h' z. length h \<le> c)"
      using el ys by (fastforce simp: in_set_conv_nth)
    ultimately show ?thesis
      using y Slice at ys h' cell [of ys]
      by (auto simp: slice_fp_def slice_ok_def slice_view_def list_all_iff)
  qed
qed

section \<open>Layouts\<close>

text \<open>
  What the memory of a type looks like: the cells its values reach, when its references are
  valid, and the value with the references resolved. A copying function is lawful for a layout
  when it keeps the contract; the rules below are the contract for composed layouts.
\<close>

record ('a, 'c, 'v) layout =
  l_fp :: "'c heap \<Rightarrow> 'a \<Rightarrow> addr set"
  l_ok :: "'c heap \<Rightarrow> 'a \<Rightarrow> bool"
  l_view :: "'c heap \<Rightarrow> 'a \<Rightarrow> 'v"

definition lawful :: "('a \<Rightarrow> 'c heap \<Rightarrow> 'a \<times> 'c heap) \<Rightarrow> ('a, 'c, 'v) layout \<Rightarrow> bool" where
  "lawful into L \<longleftrightarrow> deep_copy into (l_fp L) (l_ok L) (l_view L)"

definition flat_layout :: "('a \<Rightarrow> bool) \<Rightarrow> ('a \<Rightarrow> 'v) \<Rightarrow> ('a, 'c, 'v) layout" where
  "flat_layout P V = \<lparr> l_fp = (\<lambda>h x. {}), l_ok = (\<lambda>h. P), l_view = (\<lambda>h. V) \<rparr>"

definition both_layout :: "('a, 'c, 'v) layout \<Rightarrow> ('b, 'c, 'w) layout \<Rightarrow> ('a \<times> 'b, 'c, 'v \<times> 'w) layout" where
  "both_layout L M =
     \<lparr> l_fp = (\<lambda>h p. l_fp L h (fst p) \<union> l_fp M h (snd p)),
       l_ok = (\<lambda>h p. l_ok L h (fst p) \<and> l_ok M h (snd p)),
       l_view = (\<lambda>h p. (l_view L h (fst p), l_view M h (snd p))) \<rparr>"

definition struct_layout :: "('b, 'c, 'w) layout \<Rightarrow> ('a \<Rightarrow> 'b) \<Rightarrow> ('w \<Rightarrow> 'a \<Rightarrow> 'v) \<Rightarrow> ('a, 'c, 'v) layout" where
  "struct_layout L get build =
     \<lparr> l_fp = (\<lambda>h x. l_fp L h (get x)), l_ok = (\<lambda>h x. l_ok L h (get x)),
       l_view = (\<lambda>h x. build (l_view L h (get x)) x) \<rparr>"

definition ptr_layout :: "('c \<Rightarrow> 'a option) \<Rightarrow> ('a, 'c, 'v) layout \<Rightarrow> (addr option, 'c, 'v option) layout" where
  "ptr_layout cell L =
     \<lparr> l_fp = ptr_fp cell (l_fp L), l_ok = ptr_ok cell (l_ok L), l_view = ptr_view cell (l_view L) \<rparr>"

definition slice_layout :: "('c \<Rightarrow> 'a list option) \<Rightarrow> ('a, 'c, 'v) layout \<Rightarrow> (slice, 'c, 'v list option) layout" where
  "slice_layout cell L =
     \<lparr> l_fp = slice_fp cell (l_fp L), l_ok = slice_ok cell (l_ok L), l_view = slice_view cell (l_view L) \<rparr>"

lemmas layout_defs = flat_layout_def both_layout_def struct_layout_def ptr_layout_def slice_layout_def

lemma lawful_flat: "lawful Pair (flat_layout P V)"
  by (simp add: lawful_def flat_layout_def deep_copy_flat)

lemma lawful_both: "lawful c L \<Longrightarrow> lawful d M \<Longrightarrow> lawful (copy_both c d) (both_layout L M)"
  unfolding lawful_def both_layout_def layout.simps by (rule deep_copy_both)

lemma lawful_ptr:
  "lawful into L \<Longrightarrow> (\<And>x. cell (mk x) = Some x) \<Longrightarrow> lawful (copy_ptr mk cell zero into) (ptr_layout cell L)"
  unfolding lawful_def ptr_layout_def layout.simps by (rule deep_copy_ptr)

lemma lawful_map:
  "(\<And>m. cell (mk m) = Some m) \<Longrightarrow> (\<And>m. mset (order m) = mset m) \<Longrightarrow>
     lawful (copy_map mk cell order) (ptr_layout cell (flat_layout map_ok (\<lambda>m. m)))"
  unfolding lawful_def ptr_layout_def flat_layout_def layout.simps by (rule deep_copy_map)

lemma lawful_slice:
  "(\<And>xs. cell (mk xs) = Some xs) \<Longrightarrow>
     lawful (copy_slice mk cell zero) (slice_layout cell (flat_layout (\<lambda>x. True) (\<lambda>x. x)))"
  unfolding lawful_def slice_layout_def flat_layout_def layout.simps by (rule deep_copy_slice)

lemma lawful_items:
  "lawful into L \<Longrightarrow> (\<And>xs. cell (mk xs) = Some xs) \<Longrightarrow>
     lawful (copy_items mk cell zero into) (slice_layout cell L)"
  unfolding lawful_def slice_layout_def layout.simps by (rule deep_copy_items)

lemma lawful_struct:
  assumes "lawful c L"
    and "\<And>x h. into x h = (case c (get x) h of (y, h') \<Rightarrow> (put y x, h'))"
    and "\<And>x y. get (put y x) = y" and "\<And>x. put (get x) x = x" and "\<And>w x y. build w (put y x) = build w x"
  shows "lawful into (struct_layout L get build)"
  unfolding lawful_def struct_layout_def layout.simps
  by (rule deep_copy_struct [OF assms(1) [unfolded lawful_def] assms(2-4)]) (simp_all add: assms(3,5))

text \<open>
  \<^verbatim>\<open>DeepCopy\<close> of a type: nil for the nil pointer, and otherwise \<^verbatim>\<open>DeepCopyInto\<close> a new struct.
\<close>

definition new_copy ::
  "('a \<Rightarrow> 'c heap \<Rightarrow> 'a \<times> 'c heap) \<Rightarrow> 'a option \<Rightarrow> 'c heap \<Rightarrow> 'a option \<times> 'c heap" where
  "new_copy into p h =
     (case p of
        None \<Rightarrow> (None, h)
      | Some x \<Rightarrow> (case into x h of (out, h') \<Rightarrow> (Some out, h')))"

lemma new_copy_nil [simp]: "new_copy into None h = (None, h)"
  by (simp add: new_copy_def)

lemma new_copy_Some: "new_copy into (Some x) h = (q, h') \<Longrightarrow> \<exists>y. q = Some y \<and> into x h = (y, h')"
  by (auto simp: new_copy_def split: prod.splits)

text \<open>The guarantee of \<^verbatim>\<open>DeepCopy\<close>, for any lawful type.\<close>

lemma new_copy_isolated:
  assumes "lawful into L" and "l_ok L h x" and "new_copy into (Some x) h = (q, h')"
  shows "\<exists>y. q = Some y \<and> l_view L h' y = l_view L h x \<and> l_view L h' x = l_view L h x
    \<and> l_fp L h' x \<inter> l_fp L h' y = {}
    \<and> (\<forall>ops. stored ops \<subseteq> l_fp L h' x \<union> {length h'..} \<longrightarrow> l_view L (mem_run ops h') y = l_view L h x)
    \<and> (\<forall>ops. stored ops \<subseteq> l_fp L h' y \<union> {length h'..} \<longrightarrow> l_view L (mem_run ops h') x = l_view L h x)"
proof -
  note dc = assms(1) [unfolded lawful_def]
  from new_copy_Some [OF assms(3)] obtain y where y: "q = Some y" "into x h = (y, h')" by blast
  show ?thesis
    using y(1) deep_copy.copy_view [OF dc assms(2) y(2)] deep_copy.original_kept(3) [OF dc assms(2) y(2)]
      deep_copy.separate [OF dc assms(2) y(2)] deep_copy.independent [OF dc assms(2) y(2)]
    by blast
qed

end
