(* ===== verification/Memory_Layout.thy ===== *)
theory Memory_Layout
  imports Go_Memory Service_Instance Provider_Config
begin

text \<open>
  How the types of \<^verbatim>\<open>apis/\<close> lie in memory: maps and pointers are addresses, slices are
  windows of arrays. A struct with such a field has a second record here, whose layout resolves
  the references to the record the rest of the development works on; the flat structs, and the
  provider configuration specifications, are the same records.

  \<open>'t\<close> is the type of the structs of the third-party packages (object and list metadata,
  conditions, the specification and status of a managed resource, credential selectors), and
  \<open>'v\<close> the type of their values. The package is a parameter: for each struct its
  \<^verbatim>\<open>DeepCopyInto\<close>, its layout and its zero value.
\<close>

section \<open>Structs with references\<close>

record TypeMeta =
  tm_Kind :: string
  tm_APIVersion :: string

record KubernetesOSBContext_mem =
  kcm_Platform :: string
  kcm_Namespace :: string
  kcm_NamespaceAnnotations :: "addr option"
  kcm_InstanceAnnotations :: "addr option"
  kcm_ClusterId :: string
  kcm_InstanceName :: string

record InstanceData_mem =
  idm_AppGuid :: string
  idm_InstanceId :: string
  idm_PlanId :: string
  idm_ServiceId :: string
  idm_Context :: KubernetesOSBContext_mem
  idm_Parameters :: SerializableParameters
  idm_OrganizationGuid :: string
  idm_SpaceGuid :: string

record Extra_mem =
  exm_Raw :: slice

record IdentityValue_mem =
  ivm_Username :: string
  ivm_UID :: string
  ivm_Groups :: slice
  ivm_Extra :: "addr option"

record ServiceBindingParameters_mem =
  spm_AppGuid :: string
  spm_InstanceId :: string
  spm_PlanId :: string
  spm_ServiceId :: string
  spm_Context :: KubernetesOSBContext_mem
  spm_Parameters :: SerializableParameters
  spm_BindResource :: BindResource

record ServiceBindingObservation_mem =
  som_Parameters :: SerializableParameters
  som_RouteServiceURL :: "addr option"
  som_Endpoints :: SerializableEndpoints
  som_VolumeMounts :: SerializableVolumeMounts
  som_SyslogDrainURL :: "addr option"
  som_Metadata :: "addr option"
  som_LastOperationState :: LastOperationState
  som_LastOperationKey :: OperationKey
  som_LastOperationDescription :: string
  som_LastOperationPolledTime :: string

record 't ServiceBindingSpec_mem =
  ssm_ManagedResourceSpec :: 't
  ssm_ForProvider :: ServiceBindingParameters_mem

record 't ServiceBindingStatus_mem =
  stm_ResourceStatus :: 't
  stm_AtProvider :: ServiceBindingObservation_mem

record 't ServiceBinding_mem =
  sbm_TypeMeta :: TypeMeta
  sbm_ObjectMeta :: 't
  sbm_Spec :: "'t ServiceBindingSpec_mem"
  sbm_Status :: "'t ServiceBindingStatus_mem"

record ServiceInstanceObservation_mem =
  iom_AppGuid :: string
  iom_InstanceId :: string
  iom_PlanId :: string
  iom_ServiceId :: string
  iom_Context :: KubernetesOSBContext_mem
  iom_Parameters :: SerializableParameters
  iom_OrganizationGuid :: string
  iom_SpaceGuid :: string
  iom_DashboardURL :: "addr option"
  iom_LastOperationState :: LastOperationState
  iom_LastOperationKey :: OperationKey
  iom_LastOperationDescription :: string
  iom_HasActiveBindings :: bool

record 't ServiceInstanceSpec_mem =
  ism_ManagedResourceSpec :: 't
  ism_ForProvider :: InstanceData_mem

record 't ServiceInstanceStatus_mem =
  itm_ResourceStatus :: 't
  itm_AtProvider :: ServiceInstanceObservation_mem

record 't ServiceInstance_mem =
  sim_TypeMeta :: TypeMeta
  sim_ObjectMeta :: 't
  sim_Spec :: "'t ServiceInstanceSpec_mem"
  sim_Status :: "'t ServiceInstanceStatus_mem"

text \<open>
  The references of a provider configuration, its usage and a store configuration are all
  inside third-party structs. The specification of a store configuration has no field.
\<close>

record 't ProviderConfigStatus =
  pst_ProviderConfigStatus :: 't

record 't ProviderConfig_mem =
  pcm_TypeMeta :: TypeMeta
  pcm_ObjectMeta :: 't
  pcm_Spec :: "'t ProviderConfigSpec"
  pcm_Status :: "'t ProviderConfigStatus"

record 't ClusterProviderConfig_mem =
  ccm_TypeMeta :: TypeMeta
  ccm_ObjectMeta :: 't
  ccm_Spec :: "'t ProviderConfigSpec"
  ccm_Status :: "'t ProviderConfigStatus"

record 't ProviderConfigUsage =
  pcu_TypeMeta :: TypeMeta
  pcu_ObjectMeta :: 't
  pcu_TypedProviderConfigUsage :: 't

type_synonym StoreConfigSpec = unit

record 't StoreConfigStatus =
  sts_ConditionedStatus :: 't

record 't StoreConfig =
  sc_TypeMeta :: TypeMeta
  sc_ObjectMeta :: 't
  sc_Spec :: StoreConfigSpec
  sc_Status :: "'t StoreConfigStatus"

text \<open>The list kinds; the items are a slice of structs.\<close>

record 't ServiceBindingList =
  sbl_TypeMeta :: TypeMeta
  sbl_ListMeta :: 't
  sbl_Items :: slice

record 't ServiceInstanceList =
  sil_TypeMeta :: TypeMeta
  sil_ListMeta :: 't
  sil_Items :: slice

record 't ProviderConfigList =
  pcl_TypeMeta :: TypeMeta
  pcl_ListMeta :: 't
  pcl_Items :: slice

record 't ClusterProviderConfigList =
  ccl_TypeMeta :: TypeMeta
  ccl_ListMeta :: 't
  ccl_Items :: slice

record 't ProviderConfigUsageList =
  pul_TypeMeta :: TypeMeta
  pul_ListMeta :: 't
  pul_Items :: slice

record 't StoreConfigList =
  scl_TypeMeta :: TypeMeta
  scl_ListMeta :: 't
  scl_Items :: slice

section \<open>Cells\<close>

text \<open>
  What a reference of the code leads to. The third-party packages have cells of their own, and
  use the others for their strings and maps.
\<close>

datatype 't cell =
    StringCell string
  | StringMapCell "string gomap"
  | BytesCell string
  | StringsCell "string list"
  | MetadataCell BindingMetadata
  | ExtraCell Extra_mem
  | ServiceBindingsCell "'t ServiceBinding_mem list"
  | ServiceInstancesCell "'t ServiceInstance_mem list"
  | ProviderConfigsCell "'t ProviderConfig_mem list"
  | ClusterProviderConfigsCell "'t ClusterProviderConfig_mem list"
  | UsagesCell "'t ProviderConfigUsage list"
  | StoreConfigsCell "'t StoreConfig list"
  | ForeignCell 't

fun string_cell where "string_cell (StringCell s) = Some s" | "string_cell _ = None"
fun string_map_cell where "string_map_cell (StringMapCell m) = Some m" | "string_map_cell _ = None"
fun bytes_cell where "bytes_cell (BytesCell bs) = Some bs" | "bytes_cell _ = None"
fun strings_cell where "strings_cell (StringsCell ss) = Some ss" | "strings_cell _ = None"
fun metadata_cell where "metadata_cell (MetadataCell md) = Some md" | "metadata_cell _ = None"
fun extra_cell where "extra_cell (ExtraCell e) = Some e" | "extra_cell _ = None"
fun service_bindings_cell where
  "service_bindings_cell (ServiceBindingsCell xs) = Some xs" | "service_bindings_cell _ = None"
fun service_instances_cell where
  "service_instances_cell (ServiceInstancesCell xs) = Some xs" | "service_instances_cell _ = None"
fun provider_configs_cell where
  "provider_configs_cell (ProviderConfigsCell xs) = Some xs" | "provider_configs_cell _ = None"
fun cluster_provider_configs_cell where
  "cluster_provider_configs_cell (ClusterProviderConfigsCell xs) = Some xs"
| "cluster_provider_configs_cell _ = None"
fun usages_cell where "usages_cell (UsagesCell xs) = Some xs" | "usages_cell _ = None"
fun store_configs_cell where
  "store_configs_cell (StoreConfigsCell xs) = Some xs" | "store_configs_cell _ = None"

section \<open>The third-party packages\<close>

record ('t, 'v) struct_pkg =
  sp_DeepCopyInto :: "'t \<Rightarrow> 't cell heap \<Rightarrow> 't \<times> 't cell heap"
  sp_layout :: "('t, 't cell, 'v) layout"
  sp_zero :: 't

text \<open>
  \<open>tp_order\<close> is the order in which the language visits a map of strings; \<open>tp_spec_value\<close>
  reads the value of a managed resource specification as the record the model uses.
\<close>

record ('t, 'v, 'q) third_party =
  tp_order :: "string gomap \<Rightarrow> (string \<times> string) list"
  tp_ObjectMeta :: "('t, 'v) struct_pkg"
  tp_ListMeta :: "('t, 'v) struct_pkg"
  tp_ManagedResourceSpec :: "('t, 'v) struct_pkg"
  tp_ResourceStatus :: "('t, 'v) struct_pkg"
  tp_CommonCredentialSelectors :: "('t, 'v) struct_pkg"
  tp_ProviderConfigStatus :: "('t, 'v) struct_pkg"
  tp_TypedProviderConfigUsage :: "('t, 'v) struct_pkg"
  tp_ConditionedStatus :: "('t, 'v) struct_pkg"
  tp_spec_value :: "'v \<Rightarrow> 'q ManagedResourceSpec"

definition struct_lawful :: "('t, 'v) struct_pkg \<Rightarrow> bool" where
  "struct_lawful S \<longleftrightarrow> lawful (sp_DeepCopyInto S) (sp_layout S)"

text \<open>
  The documented behaviour: \<^verbatim>\<open>DeepCopyInto\<close> of every package makes a deep copy, and a map is
  visited entry by entry.
\<close>

definition third_party_laws :: "('t, 'v, 'q) third_party \<Rightarrow> bool" where
  "third_party_laws T \<longleftrightarrow>
     (\<forall>m. mset (tp_order T m) = mset m)
     \<and> struct_lawful (tp_ObjectMeta T) \<and> struct_lawful (tp_ListMeta T)
     \<and> struct_lawful (tp_ManagedResourceSpec T) \<and> struct_lawful (tp_ResourceStatus T)
     \<and> struct_lawful (tp_CommonCredentialSelectors T) \<and> struct_lawful (tp_ProviderConfigStatus T)
     \<and> struct_lawful (tp_TypedProviderConfigUsage T) \<and> struct_lawful (tp_ConditionedStatus T)"

lemma third_party_lawful:
  assumes "third_party_laws T"
  shows "mset (tp_order T m) = mset m"
    and "lawful (sp_DeepCopyInto (tp_ObjectMeta T)) (sp_layout (tp_ObjectMeta T))"
    and "lawful (sp_DeepCopyInto (tp_ListMeta T)) (sp_layout (tp_ListMeta T))"
    and "lawful (sp_DeepCopyInto (tp_ManagedResourceSpec T)) (sp_layout (tp_ManagedResourceSpec T))"
    and "lawful (sp_DeepCopyInto (tp_ResourceStatus T)) (sp_layout (tp_ResourceStatus T))"
    and "lawful (sp_DeepCopyInto (tp_CommonCredentialSelectors T)) (sp_layout (tp_CommonCredentialSelectors T))"
    and "lawful (sp_DeepCopyInto (tp_ProviderConfigStatus T)) (sp_layout (tp_ProviderConfigStatus T))"
    and "lawful (sp_DeepCopyInto (tp_TypedProviderConfigUsage T)) (sp_layout (tp_TypedProviderConfigUsage T))"
    and "lawful (sp_DeepCopyInto (tp_ConditionedStatus T)) (sp_layout (tp_ConditionedStatus T))"
  using assms by (simp_all add: third_party_laws_def struct_lawful_def)

section \<open>The layouts\<close>

definition annotations_layout :: "(addr option, 't cell, string gomap option) layout" where
  "annotations_layout = ptr_layout string_map_cell (flat_layout map_ok (\<lambda>m. m))"

definition string_layout :: "(addr option, 't cell, string option) layout" where
  "string_layout = ptr_layout string_cell (flat_layout (\<lambda>s. True) (\<lambda>s. s))"

definition KubernetesOSBContext_layout :: "(KubernetesOSBContext_mem, 't cell, KubernetesOSBContext) layout" where
  "KubernetesOSBContext_layout =
     struct_layout (both_layout annotations_layout annotations_layout)
       (\<lambda>x. (kcm_NamespaceAnnotations x, kcm_InstanceAnnotations x))
       (\<lambda>(ns, inst) x. \<lparr> kc_Platform = kcm_Platform x, kc_Namespace = kcm_Namespace x,
          kc_NamespaceAnnotations = ns, kc_InstanceAnnotations = inst,
          kc_ClusterId = kcm_ClusterId x, kc_InstanceName = kcm_InstanceName x \<rparr>)"

definition InstanceData_layout :: "(InstanceData_mem, 't cell, InstanceData) layout" where
  "InstanceData_layout =
     struct_layout KubernetesOSBContext_layout idm_Context
       (\<lambda>c x. \<lparr> id_AppGuid = idm_AppGuid x, id_InstanceId = idm_InstanceId x, id_PlanId = idm_PlanId x,
          id_ServiceId = idm_ServiceId x, id_Context = c, id_Parameters = idm_Parameters x,
          id_OrganizationGuid = idm_OrganizationGuid x, id_SpaceGuid = idm_SpaceGuid x \<rparr>)"

text \<open>
  The raw document of the extra attributes may be nil, which its value keeps apart from empty.
\<close>

definition Extra_layout :: "(Extra_mem, 't cell, string option) layout" where
  "Extra_layout =
     struct_layout (slice_layout bytes_cell (flat_layout (\<lambda>b. True) (\<lambda>b. b))) exm_Raw (\<lambda>raw x. raw)"

definition IdentityValue_layout ::
  "(IdentityValue_mem, 't cell, string \<times> string \<times> string list option \<times> string option option) layout" where
  "IdentityValue_layout =
     struct_layout
       (both_layout (slice_layout strings_cell (flat_layout (\<lambda>s. True) (\<lambda>s. s))) (ptr_layout extra_cell Extra_layout))
       (\<lambda>x. (ivm_Groups x, ivm_Extra x))
       (\<lambda>(groups, extra) x. (ivm_Username x, ivm_UID x, groups, extra))"

definition ServiceBindingParameters_layout ::
  "(ServiceBindingParameters_mem, 't cell, ServiceBindingParameters) layout" where
  "ServiceBindingParameters_layout =
     struct_layout KubernetesOSBContext_layout spm_Context
       (\<lambda>c x. \<lparr> sbp_AppGuid = spm_AppGuid x, sbp_InstanceId = spm_InstanceId x, sbp_PlanId = spm_PlanId x,
          sbp_ServiceId = spm_ServiceId x, sbp_Context = c, sbp_Parameters = spm_Parameters x,
          sbp_BindResource = spm_BindResource x \<rparr>)"

definition ServiceBindingObservation_layout ::
  "(ServiceBindingObservation_mem, 't cell, ServiceBindingObservation) layout" where
  "ServiceBindingObservation_layout =
     struct_layout
       (both_layout string_layout
         (both_layout string_layout (ptr_layout metadata_cell (flat_layout (\<lambda>m. True) (\<lambda>m. m)))))
       (\<lambda>x. (som_RouteServiceURL x, som_SyslogDrainURL x, som_Metadata x))
       (\<lambda>(route, syslog, md) x. \<lparr> sbo_Parameters = som_Parameters x, sbo_RouteServiceURL = route,
          sbo_Endpoints = som_Endpoints x, sbo_VolumeMounts = som_VolumeMounts x,
          sbo_SyslogDrainURL = syslog, sbo_Metadata = md,
          sbo_LastOperationState = som_LastOperationState x, sbo_LastOperationKey = som_LastOperationKey x,
          sbo_LastOperationDescription = som_LastOperationDescription x,
          sbo_LastOperationPolledTime = som_LastOperationPolledTime x \<rparr>)"

definition ServiceBindingSpec_layout where
  "ServiceBindingSpec_layout T =
     struct_layout (both_layout (sp_layout (tp_ManagedResourceSpec T)) ServiceBindingParameters_layout)
       (\<lambda>x. (ssm_ManagedResourceSpec x, ssm_ForProvider x))
       (\<lambda>(ms, fp) x. \<lparr> sbs_Managed = tp_spec_value T ms, sbs_ForProvider = fp \<rparr>)"

definition ServiceBindingStatus_layout where
  "ServiceBindingStatus_layout T =
     struct_layout (both_layout (sp_layout (tp_ResourceStatus T)) ServiceBindingObservation_layout)
       (\<lambda>x. (stm_ResourceStatus x, stm_AtProvider x))
       (\<lambda>(rs, ap) x. \<lparr> sbst_ResourceStatus = rs, sbst_AtProvider = ap \<rparr>)"

text \<open>The value of an object: its type metadata and the record of the model.\<close>

definition ServiceBinding_layout ::
  "('t, 'v, 'q) third_party \<Rightarrow> ('t ServiceBinding_mem, 't cell, TypeMeta \<times> ('v, 'v, 'q) ServiceBinding) layout" where
  "ServiceBinding_layout T =
     struct_layout
       (both_layout (sp_layout (tp_ObjectMeta T))
         (both_layout (ServiceBindingSpec_layout T) (ServiceBindingStatus_layout T)))
       (\<lambda>x. (sbm_ObjectMeta x, sbm_Spec x, sbm_Status x))
       (\<lambda>(om, sp, st) x. (sbm_TypeMeta x, \<lparr> sb_ObjectMeta = om, sb_Spec = sp, sb_Status = st \<rparr>))"

definition ServiceInstanceObservation_layout ::
  "(ServiceInstanceObservation_mem, 't cell, ServiceInstanceObservation) layout" where
  "ServiceInstanceObservation_layout =
     struct_layout (both_layout KubernetesOSBContext_layout string_layout)
       (\<lambda>x. (iom_Context x, iom_DashboardURL x))
       (\<lambda>(c, url) x. \<lparr> sio_AppGuid = iom_AppGuid x, sio_InstanceId = iom_InstanceId x, sio_PlanId = iom_PlanId x,
          sio_ServiceId = iom_ServiceId x, sio_Context = c, sio_Parameters = iom_Parameters x,
          sio_OrganizationGuid = iom_OrganizationGuid x, sio_SpaceGuid = iom_SpaceGuid x,
          sio_DashboardURL = url, sio_LastOperationState = iom_LastOperationState x,
          sio_LastOperationKey = iom_LastOperationKey x,
          sio_LastOperationDescription = iom_LastOperationDescription x,
          sio_HasActiveBindings = iom_HasActiveBindings x \<rparr>)"

definition ServiceInstanceSpec_layout where
  "ServiceInstanceSpec_layout T =
     struct_layout (both_layout (sp_layout (tp_ManagedResourceSpec T)) InstanceData_layout)
       (\<lambda>x. (ism_ManagedResourceSpec x, ism_ForProvider x))
       (\<lambda>(ms, fp) x. \<lparr> sis_Managed = tp_spec_value T ms, sis_ForProvider = fp \<rparr>)"

definition ServiceInstanceStatus_layout where
  "ServiceInstanceStatus_layout T =
     struct_layout (both_layout (sp_layout (tp_ResourceStatus T)) ServiceInstanceObservation_layout)
       (\<lambda>x. (itm_ResourceStatus x, itm_AtProvider x))
       (\<lambda>(rs, ap) x. \<lparr> sist_ResourceStatus = rs, sist_AtProvider = ap \<rparr>)"

definition ServiceInstance_layout ::
  "('t, 'v, 'q) third_party \<Rightarrow> ('t ServiceInstance_mem, 't cell, TypeMeta \<times> ('v, 'v, 'q) ServiceInstance) layout" where
  "ServiceInstance_layout T =
     struct_layout
       (both_layout (sp_layout (tp_ObjectMeta T))
         (both_layout (ServiceInstanceSpec_layout T) (ServiceInstanceStatus_layout T)))
       (\<lambda>x. (sim_ObjectMeta x, sim_Spec x, sim_Status x))
       (\<lambda>(om, sp, st) x. (sim_TypeMeta x, \<lparr> si_ObjectMeta = om, si_Spec = sp, si_Status = st \<rparr>))"

text \<open>The configuration structs hold no reference of their own: their values have the same shape.\<close>

definition ProviderCredentials_layout ::
  "('t, 'v, 'q) third_party \<Rightarrow> ('t ProviderCredentials, 't cell, 'v ProviderCredentials) layout" where
  "ProviderCredentials_layout T =
     struct_layout (sp_layout (tp_CommonCredentialSelectors T)) pcr_Selectors
       (\<lambda>cs x. \<lparr> pcr_Source = pcr_Source x, pcr_Selectors = cs \<rparr>)"

definition ProviderConfigSpec_layout ::
  "('t, 'v, 'q) third_party \<Rightarrow> ('t ProviderConfigSpec, 't cell, 'v ProviderConfigSpec) layout" where
  "ProviderConfigSpec_layout T =
     struct_layout (ProviderCredentials_layout T) pcs_Credentials
       (\<lambda>cr x. \<lparr> pcs_Credentials = cr, pcs_BrokerURL = pcs_BrokerURL x, pcs_OSBVersion = pcs_OSBVersion x,
          pcs_Timeout = pcs_Timeout x, pcs_DisableAsync = pcs_DisableAsync x \<rparr>)"

definition ProviderConfigStatus_layout ::
  "('t, 'v, 'q) third_party \<Rightarrow> ('t ProviderConfigStatus, 't cell, 'v ProviderConfigStatus) layout" where
  "ProviderConfigStatus_layout T =
     struct_layout (sp_layout (tp_ProviderConfigStatus T)) pst_ProviderConfigStatus
       (\<lambda>s x. \<lparr> pst_ProviderConfigStatus = s \<rparr>)"

definition ProviderConfig_layout ::
  "('t, 'v, 'q) third_party \<Rightarrow> ('t ProviderConfig_mem, 't cell, 'v ProviderConfig_mem) layout" where
  "ProviderConfig_layout T =
     struct_layout
       (both_layout (sp_layout (tp_ObjectMeta T))
         (both_layout (ProviderConfigSpec_layout T) (ProviderConfigStatus_layout T)))
       (\<lambda>x. (pcm_ObjectMeta x, pcm_Spec x, pcm_Status x))
       (\<lambda>(om, sp, st) x. \<lparr> pcm_TypeMeta = pcm_TypeMeta x, pcm_ObjectMeta = om, pcm_Spec = sp, pcm_Status = st \<rparr>)"

definition ClusterProviderConfig_layout ::
  "('t, 'v, 'q) third_party \<Rightarrow> ('t ClusterProviderConfig_mem, 't cell, 'v ClusterProviderConfig_mem) layout" where
  "ClusterProviderConfig_layout T =
     struct_layout
       (both_layout (sp_layout (tp_ObjectMeta T))
         (both_layout (ProviderConfigSpec_layout T) (ProviderConfigStatus_layout T)))
       (\<lambda>x. (ccm_ObjectMeta x, ccm_Spec x, ccm_Status x))
       (\<lambda>(om, sp, st) x. \<lparr> ccm_TypeMeta = ccm_TypeMeta x, ccm_ObjectMeta = om, ccm_Spec = sp, ccm_Status = st \<rparr>)"

definition ProviderConfigUsage_layout ::
  "('t, 'v, 'q) third_party \<Rightarrow> ('t ProviderConfigUsage, 't cell, 'v ProviderConfigUsage) layout" where
  "ProviderConfigUsage_layout T =
     struct_layout (both_layout (sp_layout (tp_ObjectMeta T)) (sp_layout (tp_TypedProviderConfigUsage T)))
       (\<lambda>x. (pcu_ObjectMeta x, pcu_TypedProviderConfigUsage x))
       (\<lambda>(om, u) x. \<lparr> pcu_TypeMeta = pcu_TypeMeta x, pcu_ObjectMeta = om, pcu_TypedProviderConfigUsage = u \<rparr>)"

definition StoreConfigStatus_layout ::
  "('t, 'v, 'q) third_party \<Rightarrow> ('t StoreConfigStatus, 't cell, 'v StoreConfigStatus) layout" where
  "StoreConfigStatus_layout T =
     struct_layout (sp_layout (tp_ConditionedStatus T)) sts_ConditionedStatus
       (\<lambda>s x. \<lparr> sts_ConditionedStatus = s \<rparr>)"

definition StoreConfig_layout ::
  "('t, 'v, 'q) third_party \<Rightarrow> ('t StoreConfig, 't cell, 'v StoreConfig) layout" where
  "StoreConfig_layout T =
     struct_layout (both_layout (sp_layout (tp_ObjectMeta T)) (StoreConfigStatus_layout T))
       (\<lambda>x. (sc_ObjectMeta x, sc_Status x))
       (\<lambda>(om, st) x. \<lparr> sc_TypeMeta = sc_TypeMeta x, sc_ObjectMeta = om, sc_Spec = sc_Spec x, sc_Status = st \<rparr>)"

text \<open>The value of a list: its metadata and the values of its items, or nil.\<close>

definition ServiceBindingList_layout where
  "ServiceBindingList_layout T =
     struct_layout (both_layout (sp_layout (tp_ListMeta T)) (slice_layout service_bindings_cell (ServiceBinding_layout T)))
       (\<lambda>x. (sbl_ListMeta x, sbl_Items x)) (\<lambda>(lm, items) x. (sbl_TypeMeta x, lm, items))"

definition ServiceInstanceList_layout where
  "ServiceInstanceList_layout T =
     struct_layout (both_layout (sp_layout (tp_ListMeta T)) (slice_layout service_instances_cell (ServiceInstance_layout T)))
       (\<lambda>x. (sil_ListMeta x, sil_Items x)) (\<lambda>(lm, items) x. (sil_TypeMeta x, lm, items))"

definition ProviderConfigList_layout where
  "ProviderConfigList_layout T =
     struct_layout (both_layout (sp_layout (tp_ListMeta T)) (slice_layout provider_configs_cell (ProviderConfig_layout T)))
       (\<lambda>x. (pcl_ListMeta x, pcl_Items x)) (\<lambda>(lm, items) x. (pcl_TypeMeta x, lm, items))"

definition ClusterProviderConfigList_layout where
  "ClusterProviderConfigList_layout T =
     struct_layout
       (both_layout (sp_layout (tp_ListMeta T)) (slice_layout cluster_provider_configs_cell (ClusterProviderConfig_layout T)))
       (\<lambda>x. (ccl_ListMeta x, ccl_Items x)) (\<lambda>(lm, items) x. (ccl_TypeMeta x, lm, items))"

definition ProviderConfigUsageList_layout where
  "ProviderConfigUsageList_layout T =
     struct_layout (both_layout (sp_layout (tp_ListMeta T)) (slice_layout usages_cell (ProviderConfigUsage_layout T)))
       (\<lambda>x. (pul_ListMeta x, pul_Items x)) (\<lambda>(lm, items) x. (pul_TypeMeta x, lm, items))"

definition StoreConfigList_layout where
  "StoreConfigList_layout T =
     struct_layout (both_layout (sp_layout (tp_ListMeta T)) (slice_layout store_configs_cell (StoreConfig_layout T)))
       (\<lambda>x. (scl_ListMeta x, scl_Items x)) (\<lambda>(lm, items) x. (scl_TypeMeta x, lm, items))"

end
