(* ===== verification/Deep_Copy.thy ===== *)
theory Deep_Copy
  imports Memory_Layout
begin

text \<open>
  The generated methods \<^verbatim>\<open>DeepCopyInto\<close>, \<^verbatim>\<open>DeepCopy\<close> and \<^verbatim>\<open>DeepCopyObject\<close> of every type
  of \<^verbatim>\<open>apis/\<close> (the four files \<^verbatim>\<open>zz_generated.deepcopy.go\<close>), and for each type the lemma
  that \<^verbatim>\<open>DeepCopyInto\<close> keeps the contract of a deep copy for the type's layout.

  \<open>T_DeepCopyInto T x h\<close> is the struct stored behind \<^verbatim>\<open>out\<close> and the heap afterwards. The
  assignment \<^verbatim>\<open>*out = *in\<close> gives \<open>x\<close>; the fields with references are then replaced, in the
  order of the code. Assigning a flat field again (\<^verbatim>\<open>out.TypeMeta = in.TypeMeta\<close>) changes nothing.
\<close>

type_synonym ('t, 'v, 'q, 'a) copier =
  "('t, 'v, 'q) third_party \<Rightarrow> 'a \<Rightarrow> 't cell heap \<Rightarrow> 'a \<times> 't cell heap"

section \<open>Fields\<close>

definition copy_annotations where
  "copy_annotations T = copy_map StringMapCell string_map_cell (tp_order T)"

definition copy_string :: "addr option \<Rightarrow> 't cell heap \<Rightarrow> addr option \<times> 't cell heap" where
  "copy_string = copy_ptr StringCell string_cell [] Pair"

definition copy_metadata :: "addr option \<Rightarrow> 't cell heap \<Rightarrow> addr option \<times> 't cell heap" where
  "copy_metadata = copy_ptr MetadataCell metadata_cell \<lparr> md_ExpiresAt = [], md_RenewBefore = [] \<rparr> Pair"

definition copy_bytes :: "slice \<Rightarrow> 't cell heap \<Rightarrow> slice \<times> 't cell heap" where
  "copy_bytes = copy_slice BytesCell bytes_cell (CHR 0x00)"

definition copy_strings :: "slice \<Rightarrow> 't cell heap \<Rightarrow> slice \<times> 't cell heap" where
  "copy_strings = copy_slice StringsCell strings_cell []"

lemma lawful_annotations: "third_party_laws T \<Longrightarrow> lawful (copy_annotations T) annotations_layout"
  unfolding copy_annotations_def annotations_layout_def
  by (rule lawful_map) (simp_all add: third_party_lawful(1))

lemma lawful_string: "lawful copy_string string_layout"
  unfolding copy_string_def string_layout_def by (rule lawful_ptr [OF lawful_flat]) simp

lemma lawful_metadata: "lawful copy_metadata (ptr_layout metadata_cell (flat_layout (\<lambda>m. True) (\<lambda>m. m)))"
  unfolding copy_metadata_def by (rule lawful_ptr [OF lawful_flat]) simp

lemma lawful_bytes: "lawful copy_bytes (slice_layout bytes_cell (flat_layout (\<lambda>b. True) (\<lambda>b. b)))"
  unfolding copy_bytes_def by (rule lawful_slice) simp

lemma lawful_strings: "lawful copy_strings (slice_layout strings_cell (flat_layout (\<lambda>s. True) (\<lambda>s. s)))"
  unfolding copy_strings_def by (rule lawful_slice) simp

section \<open>Zero values\<close>

text \<open>What \<^verbatim>\<open>make\<close> and \<^verbatim>\<open>new\<close> fill a new cell with.\<close>

definition KubernetesOSBContext_zero :: KubernetesOSBContext_mem where
  "KubernetesOSBContext_zero =
     \<lparr> kcm_Platform = [], kcm_Namespace = [], kcm_NamespaceAnnotations = None,
       kcm_InstanceAnnotations = None, kcm_ClusterId = [], kcm_InstanceName = [] \<rparr>"

definition InstanceData_zero :: InstanceData_mem where
  "InstanceData_zero =
     \<lparr> idm_AppGuid = [], idm_InstanceId = [], idm_PlanId = [], idm_ServiceId = [],
       idm_Context = KubernetesOSBContext_zero, idm_Parameters = [], idm_OrganizationGuid = [],
       idm_SpaceGuid = [] \<rparr>"

definition ServiceBindingParameters_zero :: ServiceBindingParameters_mem where
  "ServiceBindingParameters_zero =
     \<lparr> spm_AppGuid = [], spm_InstanceId = [], spm_PlanId = [], spm_ServiceId = [],
       spm_Context = KubernetesOSBContext_zero, spm_Parameters = [],
       spm_BindResource = \<lparr> bres_AppGuid = [], bres_Route = [] \<rparr> \<rparr>"

definition ServiceBindingObservation_zero :: ServiceBindingObservation_mem where
  "ServiceBindingObservation_zero =
     \<lparr> som_Parameters = [], som_RouteServiceURL = None, som_Endpoints = [], som_VolumeMounts = [],
       som_SyslogDrainURL = None, som_Metadata = None, som_LastOperationState = LastOperationState_zero,
       som_LastOperationKey = [], som_LastOperationDescription = [], som_LastOperationPolledTime = [] \<rparr>"

definition ServiceInstanceObservation_zero :: ServiceInstanceObservation_mem where
  "ServiceInstanceObservation_zero =
     \<lparr> iom_AppGuid = [], iom_InstanceId = [], iom_PlanId = [], iom_ServiceId = [],
       iom_Context = KubernetesOSBContext_zero, iom_Parameters = [], iom_OrganizationGuid = [],
       iom_SpaceGuid = [], iom_DashboardURL = None, iom_LastOperationState = LastOperationState_zero,
       iom_LastOperationKey = [], iom_LastOperationDescription = [], iom_HasActiveBindings = False \<rparr>"

definition TypeMeta_zero :: TypeMeta where
  "TypeMeta_zero = \<lparr> tm_Kind = [], tm_APIVersion = [] \<rparr>"

definition ServiceBinding_zero :: "('t, 'v, 'q) third_party \<Rightarrow> 't ServiceBinding_mem" where
  "ServiceBinding_zero T =
     \<lparr> sbm_TypeMeta = TypeMeta_zero, sbm_ObjectMeta = sp_zero (tp_ObjectMeta T),
       sbm_Spec = \<lparr> ssm_ManagedResourceSpec = sp_zero (tp_ManagedResourceSpec T),
                    ssm_ForProvider = ServiceBindingParameters_zero \<rparr>,
       sbm_Status = \<lparr> stm_ResourceStatus = sp_zero (tp_ResourceStatus T),
                      stm_AtProvider = ServiceBindingObservation_zero \<rparr> \<rparr>"

definition ServiceInstance_zero :: "('t, 'v, 'q) third_party \<Rightarrow> 't ServiceInstance_mem" where
  "ServiceInstance_zero T =
     \<lparr> sim_TypeMeta = TypeMeta_zero, sim_ObjectMeta = sp_zero (tp_ObjectMeta T),
       sim_Spec = \<lparr> ism_ManagedResourceSpec = sp_zero (tp_ManagedResourceSpec T),
                    ism_ForProvider = InstanceData_zero \<rparr>,
       sim_Status = \<lparr> itm_ResourceStatus = sp_zero (tp_ResourceStatus T),
                      itm_AtProvider = ServiceInstanceObservation_zero \<rparr> \<rparr>"

definition ProviderConfigSpec_zero :: "('t, 'v, 'q) third_party \<Rightarrow> 't ProviderConfigSpec" where
  "ProviderConfigSpec_zero T =
     \<lparr> pcs_Credentials = \<lparr> pcr_Source = [], pcr_Selectors = sp_zero (tp_CommonCredentialSelectors T) \<rparr>,
       pcs_BrokerURL = [], pcs_OSBVersion = [], pcs_Timeout = 0, pcs_DisableAsync = False \<rparr>"

definition ProviderConfig_zero :: "('t, 'v, 'q) third_party \<Rightarrow> 't ProviderConfig_mem" where
  "ProviderConfig_zero T =
     \<lparr> pcm_TypeMeta = TypeMeta_zero, pcm_ObjectMeta = sp_zero (tp_ObjectMeta T),
       pcm_Spec = ProviderConfigSpec_zero T,
       pcm_Status = \<lparr> pst_ProviderConfigStatus = sp_zero (tp_ProviderConfigStatus T) \<rparr> \<rparr>"

definition ClusterProviderConfig_zero :: "('t, 'v, 'q) third_party \<Rightarrow> 't ClusterProviderConfig_mem" where
  "ClusterProviderConfig_zero T =
     \<lparr> ccm_TypeMeta = TypeMeta_zero, ccm_ObjectMeta = sp_zero (tp_ObjectMeta T),
       ccm_Spec = ProviderConfigSpec_zero T,
       ccm_Status = \<lparr> pst_ProviderConfigStatus = sp_zero (tp_ProviderConfigStatus T) \<rparr> \<rparr>"

definition ProviderConfigUsage_zero :: "('t, 'v, 'q) third_party \<Rightarrow> 't ProviderConfigUsage" where
  "ProviderConfigUsage_zero T =
     \<lparr> pcu_TypeMeta = TypeMeta_zero, pcu_ObjectMeta = sp_zero (tp_ObjectMeta T),
       pcu_TypedProviderConfigUsage = sp_zero (tp_TypedProviderConfigUsage T) \<rparr>"

definition StoreConfig_zero :: "('t, 'v, 'q) third_party \<Rightarrow> 't StoreConfig" where
  "StoreConfig_zero T =
     \<lparr> sc_TypeMeta = TypeMeta_zero, sc_ObjectMeta = sp_zero (tp_ObjectMeta T), sc_Spec = (),
       sc_Status = \<lparr> sts_ConditionedStatus = sp_zero (tp_ConditionedStatus T) \<rparr> \<rparr>"

section \<open>Objects\<close>

text \<open>
  A value of the interface \<^verbatim>\<open>runtime.Object\<close> that is not nil: a pointer of one of the kinds.
  The pointer inside may itself be nil; \<^verbatim>\<open>DeepCopyObject\<close> takes care that it is not.
\<close>

datatype 't runtime_object =
    ServiceBindingObj "'t ServiceBinding_mem option"
  | ServiceBindingListObj "'t ServiceBindingList option"
  | ServiceInstanceObj "'t ServiceInstance_mem option"
  | ServiceInstanceListObj "'t ServiceInstanceList option"
  | ClusterProviderConfigObj "'t ClusterProviderConfig_mem option"
  | ClusterProviderConfigListObj "'t ClusterProviderConfigList option"
  | ProviderConfigObj "'t ProviderConfig_mem option"
  | ProviderConfigListObj "'t ProviderConfigList option"
  | ProviderConfigUsageObj "'t ProviderConfigUsage option"
  | ProviderConfigUsageListObj "'t ProviderConfigUsageList option"
  | StoreConfigObj "'t StoreConfig option"
  | StoreConfigListObj "'t StoreConfigList option"

text \<open>\<^verbatim>\<open>if c := in.DeepCopy(); c != nil\<close>: a nil copy is returned as the nil interface.\<close>

definition as_object :: "('a option \<Rightarrow> 't runtime_object) \<Rightarrow> 'a option \<times> 'h \<Rightarrow> 't runtime_object option \<times> 'h" where
  "as_object obj r = (case r of (c, h) \<Rightarrow> if c \<noteq> None then (Some (obj c), h) else (None, h))"

section \<open>Package \<^verbatim>\<open>apis/common\<close>\<close>

definition KubernetesOSBContext_DeepCopyInto :: "('t, 'v, 'q, KubernetesOSBContext_mem) copier" where
  "KubernetesOSBContext_DeepCopyInto T x h =
     (case copy_annotations T (kcm_NamespaceAnnotations x) h of (a, h1) \<Rightarrow>
      case copy_annotations T (kcm_InstanceAnnotations x) h1 of (b, h2) \<Rightarrow>
        (x\<lparr>kcm_NamespaceAnnotations := a, kcm_InstanceAnnotations := b\<rparr>, h2))"

definition KubernetesOSBContext_DeepCopy where
  "KubernetesOSBContext_DeepCopy T = new_copy (KubernetesOSBContext_DeepCopyInto T)"

lemma lawful_KubernetesOSBContext:
  assumes "third_party_laws T"
  shows "lawful (KubernetesOSBContext_DeepCopyInto T) KubernetesOSBContext_layout"
  unfolding KubernetesOSBContext_layout_def
  by (rule lawful_struct [where put =
        "\<lambda>(a, b) x. x\<lparr>kcm_NamespaceAnnotations := a, kcm_InstanceAnnotations := b\<rparr>",
        OF lawful_both [OF lawful_annotations [OF assms] lawful_annotations [OF assms]]])
    (auto simp: KubernetesOSBContext_DeepCopyInto_def copy_both_def split: prod.split)

definition InstanceData_DeepCopyInto :: "('t, 'v, 'q, InstanceData_mem) copier" where
  "InstanceData_DeepCopyInto T x h =
     (case KubernetesOSBContext_DeepCopyInto T (idm_Context x) h of (a, h1) \<Rightarrow>
        (x\<lparr>idm_Context := a\<rparr>, h1))"

definition InstanceData_DeepCopy where
  "InstanceData_DeepCopy T = new_copy (InstanceData_DeepCopyInto T)"

lemma lawful_InstanceData:
  assumes "third_party_laws T"
  shows "lawful (InstanceData_DeepCopyInto T) InstanceData_layout"
  unfolding InstanceData_layout_def
  by (rule lawful_struct [where put =
        "\<lambda>a x. x\<lparr>idm_Context := a\<rparr>",
        OF lawful_KubernetesOSBContext [OF assms]])
    (auto simp: InstanceData_DeepCopyInto_def copy_both_def split: prod.split)

definition KubernetesOSBOriginatingIdentityExtra_DeepCopyInto :: "('t, 'v, 'q, Extra_mem) copier" where
  "KubernetesOSBOriginatingIdentityExtra_DeepCopyInto T x h =
     (case copy_bytes (exm_Raw x) h of (a, h1) \<Rightarrow>
        (x\<lparr>exm_Raw := a\<rparr>, h1))"

definition KubernetesOSBOriginatingIdentityExtra_DeepCopy where
  "KubernetesOSBOriginatingIdentityExtra_DeepCopy T = new_copy (KubernetesOSBOriginatingIdentityExtra_DeepCopyInto T)"

lemma lawful_Extra: "lawful (KubernetesOSBOriginatingIdentityExtra_DeepCopyInto T) Extra_layout"
  unfolding Extra_layout_def
  by (rule lawful_struct [where put =
        "\<lambda>a x. x\<lparr>exm_Raw := a\<rparr>", OF lawful_bytes])
    (auto simp: KubernetesOSBOriginatingIdentityExtra_DeepCopyInto_def copy_both_def split: prod.split)

definition KubernetesOSBOriginatingIdentityValue_DeepCopyInto :: "('t, 'v, 'q, IdentityValue_mem) copier" where
  "KubernetesOSBOriginatingIdentityValue_DeepCopyInto T x h =
     (case copy_strings (ivm_Groups x) h of (a, h1) \<Rightarrow>
      case copy_ptr ExtraCell extra_cell \<lparr> exm_Raw = NilSlice \<rparr> (KubernetesOSBOriginatingIdentityExtra_DeepCopyInto T)
             (ivm_Extra x) h1 of (b, h2) \<Rightarrow>
        (x\<lparr>ivm_Groups := a, ivm_Extra := b\<rparr>, h2))"

definition KubernetesOSBOriginatingIdentityValue_DeepCopy where
  "KubernetesOSBOriginatingIdentityValue_DeepCopy T = new_copy (KubernetesOSBOriginatingIdentityValue_DeepCopyInto T)"

lemma lawful_IdentityValue: "lawful (KubernetesOSBOriginatingIdentityValue_DeepCopyInto T) IdentityValue_layout"
  unfolding IdentityValue_layout_def
  by (rule lawful_struct [where put =
        "\<lambda>(a, b) x. x\<lparr>ivm_Groups := a, ivm_Extra := b\<rparr>",
        OF lawful_both [OF lawful_strings
          lawful_ptr [where mk = ExtraCell and zero = "\<lparr> exm_Raw = NilSlice \<rparr>",
            OF lawful_Extra [of T] extra_cell.simps(1)]]])
    (auto simp: KubernetesOSBOriginatingIdentityValue_DeepCopyInto_def copy_both_def split: prod.split)

definition NamespacedName_DeepCopyInto :: "('t, 'v, 'q, NamespacedName) copier" where
  "NamespacedName_DeepCopyInto T x h =
     (x, h)"

definition NamespacedName_DeepCopy where
  "NamespacedName_DeepCopy T = new_copy (NamespacedName_DeepCopyInto T)"

lemma lawful_NamespacedName: "lawful (NamespacedName_DeepCopyInto T) (flat_layout (\<lambda>x. True) (\<lambda>x. x))"
proof -
  have "NamespacedName_DeepCopyInto T = Pair" by (simp add: fun_eq_iff NamespacedName_DeepCopyInto_def)
  then show ?thesis by (simp add: lawful_flat)
qed

section \<open>Package \<^verbatim>\<open>apis/binding/v1alpha1\<close>\<close>

definition BindResource_DeepCopyInto :: "('t, 'v, 'q, BindResource) copier" where
  "BindResource_DeepCopyInto T x h =
     (x, h)"

definition BindResource_DeepCopy where
  "BindResource_DeepCopy T = new_copy (BindResource_DeepCopyInto T)"

lemma lawful_BindResource: "lawful (BindResource_DeepCopyInto T) (flat_layout (\<lambda>x. True) (\<lambda>x. x))"
proof -
  have "BindResource_DeepCopyInto T = Pair" by (simp add: fun_eq_iff BindResource_DeepCopyInto_def)
  then show ?thesis by (simp add: lawful_flat)
qed

definition ServiceBindingParameters_DeepCopyInto :: "('t, 'v, 'q, ServiceBindingParameters_mem) copier" where
  "ServiceBindingParameters_DeepCopyInto T x h =
     (case KubernetesOSBContext_DeepCopyInto T (spm_Context x) h of (a, h1) \<Rightarrow>
        (x\<lparr>spm_Context := a\<rparr>, h1))"

definition ServiceBindingParameters_DeepCopy where
  "ServiceBindingParameters_DeepCopy T = new_copy (ServiceBindingParameters_DeepCopyInto T)"

lemma lawful_ServiceBindingParameters:
  assumes "third_party_laws T"
  shows "lawful (ServiceBindingParameters_DeepCopyInto T) ServiceBindingParameters_layout"
  unfolding ServiceBindingParameters_layout_def
  by (rule lawful_struct [where put =
        "\<lambda>a x. x\<lparr>spm_Context := a\<rparr>",
        OF lawful_KubernetesOSBContext [OF assms]])
    (auto simp: ServiceBindingParameters_DeepCopyInto_def copy_both_def split: prod.split)

definition ServiceBindingObservation_DeepCopyInto :: "('t, 'v, 'q, ServiceBindingObservation_mem) copier" where
  "ServiceBindingObservation_DeepCopyInto T x h =
     (case copy_string (som_RouteServiceURL x) h of (a, h1) \<Rightarrow>
      case copy_string (som_SyslogDrainURL x) h1 of (b, h2) \<Rightarrow>
      case copy_metadata (som_Metadata x) h2 of (c, h3) \<Rightarrow>
        (x\<lparr>som_RouteServiceURL := a, som_SyslogDrainURL := b, som_Metadata := c\<rparr>, h3))"

definition ServiceBindingObservation_DeepCopy where
  "ServiceBindingObservation_DeepCopy T = new_copy (ServiceBindingObservation_DeepCopyInto T)"

lemma lawful_ServiceBindingObservation:
  "lawful (ServiceBindingObservation_DeepCopyInto T) ServiceBindingObservation_layout"
  unfolding ServiceBindingObservation_layout_def
  by (rule lawful_struct [where put =
        "\<lambda>(a, b, c) x. x\<lparr>som_RouteServiceURL := a, som_SyslogDrainURL := b, som_Metadata := c\<rparr>",
        OF lawful_both [OF lawful_string lawful_both [OF lawful_string lawful_metadata]]])
    (auto simp: ServiceBindingObservation_DeepCopyInto_def copy_both_def split: prod.split)

definition ServiceBindingSpec_DeepCopyInto :: "('t, 'v, 'q, 't ServiceBindingSpec_mem) copier" where
  "ServiceBindingSpec_DeepCopyInto T x h =
     (case sp_DeepCopyInto (tp_ManagedResourceSpec T) (ssm_ManagedResourceSpec x) h of (a, h1) \<Rightarrow>
      case ServiceBindingParameters_DeepCopyInto T (ssm_ForProvider x) h1 of (b, h2) \<Rightarrow>
        (x\<lparr>ssm_ManagedResourceSpec := a, ssm_ForProvider := b\<rparr>, h2))"

definition ServiceBindingSpec_DeepCopy where
  "ServiceBindingSpec_DeepCopy T = new_copy (ServiceBindingSpec_DeepCopyInto T)"

lemma lawful_ServiceBindingSpec:
  assumes "third_party_laws T"
  shows "lawful (ServiceBindingSpec_DeepCopyInto T) (ServiceBindingSpec_layout T)"
  unfolding ServiceBindingSpec_layout_def
  by (rule lawful_struct [where put =
        "\<lambda>(a, b) x. x\<lparr>ssm_ManagedResourceSpec := a, ssm_ForProvider := b\<rparr>",
        OF lawful_both [OF third_party_lawful(4) [OF assms] lawful_ServiceBindingParameters [OF assms]]])
    (auto simp: ServiceBindingSpec_DeepCopyInto_def copy_both_def split: prod.split)

definition ServiceBindingStatus_DeepCopyInto :: "('t, 'v, 'q, 't ServiceBindingStatus_mem) copier" where
  "ServiceBindingStatus_DeepCopyInto T x h =
     (case sp_DeepCopyInto (tp_ResourceStatus T) (stm_ResourceStatus x) h of (a, h1) \<Rightarrow>
      case ServiceBindingObservation_DeepCopyInto T (stm_AtProvider x) h1 of (b, h2) \<Rightarrow>
        (x\<lparr>stm_ResourceStatus := a, stm_AtProvider := b\<rparr>, h2))"

definition ServiceBindingStatus_DeepCopy where
  "ServiceBindingStatus_DeepCopy T = new_copy (ServiceBindingStatus_DeepCopyInto T)"

lemma lawful_ServiceBindingStatus:
  assumes "third_party_laws T"
  shows "lawful (ServiceBindingStatus_DeepCopyInto T) (ServiceBindingStatus_layout T)"
  unfolding ServiceBindingStatus_layout_def
  by (rule lawful_struct [where put =
        "\<lambda>(a, b) x. x\<lparr>stm_ResourceStatus := a, stm_AtProvider := b\<rparr>",
        OF lawful_both [OF third_party_lawful(5) [OF assms] lawful_ServiceBindingObservation [of T]]])
    (auto simp: ServiceBindingStatus_DeepCopyInto_def copy_both_def split: prod.split)

definition ServiceBinding_DeepCopyInto :: "('t, 'v, 'q, 't ServiceBinding_mem) copier" where
  "ServiceBinding_DeepCopyInto T x h =
     (case sp_DeepCopyInto (tp_ObjectMeta T) (sbm_ObjectMeta x) h of (a, h1) \<Rightarrow>
      case ServiceBindingSpec_DeepCopyInto T (sbm_Spec x) h1 of (b, h2) \<Rightarrow>
      case ServiceBindingStatus_DeepCopyInto T (sbm_Status x) h2 of (c, h3) \<Rightarrow>
        (x\<lparr>sbm_ObjectMeta := a, sbm_Spec := b, sbm_Status := c\<rparr>, h3))"

definition ServiceBinding_DeepCopy where
  "ServiceBinding_DeepCopy T = new_copy (ServiceBinding_DeepCopyInto T)"

definition ServiceBinding_DeepCopyObject where
  "ServiceBinding_DeepCopyObject T p h = as_object ServiceBindingObj (ServiceBinding_DeepCopy T p h)"

lemma lawful_ServiceBinding:
  assumes "third_party_laws T"
  shows "lawful (ServiceBinding_DeepCopyInto T) (ServiceBinding_layout T)"
  unfolding ServiceBinding_layout_def
  by (rule lawful_struct [where put =
        "\<lambda>(a, b, c) x. x\<lparr>sbm_ObjectMeta := a, sbm_Spec := b, sbm_Status := c\<rparr>",
        OF lawful_both [OF third_party_lawful(2) [OF assms]
          lawful_both [OF lawful_ServiceBindingSpec [OF assms] lawful_ServiceBindingStatus [OF assms]]]])
    (auto simp: ServiceBinding_DeepCopyInto_def copy_both_def split: prod.split)

definition ServiceBindingList_DeepCopyInto :: "('t, 'v, 'q, 't ServiceBindingList) copier" where
  "ServiceBindingList_DeepCopyInto T x h =
     (case sp_DeepCopyInto (tp_ListMeta T) (sbl_ListMeta x) h of (a, h1) \<Rightarrow>
      case copy_items ServiceBindingsCell service_bindings_cell (ServiceBinding_zero T)
            (ServiceBinding_DeepCopyInto T) (sbl_Items x) h1 of (b, h2) \<Rightarrow>
        (x\<lparr>sbl_ListMeta := a, sbl_Items := b\<rparr>, h2))"

definition ServiceBindingList_DeepCopy where
  "ServiceBindingList_DeepCopy T = new_copy (ServiceBindingList_DeepCopyInto T)"

definition ServiceBindingList_DeepCopyObject where
  "ServiceBindingList_DeepCopyObject T p h = as_object ServiceBindingListObj (ServiceBindingList_DeepCopy T p h)"

lemma lawful_ServiceBindingList:
  assumes "third_party_laws T"
  shows "lawful (ServiceBindingList_DeepCopyInto T) (ServiceBindingList_layout T)"
  unfolding ServiceBindingList_layout_def
  by (rule lawful_struct [where put =
        "\<lambda>(a, b) x. x\<lparr>sbl_ListMeta := a, sbl_Items := b\<rparr>",
        OF lawful_both [OF third_party_lawful(3) [OF assms]
          lawful_items [where mk = ServiceBindingsCell and zero = "ServiceBinding_zero T",
            OF lawful_ServiceBinding [OF assms] service_bindings_cell.simps(1)]]])
    (auto simp: ServiceBindingList_DeepCopyInto_def copy_both_def split: prod.split)

section \<open>Package \<^verbatim>\<open>apis/instance/v1alpha1\<close>\<close>

definition ServiceInstanceObservation_DeepCopyInto :: "('t, 'v, 'q, ServiceInstanceObservation_mem) copier" where
  "ServiceInstanceObservation_DeepCopyInto T x h =
     (case KubernetesOSBContext_DeepCopyInto T (iom_Context x) h of (a, h1) \<Rightarrow>
      case copy_string (iom_DashboardURL x) h1 of (b, h2) \<Rightarrow>
        (x\<lparr>iom_Context := a, iom_DashboardURL := b\<rparr>, h2))"

definition ServiceInstanceObservation_DeepCopy where
  "ServiceInstanceObservation_DeepCopy T = new_copy (ServiceInstanceObservation_DeepCopyInto T)"

lemma lawful_ServiceInstanceObservation:
  assumes "third_party_laws T"
  shows "lawful (ServiceInstanceObservation_DeepCopyInto T) ServiceInstanceObservation_layout"
  unfolding ServiceInstanceObservation_layout_def
  by (rule lawful_struct [where put =
        "\<lambda>(a, b) x. x\<lparr>iom_Context := a, iom_DashboardURL := b\<rparr>",
        OF lawful_both [OF lawful_KubernetesOSBContext [OF assms] lawful_string]])
    (auto simp: ServiceInstanceObservation_DeepCopyInto_def copy_both_def split: prod.split)

definition ServiceInstanceSpec_DeepCopyInto :: "('t, 'v, 'q, 't ServiceInstanceSpec_mem) copier" where
  "ServiceInstanceSpec_DeepCopyInto T x h =
     (case sp_DeepCopyInto (tp_ManagedResourceSpec T) (ism_ManagedResourceSpec x) h of (a, h1) \<Rightarrow>
      case InstanceData_DeepCopyInto T (ism_ForProvider x) h1 of (b, h2) \<Rightarrow>
        (x\<lparr>ism_ManagedResourceSpec := a, ism_ForProvider := b\<rparr>, h2))"

definition ServiceInstanceSpec_DeepCopy where
  "ServiceInstanceSpec_DeepCopy T = new_copy (ServiceInstanceSpec_DeepCopyInto T)"

lemma lawful_ServiceInstanceSpec:
  assumes "third_party_laws T"
  shows "lawful (ServiceInstanceSpec_DeepCopyInto T) (ServiceInstanceSpec_layout T)"
  unfolding ServiceInstanceSpec_layout_def
  by (rule lawful_struct [where put =
        "\<lambda>(a, b) x. x\<lparr>ism_ManagedResourceSpec := a, ism_ForProvider := b\<rparr>",
        OF lawful_both [OF third_party_lawful(4) [OF assms] lawful_InstanceData [OF assms]]])
    (auto simp: ServiceInstanceSpec_DeepCopyInto_def copy_both_def split: prod.split)

definition ServiceInstanceStatus_DeepCopyInto :: "('t, 'v, 'q, 't ServiceInstanceStatus_mem) copier" where
  "ServiceInstanceStatus_DeepCopyInto T x h =
     (case sp_DeepCopyInto (tp_ResourceStatus T) (itm_ResourceStatus x) h of (a, h1) \<Rightarrow>
      case ServiceInstanceObservation_DeepCopyInto T (itm_AtProvider x) h1 of (b, h2) \<Rightarrow>
        (x\<lparr>itm_ResourceStatus := a, itm_AtProvider := b\<rparr>, h2))"

definition ServiceInstanceStatus_DeepCopy where
  "ServiceInstanceStatus_DeepCopy T = new_copy (ServiceInstanceStatus_DeepCopyInto T)"

lemma lawful_ServiceInstanceStatus:
  assumes "third_party_laws T"
  shows "lawful (ServiceInstanceStatus_DeepCopyInto T) (ServiceInstanceStatus_layout T)"
  unfolding ServiceInstanceStatus_layout_def
  by (rule lawful_struct [where put =
        "\<lambda>(a, b) x. x\<lparr>itm_ResourceStatus := a, itm_AtProvider := b\<rparr>",
        OF lawful_both [OF third_party_lawful(5) [OF assms] lawful_ServiceInstanceObservation [OF assms]]])
    (auto simp: ServiceInstanceStatus_DeepCopyInto_def copy_both_def split: prod.split)

definition ServiceInstance_DeepCopyInto :: "('t, 'v, 'q, 't ServiceInstance_mem) copier" where
  "ServiceInstance_DeepCopyInto T x h =
     (case sp_DeepCopyInto (tp_ObjectMeta T) (sim_ObjectMeta x) h of (a, h1) \<Rightarrow>
      case ServiceInstanceSpec_DeepCopyInto T (sim_Spec x) h1 of (b, h2) \<Rightarrow>
      case ServiceInstanceStatus_DeepCopyInto T (sim_Status x) h2 of (c, h3) \<Rightarrow>
        (x\<lparr>sim_ObjectMeta := a, sim_Spec := b, sim_Status := c\<rparr>, h3))"

definition ServiceInstance_DeepCopy where
  "ServiceInstance_DeepCopy T = new_copy (ServiceInstance_DeepCopyInto T)"

definition ServiceInstance_DeepCopyObject where
  "ServiceInstance_DeepCopyObject T p h = as_object ServiceInstanceObj (ServiceInstance_DeepCopy T p h)"

lemma lawful_ServiceInstance:
  assumes "third_party_laws T"
  shows "lawful (ServiceInstance_DeepCopyInto T) (ServiceInstance_layout T)"
  unfolding ServiceInstance_layout_def
  by (rule lawful_struct [where put =
        "\<lambda>(a, b, c) x. x\<lparr>sim_ObjectMeta := a, sim_Spec := b, sim_Status := c\<rparr>",
        OF lawful_both [OF third_party_lawful(2) [OF assms]
          lawful_both [OF lawful_ServiceInstanceSpec [OF assms] lawful_ServiceInstanceStatus [OF assms]]]])
    (auto simp: ServiceInstance_DeepCopyInto_def copy_both_def split: prod.split)

definition ServiceInstanceList_DeepCopyInto :: "('t, 'v, 'q, 't ServiceInstanceList) copier" where
  "ServiceInstanceList_DeepCopyInto T x h =
     (case sp_DeepCopyInto (tp_ListMeta T) (sil_ListMeta x) h of (a, h1) \<Rightarrow>
      case copy_items ServiceInstancesCell service_instances_cell (ServiceInstance_zero T)
            (ServiceInstance_DeepCopyInto T) (sil_Items x) h1 of (b, h2) \<Rightarrow>
        (x\<lparr>sil_ListMeta := a, sil_Items := b\<rparr>, h2))"

definition ServiceInstanceList_DeepCopy where
  "ServiceInstanceList_DeepCopy T = new_copy (ServiceInstanceList_DeepCopyInto T)"

definition ServiceInstanceList_DeepCopyObject where
  "ServiceInstanceList_DeepCopyObject T p h = as_object ServiceInstanceListObj (ServiceInstanceList_DeepCopy T p h)"

lemma lawful_ServiceInstanceList:
  assumes "third_party_laws T"
  shows "lawful (ServiceInstanceList_DeepCopyInto T) (ServiceInstanceList_layout T)"
  unfolding ServiceInstanceList_layout_def
  by (rule lawful_struct [where put =
        "\<lambda>(a, b) x. x\<lparr>sil_ListMeta := a, sil_Items := b\<rparr>",
        OF lawful_both [OF third_party_lawful(3) [OF assms]
          lawful_items [where mk = ServiceInstancesCell and zero = "ServiceInstance_zero T",
            OF lawful_ServiceInstance [OF assms] service_instances_cell.simps(1)]]])
    (auto simp: ServiceInstanceList_DeepCopyInto_def copy_both_def split: prod.split)

section \<open>Package \<^verbatim>\<open>apis/v1alpha1\<close>\<close>

definition ProviderCredentials_DeepCopyInto :: "('t, 'v, 'q, 't ProviderCredentials) copier" where
  "ProviderCredentials_DeepCopyInto T x h =
     (case sp_DeepCopyInto (tp_CommonCredentialSelectors T) (pcr_Selectors x) h of (a, h1) \<Rightarrow>
        (x\<lparr>pcr_Selectors := a\<rparr>, h1))"

definition ProviderCredentials_DeepCopy where
  "ProviderCredentials_DeepCopy T = new_copy (ProviderCredentials_DeepCopyInto T)"

lemma lawful_ProviderCredentials:
  assumes "third_party_laws T"
  shows "lawful (ProviderCredentials_DeepCopyInto T) (ProviderCredentials_layout T)"
  unfolding ProviderCredentials_layout_def
  by (rule lawful_struct [where put =
        "\<lambda>a x. x\<lparr>pcr_Selectors := a\<rparr>", OF
        third_party_lawful(6) [OF assms]])
    (auto simp: ProviderCredentials_DeepCopyInto_def copy_both_def split: prod.split)

definition ProviderConfigSpec_DeepCopyInto :: "('t, 'v, 'q, 't ProviderConfigSpec) copier" where
  "ProviderConfigSpec_DeepCopyInto T x h =
     (case ProviderCredentials_DeepCopyInto T (pcs_Credentials x) h of (a, h1) \<Rightarrow>
        (x\<lparr>pcs_Credentials := a\<rparr>, h1))"

definition ProviderConfigSpec_DeepCopy where
  "ProviderConfigSpec_DeepCopy T = new_copy (ProviderConfigSpec_DeepCopyInto T)"

lemma lawful_ProviderConfigSpec:
  assumes "third_party_laws T"
  shows "lawful (ProviderConfigSpec_DeepCopyInto T) (ProviderConfigSpec_layout T)"
  unfolding ProviderConfigSpec_layout_def
  by (rule lawful_struct [where put =
        "\<lambda>a x. x\<lparr>pcs_Credentials := a\<rparr>",
        OF lawful_ProviderCredentials [OF assms]])
    (auto simp: ProviderConfigSpec_DeepCopyInto_def copy_both_def split: prod.split)

definition ProviderConfigStatus_DeepCopyInto :: "('t, 'v, 'q, 't ProviderConfigStatus) copier" where
  "ProviderConfigStatus_DeepCopyInto T x h =
     (case sp_DeepCopyInto (tp_ProviderConfigStatus T) (pst_ProviderConfigStatus x) h of (a, h1) \<Rightarrow>
        (x\<lparr>pst_ProviderConfigStatus := a\<rparr>, h1))"

definition ProviderConfigStatus_DeepCopy where
  "ProviderConfigStatus_DeepCopy T = new_copy (ProviderConfigStatus_DeepCopyInto T)"

lemma lawful_ProviderConfigStatus:
  assumes "third_party_laws T"
  shows "lawful (ProviderConfigStatus_DeepCopyInto T) (ProviderConfigStatus_layout T)"
  unfolding ProviderConfigStatus_layout_def
  by (rule lawful_struct [where put =
        "\<lambda>a x. x\<lparr>pst_ProviderConfigStatus := a\<rparr>", OF
        third_party_lawful(7) [OF assms]])
    (auto simp: ProviderConfigStatus_DeepCopyInto_def copy_both_def split: prod.split)

definition ClusterProviderConfig_DeepCopyInto :: "('t, 'v, 'q, 't ClusterProviderConfig_mem) copier" where
  "ClusterProviderConfig_DeepCopyInto T x h =
     (case sp_DeepCopyInto (tp_ObjectMeta T) (ccm_ObjectMeta x) h of (a, h1) \<Rightarrow>
      case ProviderConfigSpec_DeepCopyInto T (ccm_Spec x) h1 of (b, h2) \<Rightarrow>
      case ProviderConfigStatus_DeepCopyInto T (ccm_Status x) h2 of (c, h3) \<Rightarrow>
        (x\<lparr>ccm_ObjectMeta := a, ccm_Spec := b, ccm_Status := c\<rparr>, h3))"

definition ClusterProviderConfig_DeepCopy where
  "ClusterProviderConfig_DeepCopy T = new_copy (ClusterProviderConfig_DeepCopyInto T)"

definition ClusterProviderConfig_DeepCopyObject where
  "ClusterProviderConfig_DeepCopyObject T p h = as_object ClusterProviderConfigObj (ClusterProviderConfig_DeepCopy T p h)"

lemma lawful_ClusterProviderConfig:
  assumes "third_party_laws T"
  shows "lawful (ClusterProviderConfig_DeepCopyInto T) (ClusterProviderConfig_layout T)"
  unfolding ClusterProviderConfig_layout_def
  by (rule lawful_struct [where put =
        "\<lambda>(a, b, c) x. x\<lparr>ccm_ObjectMeta := a, ccm_Spec := b, ccm_Status := c\<rparr>",
        OF lawful_both [OF third_party_lawful(2) [OF assms]
          lawful_both [OF lawful_ProviderConfigSpec [OF assms] lawful_ProviderConfigStatus [OF assms]]]])
    (auto simp: ClusterProviderConfig_DeepCopyInto_def copy_both_def split: prod.split)

definition ClusterProviderConfigList_DeepCopyInto :: "('t, 'v, 'q, 't ClusterProviderConfigList) copier" where
  "ClusterProviderConfigList_DeepCopyInto T x h =
     (case sp_DeepCopyInto (tp_ListMeta T) (ccl_ListMeta x) h of (a, h1) \<Rightarrow>
      case copy_items ClusterProviderConfigsCell cluster_provider_configs_cell (ClusterProviderConfig_zero T)
            (ClusterProviderConfig_DeepCopyInto T) (ccl_Items x) h1 of (b, h2) \<Rightarrow>
        (x\<lparr>ccl_ListMeta := a, ccl_Items := b\<rparr>, h2))"

definition ClusterProviderConfigList_DeepCopy where
  "ClusterProviderConfigList_DeepCopy T = new_copy (ClusterProviderConfigList_DeepCopyInto T)"

definition ClusterProviderConfigList_DeepCopyObject where
  "ClusterProviderConfigList_DeepCopyObject T p h = as_object ClusterProviderConfigListObj (ClusterProviderConfigList_DeepCopy T p h)"

lemma lawful_ClusterProviderConfigList:
  assumes "third_party_laws T"
  shows "lawful (ClusterProviderConfigList_DeepCopyInto T) (ClusterProviderConfigList_layout T)"
  unfolding ClusterProviderConfigList_layout_def
  by (rule lawful_struct [where put =
        "\<lambda>(a, b) x. x\<lparr>ccl_ListMeta := a, ccl_Items := b\<rparr>",
        OF lawful_both [OF third_party_lawful(3) [OF assms]
          lawful_items [where mk = ClusterProviderConfigsCell and zero = "ClusterProviderConfig_zero T",
            OF lawful_ClusterProviderConfig [OF assms] cluster_provider_configs_cell.simps(1)]]])
    (auto simp: ClusterProviderConfigList_DeepCopyInto_def copy_both_def split: prod.split)

definition ProviderConfig_DeepCopyInto :: "('t, 'v, 'q, 't ProviderConfig_mem) copier" where
  "ProviderConfig_DeepCopyInto T x h =
     (case sp_DeepCopyInto (tp_ObjectMeta T) (pcm_ObjectMeta x) h of (a, h1) \<Rightarrow>
      case ProviderConfigSpec_DeepCopyInto T (pcm_Spec x) h1 of (b, h2) \<Rightarrow>
      case ProviderConfigStatus_DeepCopyInto T (pcm_Status x) h2 of (c, h3) \<Rightarrow>
        (x\<lparr>pcm_ObjectMeta := a, pcm_Spec := b, pcm_Status := c\<rparr>, h3))"

definition ProviderConfig_DeepCopy where
  "ProviderConfig_DeepCopy T = new_copy (ProviderConfig_DeepCopyInto T)"

definition ProviderConfig_DeepCopyObject where
  "ProviderConfig_DeepCopyObject T p h = as_object ProviderConfigObj (ProviderConfig_DeepCopy T p h)"

lemma lawful_ProviderConfig:
  assumes "third_party_laws T"
  shows "lawful (ProviderConfig_DeepCopyInto T) (ProviderConfig_layout T)"
  unfolding ProviderConfig_layout_def
  by (rule lawful_struct [where put =
        "\<lambda>(a, b, c) x. x\<lparr>pcm_ObjectMeta := a, pcm_Spec := b, pcm_Status := c\<rparr>",
        OF lawful_both [OF third_party_lawful(2) [OF assms]
          lawful_both [OF lawful_ProviderConfigSpec [OF assms] lawful_ProviderConfigStatus [OF assms]]]])
    (auto simp: ProviderConfig_DeepCopyInto_def copy_both_def split: prod.split)

definition ProviderConfigList_DeepCopyInto :: "('t, 'v, 'q, 't ProviderConfigList) copier" where
  "ProviderConfigList_DeepCopyInto T x h =
     (case sp_DeepCopyInto (tp_ListMeta T) (pcl_ListMeta x) h of (a, h1) \<Rightarrow>
      case copy_items ProviderConfigsCell provider_configs_cell (ProviderConfig_zero T)
            (ProviderConfig_DeepCopyInto T) (pcl_Items x) h1 of (b, h2) \<Rightarrow>
        (x\<lparr>pcl_ListMeta := a, pcl_Items := b\<rparr>, h2))"

definition ProviderConfigList_DeepCopy where
  "ProviderConfigList_DeepCopy T = new_copy (ProviderConfigList_DeepCopyInto T)"

definition ProviderConfigList_DeepCopyObject where
  "ProviderConfigList_DeepCopyObject T p h = as_object ProviderConfigListObj (ProviderConfigList_DeepCopy T p h)"

lemma lawful_ProviderConfigList:
  assumes "third_party_laws T"
  shows "lawful (ProviderConfigList_DeepCopyInto T) (ProviderConfigList_layout T)"
  unfolding ProviderConfigList_layout_def
  by (rule lawful_struct [where put =
        "\<lambda>(a, b) x. x\<lparr>pcl_ListMeta := a, pcl_Items := b\<rparr>",
        OF lawful_both [OF third_party_lawful(3) [OF assms]
          lawful_items [where mk = ProviderConfigsCell and zero = "ProviderConfig_zero T",
            OF lawful_ProviderConfig [OF assms] provider_configs_cell.simps(1)]]])
    (auto simp: ProviderConfigList_DeepCopyInto_def copy_both_def split: prod.split)

definition ProviderConfigUsage_DeepCopyInto :: "('t, 'v, 'q, 't ProviderConfigUsage) copier" where
  "ProviderConfigUsage_DeepCopyInto T x h =
     (case sp_DeepCopyInto (tp_ObjectMeta T) (pcu_ObjectMeta x) h of (a, h1) \<Rightarrow>
      case sp_DeepCopyInto (tp_TypedProviderConfigUsage T) (pcu_TypedProviderConfigUsage x) h1 of (b, h2) \<Rightarrow>
        (x\<lparr>pcu_ObjectMeta := a, pcu_TypedProviderConfigUsage := b\<rparr>, h2))"

definition ProviderConfigUsage_DeepCopy where
  "ProviderConfigUsage_DeepCopy T = new_copy (ProviderConfigUsage_DeepCopyInto T)"

definition ProviderConfigUsage_DeepCopyObject where
  "ProviderConfigUsage_DeepCopyObject T p h = as_object ProviderConfigUsageObj (ProviderConfigUsage_DeepCopy T p h)"

lemma lawful_ProviderConfigUsage:
  assumes "third_party_laws T"
  shows "lawful (ProviderConfigUsage_DeepCopyInto T) (ProviderConfigUsage_layout T)"
  unfolding ProviderConfigUsage_layout_def
  by (rule lawful_struct [where put =
        "\<lambda>(a, b) x. x\<lparr>pcu_ObjectMeta := a, pcu_TypedProviderConfigUsage := b\<rparr>",
        OF lawful_both [OF third_party_lawful(2) [OF assms] third_party_lawful(8) [OF assms]]])
    (auto simp: ProviderConfigUsage_DeepCopyInto_def copy_both_def split: prod.split)

definition ProviderConfigUsageList_DeepCopyInto :: "('t, 'v, 'q, 't ProviderConfigUsageList) copier" where
  "ProviderConfigUsageList_DeepCopyInto T x h =
     (case sp_DeepCopyInto (tp_ListMeta T) (pul_ListMeta x) h of (a, h1) \<Rightarrow>
      case copy_items UsagesCell usages_cell (ProviderConfigUsage_zero T)
            (ProviderConfigUsage_DeepCopyInto T) (pul_Items x) h1 of (b, h2) \<Rightarrow>
        (x\<lparr>pul_ListMeta := a, pul_Items := b\<rparr>, h2))"

definition ProviderConfigUsageList_DeepCopy where
  "ProviderConfigUsageList_DeepCopy T = new_copy (ProviderConfigUsageList_DeepCopyInto T)"

definition ProviderConfigUsageList_DeepCopyObject where
  "ProviderConfigUsageList_DeepCopyObject T p h = as_object ProviderConfigUsageListObj (ProviderConfigUsageList_DeepCopy T p h)"

lemma lawful_ProviderConfigUsageList:
  assumes "third_party_laws T"
  shows "lawful (ProviderConfigUsageList_DeepCopyInto T) (ProviderConfigUsageList_layout T)"
  unfolding ProviderConfigUsageList_layout_def
  by (rule lawful_struct [where put =
        "\<lambda>(a, b) x. x\<lparr>pul_ListMeta := a, pul_Items := b\<rparr>",
        OF lawful_both [OF third_party_lawful(3) [OF assms]
          lawful_items [where mk = UsagesCell and zero = "ProviderConfigUsage_zero T",
            OF lawful_ProviderConfigUsage [OF assms] usages_cell.simps(1)]]])
    (auto simp: ProviderConfigUsageList_DeepCopyInto_def copy_both_def split: prod.split)

definition StoreConfigSpec_DeepCopyInto :: "('t, 'v, 'q, StoreConfigSpec) copier" where
  "StoreConfigSpec_DeepCopyInto T x h =
     (x, h)"

definition StoreConfigSpec_DeepCopy where
  "StoreConfigSpec_DeepCopy T = new_copy (StoreConfigSpec_DeepCopyInto T)"

lemma lawful_StoreConfigSpec: "lawful (StoreConfigSpec_DeepCopyInto T) (flat_layout (\<lambda>x. True) (\<lambda>x. x))"
proof -
  have "StoreConfigSpec_DeepCopyInto T = Pair" by (simp add: fun_eq_iff StoreConfigSpec_DeepCopyInto_def)
  then show ?thesis by (simp add: lawful_flat)
qed

definition StoreConfigStatus_DeepCopyInto :: "('t, 'v, 'q, 't StoreConfigStatus) copier" where
  "StoreConfigStatus_DeepCopyInto T x h =
     (case sp_DeepCopyInto (tp_ConditionedStatus T) (sts_ConditionedStatus x) h of (a, h1) \<Rightarrow>
        (x\<lparr>sts_ConditionedStatus := a\<rparr>, h1))"

definition StoreConfigStatus_DeepCopy where
  "StoreConfigStatus_DeepCopy T = new_copy (StoreConfigStatus_DeepCopyInto T)"

lemma lawful_StoreConfigStatus:
  assumes "third_party_laws T"
  shows "lawful (StoreConfigStatus_DeepCopyInto T) (StoreConfigStatus_layout T)"
  unfolding StoreConfigStatus_layout_def
  by (rule lawful_struct [where put =
        "\<lambda>a x. x\<lparr>sts_ConditionedStatus := a\<rparr>", OF
        third_party_lawful(9) [OF assms]])
    (auto simp: StoreConfigStatus_DeepCopyInto_def copy_both_def split: prod.split)

definition StoreConfig_DeepCopyInto :: "('t, 'v, 'q, 't StoreConfig) copier" where
  "StoreConfig_DeepCopyInto T x h =
     (case sp_DeepCopyInto (tp_ObjectMeta T) (sc_ObjectMeta x) h of (a, h1) \<Rightarrow>
      case StoreConfigStatus_DeepCopyInto T (sc_Status x) h1 of (b, h2) \<Rightarrow>
        (x\<lparr>sc_ObjectMeta := a, sc_Status := b\<rparr>, h2))"

definition StoreConfig_DeepCopy where
  "StoreConfig_DeepCopy T = new_copy (StoreConfig_DeepCopyInto T)"

definition StoreConfig_DeepCopyObject where
  "StoreConfig_DeepCopyObject T p h = as_object StoreConfigObj (StoreConfig_DeepCopy T p h)"

lemma lawful_StoreConfig:
  assumes "third_party_laws T"
  shows "lawful (StoreConfig_DeepCopyInto T) (StoreConfig_layout T)"
  unfolding StoreConfig_layout_def
  by (rule lawful_struct [where put =
        "\<lambda>(a, b) x. x\<lparr>sc_ObjectMeta := a, sc_Status := b\<rparr>",
        OF lawful_both [OF third_party_lawful(2) [OF assms] lawful_StoreConfigStatus [OF assms]]])
    (auto simp: StoreConfig_DeepCopyInto_def copy_both_def split: prod.split)

definition StoreConfigList_DeepCopyInto :: "('t, 'v, 'q, 't StoreConfigList) copier" where
  "StoreConfigList_DeepCopyInto T x h =
     (case sp_DeepCopyInto (tp_ListMeta T) (scl_ListMeta x) h of (a, h1) \<Rightarrow>
      case copy_items StoreConfigsCell store_configs_cell (StoreConfig_zero T)
            (StoreConfig_DeepCopyInto T) (scl_Items x) h1 of (b, h2) \<Rightarrow>
        (x\<lparr>scl_ListMeta := a, scl_Items := b\<rparr>, h2))"

definition StoreConfigList_DeepCopy where
  "StoreConfigList_DeepCopy T = new_copy (StoreConfigList_DeepCopyInto T)"

definition StoreConfigList_DeepCopyObject where
  "StoreConfigList_DeepCopyObject T p h = as_object StoreConfigListObj (StoreConfigList_DeepCopy T p h)"

lemma lawful_StoreConfigList:
  assumes "third_party_laws T"
  shows "lawful (StoreConfigList_DeepCopyInto T) (StoreConfigList_layout T)"
  unfolding StoreConfigList_layout_def
  by (rule lawful_struct [where put =
        "\<lambda>(a, b) x. x\<lparr>scl_ListMeta := a, scl_Items := b\<rparr>",
        OF lawful_both [OF third_party_lawful(3) [OF assms]
          lawful_items [where mk = StoreConfigsCell and zero = "StoreConfig_zero T",
            OF lawful_StoreConfig [OF assms] store_configs_cell.simps(1)]]])
    (auto simp: StoreConfigList_DeepCopyInto_def copy_both_def split: prod.split)

section \<open>Interpretations\<close>

text \<open>
  The types whose references are all their own satisfy the contract whatever the third-party
  packages do.
\<close>

interpretation extra_copy: deep_copy "KubernetesOSBOriginatingIdentityExtra_DeepCopyInto T" "l_fp Extra_layout" "l_ok Extra_layout"
  "l_view Extra_layout"
  using lawful_Extra by (simp add: lawful_def)

interpretation identity_copy: deep_copy "KubernetesOSBOriginatingIdentityValue_DeepCopyInto T" "l_fp IdentityValue_layout"
  "l_ok IdentityValue_layout" "l_view IdentityValue_layout"
  using lawful_IdentityValue by (simp add: lawful_def)

interpretation observation_copy: deep_copy "ServiceBindingObservation_DeepCopyInto T"
  "l_fp ServiceBindingObservation_layout" "l_ok ServiceBindingObservation_layout"
  "l_view ServiceBindingObservation_layout"
  using lawful_ServiceBindingObservation by (simp add: lawful_def)

end
