(* ===== verification/Deep_Copy_Facts.thy ===== *)
theory Deep_Copy_Facts
  imports Deep_Copy
begin

text \<open>
  What the callers of the generated copies see: the dispatch of \<^verbatim>\<open>DeepCopyObject\<close> on the
  kinds of objects, the guarantee of isolation for every kind, and the sharing of maps between
  the specification and the status of an instance, which a deep copy ends.
\<close>

section \<open>Isolation\<close>

text \<open>
  \<open>y\<close> is a copy of \<open>x\<close>, made between the heaps \<open>h\<close> and \<open>h'\<close>: both have the value of the original, no cell is
  reached from both, and whatever a run of allocations and stores does through one of them, the
  other keeps its value.
\<close>

definition isolated :: "('a, 'c, 'v) layout \<Rightarrow> 'c heap \<Rightarrow> 'a \<Rightarrow> 'c heap \<Rightarrow> 'a \<Rightarrow> bool" where
  "isolated L h x h' y \<longleftrightarrow>
     l_view L h' y = l_view L h x \<and> l_view L h' x = l_view L h x
     \<and> l_fp L h' x \<inter> l_fp L h' y = {}
     \<and> (\<forall>ops. stored ops \<subseteq> l_fp L h' x \<union> {length h'..} \<longrightarrow> l_view L (mem_run ops h') y = l_view L h x)
     \<and> (\<forall>ops. stored ops \<subseteq> l_fp L h' y \<union> {length h'..} \<longrightarrow> l_view L (mem_run ops h') x = l_view L h x)"

lemma new_copy_is_isolated:
  assumes "lawful into L" and "l_ok L h x"
  shows "\<exists>y h'. new_copy into (Some x) h = (Some y, h') \<and> isolated L h x h' y"
proof -
  obtain q h' where q: "new_copy into (Some x) h = (q, h')" by (cases "new_copy into (Some x) h")
  from new_copy_isolated [OF assms q] q show ?thesis unfolding isolated_def by blast
qed

section \<open>The interface of objects\<close>

text \<open>\<^verbatim>\<open>runtime.Object\<close>: the method of the dynamic type is called.\<close>

fun DeepCopyObject ::
  "('t, 'v, 'q) third_party \<Rightarrow> 't runtime_object \<Rightarrow> 't cell heap \<Rightarrow> 't runtime_object option \<times> 't cell heap" where
  "DeepCopyObject T (ServiceBindingObj p) h = ServiceBinding_DeepCopyObject T p h"
| "DeepCopyObject T (ServiceBindingListObj p) h = ServiceBindingList_DeepCopyObject T p h"
| "DeepCopyObject T (ServiceInstanceObj p) h = ServiceInstance_DeepCopyObject T p h"
| "DeepCopyObject T (ServiceInstanceListObj p) h = ServiceInstanceList_DeepCopyObject T p h"
| "DeepCopyObject T (ClusterProviderConfigObj p) h = ClusterProviderConfig_DeepCopyObject T p h"
| "DeepCopyObject T (ClusterProviderConfigListObj p) h = ClusterProviderConfigList_DeepCopyObject T p h"
| "DeepCopyObject T (ProviderConfigObj p) h = ProviderConfig_DeepCopyObject T p h"
| "DeepCopyObject T (ProviderConfigListObj p) h = ProviderConfigList_DeepCopyObject T p h"
| "DeepCopyObject T (ProviderConfigUsageObj p) h = ProviderConfigUsage_DeepCopyObject T p h"
| "DeepCopyObject T (ProviderConfigUsageListObj p) h = ProviderConfigUsageList_DeepCopyObject T p h"
| "DeepCopyObject T (StoreConfigObj p) h = StoreConfig_DeepCopyObject T p h"
| "DeepCopyObject T (StoreConfigListObj p) h = StoreConfigList_DeepCopyObject T p h"

text \<open>The pointer in the interface is nil.\<close>

fun object_nil :: "'t runtime_object \<Rightarrow> bool" where
  "object_nil (ServiceBindingObj p) \<longleftrightarrow> p = None"
| "object_nil (ServiceBindingListObj p) \<longleftrightarrow> p = None"
| "object_nil (ServiceInstanceObj p) \<longleftrightarrow> p = None"
| "object_nil (ServiceInstanceListObj p) \<longleftrightarrow> p = None"
| "object_nil (ClusterProviderConfigObj p) \<longleftrightarrow> p = None"
| "object_nil (ClusterProviderConfigListObj p) \<longleftrightarrow> p = None"
| "object_nil (ProviderConfigObj p) \<longleftrightarrow> p = None"
| "object_nil (ProviderConfigListObj p) \<longleftrightarrow> p = None"
| "object_nil (ProviderConfigUsageObj p) \<longleftrightarrow> p = None"
| "object_nil (ProviderConfigUsageListObj p) \<longleftrightarrow> p = None"
| "object_nil (StoreConfigObj p) \<longleftrightarrow> p = None"
| "object_nil (StoreConfigListObj p) \<longleftrightarrow> p = None"

text \<open>The object is there, and its references are valid.\<close>

fun object_ok :: "('t, 'v, 'q) third_party \<Rightarrow> 't cell heap \<Rightarrow> 't runtime_object \<Rightarrow> bool" where
  "object_ok T h (ServiceBindingObj (Some x)) \<longleftrightarrow> l_ok (ServiceBinding_layout T) h x"
| "object_ok T h (ServiceBindingListObj (Some x)) \<longleftrightarrow> l_ok (ServiceBindingList_layout T) h x"
| "object_ok T h (ServiceInstanceObj (Some x)) \<longleftrightarrow> l_ok (ServiceInstance_layout T) h x"
| "object_ok T h (ServiceInstanceListObj (Some x)) \<longleftrightarrow> l_ok (ServiceInstanceList_layout T) h x"
| "object_ok T h (ClusterProviderConfigObj (Some x)) \<longleftrightarrow> l_ok (ClusterProviderConfig_layout T) h x"
| "object_ok T h (ClusterProviderConfigListObj (Some x)) \<longleftrightarrow> l_ok (ClusterProviderConfigList_layout T) h x"
| "object_ok T h (ProviderConfigObj (Some x)) \<longleftrightarrow> l_ok (ProviderConfig_layout T) h x"
| "object_ok T h (ProviderConfigListObj (Some x)) \<longleftrightarrow> l_ok (ProviderConfigList_layout T) h x"
| "object_ok T h (ProviderConfigUsageObj (Some x)) \<longleftrightarrow> l_ok (ProviderConfigUsage_layout T) h x"
| "object_ok T h (ProviderConfigUsageListObj (Some x)) \<longleftrightarrow> l_ok (ProviderConfigUsageList_layout T) h x"
| "object_ok T h (StoreConfigObj (Some x)) \<longleftrightarrow> l_ok (StoreConfig_layout T) h x"
| "object_ok T h (StoreConfigListObj (Some x)) \<longleftrightarrow> l_ok (StoreConfigList_layout T) h x"
| "object_ok T h _ \<longleftrightarrow> False"

text \<open>The second object is of the same kind, and an isolated copy of the first.\<close>

definition both_some :: "('a \<Rightarrow> 'b \<Rightarrow> bool) \<Rightarrow> 'a option \<Rightarrow> 'b option \<Rightarrow> bool" where
  "both_some r p q \<longleftrightarrow> (case p of None \<Rightarrow> False | Some x \<Rightarrow> (case q of None \<Rightarrow> False | Some y \<Rightarrow> r x y))"

lemma both_some_simps [simp]: "both_some r (Some x) (Some y) \<longleftrightarrow> r x y" "\<not> both_some r None q"
  by (simp_all add: both_some_def)

definition object_isolated ::
  "('t, 'v, 'q) third_party \<Rightarrow> 't cell heap \<Rightarrow> 't runtime_object \<Rightarrow> 't cell heap \<Rightarrow> 't runtime_object \<Rightarrow> bool" where
  "object_isolated T h ob h' ob' \<longleftrightarrow>
     (case ob of
        ServiceBindingObj p \<Rightarrow> (case ob' of ServiceBindingObj q \<Rightarrow>
          both_some (\<lambda>x y. isolated (ServiceBinding_layout T) h x h' y) p q | _ \<Rightarrow> False)
      | ServiceBindingListObj p \<Rightarrow> (case ob' of ServiceBindingListObj q \<Rightarrow>
          both_some (\<lambda>x y. isolated (ServiceBindingList_layout T) h x h' y) p q | _ \<Rightarrow> False)
      | ServiceInstanceObj p \<Rightarrow> (case ob' of ServiceInstanceObj q \<Rightarrow>
          both_some (\<lambda>x y. isolated (ServiceInstance_layout T) h x h' y) p q | _ \<Rightarrow> False)
      | ServiceInstanceListObj p \<Rightarrow> (case ob' of ServiceInstanceListObj q \<Rightarrow>
          both_some (\<lambda>x y. isolated (ServiceInstanceList_layout T) h x h' y) p q | _ \<Rightarrow> False)
      | ClusterProviderConfigObj p \<Rightarrow> (case ob' of ClusterProviderConfigObj q \<Rightarrow>
          both_some (\<lambda>x y. isolated (ClusterProviderConfig_layout T) h x h' y) p q | _ \<Rightarrow> False)
      | ClusterProviderConfigListObj p \<Rightarrow> (case ob' of ClusterProviderConfigListObj q \<Rightarrow>
          both_some (\<lambda>x y. isolated (ClusterProviderConfigList_layout T) h x h' y) p q | _ \<Rightarrow> False)
      | ProviderConfigObj p \<Rightarrow> (case ob' of ProviderConfigObj q \<Rightarrow>
          both_some (\<lambda>x y. isolated (ProviderConfig_layout T) h x h' y) p q | _ \<Rightarrow> False)
      | ProviderConfigListObj p \<Rightarrow> (case ob' of ProviderConfigListObj q \<Rightarrow>
          both_some (\<lambda>x y. isolated (ProviderConfigList_layout T) h x h' y) p q | _ \<Rightarrow> False)
      | ProviderConfigUsageObj p \<Rightarrow> (case ob' of ProviderConfigUsageObj q \<Rightarrow>
          both_some (\<lambda>x y. isolated (ProviderConfigUsage_layout T) h x h' y) p q | _ \<Rightarrow> False)
      | ProviderConfigUsageListObj p \<Rightarrow> (case ob' of ProviderConfigUsageListObj q \<Rightarrow>
          both_some (\<lambda>x y. isolated (ProviderConfigUsageList_layout T) h x h' y) p q | _ \<Rightarrow> False)
      | StoreConfigObj p \<Rightarrow> (case ob' of StoreConfigObj q \<Rightarrow>
          both_some (\<lambda>x y. isolated (StoreConfig_layout T) h x h' y) p q | _ \<Rightarrow> False)
      | StoreConfigListObj p \<Rightarrow> (case ob' of StoreConfigListObj q \<Rightarrow>
          both_some (\<lambda>x y. isolated (StoreConfigList_layout T) h x h' y) p q | _ \<Rightarrow> False))"

lemma as_object_Some:
  "\<exists>y h'. r = (Some y, h') \<and> Q y h' \<Longrightarrow> \<exists>y h'. as_object obj r = (Some (obj (Some y)), h') \<and> Q y h'"
  by (auto simp: as_object_def)

lemma as_object_nil: "as_object obj (None, h) = (None, h)"
  by (simp add: as_object_def)

lemma as_object_new_copy:
  "as_object obj (new_copy into (Some x) h) = (case into x h of (y, h') \<Rightarrow> (Some (obj (Some y)), h'))"
  by (simp add: as_object_def new_copy_def split: prod.split)

text \<open>One rule for every kind.\<close>

lemma object_copied:
  assumes "lawful into L" and "l_ok L h x"
  shows "\<exists>y h'. as_object obj (new_copy into (Some x) h) = (Some (obj (Some y)), h') \<and> isolated L h x h' y"
  by (rule as_object_Some [OF new_copy_is_isolated [OF assms]])

lemmas DeepCopyObject_defs =
  ServiceBinding_DeepCopyObject_def ServiceBinding_DeepCopy_def
  ServiceBindingList_DeepCopyObject_def ServiceBindingList_DeepCopy_def
  ServiceInstance_DeepCopyObject_def ServiceInstance_DeepCopy_def
  ServiceInstanceList_DeepCopyObject_def ServiceInstanceList_DeepCopy_def
  ClusterProviderConfig_DeepCopyObject_def ClusterProviderConfig_DeepCopy_def
  ClusterProviderConfigList_DeepCopyObject_def ClusterProviderConfigList_DeepCopy_def
  ProviderConfig_DeepCopyObject_def ProviderConfig_DeepCopy_def
  ProviderConfigList_DeepCopyObject_def ProviderConfigList_DeepCopy_def
  ProviderConfigUsage_DeepCopyObject_def ProviderConfigUsage_DeepCopy_def
  ProviderConfigUsageList_DeepCopyObject_def ProviderConfigUsageList_DeepCopy_def
  StoreConfig_DeepCopyObject_def StoreConfig_DeepCopy_def
  StoreConfigList_DeepCopyObject_def StoreConfigList_DeepCopy_def

lemma DeepCopyObject_copies:
  assumes "third_party_laws T" and "object_ok T h ob"
  shows "\<exists>ob' h'. DeepCopyObject T ob h = (Some ob', h') \<and> object_isolated T h ob h' ob'"
proof (cases ob)
  case (ServiceBindingObj p)
  then show ?thesis
    using object_copied [OF lawful_ServiceBinding [OF assms(1)], of h _ ServiceBindingObj] assms(2)
    by (cases p) (fastforce simp: object_isolated_def ServiceBinding_DeepCopyObject_def ServiceBinding_DeepCopy_def)+
next
  case (ServiceBindingListObj p)
  then show ?thesis
    using object_copied [OF lawful_ServiceBindingList [OF assms(1)], of h _ ServiceBindingListObj] assms(2)
    by (cases p) (fastforce simp: object_isolated_def ServiceBindingList_DeepCopyObject_def ServiceBindingList_DeepCopy_def)+
next
  case (ServiceInstanceObj p)
  then show ?thesis
    using object_copied [OF lawful_ServiceInstance [OF assms(1)], of h _ ServiceInstanceObj] assms(2)
    by (cases p) (fastforce simp: object_isolated_def ServiceInstance_DeepCopyObject_def ServiceInstance_DeepCopy_def)+
next
  case (ServiceInstanceListObj p)
  then show ?thesis
    using object_copied [OF lawful_ServiceInstanceList [OF assms(1)], of h _ ServiceInstanceListObj] assms(2)
    by (cases p) (fastforce simp: object_isolated_def ServiceInstanceList_DeepCopyObject_def ServiceInstanceList_DeepCopy_def)+
next
  case (ClusterProviderConfigObj p)
  then show ?thesis
    using object_copied [OF lawful_ClusterProviderConfig [OF assms(1)], of h _ ClusterProviderConfigObj] assms(2)
    by (cases p) (fastforce simp: object_isolated_def ClusterProviderConfig_DeepCopyObject_def ClusterProviderConfig_DeepCopy_def)+
next
  case (ClusterProviderConfigListObj p)
  then show ?thesis
    using object_copied [OF lawful_ClusterProviderConfigList [OF assms(1)], of h _ ClusterProviderConfigListObj] assms(2)
    by (cases p) (fastforce simp: object_isolated_def ClusterProviderConfigList_DeepCopyObject_def ClusterProviderConfigList_DeepCopy_def)+
next
  case (ProviderConfigObj p)
  then show ?thesis
    using object_copied [OF lawful_ProviderConfig [OF assms(1)], of h _ ProviderConfigObj] assms(2)
    by (cases p) (fastforce simp: object_isolated_def ProviderConfig_DeepCopyObject_def ProviderConfig_DeepCopy_def)+
next
  case (ProviderConfigListObj p)
  then show ?thesis
    using object_copied [OF lawful_ProviderConfigList [OF assms(1)], of h _ ProviderConfigListObj] assms(2)
    by (cases p) (fastforce simp: object_isolated_def ProviderConfigList_DeepCopyObject_def ProviderConfigList_DeepCopy_def)+
next
  case (ProviderConfigUsageObj p)
  then show ?thesis
    using object_copied [OF lawful_ProviderConfigUsage [OF assms(1)], of h _ ProviderConfigUsageObj] assms(2)
    by (cases p) (fastforce simp: object_isolated_def ProviderConfigUsage_DeepCopyObject_def ProviderConfigUsage_DeepCopy_def)+
next
  case (ProviderConfigUsageListObj p)
  then show ?thesis
    using object_copied [OF lawful_ProviderConfigUsageList [OF assms(1)], of h _ ProviderConfigUsageListObj] assms(2)
    by (cases p) (fastforce simp: object_isolated_def ProviderConfigUsageList_DeepCopyObject_def ProviderConfigUsageList_DeepCopy_def)+
next
  case (StoreConfigObj p)
  then show ?thesis
    using object_copied [OF lawful_StoreConfig [OF assms(1)], of h _ StoreConfigObj] assms(2)
    by (cases p) (fastforce simp: object_isolated_def StoreConfig_DeepCopyObject_def StoreConfig_DeepCopy_def)+
next
  case (StoreConfigListObj p)
  then show ?thesis
    using object_copied [OF lawful_StoreConfigList [OF assms(1)], of h _ StoreConfigListObj] assms(2)
    by (cases p) (fastforce simp: object_isolated_def StoreConfigList_DeepCopyObject_def StoreConfigList_DeepCopy_def)+
qed

lemma DeepCopyObject_of_nil: "object_nil ob \<Longrightarrow> DeepCopyObject T ob h = (None, h)"
  by (cases ob) (simp_all add: DeepCopyObject_defs as_object_nil)

lemma DeepCopyObject_not_nil:
  "\<not> object_nil ob \<Longrightarrow> \<exists>ob' h'. DeepCopyObject T ob h = (Some ob', h') \<and> \<not> object_nil ob'"
  by (cases ob) (auto simp: DeepCopyObject_defs as_object_new_copy split: prod.split)

section \<open>Sharing between the specification and the status\<close>

text \<open>
  \<^verbatim>\<open>SetStatusContextFromProviderContext\<close> assigns the context struct, and so the references to
  its annotation maps: afterwards the status reaches the maps of the specification.
\<close>

definition SetStatusContextFromProviderContext_mem :: "'t ServiceInstance_mem \<Rightarrow> 't ServiceInstance_mem" where
  "SetStatusContextFromProviderContext_mem si =
     si\<lparr>sim_Status := (sim_Status si)
        \<lparr>itm_AtProvider := (itm_AtProvider (sim_Status si))
           \<lparr>iom_Context := idm_Context (ism_ForProvider (sim_Spec si))\<rparr>\<rparr>\<rparr>"

abbreviation spec_context_mem :: "'t ServiceInstance_mem \<Rightarrow> KubernetesOSBContext_mem" where
  "spec_context_mem si \<equiv> idm_Context (ism_ForProvider (sim_Spec si))"

abbreviation status_context_mem :: "'t ServiceInstance_mem \<Rightarrow> KubernetesOSBContext_mem" where
  "status_context_mem si \<equiv> iom_Context (itm_AtProvider (sim_Status si))"

lemma status_context_mem_set [simp]:
  "status_context_mem (SetStatusContextFromProviderContext_mem si) = spec_context_mem si"
  "spec_context_mem (SetStatusContextFromProviderContext_mem si) = spec_context_mem si"
  by (simp_all add: SetStatusContextFromProviderContext_mem_def)

lemmas instance_layouts = ServiceInstance_layout_def ServiceInstanceSpec_layout_def
  ServiceInstanceStatus_layout_def ServiceInstanceObservation_layout_def InstanceData_layout_def

text \<open>The value of an instance shows both contexts.\<close>

lemma instance_contexts:
  "id_Context (si_ForProvider (snd (l_view (ServiceInstance_layout T) h si))) =
     l_view KubernetesOSBContext_layout h (spec_context_mem si)"
  "sio_Context (si_AtProvider (snd (l_view (ServiceInstance_layout T) h si))) =
     l_view KubernetesOSBContext_layout h (status_context_mem si)"
  by (simp_all add: instance_layouts struct_layout_def both_layout_def)

lemma context_annotations:
  "kc_InstanceAnnotations (l_view KubernetesOSBContext_layout h c) =
     ptr_view string_map_cell (\<lambda>h m. m) h (kcm_InstanceAnnotations c)"
  by (simp add: KubernetesOSBContext_layout_def annotations_layout_def layout_defs)

text \<open>In memory and on the values, the assignment is the same operation.\<close>

lemma SetStatusContext_mem_view:
  "l_view (ServiceInstance_layout T) h (SetStatusContextFromProviderContext_mem si) =
     map_prod id SetStatusContextFromProviderContext (l_view (ServiceInstance_layout T) h si)"
  by (simp add: instance_layouts struct_layout_def both_layout_def SetStatusContextFromProviderContext_mem_def
      SetStatusContextFromProviderContext_def)

lemma SetStatusContext_mem_ok:
  "l_ok (ServiceInstance_layout T) h si \<Longrightarrow>
     l_ok (ServiceInstance_layout T) h (SetStatusContextFromProviderContext_mem si)"
  by (simp add: instance_layouts struct_layout_def both_layout_def SetStatusContextFromProviderContext_mem_def)

text \<open>The parts that a copy is put together from reach different cells.\<close>

lemma copies_apart:
  assumes L: "lawful c L" and M: "lawful d M" and ok: "l_ok L h x" "l_ok M h z"
    and c: "c x h = (y1, h1)" and d: "d z h1 = (y2, h2)"
  shows "l_fp L h2 y1 \<inter> l_fp M h2 y2 = {}" "l_ok L h2 y1" "l_ok M h2 y2"
proof -
  note L = L [unfolded lawful_def] and M = M [unfolded lawful_def]
  obtain n1 where n1: "h1 = h @ n1" using deep_copy.extends [OF L ok(1) c] by blast
  note y1 = deep_copy.copy_ok [OF L ok(1) c]
  note z = deep_copy.later(2) [OF M ok(2), of n1, folded n1]
  obtain n2 where n2: "h2 = h1 @ n2" using deep_copy.extends [OF M z d] by blast
  note later = deep_copy.later [OF L y1, of n2, folded n2]
  show "l_ok L h2 y1" by (rule later(2))
  show "l_ok M h2 y2" by (rule deep_copy.copy_ok [OF M z d])
  show "l_fp L h2 y1 \<inter> l_fp M h2 y2 = {}"
    using deep_copy.fp_bound [OF L y1] deep_copy.copy_fresh [OF M z d] by (auto simp: later(1) dest!: leD)
qed

lemma context_annotations_reached:
  "kcm_InstanceAnnotations (spec_context_mem si) = Some a \<Longrightarrow>
     a \<in> l_fp (ServiceInstanceSpec_layout T) h (sim_Spec si)"
  by (simp add: instance_layouts struct_layout_def both_layout_def KubernetesOSBContext_layout_def
      annotations_layout_def ptr_layout_def ptr_fp_def)

lemma instance_copy_apart:
  assumes laws: "third_party_laws T" and ok: "l_ok (ServiceInstance_layout T) h si"
    and c: "ServiceInstance_DeepCopyInto T si h = (y, h')"
  shows "l_fp (ServiceInstanceSpec_layout T) h' (sim_Spec y) \<inter> l_fp (ServiceInstanceStatus_layout T) h' (sim_Status y) = {}"
    and "l_ok (ServiceInstanceStatus_layout T) h' (sim_Status y)"
proof -
  obtain a h1 b h2 d where a: "sp_DeepCopyInto (tp_ObjectMeta T) (sim_ObjectMeta si) h = (a, h1)"
    and b: "ServiceInstanceSpec_DeepCopyInto T (sim_Spec si) h1 = (b, h2)"
    and d: "ServiceInstanceStatus_DeepCopyInto T (sim_Status si) h2 = (d, h')"
    and y: "sim_Spec y = b" "sim_Status y = d"
    using c by (auto simp: ServiceInstance_DeepCopyInto_def split: prod.splits)
  have oks: "l_ok (sp_layout (tp_ObjectMeta T)) h (sim_ObjectMeta si)"
    "l_ok (ServiceInstanceSpec_layout T) h (sim_Spec si)" "l_ok (ServiceInstanceStatus_layout T) h (sim_Status si)"
    using ok by (simp_all add: ServiceInstance_layout_def struct_layout_def both_layout_def)
  note om = third_party_lawful(2) [OF laws, unfolded lawful_def]
  obtain new where "h1 = h @ new" using deep_copy.extends [OF om oks(1) a] by blast
  then have "l_ok (ServiceInstanceSpec_layout T) h1 (sim_Spec si)" "l_ok (ServiceInstanceStatus_layout T) h1 (sim_Status si)"
    using deep_copy.later(2) [OF lawful_ServiceInstanceSpec [OF laws, unfolded lawful_def] oks(2)]
      deep_copy.later(2) [OF lawful_ServiceInstanceStatus [OF laws, unfolded lawful_def] oks(3)] by simp_all
  from copies_apart [OF lawful_ServiceInstanceSpec [OF laws] lawful_ServiceInstanceStatus [OF laws] this b d]
  show "l_fp (ServiceInstanceSpec_layout T) h' (sim_Spec y) \<inter> l_fp (ServiceInstanceStatus_layout T) h' (sim_Status y) = {}"
    and "l_ok (ServiceInstanceStatus_layout T) h' (sim_Status y)"
    by (simp_all add: y)
qed

lemma status_context_of_status:
  "l_view (ServiceInstanceStatus_layout T) h (sim_Status y) = l_view (ServiceInstanceStatus_layout T) h' (sim_Status y) \<Longrightarrow>
     l_view KubernetesOSBContext_layout h (status_context_mem y) = l_view KubernetesOSBContext_layout h' (status_context_mem y)"
  by (simp add: instance_layouts struct_layout_def both_layout_def)

lemma copied_status_context:
  assumes laws: "third_party_laws T" and ok: "l_ok (ServiceInstance_layout T) h si"
    and c: "ServiceInstance_DeepCopyInto T si h = (y, h')"
    and b: "kcm_InstanceAnnotations (spec_context_mem y) = Some b"
  shows "l_view KubernetesOSBContext_layout (store b cell h') (status_context_mem y) =
           l_view KubernetesOSBContext_layout h' (status_context_mem y)"
proof (rule status_context_of_status)
  note dc = lawful_ServiceInstanceStatus [OF laws, unfolded lawful_def]
  note apart = instance_copy_apart [OF laws ok c]
  have "b \<notin> l_fp (ServiceInstanceStatus_layout T) h' (sim_Status y)"
    using apart(1) context_annotations_reached [OF b] by blast
  then have "kept (l_fp (ServiceInstanceStatus_layout T) h' (sim_Status y)) h' (store b cell h')"
    unfolding store_def by (intro kept_update deep_copy.fp_bound [OF dc apart(2)])
  then show "l_view (ServiceInstanceStatus_layout T) (store b cell h') (sim_Status y) =
      l_view (ServiceInstanceStatus_layout T) h' (sim_Status y)"
    by (rule deep_copy.frame_view [OF dc apart(2)])
qed

section \<open>The items of a list\<close>

text \<open>
  \<^verbatim>\<open>GetItems\<close> returns pointers to the items of the list, and not to copies: a pointer to an
  element is the array and the index in it.
\<close>

datatype element_ptr = ElementPtr addr nat

definition item_pointers :: "slice \<Rightarrow> element_ptr list" where
  "item_pointers s =
     (case s of
        NilSlice \<Rightarrow> []
      | Slice a off n \<Rightarrow> map (\<lambda>i. ElementPtr a (off + i)) [0..<n])"

definition ServiceBindingList_GetItems :: "'t ServiceBindingList \<Rightarrow> element_ptr list" where
  "ServiceBindingList_GetItems l = item_pointers (sbl_Items l)"

definition ServiceInstanceList_GetItems :: "'t ServiceInstanceList \<Rightarrow> element_ptr list" where
  "ServiceInstanceList_GetItems l = item_pointers (sil_Items l)"

definition ProviderConfigUsageList_GetItems :: "'t ProviderConfigUsageList \<Rightarrow> element_ptr list" where
  "ProviderConfigUsageList_GetItems p = item_pointers (pul_Items p)"

definition store_element ::
  "('a list \<Rightarrow> 'c) \<Rightarrow> ('c \<Rightarrow> 'a list option) \<Rightarrow> element_ptr \<Rightarrow> 'a \<Rightarrow> 'c heap \<Rightarrow> 'c heap" where
  "store_element mk cell p x h =
     (case p of ElementPtr a i \<Rightarrow> store a (mk ((the (cell (load a h)))[i := x])) h)"

definition slice_items :: "('c \<Rightarrow> 'a list option) \<Rightarrow> 'c heap \<Rightarrow> slice \<Rightarrow> 'a list" where
  "slice_items cell h s = (case s of NilSlice \<Rightarrow> [] | Slice a off n \<Rightarrow> elements cell h a off n)"

lemma item_pointers_length:
  "slice_ok cell ok h s \<Longrightarrow> length (item_pointers s) = length (slice_items cell h s)"
  by (auto simp: item_pointers_def slice_items_def slice_ok_def elements_def split: slice.splits option.splits)

text \<open>A store through the \<open>i\<close>-th pointer changes the \<open>i\<close>-th item of the list, and no other.\<close>

lemma item_pointers_alias:
  assumes cell: "\<And>xs. cell (mk xs) = Some xs"
    and "slice_ok cell ok h s" and "i < length (item_pointers s)"
  shows "slice_items cell (store_element mk cell (item_pointers s ! i) x h) s = (slice_items cell h s)[i := x]"
proof (cases s)
  case NilSlice
  with assms(3) show ?thesis by (simp add: item_pointers_def)
next
  case (Slice a off n)
  with assms(2,3) obtain xs where "i < n" "a < length h" "cell (load a h) = Some xs" "off + n \<le> length xs"
    by (auto simp: item_pointers_def slice_ok_def split: option.splits)
  then show ?thesis
    by (simp add: Slice item_pointers_def slice_items_def store_element_def elements_def cell
        load_def store_def drop_update_swap take_update_swap)
qed

lemmas GetItems_defs = ServiceBindingList_GetItems_def ServiceInstanceList_GetItems_def
  ProviderConfigUsageList_GetItems_def

text \<open>For the three lists: the managed resources a reconciler gets are those of the list it holds.\<close>

lemma binding_items_alias:
  "slice_ok service_bindings_cell ok h (sbl_Items l) \<Longrightarrow> i < length (ServiceBindingList_GetItems l) \<Longrightarrow>
     slice_items service_bindings_cell (store_element ServiceBindingsCell service_bindings_cell (ServiceBindingList_GetItems l ! i) x h) (sbl_Items l) =
       (slice_items service_bindings_cell h (sbl_Items l))[i := x]"
  unfolding GetItems_defs by (rule item_pointers_alias) simp_all

lemma instance_items_alias:
  "slice_ok service_instances_cell ok h (sil_Items l) \<Longrightarrow> i < length (ServiceInstanceList_GetItems l) \<Longrightarrow>
     slice_items service_instances_cell (store_element ServiceInstancesCell service_instances_cell (ServiceInstanceList_GetItems l ! i) x h) (sil_Items l) =
       (slice_items service_instances_cell h (sil_Items l))[i := x]"
  unfolding GetItems_defs by (rule item_pointers_alias) simp_all

lemma usage_items_alias:
  "slice_ok usages_cell ok h (pul_Items l) \<Longrightarrow> i < length (ProviderConfigUsageList_GetItems l) \<Longrightarrow>
     slice_items usages_cell (store_element UsagesCell usages_cell (ProviderConfigUsageList_GetItems l ! i) x h) (pul_Items l) =
       (slice_items usages_cell h (pul_Items l))[i := x]"
  unfolding GetItems_defs by (rule item_pointers_alias) simp_all

end
