(* ===== verification/Deep_Copy_Properties.thy ===== *)
theory Deep_Copy_Properties
  imports Deep_Copy_Facts
begin

text \<open>
  Properties of the generated copies, with a third-party package whose structs hold a text and
  a map of labels as the environment of the examples.
\<close>

section \<open>An environment\<close>

record ex_struct =
  exs_text :: string
  exs_labels :: "addr option"

definition ex_struct_pkg :: "(ex_struct, string \<times> string gomap option) struct_pkg" where
  "ex_struct_pkg =
     \<lparr> sp_DeepCopyInto = (\<lambda>x h. case copy_map StringMapCell string_map_cell rev (exs_labels x) h of
         (a, h1) \<Rightarrow> (x\<lparr>exs_labels := a\<rparr>, h1)),
       sp_layout = struct_layout annotations_layout exs_labels (\<lambda>l x. (exs_text x, l)),
       sp_zero = \<lparr> exs_text = [], exs_labels = None \<rparr> \<rparr>"

definition ex_T :: "(ex_struct, string \<times> string gomap option, unit) third_party" where
  "ex_T =
     \<lparr> tp_order = rev, tp_ObjectMeta = ex_struct_pkg, tp_ListMeta = ex_struct_pkg,
       tp_ManagedResourceSpec = ex_struct_pkg, tp_ResourceStatus = ex_struct_pkg,
       tp_CommonCredentialSelectors = ex_struct_pkg, tp_ProviderConfigStatus = ex_struct_pkg,
       tp_TypedProviderConfigUsage = ex_struct_pkg, tp_ConditionedStatus = ex_struct_pkg,
       tp_spec_value = (\<lambda>v. \<lparr> mrs_ProviderConfigReference = None, mrs_rest = () \<rparr>) \<rparr>"

lemma ex_struct_lawful: "struct_lawful ex_struct_pkg"
  unfolding struct_lawful_def ex_struct_pkg_def struct_pkg.simps
  by (rule lawful_struct [where put = "\<lambda>a x. x\<lparr>exs_labels := a\<rparr>",
        OF lawful_map [where mk = StringMapCell and cell = string_map_cell and order = rev,
          folded annotations_layout_def]]) (auto split: prod.split)

lemma ex_T_laws: "third_party_laws ex_T"
  by (simp add: third_party_laws_def ex_T_def ex_struct_lawful)

text \<open>Two cells hold maps, one a URL, and one an array with two bindings.\<close>

definition ex_struct0 :: ex_struct where
  "ex_struct0 = \<lparr> exs_text = ''t'', exs_labels = Some 0 \<rparr>"

definition ex_context_mem :: KubernetesOSBContext_mem where
  "ex_context_mem = KubernetesOSBContext_zero\<lparr>kcm_InstanceAnnotations := Some 1\<rparr>"

definition ex_sb_mem :: "ex_struct ServiceBinding_mem" where
  "ex_sb_mem =
     \<lparr> sbm_TypeMeta = \<lparr> tm_Kind = ''ServiceBinding'', tm_APIVersion = ''v1alpha1'' \<rparr>,
       sbm_ObjectMeta = ex_struct0,
       sbm_Spec = \<lparr> ssm_ManagedResourceSpec = ex_struct0,
                    ssm_ForProvider = ServiceBindingParameters_zero\<lparr>spm_Context := ex_context_mem\<rparr> \<rparr>,
       sbm_Status = \<lparr> stm_ResourceStatus = ex_struct0,
                      stm_AtProvider = ServiceBindingObservation_zero\<lparr>som_SyslogDrainURL := Some 2\<rparr> \<rparr> \<rparr>"

definition ex_si_mem :: "ex_struct ServiceInstance_mem" where
  "ex_si_mem =
     \<lparr> sim_TypeMeta = TypeMeta_zero, sim_ObjectMeta = ex_struct0,
       sim_Spec = \<lparr> ism_ManagedResourceSpec = ex_struct0,
                    ism_ForProvider = InstanceData_zero\<lparr>idm_Context := ex_context_mem\<rparr> \<rparr>,
       sim_Status = \<lparr> itm_ResourceStatus = ex_struct0,
                      itm_AtProvider = ServiceInstanceObservation_zero\<lparr>iom_DashboardURL := Some 2\<rparr> \<rparr> \<rparr>"

definition ex_heap :: "ex_struct cell heap" where
  "ex_heap = [StringMapCell [(''a'', ''1''), (''b'', ''2'')], StringMapCell [(''team'', ''t'')],
     StringCell ''http://d'', ServiceBindingsCell [ex_sb_mem, ex_sb_mem]]"

definition ex_sb_list :: "ex_struct ServiceBindingList" where
  "ex_sb_list = \<lparr> sbl_TypeMeta = TypeMeta_zero, sbl_ListMeta = ex_struct0, sbl_Items = Slice 3 0 2 \<rparr>"

lemmas ex_mem_defs = ex_T_def ex_struct_pkg_def ex_struct0_def ex_context_mem_def ex_sb_mem_def ex_si_mem_def
  ex_heap_def ex_sb_list_def KubernetesOSBContext_zero_def ServiceBindingParameters_zero_def
  ServiceBindingObservation_zero_def InstanceData_zero_def ServiceInstanceObservation_zero_def TypeMeta_zero_def

lemmas ok_defs = ptr_ok_def slice_ok_def elements_def load_def map_ok_def annotations_layout_def
  string_layout_def KubernetesOSBContext_layout_def layout_defs

lemma ex_sb_list_ok: "object_ok ex_T ex_heap (ServiceBindingListObj (Some ex_sb_list))"
  by (simp add: ex_mem_defs ok_defs ServiceBindingList_layout_def ServiceBinding_layout_def
      ServiceBindingSpec_layout_def ServiceBindingStatus_layout_def ServiceBindingParameters_layout_def
      ServiceBindingObservation_layout_def)

lemma ex_si_mem_ok: "l_ok (ServiceInstance_layout ex_T) ex_heap ex_si_mem"
  by (simp add: ex_mem_defs ok_defs instance_layouts)

section \<open>Properties\<close>

text \<open>C33:
  \<^verbatim>\<open>DeepCopyObject\<close> of any of the twelve registered kinds returns the nil interface for a nil
  receiver, and for any other an interface that neither is nil nor holds a nil pointer. Called on
  an object whose references are valid it returns an object of the same kind that is an isolated copy: it has the
  value of the original, it shares no cell with it, and whatever is later stored through one of
  the two, or allocated, the other keeps its value. Third-party copies are only assumed to be
  deep copies themselves.
\<close>

theorem deep_copies_are_isolated:
  assumes "third_party_laws T"
  shows "(object_nil ob \<longrightarrow> DeepCopyObject T ob h = (None, h))
    \<and> (\<not> object_nil ob \<longrightarrow> (\<exists>ob' h'. DeepCopyObject T ob h = (Some ob', h') \<and> \<not> object_nil ob'))
    \<and> (object_ok T h ob \<longrightarrow> (\<exists>ob' h'. DeepCopyObject T ob h = (Some ob', h') \<and> object_isolated T h ob h' ob'))"
  using DeepCopyObject_of_nil [of ob T h] DeepCopyObject_not_nil [of ob T h] DeepCopyObject_copies [OF assms, of h ob]
  by blast

theorem deep_copies_are_isolated_witness:
  "object_ok ex_T ex_heap (ServiceBindingListObj (Some ex_sb_list))
     \<and> (\<exists>ob' h'. DeepCopyObject ex_T (ServiceBindingListObj (Some ex_sb_list)) ex_heap = (Some ob', h')
          \<and> object_isolated ex_T ex_heap (ServiceBindingListObj (Some ex_sb_list)) h' ob')
     \<and> DeepCopyObject ex_T (ServiceBindingObj None) ex_heap = (None, ex_heap)"
  using deep_copies_are_isolated [OF ex_T_laws, of "ServiceBindingListObj (Some ex_sb_list)" ex_heap]
    deep_copies_are_isolated [OF ex_T_laws, of "ServiceBindingObj None" ex_heap] ex_sb_list_ok
  by simp

text \<open>C34:
  Copying the context into the status of an instance is, on the values, what the model of
  \<^verbatim>\<open>SetStatusContextFromProviderContext\<close> says; in memory it shares the annotation maps, so that
  a later write of the annotations of the specification is also a write of those of the
  status. In a deep copy of the instance the two are separate again: the same write leaves the
  status of the copy as it was.
\<close>

theorem context_shared_until_copied:
  assumes "third_party_laws T" and "l_ok (ServiceInstance_layout T) h si"
    and "kcm_InstanceAnnotations (spec_context_mem si) = Some a"
    and "ServiceInstance_DeepCopy T (Some (SetStatusContextFromProviderContext_mem si)) h = (Some y, h')"
    and "kcm_InstanceAnnotations (spec_context_mem y) = Some b"
  shows "snd (l_view (ServiceInstance_layout T) h (SetStatusContextFromProviderContext_mem si)) =
           SetStatusContextFromProviderContext (snd (l_view (ServiceInstance_layout T) h si))
    \<and> kc_InstanceAnnotations (sio_Context (si_AtProvider (snd (l_view (ServiceInstance_layout T)
         (store a (StringMapCell m) h) (SetStatusContextFromProviderContext_mem si))))) = Some m
    \<and> sio_Context (si_AtProvider (snd (l_view (ServiceInstance_layout T) (store b (StringMapCell m) h') y))) =
        id_Context (si_ForProvider (snd (l_view (ServiceInstance_layout T) h si)))"
proof -
  let ?si = "SetStatusContextFromProviderContext_mem si"
  note ok = SetStatusContext_mem_ok [OF assms(2)]
  have c: "ServiceInstance_DeepCopyInto T ?si h = (y, h')"
    using assms(4) by (auto simp: ServiceInstance_DeepCopy_def dest!: new_copy_Some)
  have "a < length h"
    using deep_copy.fp_bound [OF lawful_ServiceInstanceSpec [OF assms(1), unfolded lawful_def]]
      context_annotations_reached [OF assms(3)] assms(2)
    by (fastforce simp: ServiceInstance_layout_def struct_layout_def both_layout_def)
  then have "kc_InstanceAnnotations (l_view KubernetesOSBContext_layout (store a (StringMapCell m) h)
      (spec_context_mem si)) = Some m"
    by (simp add: context_annotations assms(3) ptr_view_def load_def store_def)
  moreover have "l_view (ServiceInstance_layout T) h' y = l_view (ServiceInstance_layout T) h ?si"
    by (rule deep_copy.copy_view [OF lawful_ServiceInstance [OF assms(1), unfolded lawful_def] ok c])
  moreover have "snd (l_view (ServiceInstance_layout T) h ?si) =
      SetStatusContextFromProviderContext (snd (l_view (ServiceInstance_layout T) h si))"
    by (simp add: SetStatusContext_mem_view)
  ultimately show ?thesis
    using copied_status_context [OF assms(1) ok c assms(5), of "StringMapCell m"]
      instance_contexts [of T h' y] instance_contexts(2) [of T h ?si] instance_contexts(1) [of T h si]
      instance_contexts(2) [of T "store a (StringMapCell m) h" ?si]
      instance_contexts(2) [of T "store b (StringMapCell m) h'" y]
    by simp
qed

theorem context_shared_until_copied_witness:
  "\<exists>y h' b. ServiceInstance_DeepCopy ex_T (Some (SetStatusContextFromProviderContext_mem ex_si_mem)) ex_heap = (Some y, h')
     \<and> kcm_InstanceAnnotations (spec_context_mem y) = Some b
     \<and> sio_Context (si_AtProvider (snd (l_view (ServiceInstance_layout ex_T) (store b (StringMapCell []) h') y))) =
         id_Context (si_ForProvider (snd (l_view (ServiceInstance_layout ex_T) ex_heap ex_si_mem)))"
proof -
  let ?r = "ServiceInstance_DeepCopy ex_T (Some (SetStatusContextFromProviderContext_mem ex_si_mem)) ex_heap"
  have "map_option (\<lambda>y. kcm_InstanceAnnotations (spec_context_mem y)) (fst ?r) = Some (Some 6)"
    by code_simp
  then obtain y h' where y: "?r = (Some y, h')" and b: "kcm_InstanceAnnotations (spec_context_mem y) = Some 6"
    by (cases ?r) auto
  have a: "kcm_InstanceAnnotations (spec_context_mem ex_si_mem) = Some 1" by (simp add: ex_mem_defs)
  from context_shared_until_copied [OF ex_T_laws ex_si_mem_ok a y b, of "[]"] y b show ?thesis by blast
qed

end
