(* ===== verification/Generated_Accessors.thy ===== *)
theory Generated_Accessors
  imports Memory_Layout "HOL-Library.Word"
begin

text \<open>
  The accessors that \<^verbatim>\<open>angryjet\<close> generates (\<^verbatim>\<open>zz_generated.managed.go\<close>, \<^verbatim>\<open>zz_generated.pc.go\<close>,
  \<^verbatim>\<open>zz_generated.pcu.go\<close>) and those of a store configuration. The locale is what the reconciler
  of managed resources relies on: it reads and writes three fields of any managed resource, and
  nothing else of it.
\<close>

section \<open>Managed resources\<close>

text \<open>The fields of a managed resource specification that the accessors reach.\<close>

record ('p, 'l, 'r) spec_rest =
  ms_ManagementPolicies :: 'p
  ms_WriteConnectionSecretToReference :: "'l option"
  ms_other :: 'r

definition sb_GetCondition ::
  "('m, 's) crossplane \<Rightarrow> ConditionType \<Rightarrow> ('m, 's, 'q) ServiceBinding \<Rightarrow> condition" where
  "sb_GetCondition X ct mg = xp_GetCondition X (sbst_ResourceStatus (sb_Status mg)) ct"

definition sb_GetManagementPolicies :: "('m, 's, ('p, 'l, 'r) spec_rest) ServiceBinding \<Rightarrow> 'p" where
  [go_defs]: "sb_GetManagementPolicies mg = ms_ManagementPolicies (mrs_rest (sbs_Managed (sb_Spec mg)))"

definition sb_GetProviderConfigReference :: "('m, 's, 'q) ServiceBinding \<Rightarrow> ProviderConfigReference option" where
  [go_defs]: "sb_GetProviderConfigReference mg = mrs_ProviderConfigReference (sbs_Managed (sb_Spec mg))"

definition sb_GetWriteConnectionSecretToReference ::
  "('m, 's, ('p, 'l, 'r) spec_rest) ServiceBinding \<Rightarrow> 'l option" where
  [go_defs]: "sb_GetWriteConnectionSecretToReference mg =
     ms_WriteConnectionSecretToReference (mrs_rest (sbs_Managed (sb_Spec mg)))"

definition sb_SetManagementPolicies ::
  "'p \<Rightarrow> ('m, 's, ('p, 'l, 'r) spec_rest) ServiceBinding \<Rightarrow> ('m, 's, ('p, 'l, 'r) spec_rest) ServiceBinding" where
  [go_defs]: "sb_SetManagementPolicies r mg =
     mg\<lparr>sb_Spec := (sb_Spec mg)\<lparr>sbs_Managed := (sbs_Managed (sb_Spec mg))
        \<lparr>mrs_rest := (mrs_rest (sbs_Managed (sb_Spec mg)))\<lparr>ms_ManagementPolicies := r\<rparr>\<rparr>\<rparr>\<rparr>"

definition sb_SetProviderConfigReference ::
  "ProviderConfigReference option \<Rightarrow> ('m, 's, 'q) ServiceBinding \<Rightarrow> ('m, 's, 'q) ServiceBinding" where
  [go_defs]: "sb_SetProviderConfigReference r mg =
     mg\<lparr>sb_Spec := (sb_Spec mg)\<lparr>sbs_Managed := (sbs_Managed (sb_Spec mg))\<lparr>mrs_ProviderConfigReference := r\<rparr>\<rparr>\<rparr>"

definition sb_SetWriteConnectionSecretToReference ::
  "'l option \<Rightarrow> ('m, 's, ('p, 'l, 'r) spec_rest) ServiceBinding \<Rightarrow> ('m, 's, ('p, 'l, 'r) spec_rest) ServiceBinding" where
  [go_defs]: "sb_SetWriteConnectionSecretToReference r mg =
     mg\<lparr>sb_Spec := (sb_Spec mg)\<lparr>sbs_Managed := (sbs_Managed (sb_Spec mg))
        \<lparr>mrs_rest := (mrs_rest (sbs_Managed (sb_Spec mg)))\<lparr>ms_WriteConnectionSecretToReference := r\<rparr>\<rparr>\<rparr>\<rparr>"

definition si_GetCondition ::
  "('m, 's) crossplane \<Rightarrow> ConditionType \<Rightarrow> ('m, 's, 'q) ServiceInstance \<Rightarrow> condition" where
  "si_GetCondition X ct mg = xp_GetCondition X (sist_ResourceStatus (si_Status mg)) ct"

definition si_GetManagementPolicies :: "('m, 's, ('p, 'l, 'r) spec_rest) ServiceInstance \<Rightarrow> 'p" where
  [go_defs]: "si_GetManagementPolicies mg = ms_ManagementPolicies (mrs_rest (sis_Managed (si_Spec mg)))"

definition si_GetProviderConfigReference :: "('m, 's, 'q) ServiceInstance \<Rightarrow> ProviderConfigReference option" where
  [go_defs]: "si_GetProviderConfigReference mg = mrs_ProviderConfigReference (sis_Managed (si_Spec mg))"

definition si_GetWriteConnectionSecretToReference ::
  "('m, 's, ('p, 'l, 'r) spec_rest) ServiceInstance \<Rightarrow> 'l option" where
  [go_defs]: "si_GetWriteConnectionSecretToReference mg =
     ms_WriteConnectionSecretToReference (mrs_rest (sis_Managed (si_Spec mg)))"

definition si_SetManagementPolicies ::
  "'p \<Rightarrow> ('m, 's, ('p, 'l, 'r) spec_rest) ServiceInstance \<Rightarrow> ('m, 's, ('p, 'l, 'r) spec_rest) ServiceInstance" where
  [go_defs]: "si_SetManagementPolicies r mg =
     mg\<lparr>si_Spec := (si_Spec mg)\<lparr>sis_Managed := (sis_Managed (si_Spec mg))
        \<lparr>mrs_rest := (mrs_rest (sis_Managed (si_Spec mg)))\<lparr>ms_ManagementPolicies := r\<rparr>\<rparr>\<rparr>\<rparr>"

definition si_SetProviderConfigReference ::
  "ProviderConfigReference option \<Rightarrow> ('m, 's, 'q) ServiceInstance \<Rightarrow> ('m, 's, 'q) ServiceInstance" where
  [go_defs]: "si_SetProviderConfigReference r mg =
     mg\<lparr>si_Spec := (si_Spec mg)\<lparr>sis_Managed := (sis_Managed (si_Spec mg))\<lparr>mrs_ProviderConfigReference := r\<rparr>\<rparr>\<rparr>"

definition si_SetWriteConnectionSecretToReference ::
  "'l option \<Rightarrow> ('m, 's, ('p, 'l, 'r) spec_rest) ServiceInstance \<Rightarrow> ('m, 's, ('p, 'l, 'r) spec_rest) ServiceInstance" where
  [go_defs]: "si_SetWriteConnectionSecretToReference r mg =
     mg\<lparr>si_Spec := (si_Spec mg)\<lparr>sis_Managed := (sis_Managed (si_Spec mg))
        \<lparr>mrs_rest := (mrs_rest (sis_Managed (si_Spec mg)))\<lparr>ms_WriteConnectionSecretToReference := r\<rparr>\<rparr>\<rparr>\<rparr>"

text \<open>The interface, and the rest of the object that it leaves alone.\<close>

locale managed_accessors =
  fixes get_policies :: "'o \<Rightarrow> 'p" and set_policies :: "'p \<Rightarrow> 'o \<Rightarrow> 'o"
    and get_config :: "'o \<Rightarrow> 'c" and set_config :: "'c \<Rightarrow> 'o \<Rightarrow> 'o"
    and get_secret :: "'o \<Rightarrow> 'l" and set_secret :: "'l \<Rightarrow> 'o \<Rightarrow> 'o"
    and rest :: "'o \<Rightarrow> 'x"
  assumes policies: "get_policies (set_policies p x) = p" "get_policies (set_config c x) = get_policies x"
      "get_policies (set_secret l x) = get_policies x"
    and config: "get_config (set_config c x) = c" "get_config (set_policies p x) = get_config x"
      "get_config (set_secret l x) = get_config x"
    and secret: "get_secret (set_secret l x) = l" "get_secret (set_policies p x) = get_secret x"
      "get_secret (set_config c x) = get_secret x"
    and frame: "rest (set_policies p x) = rest x" "rest (set_config c x) = rest x" "rest (set_secret l x) = rest x"
    and extensional: "get_policies x = get_policies y \<Longrightarrow> get_config x = get_config y \<Longrightarrow>
      get_secret x = get_secret y \<Longrightarrow> rest x = rest y \<Longrightarrow> x = y"
begin

text \<open>Writes of different fields commute, and writing back what was read changes nothing.\<close>

lemma commute:
  "set_policies p (set_config c x) = set_config c (set_policies p x)"
  "set_policies p (set_secret l x) = set_secret l (set_policies p x)"
  "set_config c (set_secret l x) = set_secret l (set_config c x)"
  by (rule extensional; simp add: policies config secret frame)+

lemma write_back:
  "set_policies (get_policies x) x = x" "set_config (get_config x) x = x" "set_secret (get_secret x) x = x"
  by (rule extensional; simp add: policies config secret frame)+

end

interpretation sb_accessors: managed_accessors sb_GetManagementPolicies sb_SetManagementPolicies
  sb_GetProviderConfigReference sb_SetProviderConfigReference
  sb_GetWriteConnectionSecretToReference sb_SetWriteConnectionSecretToReference
  "\<lambda>mg. (sb_ObjectMeta mg, ms_other (mrs_rest (sbs_Managed (sb_Spec mg))), sb_ForProvider mg, sb_Status mg)"
  by unfold_locales (auto simp: go_defs intro!: ServiceBinding.equality ServiceBindingSpec.equality
      ManagedResourceSpec.equality spec_rest.equality)

interpretation si_accessors: managed_accessors si_GetManagementPolicies si_SetManagementPolicies
  si_GetProviderConfigReference si_SetProviderConfigReference
  si_GetWriteConnectionSecretToReference si_SetWriteConnectionSecretToReference
  "\<lambda>mg. (si_ObjectMeta mg, ms_other (mrs_rest (sis_Managed (si_Spec mg))), si_ForProvider mg, si_Status mg)"
  by unfold_locales (auto simp: go_defs intro!: ServiceInstance.equality ServiceInstanceSpec.equality
      ManagedResourceSpec.equality spec_rest.equality)

section \<open>Provider configurations\<close>

text \<open>
  The methods and the counter of the third-party status struct; the counter of users is an
  \<^verbatim>\<open>int64\<close>.
\<close>

record 't status_pkg =
  st_GetCondition :: "'t \<Rightarrow> ConditionType \<Rightarrow> condition"
  st_SetConditions :: "'t \<Rightarrow> condition list \<Rightarrow> 't"
  st_Users :: "'t \<Rightarrow> 64 word"
  st_set_Users :: "64 word \<Rightarrow> 't \<Rightarrow> 't"

abbreviation pc_xp_Status where "pc_xp_Status p \<equiv> pst_ProviderConfigStatus (pcm_Status p)"
abbreviation cpc_xp_Status where "cpc_xp_Status p \<equiv> pst_ProviderConfigStatus (ccm_Status p)"

definition pc_GetCondition :: "'t status_pkg \<Rightarrow> ConditionType \<Rightarrow> 't ProviderConfig_mem \<Rightarrow> condition" where
  "pc_GetCondition C ct p = st_GetCondition C (pc_xp_Status p) ct"

definition pc_GetUsers :: "'t status_pkg \<Rightarrow> 't ProviderConfig_mem \<Rightarrow> 64 word" where
  "pc_GetUsers C p = st_Users C (pc_xp_Status p)"

definition pc_SetConditions ::
  "'t status_pkg \<Rightarrow> condition list \<Rightarrow> 't ProviderConfig_mem \<Rightarrow> 't ProviderConfig_mem" where
  "pc_SetConditions C c p =
     p\<lparr>pcm_Status := (pcm_Status p)\<lparr>pst_ProviderConfigStatus := st_SetConditions C (pc_xp_Status p) c\<rparr>\<rparr>"

definition pc_SetUsers :: "'t status_pkg \<Rightarrow> 64 word \<Rightarrow> 't ProviderConfig_mem \<Rightarrow> 't ProviderConfig_mem" where
  "pc_SetUsers C i p =
     p\<lparr>pcm_Status := (pcm_Status p)\<lparr>pst_ProviderConfigStatus := st_set_Users C i (pc_xp_Status p)\<rparr>\<rparr>"

definition cpc_GetCondition :: "'t status_pkg \<Rightarrow> ConditionType \<Rightarrow> 't ClusterProviderConfig_mem \<Rightarrow> condition" where
  "cpc_GetCondition C ct p = st_GetCondition C (cpc_xp_Status p) ct"

definition cpc_GetUsers :: "'t status_pkg \<Rightarrow> 't ClusterProviderConfig_mem \<Rightarrow> 64 word" where
  "cpc_GetUsers C p = st_Users C (cpc_xp_Status p)"

definition cpc_SetConditions ::
  "'t status_pkg \<Rightarrow> condition list \<Rightarrow> 't ClusterProviderConfig_mem \<Rightarrow> 't ClusterProviderConfig_mem" where
  "cpc_SetConditions C c p =
     p\<lparr>ccm_Status := (ccm_Status p)\<lparr>pst_ProviderConfigStatus := st_SetConditions C (cpc_xp_Status p) c\<rparr>\<rparr>"

definition cpc_SetUsers :: "'t status_pkg \<Rightarrow> 64 word \<Rightarrow> 't ClusterProviderConfig_mem \<Rightarrow> 't ClusterProviderConfig_mem" where
  "cpc_SetUsers C i p =
     p\<lparr>ccm_Status := (ccm_Status p)\<lparr>pst_ProviderConfigStatus := st_set_Users C i (cpc_xp_Status p)\<rparr>\<rparr>"

text \<open>
  The reconciler of provider configurations counts users and deletes a configuration only when
  there are none: a count it has written is the one it reads, and nothing but the status changes.
\<close>

lemma users_counted:
  assumes "\<And>n t. st_Users C (st_set_Users C n t) = n"
  shows "pc_GetUsers C (pc_SetUsers C n p) = n" "cpc_GetUsers C (cpc_SetUsers C n q) = n"
    "pc_SetUsers C n p\<lparr>pcm_Status := pcm_Status p\<rparr> = p" "cpc_SetUsers C n q\<lparr>ccm_Status := ccm_Status q\<rparr> = q"
  using assms by (simp_all add: pc_GetUsers_def pc_SetUsers_def cpc_GetUsers_def cpc_SetUsers_def)

section \<open>Usages and store configurations\<close>

record ('t, 'r, 'u) usage_pkg =
  us_ProviderConfigReference :: "'t \<Rightarrow> 'r"
  us_set_ProviderConfigReference :: "'r \<Rightarrow> 't \<Rightarrow> 't"
  us_ResourceReference :: "'t \<Rightarrow> 'u"
  us_set_ResourceReference :: "'u \<Rightarrow> 't \<Rightarrow> 't"

definition pcu_GetProviderConfigReference :: "('t, 'r, 'u) usage_pkg \<Rightarrow> 't ProviderConfigUsage \<Rightarrow> 'r" where
  "pcu_GetProviderConfigReference U p = us_ProviderConfigReference U (pcu_TypedProviderConfigUsage p)"

definition pcu_GetResourceReference :: "('t, 'r, 'u) usage_pkg \<Rightarrow> 't ProviderConfigUsage \<Rightarrow> 'u" where
  "pcu_GetResourceReference U p = us_ResourceReference U (pcu_TypedProviderConfigUsage p)"

definition pcu_SetProviderConfigReference ::
  "('t, 'r, 'u) usage_pkg \<Rightarrow> 'r \<Rightarrow> 't ProviderConfigUsage \<Rightarrow> 't ProviderConfigUsage" where
  "pcu_SetProviderConfigReference U r p =
     p\<lparr>pcu_TypedProviderConfigUsage := us_set_ProviderConfigReference U r (pcu_TypedProviderConfigUsage p)\<rparr>"

definition pcu_SetResourceReference ::
  "('t, 'r, 'u) usage_pkg \<Rightarrow> 'u \<Rightarrow> 't ProviderConfigUsage \<Rightarrow> 't ProviderConfigUsage" where
  "pcu_SetResourceReference U r p =
     p\<lparr>pcu_TypedProviderConfigUsage := us_set_ResourceReference U r (pcu_TypedProviderConfigUsage p)\<rparr>"

definition sc_GetCondition :: "'t status_pkg \<Rightarrow> ConditionType \<Rightarrow> 't StoreConfig \<Rightarrow> condition" where
  "sc_GetCondition C ct p = st_GetCondition C (sts_ConditionedStatus (sc_Status p)) ct"

definition sc_SetConditions :: "'t status_pkg \<Rightarrow> condition list \<Rightarrow> 't StoreConfig \<Rightarrow> 't StoreConfig" where
  "sc_SetConditions C c p =
     p\<lparr>sc_Status := (sc_Status p)\<lparr>sts_ConditionedStatus := st_SetConditions C (sts_ConditionedStatus (sc_Status p)) c\<rparr>\<rparr>"

end
