(* ===== verification/Spec2Isabelle.thy ===== *)
theory Spec2Isabelle
  imports Binding_Properties Binding_Phase_Properties Instance_Properties Controller_Properties Util_Properties
    Deep_Copy_Properties Generated_Accessors
begin

text \<open>
  Verification of the Crossplane provider for Open Service Broker (OSB).

  \<^bold>\<open>The program.\<close> The provider runs two controllers of managed resources. For a
  \<^verbatim>\<open>ServiceInstance\<close> the broker provisions, updates and deprovisions an instance; for a
  \<^verbatim>\<open>ServiceBinding\<close> it binds, rotates and unbinds credentials. The reconciler of
  \<^verbatim>\<open>crossplane-runtime\<close> calls \<^verbatim>\<open>Connect\<close> and then the four methods of an external client
  (\<^verbatim>\<open>internal/controller/servicebinding\<close>, \<^verbatim>\<open>serviceinstance\<close>); these delegate to methods of the
  resource (\<^verbatim>\<open>apis/binding\<close>, \<^verbatim>\<open>apis/instance\<close>), which build the request, call the OSB client,
  and record the answer in the status and in the object at the API server. Asynchronous
  operations are recorded with a key and polled by later observations. \<^verbatim>\<open>cmd/provider/main.go\<close>
  registers the types and sets the controllers up.

  \<^bold>\<open>How the code is modelled.\<close> A method that writes its receiver takes the object and the world
  and gives \<open>Ret v ob w\<close>, or \<open>Panic ob w\<close> for a nil dereference; what was written before stays
  visible. A method that only reads is a function. Errors are values: \<open>Errorf\<close> keeps the
  wrapped sentinel and the formatted arguments, so that \<^verbatim>\<open>errors.Is\<close> is defined on it. A nil
  pointer, map or slice is \<open>None\<close>; a Go map is the list of its entries sorted by key, and loops over maps
  take the entries in an order given by the environment.

  \<^bold>\<open>Theories and source files.\<close>
    \<^item> \<open>Prelude\<close>, \<open>Go_Errors\<close>: outcomes, maps, the sentinel errors of every package.
    \<^item> \<open>Go_Json\<close>, \<open>Go_Json_Facts\<close>, \<open>Go_Time\<close>, \<open>Go_Time_Facts\<close>, \<open>Go_Base64\<close>: what the code uses of
      the standard library, with the round trips the properties need.
    \<^item> \<open>Platform\<close>: the OSB client, the API server client, the metadata and condition helpers, the
      clock, the UUIDs and the order of map loops, as records of functions; their documented
      laws as predicates.
    \<^item> \<open>Common_Types\<close> (\<^verbatim>\<open>apis/common\<close>), \<open>Provider_Config\<close> (\<^verbatim>\<open>apis/v1alpha1\<close>), \<open>Util\<close>
      (\<^verbatim>\<open>internal/controller/util\<close>).
    \<^item> \<open>Service_Binding\<close>, \<open>Binding_Operations\<close> (\<^verbatim>\<open>apis/binding/v1alpha1\<close>), \<open>Binding_Controller\<close>
      (\<^verbatim>\<open>internal/controller/servicebinding\<close>); \<open>Service_Instance\<close>, \<open>Instance_Operations\<close>,
      \<open>Instance_Controller\<close> likewise. The names are those of the code, with the prefix \<open>sb_\<close> or
      \<open>si_\<close> where both kinds have the method; \<open>sbc_X_obj\<close> is the part of a controller's method
      after the test of the dynamic type.
    \<^item> \<open>Managed\<close>: the interface of an external client, a locale that both controllers interpret.
    \<^item> \<open>Kinds\<close>, \<open>Controller_Setup\<close>, \<open>Scheme\<close>, \<open>Provider_Main\<close>: groups, versions and kinds, the set-up
      functions with what they hand to the builder of reconcilers, the registration of the types,
      and \<^verbatim>\<open>main\<close>, its flags included.
    \<^item> \<open>Go_Memory\<close>, \<open>Memory_Layout\<close>, \<open>Deep_Copy\<close>, \<open>Deep_Copy_Facts\<close>: a heap of cells, the layout of
      every type in it, and the generated \<^verbatim>\<open>DeepCopy\<close> methods; \<open>Generated_Accessors\<close>: the other
      generated methods.
    \<^item> \<open>Binding_Facts\<close>, \<open>Instance_Facts\<close>, \<open>Controller_Facts\<close>: each operation on every branch.
    \<^item> \<open>Binding_Lifecycle\<close>, \<open>Binding_Phases\<close>, \<open>Instance_Lifecycle\<close>: step relations of a resource
      under its controller, and the invariants of their runs.
    \<^item> \<open>Example_Environment\<close>: an instance of every interface, for the worked examples.
    \<^item> The theories named \<open>Properties\<close> state what the development is for.

  \<^bold>\<open>What is shown.\<close>
    \<^item> Bindings: exactly when an observation asks for a create or a rotation; every request and the
      outcome of every answer; a retried bind repeats its request; a rotation renames exactly
      when it is accepted; operations that are polled as finished converge. The controller
      simulates a machine of three phases (unbound, idle, pending), by which a named binding
      stays named in every run. A rotation is due from the renewal time on, renewal metadata
      without that time stops the comparison, and a binding without parameters can neither be
      created nor compared: the first two contradict comments of the code.
    \<^item> Instances: the same for provision, update and deprovision, with two invariants of all runs
      that show guards of the code at work or not: a recorded operation key ends drift detection
      (unless the broker answers with an empty key), and active bindings are never recorded.
    \<^item> Controllers: no method panics when the broker gives a response or an error; all methods keep
      the contract of the reconciler; the flag for rotation reaches the client, and the identity
      reaches the broker without its extra attributes; setting up succeeds exactly when every
      controller does; the cause of every end of \<^verbatim>\<open>main\<close>.
    \<^item> Data: round trips of the status, of base64 and JSON credentials and of the context;
      finalizers; times to a tenth of a second.
    \<^item> Memory: \<^verbatim>\<open>DeepCopyObject\<close> of every kind gives an object with the same value that shares no
      cell with the original, which is why resources may be values in all other theories.
      The locale \<open>deep_copy\<close> is the contract; it is kept by structs, pointers, maps and slices
      of lawful parts.

  \<^bold>\<open>What is assumed of the API server.\<close> Nothing, unless a theorem says so, and then one of these:
  \<open>kube_current\<close>, that a get answers with the object the reconciler has just read;
  \<open>kube_updates_metadata\<close>, that an update is accepted and answered with the finalizers and the
  external name it was sent (the status of the answer is the stored one or any other, as for a
  resource with a status subresource); \<open>kube_stores_status\<close>, that a status update is accepted and
  answered with the status it was sent and the rest unchanged. Invariants of runs let the server
  answer anything that keeps what the invariant is about.

  \<^bold>\<open>Bounds and fuel.\<close> The JSON decoder stops at 10000 nested values, as \<^verbatim>\<open>encoding/json\<close> does; its fuel
  is the length of the input plus one, which the parser never exhausts since every call consumes a
  character. Times are those of the years 0 to 9999, which the format can write; the calendar is
  inverted for all of them. All other definitions are total by
  structural recursion. The counter of users is a 64-bit word.

  \<^bold>\<open>Not modelled.\<close> Logging (output only); the parser of the command line, the
  reconciler, the clients and the other packages the code imports (parameters); the
  mock of the API server client in \<^verbatim>\<open>internal/mymock\<close> (tests only, dispatched by
  reflection); the texts of errors beyond their sentinel and arguments.
\<close>

end
